(* ===== verification/Prelude.thy ===== *)
theory Prelude
  imports Main "HOL-Library.Word" "HOL-Library.AList" "HOL-Library.List_Lexorder"
begin

section \<open>Shared vocabulary of the development\<close>

text \<open>
  The Go notions every component of DDA is written in, once: byte slices and strings, error
  values, buffered channels, Go maps as association lists, and the generic lemmas the component
  theories share.

  \<^item> A \<open>[]byte\<close> is a list of bytes. Where the code tells a nil slice from an empty one the
    type is \<open>bytes option\<close>, with \<open>None\<close> for nil.
  \<^item> A Go \<open>string\<close> is a sequence of bytes; it is modelled by HOL's \<open>string\<close>, whose characters
    are 8-bit. The conversions \<open>[]byte(s)\<close> and \<open>string(b)\<close> are \<open>bytes_of_string\<close> and
    \<open>string_of_bytes\<close>.
  \<^item> \<open>bytes.Compare\<close> is the lexicographic order, the order of \<open>HOL-Library.List_Lexorder\<close>.
  \<^item> An \<open>error\<close> is a \<open>goerr option\<close>, \<open>None\<close> for nil; a function that returns \<open>(v, error)\<close>
    returns \<open>goerr + 'a\<close>.
  \<^item> \<open>fmt.Errorf\<close> is \<open>Errorf\<close> with the format string; the formatted arguments are left out
    where the code never looks at the text again.
\<close>

named_theorems wf_intros \<open>introduction rules for well-formedness invariants\<close>
named_theorems op_simps \<open>definitions of operations, unfolded by the component proofs\<close>

type_synonym byte = "8 word"
type_synonym bytes = "byte list"
type_synonym uint64 = "64 word"
type_synonym int64 = "64 word" \<comment> \<open>read with \<open>sint\<close>\<close>

subsection \<open>Strings and byte slices\<close>

definition byte_of_char :: "char \<Rightarrow> byte" where
  "byte_of_char c = word_of_nat (of_char c)"

definition char_of_byte :: "byte \<Rightarrow> char" where
  "char_of_byte b = char_of (unat b)"

definition bytes_of_string :: "string \<Rightarrow> bytes" where
  "bytes_of_string s = map byte_of_char s"

definition string_of_bytes :: "bytes \<Rightarrow> string" where
  "string_of_bytes b = map char_of_byte b"

lemma char_of_byte_of_char [simp]: "char_of_byte (byte_of_char c) = c"
proof -
  have "(of_char c :: nat) < 256" by simp
  then have "unat (word_of_nat (of_char c) :: byte) = of_char c"
    by (simp add: unat_of_nat take_bit_nat_eq_self)
  then show ?thesis by (simp add: char_of_byte_def byte_of_char_def)
qed

lemma byte_of_char_of_byte [simp]: "byte_of_char (char_of_byte b) = b"
proof -
  have "unat b < 256" using unsigned_less [of b] by simp
  then show ?thesis by (simp add: char_of_byte_def byte_of_char_def)
qed

lemma string_of_bytes_of_string [simp]: "string_of_bytes (bytes_of_string s) = s"
  by (simp add: string_of_bytes_def bytes_of_string_def comp_def)

lemma bytes_of_string_of_bytes [simp]: "bytes_of_string (string_of_bytes b) = b"
  by (simp add: string_of_bytes_def bytes_of_string_def comp_def)

lemma bytes_of_string_inject [simp]: "bytes_of_string s = bytes_of_string t \<longleftrightarrow> s = t"
  by (metis string_of_bytes_of_string)

text \<open>Bytes wrap from 255 to 0.\<close>

lemma byte_inc0: "x + 1 = 0 \<longleftrightarrow> x = (255 :: byte)"
proof -
  have "x + 1 = 0 \<longleftrightarrow> x = - 1" by (simp only: eq_neg_iff_add_eq_0)
  moreover have "(- 1 :: byte) = 255" by simp
  ultimately show ?thesis by (simp only:)
qed

lemma byte_not_greater [simp]: "\<not> (255 :: byte) < y"
proof -
  have "(- 1 :: byte) = 255" by simp
  then show ?thesis using word_order.extremum [of y] by (simp only: not_less)
qed

lemma byte_256 [simp]: "(256 :: byte) = 0"
  by simp

lemma byte_inc: "x \<noteq> 255 \<Longrightarrow> y < x + 1 \<longleftrightarrow> y \<le> (x :: byte)"
proof -
  assume "x \<noteq> 255"
  then have "1 + x \<noteq> 0" using byte_inc0 [of x] by (simp only: add.commute [of 1 x]) simp
  then have "unat (1 + x) = Suc (unat x)" by (rule unatSuc)
  then show ?thesis by (simp add: word_less_nat_alt word_le_nat_alt add.commute less_Suc_eq_le)
qed

subsection \<open>Error values\<close>

text \<open>
  \<open>exterr\<close> are the error values of imported packages: the ones the code compares against by
  identity have a constructor of their own, all others are \<open>OtherExt\<close>. \<open>RetryableError\<close> is the
  struct \<open>retryableError\<close> of \<open>services/services.go\<close>.
\<close>

datatype exterr =
    PebbleErrNotFound
  | HraftErrLogNotFound
  | HraftErrNotLeader
  | HraftErrLeadershipTransferInProgress
  | HraftErrLeadershipLost
  | HraftErrLeader
  | HraftErrAbortedByRestore
  | HraftErrPipelineReplicationNotSupported
  | OtherExt string

datatype goerr =
    Errorf string
  | ErrKeyNotFound
  | ErrTransportShutdown
  | CtxCanceled
  | CtxDeadlineExceeded
  | Ext exterr
  | RetryableError goerr

subsection \<open>Buffered channels\<close>

text \<open>
  A buffered Go channel holds at most its capacity; a send on a full channel blocks, a send on a
  closed channel and a second close panic, and a receive on a closed channel drains what is
  buffered before it reports the close.
\<close>

record 'a chan =
  ch_buf :: "'a list"
  ch_cap :: nat
  ch_closed :: bool

definition make_chan :: "nat \<Rightarrow> 'a chan" where
  "make_chan n = \<lparr>ch_buf = [], ch_cap = n, ch_closed = False\<rparr>"

definition ch_ready :: "'a chan \<Rightarrow> bool" where
  "ch_ready c \<longleftrightarrow> length (ch_buf c) < ch_cap c"

definition ch_push :: "'a \<Rightarrow> 'a chan \<Rightarrow> 'a chan" where
  "ch_push v c = c\<lparr>ch_buf := ch_buf c @ [v]\<rparr>"

definition ch_pop :: "'a chan \<Rightarrow> 'a chan" where
  "ch_pop c = c\<lparr>ch_buf := tl (ch_buf c)\<rparr>"

definition ch_close :: "'a chan \<Rightarrow> 'a chan" where
  "ch_close c = c\<lparr>ch_closed := True\<rparr>"

lemma ch_sel [simp]:
  "ch_buf (make_chan n) = []" "ch_cap (make_chan n) = n" "\<not> ch_closed (make_chan n)"
  "ch_buf (ch_push v c) = ch_buf c @ [v]" "ch_cap (ch_push v c) = ch_cap c"
  "ch_closed (ch_push v c) = ch_closed c"
  "ch_buf (ch_pop c) = tl (ch_buf c)" "ch_cap (ch_pop c) = ch_cap c"
  "ch_closed (ch_pop c) = ch_closed c"
  "ch_buf (ch_close c) = ch_buf c" "ch_cap (ch_close c) = ch_cap c" "ch_closed (ch_close c)"
  by (simp_all add: make_chan_def ch_push_def ch_pop_def ch_close_def)

subsection \<open>Go maps as association lists\<close>

text \<open>
  A Go map is an association list with distinct keys: executable, and the order of the list stands
  for the iteration order, which Go leaves open. Statements about a map speak of \<open>map_of\<close> and of
  the set of keys, never of the order.
\<close>

type_synonym ('k, 'v) gomap = "('k \<times> 'v) list"

abbreviation gm_keys :: "('k, 'v) gomap \<Rightarrow> 'k list" where
  "gm_keys m \<equiv> map fst m"

definition gm_ok :: "('k, 'v) gomap \<Rightarrow> bool" where
  "gm_ok m \<longleftrightarrow> distinct (gm_keys m)"

lemma gm_ok_Nil [simp]: "gm_ok []"
  by (simp add: gm_ok_def)

lemma gm_ok_update [wf_intros]: "gm_ok m \<Longrightarrow> gm_ok (AList.update k v m)"
  by (simp add: gm_ok_def distinct_update)

lemma gm_ok_delete [wf_intros]: "gm_ok m \<Longrightarrow> gm_ok (AList.delete k m)"
  by (simp add: gm_ok_def distinct_delete)

lemma gm_keys_update: "set (gm_keys (AList.update k v m)) = insert k (set (gm_keys m))"
  by (induction m) auto

lemma gm_keys_delete: "set (gm_keys (AList.delete k m)) = set (gm_keys m) - {k}"
  by (auto simp: AList.delete_eq)

lemma gm_map_of_delete [simp]: "map_of (AList.delete k m) = (map_of m)(k := None)"
  by (simp add: delete_conv')

lemma gm_map_of_update [simp]: "map_of (AList.update k v m) = (map_of m)(k \<mapsto> v)"
  by (simp add: update_conv')

lemma gm_mem_iff: "gm_ok m \<Longrightarrow> (k, v) \<in> set m \<longleftrightarrow> map_of m k = Some v"
  by (simp add: gm_ok_def)

lemma gm_key_in: "map_of m k = Some v \<Longrightarrow> k \<in> set (gm_keys m)"
  by (force dest: map_of_SomeD)

end
