(* ===== verification/Services.thy ===== *)
theory Services
  imports Prelude
begin

section \<open>Retryable errors and capped exponential backoff (services/services.go)\<close>

text \<open>
  The error wrapper that marks an operation as retryable, and \<open>RetryWithBackoff\<close>, the loop the
  Raft binding proposes inputs with. The loop may run forever, so it is a partial function whose
  value \<open>None\<close> means that it never returns. The operation and the wait on the context and the
  timer act on a world \<open>'w\<close> the caller chooses.

  A \<open>time.Duration\<close> is a 64-bit signed integer: \<open>base *= 2\<close> wraps around.
\<close>

subsection \<open>Error texts and retryable errors\<close>

text \<open>
  The text of an error of an imported package is not in the repository: it is the argument
  \<open>ext\<close>.
\<close>

primrec Error :: "(exterr \<Rightarrow> string) \<Rightarrow> goerr \<Rightarrow> string" where
  "Error ext (Errorf s) = s"
| "Error ext ErrKeyNotFound = ''not found''"
| "Error ext ErrTransportShutdown = ''transport shutdown''"
| "Error ext CtxCanceled = ''context canceled''"
| "Error ext CtxDeadlineExceeded = ''context deadline exceeded''"
| "Error ext (Ext e) = ext e"
| "Error ext (RetryableError e) = ''retryable error: '' @ Error ext e"

definition RetryableErrorf :: "string \<Rightarrow> goerr" where
  "RetryableErrorf fmt = RetryableError (Errorf fmt)"

definition NewRetryableError :: "goerr option \<Rightarrow> goerr option" where
  "NewRetryableError err = (case err of None \<Rightarrow> None | Some e \<Rightarrow> Some (RetryableError e))"

definition IsRetryable :: "goerr option \<Rightarrow> bool" where
  "IsRetryable err = (case err of Some (RetryableError _) \<Rightarrow> True | _ \<Rightarrow> False)"

definition ErrorRetryable :: "goerr option \<Rightarrow> goerr option" where
  "ErrorRetryable err = (case err of Some (RetryableError e) \<Rightarrow> Some e | _ \<Rightarrow> err)"

lemma IsRetryable_simps [simp]:
  "\<not> IsRetryable None"
  "IsRetryable (Some (RetryableError e))"
  "IsRetryable (Some (RetryableErrorf s))"
  "\<not> IsRetryable (Some (Errorf s))" "\<not> IsRetryable (Some ErrKeyNotFound)"
  "\<not> IsRetryable (Some ErrTransportShutdown)" "\<not> IsRetryable (Some CtxCanceled)"
  "\<not> IsRetryable (Some CtxDeadlineExceeded)" "\<not> IsRetryable (Some (Ext x))"
  by (simp_all add: IsRetryable_def RetryableErrorf_def)

lemma NewRetryableError_simps [simp]:
  "NewRetryableError None = None"
  "NewRetryableError (Some e) = Some (RetryableError e)"
  by (simp_all add: NewRetryableError_def)

lemma IsRetryable_New: "IsRetryable (NewRetryableError err) \<longleftrightarrow> err \<noteq> None"
  by (cases err) simp_all

lemma ErrorRetryable_New [simp]: "ErrorRetryable (NewRetryableError err) = (case err of None \<Rightarrow> None | Some e \<Rightarrow> Some e)"
  by (cases err) (simp_all add: ErrorRetryable_def)

lemma ErrorRetryable_id: "\<not> IsRetryable err \<Longrightarrow> ErrorRetryable err = err"
  by (auto simp: IsRetryable_def ErrorRetryable_def split: option.splits goerr.splits)

lemma Error_RetryableError_nonempty [simp]: "Error ext (RetryableError e) \<noteq> []"
  by simp

subsection \<open>Backoff strategy and the retry loop\<close>

record Backoff =
  Base :: int64
  Cap :: int64
  Max' :: int

text \<open>The delay of one round: \<open>d := base; if b.Cap > 0 { d = min(b.Cap, base) }\<close>.\<close>

definition backoff_delay :: "Backoff \<Rightarrow> int64 \<Rightarrow> int64" where
  "backoff_delay b base =
     (if 0 < sint (Cap b) then (if sint (Cap b) < sint base then Cap b else base) else base)"

definition next_base :: "Backoff \<Rightarrow> int64 \<Rightarrow> int64" where
  "next_base b base = (if backoff_delay b base = base then base * 2 else base)"

text \<open>
  \<open>op\<close> is the operation with its invocation counter; \<open>wait\<close> is the \<open>select\<close> on the context and
  the timer: \<open>Some e\<close> when the context is done with \<open>ctx.Err() = e\<close>, \<open>None\<close> when the timer fires.
\<close>

type_synonym 'w retry_op = "nat \<Rightarrow> 'w \<Rightarrow> goerr option \<times> 'w"
type_synonym 'w retry_wait = "int64 \<Rightarrow> 'w \<Rightarrow> goerr option \<times> 'w"

partial_function (option) retry_loop ::
  "Backoff \<Rightarrow> 'w retry_op \<Rightarrow> 'w retry_wait \<Rightarrow> nat \<Rightarrow> int64 \<Rightarrow> 'w \<Rightarrow> (goerr option \<times> 'w) option"
where
  "retry_loop b op wait retry base w =
     (case op (retry + 1) w of (err, w1) \<Rightarrow>
        if \<not> IsRetryable err then Some (err, w1)
        else if 0 < Max' b \<and> Max' b < int (retry + 1)
        then Some (Some (RetryableErrorf ''reached maximum number of retry attempts''), w1)
        else (case wait (backoff_delay b base) w1 of
                (Some e, w2) \<Rightarrow> Some (Some e, w2)
              | (None, w2) \<Rightarrow> retry_loop b op wait (retry + 1) (next_base b base) w2))"

definition RetryWithBackoff ::
  "'w retry_wait \<Rightarrow> Backoff \<Rightarrow> 'w retry_op \<Rightarrow> 'w \<Rightarrow> (goerr option \<times> 'w) option"
where
  "RetryWithBackoff wait b op w = retry_loop b op wait 0 (Base b) w"

declare retry_loop.simps [simp del]

lemma retry_loop_stop:
  "op (retry + 1) w = (err, w1) \<Longrightarrow> \<not> IsRetryable err \<Longrightarrow>
    retry_loop b op wait retry base w = Some (err, w1)"
  by (simp add: retry_loop.simps [of b op wait retry])

lemma retry_loop_max:
  "op (retry + 1) w = (err, w1) \<Longrightarrow> IsRetryable err \<Longrightarrow> 0 < Max' b \<Longrightarrow> Max' b < int (retry + 1) \<Longrightarrow>
    retry_loop b op wait retry base w =
      Some (Some (RetryableErrorf ''reached maximum number of retry attempts''), w1)"
  by (simp add: retry_loop.simps [of b op wait retry])

lemma retry_loop_wait:
  "op (retry + 1) w = (err, w1) \<Longrightarrow> IsRetryable err \<Longrightarrow> \<not> (0 < Max' b \<and> Max' b < int (retry + 1)) \<Longrightarrow>
    retry_loop b op wait retry base w =
      (case wait (backoff_delay b base) w1 of
         (Some e, w2) \<Rightarrow> Some (Some e, w2)
       | (None, w2) \<Rightarrow> retry_loop b op wait (retry + 1) (next_base b base) w2)"
  by (subst retry_loop.simps) auto

subsection \<open>Termination with a bounded number of attempts\<close>

lemma retry_loop_returns:
  assumes "0 < Max' b"
  shows "\<exists>r. retry_loop b op wait retry base w = Some r"
proof (induction "nat (Max' b) - retry" arbitrary: retry base w)
  case 0
  then have "Max' b < int (retry + 1)" by linarith
  with assms show ?case
    by (subst retry_loop.simps) (auto split: prod.splits)
next
  case (Suc n)
  then have "n = nat (Max' b) - (retry + 1)" by linarith
  note IH = Suc.hyps(1) [OF this]
  show ?case
    by (subst retry_loop.simps) (auto split: prod.splits option.splits simp: IH [simplified])
qed

text \<open>
  An operation instrumented with the list of counters it was called with.
\<close>

definition logged :: "'w retry_op \<Rightarrow> ('w \<times> nat list) retry_op" where
  "logged op n w = (case op n (fst w) of (err, w') \<Rightarrow> (err, (w', snd w @ [n])))"

definition silent :: "'w retry_wait \<Rightarrow> ('w \<times> nat list) retry_wait" where
  "silent wait d w = (case wait d (fst w) of (err, w') \<Rightarrow> (err, (w', snd w)))"

lemma retry_loop_logged:
  assumes "0 < Max' b" "retry \<le> nat (Max' b)"
    and "retry_loop b (logged op) (silent wait) retry base (w, [1..<retry + 1]) = Some (r, (w', cs))"
  shows "\<exists>n. cs = [1..<n + 1] \<and> retry < n \<and> int n \<le> Max' b + 1"
  using assms(2,3)
proof (induction "nat (Max' b) - retry" arbitrary: retry base w)
  case 0
  obtain err w1 where op: "op (retry + 1) w = (err, w1)" by (cases "op (retry + 1) w")
  from 0 have "Max' b < int (retry + 1)" by linarith
  with 0 op assms(1) have "cs = [1..<retry + 1] @ [retry + 1]"
    by (subst (asm) retry_loop.simps) (auto simp: logged_def split: if_splits)
  then have "cs = [1..<(retry + 1) + 1]" by (simp add: upt_Suc_append)
  moreover have "int (retry + 1) \<le> Max' b + 1" using 0 assms(1) by linarith
  ultimately show ?case by (intro exI [of _ "retry + 1"]) simp
next
  case (Suc m)
  obtain err w1 where op: "op (retry + 1) w = (err, w1)" by (cases "op (retry + 1) w")
  obtain werr w2 where wt: "wait (backoff_delay b base) w1 = (werr, w2)"
    by (cases "wait (backoff_delay b base) w1")
  have upt: "[1..<retry + 1] @ [retry + 1] = [1..<(retry + 1) + 1]" by (simp add: upt_Suc_append)
  have lt: "retry + 1 \<le> nat (Max' b)" and eq: "m = nat (Max' b) - (retry + 1)"
    using Suc.hyps(2) by linarith+
  show ?case
  proof (cases "IsRetryable err \<and> werr = None")
    case True
    with Suc.prems(2) op wt lt have
      "retry_loop b (logged op) (silent wait) (retry + 1) (next_base b base)
         (w2, [1..<(retry + 1) + 1]) = Some (r, (w', cs))"
      by (subst (asm) retry_loop.simps) (auto simp: logged_def silent_def upt split: if_splits)
    from Suc.hyps(1) [OF eq lt this] show ?thesis by auto
  next
    case False
    with Suc.prems(2) op wt lt have "cs = [1..<(retry + 1) + 1]"
      by (subst (asm) retry_loop.simps)
        (auto simp: logged_def silent_def upt split: if_splits option.splits)
    moreover have "int (retry + 1) \<le> Max' b + 1" using lt by linarith
    ultimately show ?thesis by (intro exI [of _ "retry + 1"]) simp
  qed
qed


subsection \<open>What the loop returns\<close>

text \<open>The base delay after \<open>k\<close> rounds.\<close>

definition base_after :: "Backoff \<Rightarrow> nat \<Rightarrow> int64" where
  "base_after b k = (next_base b ^^ k) (Base b)"

lemma base_after_0 [simp]: "base_after b 0 = Base b"
  by (simp add: base_after_def)

lemma base_after_Suc: "base_after b (Suc k) = next_base b (base_after b k)"
  by (simp add: base_after_def)

text \<open>
  \<open>n\<close> rounds in which the operation asks for a retry and the timer fires: the loop is where it
  was, \<open>n\<close> rounds later.
\<close>

lemma retry_loop_rounds:
  assumes "\<And>k w. k < n \<Longrightarrow> IsRetryable (fst (op (k + 1) w))"
    and "\<And>d w. fst (wait d w) = None"
    and "Max' b \<le> 0 \<or> int n \<le> Max' b"
  shows "\<exists>w'. retry_loop b op wait 0 (Base b) w = retry_loop b op wait n (base_after b n) w'"
  using assms(1,3)
proof (induction n)
  case 0
  show ?case by auto
next
  case (Suc n)
  then obtain w1 where "retry_loop b op wait 0 (Base b) w = retry_loop b op wait n (base_after b n) w1"
    by fastforce
  moreover obtain err w2 where op: "op (n + 1) w1 = (err, w2)" by (cases "op (n + 1) w1")
  moreover obtain w3 where "wait (backoff_delay b (base_after b n)) w2 = (None, w3)"
    using assms(2) by (metis prod.collapse)
  moreover have "IsRetryable err" using Suc.prems(1) [of n w1] op by simp
  moreover have "\<not> (0 < Max' b \<and> Max' b < int (n + 1))" using Suc.prems(2) by auto
  ultimately show ?case by (auto simp: retry_loop_wait base_after_Suc)
qed

lemma retry_loop_diverges:
  assumes retry: "\<And>k w. IsRetryable (fst (op k w))"
    and wait: "\<And>d w. fst (wait d w) = None"
    and unbounded: "Max' b \<le> 0"
  shows "retry_loop b op wait n base w = None"
proof (rule ccontr)
  assume "retry_loop b op wait n base w \<noteq> None"
  then obtain r where ret: "retry_loop b op wait n base w = Some r" by auto
  have "(\<forall>k w. IsRetryable (fst (op k w))) \<longrightarrow> (\<forall>d w. fst (wait d w) = None) \<longrightarrow>
    Max' b \<le> 0 \<longrightarrow> False"
  proof (rule retry_loop.raw_induct [where
        P = "\<lambda>b op wait n base w r. (\<forall>k w. IsRetryable (fst (op k w))) \<longrightarrow>
          (\<forall>d w. fst (wait d w) = None) \<longrightarrow> Max' b \<le> 0 \<longrightarrow> False", OF _ ret], intro impI, goal_cases)
    case (1 f b op wait n base w r)
    obtain err w1 where op: "op (n + 1) w = (err, w1)" by (cases "op (n + 1) w")
    obtain w2 where wt: "wait (backoff_delay b base) w1 = (None, w2)"
      using 1(4) by (metis prod.collapse)
    have "IsRetryable err" using 1(3) op by (metis fst_conv)
    then have "f b op wait (n + 1) (next_base b base) w2 = Some r"
      using 1(2,5) op wt by simp
    from 1(1) [OF this] 1(3-5) show ?case by blast
  qed
  with assms show False by simp
qed

subsection \<open>The delays are capped and exponential\<close>

lemma sint_word_of_int64:
  "- (2 ^ 63) \<le> i \<Longrightarrow> i < 2 ^ 63 \<Longrightarrow> sint (word_of_int i :: 64 word) = i"
  by (simp add: sint_sbintrunc' signed_take_bit_int_eq_self)

lemma sint_double:
  assumes "0 \<le> sint x" "sint x < 2 ^ 62"
  shows "sint ((x :: int64) * 2) = 2 * sint x"
proof -
  have "x * 2 = word_of_int (2 * sint x)" by (simp add: mult.commute)
  moreover have "sint (word_of_int (2 * sint x) :: int64) = 2 * sint x"
    using assms by (intro sint_word_of_int64) auto
  ultimately show ?thesis by (simp only:)
qed

text \<open>
  With a positive cap below \<open>2 ^ 62\<close> nothing overflows: the delay of round \<open>k\<close> is
  \<open>min cap (base * 2 ^ k)\<close>.
\<close>

lemma base_after_capped:
  assumes "0 < sint (Cap b)" "sint (Cap b) < 2 ^ 62" "0 < sint (Base b)" "sint (Base b) < 2 ^ 62"
  shows "(sint (base_after b k) = sint (Base b) * 2 ^ k \<or>
          sint (Cap b) < sint (base_after b k) \<and> sint (Cap b) < sint (Base b) * 2 ^ k) \<and>
         0 < sint (base_after b k) \<and> (sint (base_after b k) \<le> sint (Cap b) \<longrightarrow> sint (base_after b k) < 2 ^ 62)"
proof (induction k)
  case 0
  then show ?case using assms by auto
next
  case (Suc k)
  let ?x = "base_after b k"
  show ?case
  proof (cases "sint (Cap b) < sint ?x")
    case True
    then have "next_base b ?x = ?x" using assms(1)
      by (auto simp: next_base_def backoff_delay_def)
    moreover have "sint (Cap b) < sint (Base b) * 2 ^ Suc k"
    proof -
      have "sint (Cap b) < sint (Base b) * 2 ^ k" using Suc.IH True by auto
      also have "\<dots> \<le> sint (Base b) * 2 ^ Suc k" using assms(3) by simp
      finally show ?thesis .
    qed
    ultimately show ?thesis using Suc.IH True by (simp add: base_after_Suc)
  next
    case False
    then have "next_base b ?x = ?x * 2" using assms(1)
      by (auto simp: next_base_def backoff_delay_def)
    moreover have "sint (?x * 2) = 2 * sint ?x"
      using Suc.IH False assms by (intro sint_double) auto
    ultimately show ?thesis using Suc.IH False assms by (auto simp: base_after_Suc)
  qed
qed

lemma backoff_delay_capped:
  assumes "0 < sint (Cap b)" "sint (Cap b) < 2 ^ 62" "0 < sint (Base b)" "sint (Base b) < 2 ^ 62"
  shows "sint (backoff_delay b (base_after b k)) = min (sint (Cap b)) (sint (Base b) * 2 ^ k)"
  using base_after_capped [OF assms, of k] assms(1) by (auto simp: backoff_delay_def)


text \<open>The operation and the wait of a run in which every attempt is retryable and no context ends.\<close>

definition always_retry :: "goerr \<Rightarrow> 'w retry_op" where
  "always_retry e n w = (Some (RetryableError e), w)"

definition record_delay :: "int list retry_wait" where
  "record_delay d w = (None, w @ [sint d])"

lemma retry_loop_record:
  assumes "0 < Max' b" "n + m = nat (Max' b)"
  shows "retry_loop b (always_retry e) record_delay n (base_after b n) ds =
    Some (Some (RetryableErrorf ''reached maximum number of retry attempts''),
          ds @ map (\<lambda>k. sint (backoff_delay b (base_after b k))) [n..<n + m])"
  using assms(2)
proof (induction m arbitrary: n ds)
  case 0
  then have "Max' b < int (n + 1)" by linarith
  with assms(1) show ?case by (simp add: retry_loop_max always_retry_def)
next
  case (Suc m)
  have "\<not> (0 < Max' b \<and> Max' b < int (n + 1))" using Suc.prems by linarith
  moreover have "Suc n + m = nat (Max' b)" using Suc.prems by simp
  note Suc.IH [OF this]
  moreover have "[n..<n + Suc m] = n # [Suc n..<Suc n + m]" by (simp add: upt_conv_Cons)
  ultimately show ?case
    by (simp add: retry_loop_wait [OF refl] always_retry_def record_delay_def flip: base_after_Suc)
qed

subsection \<open>Properties\<close>

text \<open>
  C30: with a positive maximum, \<open>RetryWithBackoff\<close> always returns, whatever the operation and the
  context do, and it has invoked the operation with the counters \<open>1, 2, \<dots>, n\<close> in this order,
  at least once and at most \<open>Max + 1\<close> times.
\<close>

theorem RetryWithBackoff_bounded:
  assumes "0 < Max' b"
  shows "\<exists>err w' n. RetryWithBackoff (silent wait) b (logged op) (w, []) = Some (err, (w', [1..<n + 1])) \<and>
    1 \<le> n \<and> int n \<le> Max' b + 1"
proof -
  obtain r where r: "retry_loop b (logged op) (silent wait) 0 (Base b) (w, []) = Some r"
    using retry_loop_returns [OF assms, of "logged op" "silent wait" 0 "Base b" "(w, [])"] by blast
  obtain err w' cs where rr: "r = (err, (w', cs))" by (metis prod.collapse)
  have "\<exists>n. cs = [1..<n + 1] \<and> 0 < n \<and> int n \<le> Max' b + 1"
    using retry_loop_logged [of b 0 op wait "Base b" w err w' cs] assms r rr by simp
  with r rr show ?thesis by (auto simp: RetryWithBackoff_def Suc_le_eq)
qed

theorem RetryWithBackoff_bounded_witness:
  "\<exists>err w' n. RetryWithBackoff (silent (\<lambda>d w. (None, w))) \<lparr>Base = 10, Cap = 0, Max' = 2\<rparr>
     (logged (\<lambda>n w. (if n = 3 then None else Some (RetryableErrorf ''x''), w))) ((), []) =
       Some (err, (w', [1..<n + 1])) \<and> 1 \<le> n \<and> int n \<le> 3"
  using RetryWithBackoff_bounded [of "\<lparr>Base = 10, Cap = 0, Max' = 2\<rparr>" "\<lambda>d w. (None, w)"
      "\<lambda>n w. (if n = 3 then None else Some (RetryableErrorf ''x''), w)" "()"]
  by simp

text \<open>
  As long as the context is not done, \<open>RetryWithBackoff\<close> returns what the operation returned
  in its first invocation that is not retryable (nil or a non-retryable error), if this comes
  within the allowed number of attempts; otherwise it returns a retryable error once they are
  used up.
\<close>

theorem RetryWithBackoff_result:
  assumes "\<And>d w. fst (wait d w) = None"
    and "\<And>k w. fst (op k w) = res k"
    and "\<And>k. k < n \<Longrightarrow> IsRetryable (res (k + 1))" "\<not> IsRetryable (res (n + 1))"
  shows "if Max' b \<le> 0 \<or> int n \<le> Max' b
    then \<exists>w'. RetryWithBackoff wait b op w = Some (res (n + 1), w')
    else \<exists>err w'. RetryWithBackoff wait b op w = Some (err, w') \<and> IsRetryable err"
proof (cases "Max' b \<le> 0 \<or> int n \<le> Max' b")
  case True
  obtain w1 where "retry_loop b op wait 0 (Base b) w = retry_loop b op wait n (base_after b n) w1"
    using retry_loop_rounds [of n op wait b w] assms True by auto
  moreover obtain w2 where "op (n + 1) w1 = (res (n + 1), w2)"
    using assms(2) by (metis prod.collapse)
  ultimately show ?thesis using True assms(4) by (auto simp: RetryWithBackoff_def retry_loop_stop)
next
  case False
  then obtain m where m: "int m = Max' b" "m < n"
    using zero_le_imp_eq_int [of "Max' b"] by auto
  obtain w1 where "retry_loop b op wait 0 (Base b) w = retry_loop b op wait m (base_after b m) w1"
    using retry_loop_rounds [of m op wait b w] assms m by auto
  moreover obtain w2 where "op (m + 1) w1 = (res (m + 1), w2)"
    using assms(2) by (metis prod.collapse)
  ultimately show ?thesis using False assms(3) [of m] m
    by (auto simp: RetryWithBackoff_def retry_loop_max)
qed

theorem RetryWithBackoff_result_witness:
  "\<exists>w'. RetryWithBackoff (\<lambda>d w. (None, w)) \<lparr>Base = 100, Cap = 100, Max' = 0\<rparr>
     (\<lambda>k w. (if k < 3 then Some (RetryableErrorf ''no leader'') else None, w)) () = Some (None, w')"
  using RetryWithBackoff_result [of "\<lambda>d w. (None, w)"
      "\<lambda>k w. (if k < 3 then Some (RetryableErrorf ''no leader'') else None, w)"
      "\<lambda>k. if k < 3 then Some (RetryableErrorf ''no leader'') else None"
      2 "\<lparr>Base = 100, Cap = 100, Max' = 0\<rparr>" "()"]
  by simp

text \<open>
  Without a maximum, an operation that is retryable every time is retried forever while the
  context is not done: \<open>RetryWithBackoff\<close> never returns.
\<close>

theorem RetryWithBackoff_diverges:
  assumes "\<And>k w. IsRetryable (fst (op k w))" "\<And>d w. fst (wait d w) = None" "Max' b = 0"
  shows "RetryWithBackoff wait b op w = None"
  using retry_loop_diverges [of op wait b] assms by (simp add: RetryWithBackoff_def)

theorem RetryWithBackoff_diverges_witness:
  "RetryWithBackoff (\<lambda>d w. (None, w)) \<lparr>Base = 100, Cap = 100, Max' = 0\<rparr> (always_retry CtxDeadlineExceeded) () = None"
  using RetryWithBackoff_diverges [of "always_retry CtxDeadlineExceeded" "\<lambda>d w. (None, w)"
      "\<lparr>Base = 100, Cap = 100, Max' = 0\<rparr>" "()"]
  by (simp add: always_retry_def)

text \<open>
  The delays are a capped exponential: with a positive base and cap below \<open>2 ^ 62\<close>
  nanoseconds, the \<open>k\<close>-th delay is \<open>min cap (base * 2 ^ k)\<close>, with no wrap-around of the 64-bit
  duration, and a run of retryable failures waits exactly \<open>Max\<close> times.
\<close>

theorem RetryWithBackoff_delays:
  assumes "0 < sint (Cap b)" "sint (Cap b) < 2 ^ 62" "0 < sint (Base b)" "sint (Base b) < 2 ^ 62"
    and "0 < Max' b"
  shows "RetryWithBackoff record_delay b (always_retry e) [] =
    Some (Some (RetryableErrorf ''reached maximum number of retry attempts''),
          map (\<lambda>k. min (sint (Cap b)) (sint (Base b) * 2 ^ k)) [0..<nat (Max' b)])"
  using retry_loop_record [OF assms(5), of 0 "nat (Max' b)" e "[]"] backoff_delay_capped [OF assms(1-4)]
  by (simp add: RetryWithBackoff_def)

theorem RetryWithBackoff_delays_witness:
  "RetryWithBackoff record_delay \<lparr>Base = 10, Cap = 50, Max' = 4\<rparr> (always_retry CtxCanceled) [] =
    Some (Some (RetryableErrorf ''reached maximum number of retry attempts''), [10, 20, 40, 50])"
  using RetryWithBackoff_delays [of "\<lparr>Base = 10, Cap = 50, Max' = 4\<rparr>" CtxCanceled]
  by (simp add: upt_rec numeral_eq_Suc)

end
