(* ===== verification/Gostd.thy ===== *)
theory Gostd
  imports Prelude "HOL-Library.Sublist"
begin

section \<open>The functions of Go's standard library the code relies on\<close>

text \<open>
  \<open>strings.Split\<close> and \<open>strings.Join\<close> with a one-byte separator, \<open>strings.HasPrefix\<close>, and
  \<open>strconv.FormatInt\<close> and \<open>strconv.ParseInt\<close> in base 10 for 64 bits, with the round trips the
  MQTT binding depends on, and the width of a rune in a string.
\<close>

subsection \<open>strings\<close>

fun strings_Split :: "string \<Rightarrow> char \<Rightarrow> string list" where
  "strings_Split [] c = [[]]"
| "strings_Split (x # xs) c =
     (if x = c then [] # strings_Split xs c
      else (case strings_Split xs c of [] \<Rightarrow> [[x]] | y # ys \<Rightarrow> (x # y) # ys))"

fun strings_Join :: "string list \<Rightarrow> char \<Rightarrow> string" where
  "strings_Join [] c = []"
| "strings_Join [x] c = x"
| "strings_Join (x # y # ys) c = x @ c # strings_Join (y # ys) c"

definition strings_HasPrefix :: "string \<Rightarrow> string \<Rightarrow> bool" where
  "strings_HasPrefix s p \<longleftrightarrow> prefix p s"

lemma strings_Split_nonempty [simp]: "strings_Split s c \<noteq> []"
  by (induction s c rule: strings_Split.induct) (auto split: list.splits)

lemma strings_Split_no_sep: "c \<notin> set s \<Longrightarrow> strings_Split s c = [s]"
  by (induction s) auto

lemma strings_Split_append: "c \<notin> set s \<Longrightarrow> strings_Split (s @ c # t) c = s # strings_Split t c"
  by (induction s) auto

lemma strings_Split_Join:
  "xs \<noteq> [] \<Longrightarrow> \<forall>x\<in>set xs. c \<notin> set x \<Longrightarrow> strings_Split (strings_Join xs c) c = xs"
  by (induction xs c rule: strings_Join.induct) (auto simp: strings_Split_no_sep strings_Split_append)

subsection \<open>strconv\<close>

definition digit :: "nat \<Rightarrow> char" where
  "digit n = char_of (48 + n)"

definition digit_val :: "char \<Rightarrow> nat option" where
  "digit_val c = (let n = of_char c in if 48 \<le> n \<and> n \<le> 57 then Some (n - 48) else None)"

fun format_nat :: "nat \<Rightarrow> string" where
  "format_nat n = (if n < 10 then [digit n] else format_nat (n div 10) @ [digit (n mod 10)])"

declare format_nat.simps [simp del]

definition FormatInt :: "int \<Rightarrow> string" where
  "FormatInt i = (if i < 0 then CHR ''-'' # format_nat (nat (- i)) else format_nat (nat i))"

text \<open>The digit loop of \<open>ParseUint\<close>; \<open>None\<close> on a character that is not a digit.\<close>

fun parse_digits :: "nat \<Rightarrow> string \<Rightarrow> nat option" where
  "parse_digits acc [] = Some acc"
| "parse_digits acc (c # cs) =
     (case digit_val c of None \<Rightarrow> None | Some d \<Rightarrow> parse_digits (10 * acc + d) cs)"

definition ParseInt :: "string \<Rightarrow> goerr + int" where
  "ParseInt s =
     (let neg = (s \<noteq> [] \<and> hd s = CHR ''-'');
          ds = (if s \<noteq> [] \<and> (hd s = CHR ''-'' \<or> hd s = CHR ''+'') then tl s else s)
      in if ds = [] then Inl (Errorf ''invalid syntax'')
         else (case parse_digits 0 ds of
                 None \<Rightarrow> Inl (Errorf ''invalid syntax'')
               | Some n \<Rightarrow>
                   if \<not> neg \<and> int n \<ge> 2 ^ 63 \<or> neg \<and> int n > 2 ^ 63
                   then Inl (Errorf ''value out of range'')
                   else Inr (if neg then - int n else int n)))"

lemma of_char_digit: "n < 10 \<Longrightarrow> (of_char (digit n) :: nat) = 48 + n"
  by (simp add: digit_def)

lemma digit_val_digit [simp]: "n < 10 \<Longrightarrow> digit_val (digit n) = Some n"
  by (simp add: digit_val_def of_char_digit)

lemma parse_digits_append:
  "parse_digits acc (s @ t) = (case parse_digits acc s of None \<Rightarrow> None | Some n \<Rightarrow> parse_digits n t)"
  by (induction s arbitrary: acc) (auto split: option.splits)

lemma parse_format_nat: "parse_digits 0 (format_nat n) = Some n"
proof (induction n rule: format_nat.induct)
  case (1 n)
  show ?case
  proof (cases "n < 10")
    case True
    then show ?thesis by (simp add: format_nat.simps [of n])
  next
    case False
    with 1 have "parse_digits 0 (format_nat (n div 10)) = Some (n div 10)" by simp
    with False show ?thesis by (simp add: format_nat.simps [of n] parse_digits_append)
  qed
qed

lemma format_nat_hd: "\<exists>d ds. d < 10 \<and> format_nat n = digit d # ds"
proof (induction n rule: format_nat.induct)
  case (1 n)
  then show ?case by (cases "n < 10") (auto simp: format_nat.simps [of n])
qed

lemma digit_not_sign: "d < 10 \<Longrightarrow> digit d \<noteq> CHR ''-'' \<and> digit d \<noteq> CHR ''+''"
proof -
  assume d: "d < 10"
  have "(of_char (CHR ''-'') :: nat) = 45" "(of_char (CHR ''+'') :: nat) = 43" by simp_all
  with of_char_digit [OF d] show ?thesis by fastforce
qed

lemma ParseInt_FormatInt:
  assumes "- (2 ^ 63) \<le> i" "i < 2 ^ 63"
  shows "ParseInt (FormatInt i) = Inr i"
proof (cases "i < 0")
  case True
  obtain d ds where "format_nat (nat (- i)) = digit d # ds" using format_nat_hd by blast
  then have "format_nat (nat (- i)) \<noteq> []" by simp
  with True assms show ?thesis
    by (simp add: ParseInt_def FormatInt_def parse_format_nat)
next
  case False
  obtain d ds where d: "d < 10" "format_nat (nat i) = digit d # ds" using format_nat_hd by blast
  with digit_not_sign [of d] parse_format_nat [of "nat i"] False assms show ?thesis
    by (simp add: ParseInt_def FormatInt_def)
qed

subsection \<open>unicode/utf8\<close>

text \<open>
  The number of bytes \<open>utf8.DecodeRuneInString\<close> consumes at the start of a non-empty string: the length of
  a valid encoding, and 1 for a byte that starts none.
\<close>

definition in_bytes :: "nat \<Rightarrow> nat \<Rightarrow> char \<Rightarrow> bool" where
  "in_bytes lo hi c \<longleftrightarrow> lo \<le> of_char c \<and> of_char c \<le> hi"

definition rune_size :: "char \<Rightarrow> nat" where
  "rune_size c = (if in_bytes 194 223 c then 2 else if in_bytes 224 239 c then 3 else if in_bytes 240 244 c then 4 else 1)"

text \<open>The second byte excludes overlong encodings, surrogates and values beyond U+10FFFF.\<close>

definition second_ok :: "char \<Rightarrow> char \<Rightarrow> bool" where
  "second_ok c d \<longleftrightarrow>
     (let n = (of_char c :: nat) in
      if n = 224 then in_bytes 160 191 d else if n = 237 then in_bytes 128 159 d
      else if n = 240 then in_bytes 144 191 d else if n = 244 then in_bytes 128 143 d else in_bytes 128 191 d)"

definition rune_width :: "char \<Rightarrow> string \<Rightarrow> nat" where
  "rune_width c cs =
     (let n = rune_size c in
      if 1 < n \<and> n - 1 \<le> length cs \<and> second_ok c (hd cs) \<and> list_all (in_bytes 128 191) (take (n - 2) (tl cs)) then n else 1)"

lemma rune_width_pos: "0 < rune_width c cs" "rune_width c cs - 1 \<le> length cs"
  by (simp_all add: rune_width_def Let_def)

lemma rune_width_ascii: "of_char c < (128 :: nat) \<Longrightarrow> rune_width c cs = 1"
  by (simp add: rune_width_def rune_size_def in_bytes_def Let_def)

end
