(* ===== verification/Config.thy ===== *)
theory Config
  imports Gostd
begin

section \<open>DDA configuration (config/config.go, cmd/dda/dda.go)\<close>

text \<open>
  The configuration structs as records, with the field names prefixed by their struct where Go
  reuses them, the naming convention of topic fields, \<open>Verify\<close>, the defaults of \<open>New\<close> and
  \<open>ReadConfig\<close>. The value of \<open>uuid.NewString\<close>, the file system and the YAML decoder are arguments.
  An option value is whatever the YAML decoder produced: an int, a bool or something else.
\<close>

datatype optval = OptInt int | OptBool bool | OptOther string

record Identity =
  id_Name :: string
  id_Id :: string

record ConfigApi =
  api_Address :: string
  api_Disabled :: bool
  api_Keepalive :: int

record ConfigWebApi =
  web_Address :: string
  web_Disabled :: bool
  web_AccessControlAllowOrigin :: "string list"

record ConfigApis =
  Grpc :: ConfigApi
  GrpcWeb :: ConfigWebApi
  apis_Cert :: string
  apis_Key :: string

record AuthOptions =
  auth_Method :: string
  auth_Cert :: string
  auth_Key :: string
  auth_Verify :: bool
  auth_Username :: string
  auth_Password :: string

record ConfigComService =
  com_Protocol :: string
  com_Url :: string
  com_Auth :: AuthOptions
  com_Opts :: "(string, optval) gomap"
  com_Disabled :: bool

record ConfigStoreService =
  store_Engine :: string
  store_Location :: string
  store_Disabled :: bool

record ConfigStateService =
  state_Protocol :: string
  state_Store :: string
  state_Bootstrap :: bool
  state_Disabled :: bool
  state_Opts :: "(string, optval) gomap"

record ConfigServices =
  Com :: ConfigComService
  Store :: ConfigStoreService
  State :: ConfigStateService

record Config =
  Version :: string
  cfg_Identity :: Identity
  Cluster :: string
  Apis :: ConfigApis
  cfg_Services :: ConfigServices

definition configSchemaVersion :: string where
  "configSchemaVersion = ''1''"

subsection \<open>Naming convention\<close>

text \<open>The characters of the class \<open>[-_.0-9a-zA-Z]\<close>.\<close>

definition naming_char :: "char \<Rightarrow> bool" where
  "naming_char c = (let n = (of_char c :: nat) in
     c = CHR ''-'' \<or> c = CHR ''_'' \<or> c = CHR ''.'' \<or>
     48 \<le> n \<and> n \<le> 57 \<or> 97 \<le> n \<and> n \<le> 122 \<or> 65 \<le> n \<and> n \<le> 90)"

definition compliesWithNamingConvention :: "string \<Rightarrow> bool" where
  "compliesWithNamingConvention s \<longleftrightarrow> s \<noteq> [] \<and> list_all naming_char s"

definition ValidateName :: "string \<Rightarrow> goerr option" where
  "ValidateName name =
     (if \<not> compliesWithNamingConvention name
      then Some (Errorf ''invalid %s: must only contain characters 0-9, a-z, A-Z, dot, hyphen, or underscore'')
      else None)"

definition ValidateNonEmpty :: "string \<Rightarrow> goerr option" where
  "ValidateNonEmpty value =
     (if value = '''' then Some (Errorf ''invalid %s: must not be empty'') else None)"

definition Verify :: "Config \<Rightarrow> goerr option" where
  "Verify c =
     (if Version c \<noteq> configSchemaVersion
      then Some (Errorf ''incompatible configuration version %s, requiring version %s'')
      else (case ValidateName (Cluster c) of Some err \<Rightarrow> Some err | None \<Rightarrow> None))"

subsection \<open>Defaults and reading a file\<close>

definition hour :: int where
  "hour = 3600 * 1000000000"

definition New :: "string \<Rightarrow> Config" where
  "New uuid = \<lparr>
     Version = configSchemaVersion,
     cfg_Identity = \<lparr>id_Name = ''DDA'', id_Id = uuid\<rparr>,
     Cluster = ''dda'',
     Apis = \<lparr>Grpc = \<lparr>api_Address = '':8900'', api_Disabled = False, api_Keepalive = 2 * hour\<rparr>,
             GrpcWeb = \<lparr>web_Address = '':8800'', web_Disabled = False, web_AccessControlAllowOrigin = []\<rparr>,
             apis_Cert = '''', apis_Key = ''''\<rparr>,
     cfg_Services = \<lparr>
       Com = \<lparr>com_Protocol = ''mqtt5'', com_Url = '''',
              com_Auth = \<lparr>auth_Method = ''none'', auth_Cert = '''', auth_Key = '''', auth_Verify = True,
                          auth_Username = '''', auth_Password = ''''\<rparr>,
              com_Opts = [], com_Disabled = False\<rparr>,
       Store = \<lparr>store_Engine = ''pebble'', store_Location = '''', store_Disabled = True\<rparr>,
       State = \<lparr>state_Protocol = ''raft'', state_Store = '''', state_Bootstrap = False,
                state_Disabled = True, state_Opts = []\<rparr>\<rparr>\<rparr>"

text \<open>
  \<open>readFile\<close> is \<open>os.ReadFile\<close> after \<open>filepath.Clean\<close>; \<open>unmarshal\<close> is \<open>yaml.Unmarshal\<close>, which
  overwrites the fields of the pre-filled configuration that the document mentions.
\<close>

definition ReadConfig ::
  "(string \<Rightarrow> goerr + bytes) \<Rightarrow> (bytes \<Rightarrow> Config \<Rightarrow> goerr + Config) \<Rightarrow> string \<Rightarrow> string \<Rightarrow> goerr + Config"
where
  "ReadConfig readFile unmarshal uuid file =
     (case readFile file of
        Inl err \<Rightarrow> Inl err
      | Inr c \<Rightarrow> (case unmarshal c (New uuid) of Inl err \<Rightarrow> Inl err | Inr config \<Rightarrow> Inr config))"

text \<open>The lookup order of the configuration file: the flag, the environment, the default.\<close>

definition lookupConfigFile :: "string \<Rightarrow> string \<Rightarrow> string" where
  "lookupConfigFile env_DDA_CONFIGFILE configFile =
     (let configFile = (if configFile = '''' then env_DDA_CONFIGFILE else configFile)
      in if configFile = '''' then ''dda.yaml'' else configFile)"

subsection \<open>Lemmas\<close>

lemma ValidateName_None: "ValidateName s = None \<longleftrightarrow> compliesWithNamingConvention s"
  by (simp add: ValidateName_def)

lemma ValidateNonEmpty_None: "ValidateNonEmpty s = None \<longleftrightarrow> s \<noteq> ''''"
  by (simp add: ValidateNonEmpty_def)

lemma naming_char_topic:
  "naming_char c \<Longrightarrow> c \<noteq> CHR ''/'' \<and> c \<noteq> CHR ''+'' \<and> c \<noteq> CHR ''#'' \<and> c \<noteq> CHR ''$''"
  by (auto simp: naming_char_def Let_def)

lemma complies_no_slash: "compliesWithNamingConvention s \<Longrightarrow> CHR ''/'' \<notin> set s"
  by (auto simp: compliesWithNamingConvention_def list_all_iff dest: naming_char_topic)

lemma complies_no_dollar: "compliesWithNamingConvention s \<Longrightarrow> CHR ''$'' \<notin> set s"
  by (auto simp: compliesWithNamingConvention_def list_all_iff dest: naming_char_topic)

lemma complies_nonempty: "compliesWithNamingConvention s \<Longrightarrow> s \<noteq> []"
  by (simp add: compliesWithNamingConvention_def)

lemma Verify_None:
  "Verify c = None \<longleftrightarrow> Version c = configSchemaVersion \<and> compliesWithNamingConvention (Cluster c)"
  by (auto simp: Verify_def ValidateName_def split: option.splits)

lemma Verify_New: "Verify (New uuid) = None"
  by (simp add: Verify_None New_def compliesWithNamingConvention_def naming_char_def)

end
