(* ===== verification/Router.thy ===== *)
theory Router
  imports Prelude
begin

section \<open>Routing of incoming messages to subscribers (services/com/api/router.go)\<close>

text \<open>
  A router maps topics to the route channels of their subscribers. The model keeps what the code
  keeps, and the part of the Go runtime its safety depends on: the heap of receive channels
  (\<open>chans\<close>, a reference is an index), the pending \<open>context.AfterFunc\<close> registrations
  (\<open>afterFuncs\<close>), and, in the step relation, the contexts that are done and the dispatches that
  hold the read lock. A pointer to a route channel is the reference of its receive channel, which
  \<open>Add\<close> allocates together with it.

  \<open>subscribe\<close>, \<open>publish\<close> and \<open>unsubscribe\<close> are functions of the communication binding: they act
  on a binding state \<open>'w\<close>.
\<close>

type_synonym 'w ComBindingFunc = "'w \<Rightarrow> goerr option \<times> 'w"

definition receiveBufferSize :: nat where
  "receiveBufferSize = 1"

record 't RouteFilter =
  Topic :: 't
  CorrelationId :: 't

record ('t, 'w) RouteChannel =
  ReceiveChan :: nat
  CtxDone :: nat
  correlationId :: 't
  unsub :: "'w ComBindingFunc"

record ('r, 't, 'w) Router =
  routes :: "('t, ('t, 'w) RouteChannel list) gomap"
  chans :: "'r chan list"
  afterFuncs :: "('t RouteFilter \<times> ('t, 'w) RouteChannel) list"

definition NewRouter :: "('r, 't, 'w) Router" where
  "NewRouter = \<lparr>routes = [], chans = [], afterFuncs = []\<rparr>"

definition GetTopics :: "('r, 't, 'w) Router \<Rightarrow> 't list" where
  "GetTopics r = gm_keys (routes r)"

subsection \<open>Add\<close>

text \<open>Registration of a route channel and of the function that removes it once its context is done.\<close>

definition register_rc ::
  "'t RouteFilter \<Rightarrow> ('t, 'w) RouteChannel list \<Rightarrow> ('t, 'w) RouteChannel \<Rightarrow> ('r, 't, 'w) Router \<Rightarrow> ('r, 't, 'w) Router"
where
  "register_rc flt rcs rc r =
     r\<lparr>routes := AList.update (Topic flt) (rcs @ [rc]) (routes r),
       afterFuncs := afterFuncs r @ [(flt, rc)]\<rparr>"

definition Add ::
  "('r, 't, 'w) Router \<Rightarrow> 'w \<Rightarrow> nat \<Rightarrow> 't RouteFilter \<Rightarrow> 'w ComBindingFunc \<Rightarrow> 'w ComBindingFunc \<Rightarrow>
     'w ComBindingFunc \<Rightarrow> nat option \<Rightarrow> (goerr + ('t, 'w) RouteChannel) \<times> ('r, 't, 'w) Router \<times> 'w"
where
  "Add r w ctx flt subscribe publish unsubscribe bufferSize =
     (let size = (case bufferSize of None \<Rightarrow> receiveBufferSize | Some n \<Rightarrow> n);
          rc = \<lparr>ReceiveChan = length (chans r), CtxDone = ctx,
                correlationId = CorrelationId flt, unsub = unsubscribe\<rparr>;
          r1 = r\<lparr>chans := chans r @ [make_chan size]\<rparr>
      in case map_of (routes r) (Topic flt) of
           Some rcs \<Rightarrow>
             (case publish w of
                (Some err, w1) \<Rightarrow> (Inl err, r1, w1)
              | (None, w1) \<Rightarrow> (Inr rc, register_rc flt rcs rc r1, w1))
         | None \<Rightarrow>
             (case subscribe w of
                (Some err, w1) \<Rightarrow> (Inl err, r1, w1)
              | (None, w1) \<Rightarrow>
                  (case publish w1 of
                     (Some err, w2) \<Rightarrow> (case unsubscribe w2 of (_, w3) \<Rightarrow> (Inl err, r1, w3))
                   | (None, w2) \<Rightarrow> (Inr rc, register_rc flt [] rc r1, w2))))"

subsection \<open>Removal\<close>

text \<open>
  The loop that looks for the route channel and moves the ones behind it one place to the front,
  in the backing array of the slice.
\<close>

function shift_loop ::
  "nat \<Rightarrow> nat \<Rightarrow> nat \<Rightarrow> bool \<Rightarrow> ('t, 'w) RouteChannel list \<Rightarrow> bool \<times> ('t, 'w) RouteChannel list"
where
  "shift_loop l i ref found rcs =
     (if i < l
      then if found then shift_loop l (i + 1) ref found (rcs[i - 1 := rcs ! i])
           else if ReceiveChan (rcs ! i) = ref then shift_loop l (i + 1) ref True rcs
           else shift_loop l (i + 1) ref found rcs
      else (found, rcs))"
  by pat_completeness auto
termination
  by (relation "measure (\<lambda>(l, i, ref, found, rcs). l - i)") auto

declare shift_loop.simps [simp del]

text \<open>The deferred \<open>close(routeChannel.ReceiveChan)\<close>: \<open>None\<close> is the panic of a second close.\<close>

definition close_rc :: "nat \<Rightarrow> ('r, 't, 'w) Router \<Rightarrow> ('r, 't, 'w) Router option" where
  "close_rc ref r =
     (if ch_closed (chans r ! ref) then None
      else Some (r\<lparr>chans := (chans r)[ref := ch_close (chans r ! ref)]\<rparr>))"

definition remove ::
  "('r, 't, 'w) Router \<Rightarrow> 'w \<Rightarrow> 't RouteFilter \<Rightarrow> ('t, 'w) RouteChannel \<Rightarrow> ('r, 't, 'w) Router option \<times> 'w"
where
  "remove r w flt rc =
     (case map_of (routes r) (Topic flt) of
        None \<Rightarrow> (Some r, w)
      | Some rcs \<Rightarrow>
          (let l = length rcs in
           case shift_loop l 0 (ReceiveChan rc) False rcs of (found, rcs') \<Rightarrow>
             if \<not> found then (Some r, w)
             else if l = 1 then
               (case unsub rc w of
                  (Some err, w1) \<Rightarrow>
                    (close_rc (ReceiveChan rc) (r\<lparr>routes := AList.update (Topic flt) [] (routes r)\<rparr>), w1)
                | (None, w1) \<Rightarrow>
                    (close_rc (ReceiveChan rc) (r\<lparr>routes := AList.delete (Topic flt) (routes r)\<rparr>), w1))
             else (close_rc (ReceiveChan rc)
                     (r\<lparr>routes := AList.update (Topic flt) (take (l - 1) rcs') (routes r)\<rparr>), w)))"

subsection \<open>Dispatch\<close>

text \<open>
  The route channels \<open>dispatch\<close> sends a message on, in order: the two loops of the code, for a
  request (zero correlation id) and for a response.
\<close>

definition dispatch_targets :: "'t \<Rightarrow> ('r, 't, 'w) Router \<Rightarrow> 't RouteFilter \<Rightarrow> ('t, 'w) RouteChannel list" where
  "dispatch_targets zerocid r flt =
     (let cid = CorrelationId flt in
      case map_of (routes r) (Topic flt) of
        None \<Rightarrow> []
      | Some rcs \<Rightarrow>
          if cid = zerocid then filter (\<lambda>rc. correlationId rc = zerocid) rcs
          else filter (\<lambda>rc. cid = correlationId rc) rcs)"

text \<open>
  A dispatch in progress: the message, the route channels still to serve, and whether the first
  \<open>select\<close> (is the context done?) of the next one has been passed.
\<close>

record ('r, 't, 'w) dispatching =
  d_msg :: 'r
  d_todo :: "('t, 'w) RouteChannel list"
  d_checked :: bool

record ('r, 't, 'w) rsys =
  router :: "('r, 't, 'w) Router"
  binding :: 'w
  doneCtxs :: "nat set"
  inflight :: "('r, 't, 'w) dispatching list"

datatype ('r, 't, 'w) rstate = Running "('r, 't, 'w) rsys" | Panicked

definition put_chan :: "nat \<Rightarrow> 'r chan \<Rightarrow> ('r, 't, 'w) Router \<Rightarrow> ('r, 't, 'w) Router" where
  "put_chan ref c r = r\<lparr>chans := (chans r)[ref := c]\<rparr>"

text \<open>
  One step of a router and its environment. \<open>Add\<close> and \<open>remove\<close> hold the write lock, so they run
  while no dispatch is in progress; a dispatch holds the read lock from \<open>dispatch_start\<close> to
  \<open>dispatch_end\<close> and proceeds one \<open>select\<close> at a time. A send on a closed channel and the close of
  a closed channel lead to \<open>Panicked\<close>.
\<close>

inductive rstep :: "'t \<Rightarrow> ('r, 't, 'w) rstate \<Rightarrow> ('r, 't, 'w) rstate \<Rightarrow> bool" for zerocid :: 't where
  add: "inflight s = [] \<Longrightarrow>
      Add (router s) (binding s) ctx flt subscribe publish unsubscribe bufferSize = (res, r', w') \<Longrightarrow>
      rstep zerocid (Running s) (Running (s\<lparr>router := r', binding := w'\<rparr>))"
| cancel: "rstep zerocid (Running s) (Running (s\<lparr>doneCtxs := insert ctx (doneCtxs s)\<rparr>))"
| after_func: "inflight s = [] \<Longrightarrow> afterFuncs (router s) = fs @ (flt, rc) # gs \<Longrightarrow>
      CtxDone rc \<in> doneCtxs s \<Longrightarrow>
      remove ((router s)\<lparr>afterFuncs := fs @ gs\<rparr>) (binding s) flt rc = (Some r', w') \<Longrightarrow>
      rstep zerocid (Running s) (Running (s\<lparr>router := r', binding := w'\<rparr>))"
| after_func_panic: "inflight s = [] \<Longrightarrow> afterFuncs (router s) = fs @ (flt, rc) # gs \<Longrightarrow>
      CtxDone rc \<in> doneCtxs s \<Longrightarrow>
      remove ((router s)\<lparr>afterFuncs := fs @ gs\<rparr>) (binding s) flt rc = (None, w') \<Longrightarrow>
      rstep zerocid (Running s) Panicked"
| dispatch_start: "rstep zerocid (Running s)
      (Running (s\<lparr>inflight := inflight s @
         [\<lparr>d_msg = msg, d_todo = dispatch_targets zerocid (router s) flt, d_checked = False\<rparr>]\<rparr>))"
| poll_done: "inflight s = ds @ d # es \<Longrightarrow> d_todo d = rc # rcs \<Longrightarrow> CtxDone rc \<in> doneCtxs s \<Longrightarrow>
      rstep zerocid (Running s)
        (Running (s\<lparr>inflight := ds @ d\<lparr>d_todo := rcs, d_checked := False\<rparr> # es\<rparr>))"
| poll_default: "inflight s = ds @ d # es \<Longrightarrow> d_todo d = rc # rcs \<Longrightarrow> \<not> d_checked d \<Longrightarrow>
      CtxDone rc \<notin> doneCtxs s \<Longrightarrow>
      rstep zerocid (Running s) (Running (s\<lparr>inflight := ds @ d\<lparr>d_checked := True\<rparr> # es\<rparr>))"
| send: "inflight s = ds @ d # es \<Longrightarrow> d_todo d = rc # rcs \<Longrightarrow> d_checked d \<Longrightarrow>
      \<not> ch_closed (chans (router s) ! ReceiveChan rc) \<Longrightarrow>
      ch_ready (chans (router s) ! ReceiveChan rc) \<Longrightarrow>
      rstep zerocid (Running s)
        (Running (s\<lparr>router := put_chan (ReceiveChan rc)
                       (ch_push (d_msg d) (chans (router s) ! ReceiveChan rc)) (router s),
                    inflight := ds @ d\<lparr>d_todo := rcs, d_checked := False\<rparr> # es\<rparr>))"
| send_panic: "inflight s = ds @ d # es \<Longrightarrow> d_todo d = rc # rcs \<Longrightarrow> d_checked d \<Longrightarrow>
      ch_closed (chans (router s) ! ReceiveChan rc) \<Longrightarrow>
      rstep zerocid (Running s) Panicked"
| dispatch_end: "inflight s = ds @ d # es \<Longrightarrow> d_todo d = [] \<Longrightarrow>
      rstep zerocid (Running s) (Running (s\<lparr>inflight := ds @ es\<rparr>))"
| receive: "ref < length (chans (router s)) \<Longrightarrow> ch_buf (chans (router s) ! ref) \<noteq> [] \<Longrightarrow>
      rstep zerocid (Running s)
        (Running (s\<lparr>router := put_chan ref (ch_pop (chans (router s) ! ref)) (router s)\<rparr>))"

definition init_rsys :: "'w \<Rightarrow> ('r, 't, 'w) rsys" where
  "init_rsys w = \<lparr>router = NewRouter, binding = w, doneCtxs = {}, inflight = []\<rparr>"

inductive reachable_router :: "'t \<Rightarrow> 'w \<Rightarrow> ('r, 't, 'w) rstate \<Rightarrow> bool" for zerocid :: 't and w0 :: 'w where
  init: "reachable_router zerocid w0 (Running (init_rsys w0))"
| step: "reachable_router zerocid w0 s \<Longrightarrow> rstep zerocid s t \<Longrightarrow> reachable_router zerocid w0 t"


subsection \<open>The removal loop removes exactly the given route channel\<close>

primrec remove_ref :: "nat \<Rightarrow> ('t, 'w) RouteChannel list \<Rightarrow> ('t, 'w) RouteChannel list" where
  "remove_ref ref [] = []"
| "remove_ref ref (rc # rcs) = (if ReceiveChan rc = ref then rcs else rc # remove_ref ref rcs)"

lemma shift_loop_found:
  assumes "l = length rcs" "0 < i" "i \<le> l"
  shows "\<exists>rcs'. shift_loop l i ref True rcs = (True, rcs') \<and> length rcs' = l \<and>
    take (l - 1) rcs' = take (i - 1) rcs @ drop i rcs"
  using assms
proof (induction "l - i" arbitrary: i rcs)
  case 0
  then show ?case by (simp add: shift_loop.simps)
next
  case (Suc n)
  let ?rcs = "rcs[i - 1 := rcs ! i]"
  from Suc.hyps(2) have "i < l" by simp
  have "n = l - (i + 1)" using Suc.hyps(2) by simp
  from Suc.hyps(1) [OF this, of ?rcs] Suc.prems \<open>i < l\<close>
  obtain rcs' where rcs': "shift_loop l (i + 1) ref True ?rcs = (True, rcs')" "length rcs' = l"
    "take (l - 1) rcs' = take i ?rcs @ drop (i + 1) ?rcs" by auto
  have "take i ?rcs = take (i - 1) rcs @ [rcs ! i]"
    using Suc.prems \<open>i < l\<close> by (cases i) (auto simp: take_Suc_conv_app_nth)
  moreover have "drop (i + 1) ?rcs = drop (i + 1) rcs" using Suc.prems by simp
  moreover have "rcs ! i # drop (i + 1) rcs = drop i rcs"
    using Suc.prems \<open>i < l\<close> by (simp add: Cons_nth_drop_Suc)
  ultimately show ?case using rcs' \<open>i < l\<close> by (simp add: shift_loop.simps [of l i])
qed

lemma shift_loop_search:
  assumes "l = length rcs" "i \<le> l" "\<forall>rc\<in>set (take i rcs). ReceiveChan rc \<noteq> ref"
  shows "\<exists>rcs'. shift_loop l i ref False rcs = (ref \<in> ReceiveChan ` set rcs, rcs') \<and>
    (ref \<in> ReceiveChan ` set rcs \<longrightarrow> take (l - 1) rcs' = remove_ref ref rcs)"
  using assms
proof (induction "l - i" arbitrary: i)
  case 0
  then show ?case by (auto simp: shift_loop.simps)
next
  case (Suc n)
  then have "i < l" by simp
  have n: "n = l - (i + 1)" using Suc.hyps(2) by simp
  have split: "rcs = take i rcs @ rcs ! i # drop (i + 1) rcs"
    using \<open>i < l\<close> Suc.prems(1) by (simp add: id_take_nth_drop)
  have rem: "ReceiveChan (rcs ! i) = ref \<Longrightarrow> remove_ref ref rcs = take i rcs @ drop (i + 1) rcs"
  proof -
    have app: "\<forall>rc\<in>set xs. ReceiveChan rc \<noteq> ref \<Longrightarrow> remove_ref ref (xs @ ys) = xs @ remove_ref ref ys" for xs ys
      by (induction xs) auto
    assume "ReceiveChan (rcs ! i) = ref"
    then show ?thesis using app [of "take i rcs" "rcs ! i # drop (i + 1) rcs"] Suc.prems(3) split by simp
  qed
  show ?case
  proof (cases "ReceiveChan (rcs ! i) = ref")
    case True
    then have "ref \<in> ReceiveChan ` set rcs" using \<open>i < l\<close> Suc.prems(1) by auto
    with True rem \<open>i < l\<close> shift_loop_found [OF Suc.prems(1), of "i + 1" ref] show ?thesis
      by (auto simp: shift_loop.simps [of l i])
  next
    case False
    then have "\<forall>rc\<in>set (take (i + 1) rcs). ReceiveChan rc \<noteq> ref"
      using Suc.prems \<open>i < l\<close> by (auto simp: take_Suc_conv_app_nth)
    with Suc.hyps(1) [OF n] Suc.prems(1) \<open>i < l\<close> False show ?thesis
      by (simp add: shift_loop.simps [of "length rcs" i])
  qed
qed

lemma shift_loop_remove:
  "\<exists>rcs'. shift_loop (length rcs) 0 ref False rcs = (ref \<in> ReceiveChan ` set rcs, rcs') \<and>
    (ref \<in> ReceiveChan ` set rcs \<longrightarrow> take (length rcs - 1) rcs' = remove_ref ref rcs)"
  by (rule shift_loop_search) auto

lemma remove_ref_notin: "ref \<notin> ReceiveChan ` set rcs \<Longrightarrow> remove_ref ref rcs = rcs"
  by (induction rcs) auto

lemma remove_ref_subset: "set (remove_ref ref rcs) \<subseteq> set rcs"
  by (induction rcs) auto

lemma remove_ref_set:
  "distinct (map ReceiveChan rcs) \<Longrightarrow> set (remove_ref ref rcs) = {rc \<in> set rcs. ReceiveChan rc \<noteq> ref}"
  by (induction rcs) (auto simp: image_iff)

lemma distinct_remove_ref: "distinct (map ReceiveChan rcs) \<Longrightarrow> distinct (map ReceiveChan (remove_ref ref rcs))"
  by (induction rcs) (use remove_ref_subset in fastforce)+

text \<open>
  \<open>remove\<close> without its loop: the optimised in-place shift is the removal of one list element.
\<close>

lemma remove_eq:
  "remove r w flt rc =
     (case map_of (routes r) (Topic flt) of
        None \<Rightarrow> (Some r, w)
      | Some rcs \<Rightarrow>
          if ReceiveChan rc \<notin> ReceiveChan ` set rcs then (Some r, w)
          else if length rcs = 1 then
            (case unsub rc w of
               (Some err, w1) \<Rightarrow>
                 (close_rc (ReceiveChan rc) (r\<lparr>routes := AList.update (Topic flt) [] (routes r)\<rparr>), w1)
             | (None, w1) \<Rightarrow>
                 (close_rc (ReceiveChan rc) (r\<lparr>routes := AList.delete (Topic flt) (routes r)\<rparr>), w1))
          else (close_rc (ReceiveChan rc)
                  (r\<lparr>routes := AList.update (Topic flt) (remove_ref (ReceiveChan rc) rcs) (routes r)\<rparr>), w))"
proof (cases "map_of (routes r) (Topic flt)")
  case None
  then show ?thesis by (simp add: remove_def)
next
  case (Some rcs)
  obtain rcs' where "shift_loop (length rcs) 0 (ReceiveChan rc) False rcs = (ReceiveChan rc \<in> ReceiveChan ` set rcs, rcs')"
    "ReceiveChan rc \<in> ReceiveChan ` set rcs \<longrightarrow> take (length rcs - 1) rcs' = remove_ref (ReceiveChan rc) rcs"
    using shift_loop_remove by blast
  with Some show ?thesis by (simp add: remove_def Let_def)
qed

lemma dispatch_targets_eq:
  "dispatch_targets zerocid r flt =
     (case map_of (routes r) (Topic flt) of
        None \<Rightarrow> []
      | Some rcs \<Rightarrow> filter (\<lambda>rc. correlationId rc = CorrelationId flt) rcs)"
  by (auto simp: dispatch_targets_def Let_def intro!: filter_cong split: option.splits)


subsection \<open>Invariant: registered channels are open, and each has one pending removal\<close>

definition routed :: "('r, 't, 'w) Router \<Rightarrow> ('t \<times> ('t, 'w) RouteChannel) set" where
  "routed r = {(t, rc). \<exists>rcs. map_of (routes r) t = Some rcs \<and> rc \<in> set rcs}"

definition pending :: "('r, 't, 'w) Router \<Rightarrow> ('t \<times> ('t, 'w) RouteChannel) list" where
  "pending r = map (\<lambda>(flt, rc). (Topic flt, rc)) (afterFuncs r)"

definition open_refs :: "('r, 't, 'w) Router \<Rightarrow> bool" where
  "open_refs r \<longleftrightarrow> (\<forall>(t, rc) \<in> routed r.
     ReceiveChan rc < length (chans r) \<and> \<not> ch_closed (chans r ! ReceiveChan rc))"

definition unique_refs :: "('r, 't, 'w) Router \<Rightarrow> bool" where
  "unique_refs r \<longleftrightarrow> inj_on (ReceiveChan \<circ> snd) (routed r) \<and>
     (\<forall>t rcs. map_of (routes r) t = Some rcs \<longrightarrow> distinct (map ReceiveChan rcs))"

definition router_inv :: "('r, 't, 'w) Router \<Rightarrow> bool" where
  "router_inv r \<longleftrightarrow> gm_ok (routes r) \<and> open_refs r \<and> unique_refs r \<and>
     set (pending r) = routed r \<and> distinct (pending r)"

lemma routed_update:
  "routed (r\<lparr>routes := AList.update t rcs (routes r)\<rparr>) =
     {x \<in> routed r. fst x \<noteq> t} \<union> {t} \<times> set rcs"
  by (auto simp: routed_def split: if_splits)

lemma routed_delete:
  "routed (r\<lparr>routes := AList.delete t (routes r)\<rparr>) = {x \<in> routed r. fst x \<noteq> t}"
  by (auto simp: routed_def split: if_splits)

lemma routed_cong [simp]:
  "routed (r\<lparr>chans := cs\<rparr>) = routed r" "routed (r\<lparr>afterFuncs := fs\<rparr>) = routed r"
  by (simp_all add: routed_def)

lemma routed_here: "map_of (routes r) t = Some rcs \<Longrightarrow> {x \<in> routed r. fst x = t} = {t} \<times> set rcs"
  by (auto simp: routed_def)

lemma routed_put_chan [simp]: "routed (put_chan ref c r) = routed r"
  by (simp add: put_chan_def)

text \<open>What a successful registration does to the registered channels.\<close>

lemma routed_register:
  assumes "map_of (routes r) (Topic flt) = Some rcs \<or> map_of (routes r) (Topic flt) = None \<and> rcs = []"
  shows "routed (register_rc flt rcs rc r) = insert (Topic flt, rc) (routed r)"
proof -
  have "{x \<in> routed r. fst x = Topic flt} = {Topic flt} \<times> set rcs"
    using assms by (auto simp: routed_def)
  then have "{x \<in> routed r. fst x \<noteq> Topic flt} \<union> {Topic flt} \<times> set (rcs @ [rc]) =
      insert (Topic flt, rc) (routed r)"
    by auto
  moreover have "routed (register_rc flt rcs rc r) =
      routed (r\<lparr>routes := AList.update (Topic flt) (rcs @ [rc]) (routes r)\<rparr>)"
    by (simp add: register_rc_def routed_def)
  ultimately show ?thesis by (simp only: routed_update)
qed

lemma pending_register: "pending (register_rc flt rcs rc r) = pending r @ [(Topic flt, rc)]"
  by (simp add: register_rc_def pending_def)

lemma open_refs_alloc: "open_refs r \<Longrightarrow> open_refs (r\<lparr>chans := chans r @ [c]\<rparr>)"
  by (fastforce simp: open_refs_def nth_append)

lemma router_inv_alloc: "router_inv r \<Longrightarrow> router_inv (r\<lparr>chans := chans r @ [c]\<rparr>)"
  by (simp add: router_inv_def open_refs_alloc) (simp add: unique_refs_def pending_def)

lemma router_inv_register:
  assumes inv: "router_inv r" and "\<not> ch_closed c" and rc: "ReceiveChan rc = length (chans r)"
    and rcs: "map_of (routes r) (Topic flt) = Some rcs \<or> map_of (routes r) (Topic flt) = None \<and> rcs = []"
  shows "router_inv (register_rc flt rcs rc (r\<lparr>chans := chans r @ [c]\<rparr>))" (is "router_inv ?r'")
proof -
  let ?r1 = "r\<lparr>chans := chans r @ [c]\<rparr>"
  have routed: "routed ?r' = insert (Topic flt, rc) (routed r)"
    using routed_register [of ?r1 flt rcs rc] rcs by simp
  have lt: "ReceiveChan rd < length (chans r)" if "(t, rd) \<in> routed r" for t rd
    using inv that by (auto simp: router_inv_def open_refs_def)
  have fresh: "(t, rd) \<in> routed r \<Longrightarrow> ReceiveChan rd \<noteq> ReceiveChan rc" for t rd
    using lt rc by fastforce
  have "chans ?r' = chans r @ [c]" by (simp add: register_rc_def)
  then have "open_refs ?r'"
    using inv assms(2) rc routed lt by (auto simp: open_refs_def router_inv_def nth_append)
  moreover have "inj_on (ReceiveChan \<circ> snd) (routed ?r')"
    using inv by (auto simp: routed router_inv_def unique_refs_def dest: fresh fresh [symmetric])
  moreover have "distinct (map ReceiveChan xs)" if "map_of (routes ?r') t = Some xs" for t xs
  proof (cases "t = Topic flt")
    case True
    have "rd \<in> set rcs \<Longrightarrow> (Topic flt, rd) \<in> routed r" for rd
      using rcs by (auto simp: routed_def)
    then have "ReceiveChan rc \<notin> ReceiveChan ` set rcs" using fresh by fastforce
    moreover have "distinct (map ReceiveChan rcs)"
      using rcs inv by (auto simp: router_inv_def unique_refs_def)
    ultimately show ?thesis using that True by (auto simp: register_rc_def)
  next
    case False
    then show ?thesis using that inv by (simp add: register_rc_def router_inv_def unique_refs_def)
  qed
  moreover have "(Topic flt, rc) \<notin> set (pending r)"
    using inv fresh by (auto simp: router_inv_def)
  moreover have "pending ?r' = pending r @ [(Topic flt, rc)]"
    by (simp add: pending_register) (simp add: pending_def)
  moreover have "gm_ok (routes ?r')"
    using inv by (simp add: register_rc_def router_inv_def gm_ok_update)
  ultimately show ?thesis
    using inv routed by (auto simp: router_inv_def unique_refs_def)
qed

lemma router_inv_Add:
  assumes "router_inv r" "Add r w ctx flt subscribe publish unsubscribe bufferSize = (res, r', w')"
  shows "router_inv r'"
proof -
  have reg: "router_inv (register_rc flt rcs rc (r\<lparr>chans := chans r @ [make_chan n]\<rparr>))"
    if "map_of (routes r) (Topic flt) = Some rcs \<or> map_of (routes r) (Topic flt) = None \<and> rcs = []"
      "ReceiveChan rc = length (chans r)" for rcs n rc
    by (rule router_inv_register [OF assms(1) _ that(2,1)]) simp
  show ?thesis
    using assms(2) router_inv_alloc [OF assms(1)]
    by (auto simp: Add_def Let_def split: option.splits prod.splits intro!: reg)
qed


lemma remove_routed:
  assumes inv: "router_inv r" and rc: "(Topic flt, rc) \<in> routed r"
    and rem: "remove (r\<lparr>afterFuncs := fs\<rparr>) w flt rc = (res, w')"
  shows "\<exists>rts. res = Some (r\<lparr>routes := rts, afterFuncs := fs,
             chans := (chans r)[ReceiveChan rc := ch_close (chans r ! ReceiveChan rc)]\<rparr>) \<and>
           routed (r\<lparr>routes := rts\<rparr>) = routed r - {(Topic flt, rc)} \<and> gm_ok rts \<and>
           (\<forall>t rcs. map_of rts t = Some rcs \<longrightarrow> distinct (map ReceiveChan rcs))"
proof -
  let ?t = "Topic flt" and ?ref = "ReceiveChan rc"
  from rc obtain rcs where rcs: "map_of (routes r) ?t = Some rcs" "rc \<in> set rcs"
    by (auto simp: routed_def)
  have close: "close_rc ?ref (r\<lparr>afterFuncs := fs, routes := rts\<rparr>) =
      Some (r\<lparr>routes := rts, afterFuncs := fs, chans := (chans r)[?ref := ch_close (chans r ! ?ref)]\<rparr>)" for rts
    using inv rc by (auto simp: close_rc_def router_inv_def open_refs_def)
  have dist: "distinct (map ReceiveChan rcs)" and ok: "gm_ok (routes r)"
    and others: "map_of (routes r) t = Some xs \<Longrightarrow> distinct (map ReceiveChan xs)" for t xs
    using inv rcs by (auto simp: router_inv_def unique_refs_def)
  have only: "{x \<in> routed r. fst x \<noteq> ?t} \<union> {?t} \<times> set (remove_ref ?ref rcs) = routed r - {(?t, rc)}"
  proof -
    have "{rd \<in> set rcs. ReceiveChan rd \<noteq> ?ref} = set rcs - {rc}"
      using dist rcs(2) by (auto simp: distinct_map inj_on_def)
    then have set_eq: "set (remove_ref ?ref rcs) = set rcs - {rc}"
      by (simp only: remove_ref_set [OF dist])
    have "routed r = {x \<in> routed r. fst x \<noteq> ?t} \<union> {?t} \<times> set rcs"
      using routed_here [OF rcs(1)] by blast
    then show ?thesis unfolding set_eq by auto
  qed
  define fin where "fin rts \<longleftrightarrow> res = Some (r\<lparr>routes := rts, afterFuncs := fs,
       chans := (chans r)[?ref := ch_close (chans r ! ?ref)]\<rparr>)" for rts
  have "fin (AList.update ?t (remove_ref ?ref rcs) (routes r)) \<or>
        remove_ref ?ref rcs = [] \<and> fin (AList.delete ?t (routes r))"
  proof (cases "length rcs = 1")
    case True
    with rcs have "rcs = [rc]" by (cases rcs) auto
    with rem rcs close show ?thesis
      by (auto simp: remove_eq fin_def split: prod.splits option.splits)
  next
    case False
    with rem rcs close show ?thesis by (auto simp: remove_eq fin_def)
  qed
  moreover have "\<forall>t xs. map_of (AList.update ?t (remove_ref ?ref rcs) (routes r)) t = Some xs \<longrightarrow>
      distinct (map ReceiveChan xs)"
    using others distinct_remove_ref [OF dist] by auto
  moreover have "\<forall>t xs. map_of (AList.delete ?t (routes r)) t = Some xs \<longrightarrow> distinct (map ReceiveChan xs)"
    using others by auto
  ultimately show ?thesis
    using routed_update [of ?t "remove_ref ?ref rcs" r] routed_delete [of ?t r] only ok
    unfolding fin_def by (auto simp: gm_ok_update gm_ok_delete)
qed

lemma router_inv_remove:
  assumes inv: "router_inv r" and af: "afterFuncs r = fs @ (flt, rc) # gs"
    and rem: "remove (r\<lparr>afterFuncs := fs @ gs\<rparr>) w flt rc = (res, w')"
  shows "\<exists>r'. res = Some r' \<and> router_inv r' \<and> routed r' = routed r - {(Topic flt, rc)} \<and>
    ch_closed (chans r' ! ReceiveChan rc)"
proof -
  let ?ref = "ReceiveChan rc"
  define P Q where PQ: "P = map (\<lambda>(f, c). (Topic f, c)) fs" "Q = map (\<lambda>(f, c). (Topic f, c)) gs"
  have pend: "set (pending r) = routed r" "distinct (pending r)"
    and pr: "pending r = P @ (Topic flt, rc) # Q"
    using inv af by (auto simp: router_inv_def pending_def PQ)
  then have rc: "(Topic flt, rc) \<in> routed r" by (metis in_set_conv_decomp)
  from remove_routed [OF inv rc rem] obtain rts where
    res: "res = Some (r\<lparr>routes := rts, afterFuncs := fs @ gs,
             chans := (chans r)[?ref := ch_close (chans r ! ?ref)]\<rparr>)"
    and rts: "routed (r\<lparr>routes := rts\<rparr>) = routed r - {(Topic flt, rc)}" "gm_ok rts"
      "\<forall>t rcs. map_of rts t = Some rcs \<longrightarrow> distinct (map ReceiveChan rcs)"
    by blast
  let ?r' = "r\<lparr>routes := rts, afterFuncs := fs @ gs, chans := (chans r)[?ref := ch_close (chans r ! ?ref)]\<rparr>"
  have routed: "routed ?r' = routed r - {(Topic flt, rc)}"
    using rts(1) by (simp add: routed_def)
  have inj: "inj_on (ReceiveChan \<circ> snd) (routed r)" and opn: "open_refs r"
    using inv by (auto simp: router_inv_def unique_refs_def)
  have "open_refs ?r'"
  proof -
    have "ReceiveChan rd < length (chans r) \<and> \<not> ch_closed ((chans r)[?ref := c] ! ReceiveChan rd)"
      if "(t, rd) \<in> routed r - {(Topic flt, rc)}" for t rd c
    proof -
      have "ReceiveChan rd \<noteq> ?ref"
        using inj_onD [OF inj, of "(t, rd)" "(Topic flt, rc)"] that rc by auto
      then have "(chans r)[?ref := c] ! ReceiveChan rd = chans r ! ReceiveChan rd" by simp
      then show ?thesis using opn that by (auto simp: open_refs_def)
    qed
    then show ?thesis unfolding open_refs_def routed by auto
  qed
  moreover have "unique_refs ?r'"
    unfolding unique_refs_def routed using inj rts(3) by (auto intro: inj_on_subset)
  moreover have "pending ?r' = P @ Q" by (simp add: pending_def PQ)
  then have "set (pending ?r') = routed ?r'" "distinct (pending ?r')"
    using pend(2) unfolding routed pend(1) [symmetric] pr by auto
  moreover have "ch_closed (chans ?r' ! ?ref)"
    using opn rc by (auto simp: open_refs_def)
  ultimately show ?thesis using rts(2) res routed by (simp add: router_inv_def)
qed


subsection \<open>The invariant holds in every reachable state\<close>

definition rsys_inv :: "('r, 't, 'w) rsys \<Rightarrow> bool" where
  "rsys_inv s \<longleftrightarrow> router_inv (router s) \<and>
     (\<forall>d \<in> set (inflight s). set (d_todo d) \<subseteq> snd ` routed (router s))"

fun state_inv :: "('r, 't, 'w) rstate \<Rightarrow> bool" where
  "state_inv (Running s) = rsys_inv s"
| "state_inv Panicked = False"

lemma rsys_inv_init: "rsys_inv (init_rsys w)"
  by (simp add: rsys_inv_def init_rsys_def NewRouter_def router_inv_def open_refs_def unique_refs_def
      routed_def pending_def)

lemma targets_routed: "set (dispatch_targets z r flt) \<subseteq> snd ` routed r"
  by (force simp: dispatch_targets_eq routed_def split: option.splits)

lemma router_inv_put_chan:
  assumes "router_inv r" "ch_closed c = ch_closed (chans r ! ref)"
  shows "router_inv (put_chan ref c r)"
proof -
  have "ch_closed ((chans r)[ref := c] ! i) = ch_closed (chans r ! i)" for i
    using assms(2) by (cases "ref < length (chans r)"; cases "i = ref") (auto simp: list_update_beyond)
  then have "open_refs (put_chan ref c r) = open_refs r"
    unfolding open_refs_def routed_put_chan by (simp add: put_chan_def)
  moreover have "pending (put_chan ref c r) = pending r" "routes (put_chan ref c r) = routes r"
    by (simp_all add: pending_def put_chan_def)
  ultimately show ?thesis
    using assms(1) by (simp add: router_inv_def unique_refs_def)
qed

lemma todo_open:
  assumes "rsys_inv s" "d \<in> set (inflight s)" "d_todo d = rc # rcs"
  shows "\<not> ch_closed (chans (router s) ! ReceiveChan rc)"
  using assms by (fastforce simp: rsys_inv_def router_inv_def open_refs_def)

lemma rstep_inv: "rstep z s t \<Longrightarrow> state_inv s \<Longrightarrow> state_inv t"
proof (induction rule: rstep.induct)
  case (add s ctx flt sub pub unsub size res r' w')
  then show ?case using router_inv_Add [of "router s"] by (auto simp: rsys_inv_def)
next
  case (after_func s fs flt rc gs r' w')
  then show ?case using router_inv_remove [of "router s" fs flt rc gs] by (auto simp: rsys_inv_def)
next
  case (after_func_panic s fs flt rc gs w')
  then show ?case using router_inv_remove [of "router s" fs flt rc gs] by (auto simp: rsys_inv_def)
next
  case (dispatch_start s msg flt)
  then show ?case using targets_routed [of z "router s" flt] by (auto simp: rsys_inv_def)
next
  case (send s ds d es rc rcs)
  then show ?case
    using router_inv_put_chan [of "router s"] by (auto simp: rsys_inv_def)
next
  case (send_panic s ds d es rc rcs)
  then show ?case using todo_open [of s d rc rcs] by auto
next
  case (receive ref s)
  then show ?case using router_inv_put_chan [of "router s"] by (auto simp: rsys_inv_def)
qed (auto simp: rsys_inv_def)

lemma reachable_inv: "reachable_router z w0 s \<Longrightarrow> state_inv s"
  by (induction rule: reachable_router.induct) (auto simp: rsys_inv_init intro: rstep_inv)

lemma state_inv_Running: "state_inv s \<Longrightarrow> \<exists>rs. s = Running rs \<and> rsys_inv rs"
  by (cases s) auto

subsection \<open>Topics\<close>

lemma GetTopics_update:
  "set (GetTopics (r\<lparr>routes := AList.update t rcs (routes r)\<rparr>)) = insert t (set (GetTopics r))"
  using gm_keys_update [of t rcs "routes r"] by (simp add: GetTopics_def)

lemma GetTopics_delete:
  "set (GetTopics (r\<lparr>routes := AList.delete t (routes r)\<rparr>)) = set (GetTopics r) - {t}"
  using gm_keys_delete [of t "routes r"] by (simp add: GetTopics_def)

lemma GetTopics_cong [simp]:
  "GetTopics (r\<lparr>chans := cs\<rparr>) = GetTopics r" "GetTopics (r\<lparr>afterFuncs := fs\<rparr>) = GetTopics r"
  by (simp_all add: GetTopics_def)

lemma GetTopics_iff: "t \<in> set (GetTopics r) \<longleftrightarrow> map_of (routes r) t \<noteq> None"
  by (simp add: GetTopics_def map_of_eq_None_iff)

text \<open>What \<open>remove\<close> of a registered channel does to the topics and to the binding.\<close>

lemma remove_topics:
  assumes "(Topic flt, rc) \<in> routed r" "remove r w flt rc = (Some r', w')"
  shows "set (GetTopics r') = set (GetTopics r) \<and> (w' = w \<or> (\<exists>e. unsub rc w = (Some e, w'))) \<or>
    set (GetTopics r') = set (GetTopics r) - {Topic flt} \<and> unsub rc w = (None, w')"
proof -
  from assms(1) obtain rcs where rcs: "map_of (routes r) (Topic flt) = Some rcs" "rc \<in> set rcs"
    by (auto simp: routed_def)
  then have t: "Topic flt \<in> set (GetTopics r)" by (simp add: GetTopics_iff)
  have close: "set (GetTopics r1) = set (GetTopics r2)" if "close_rc ref r2 = Some r1" for ref r1 r2
    using that by (auto simp: close_rc_def split: if_splits)
  show ?thesis
  proof (cases "length rcs = 1")
    case True
    obtain e w1 where u: "unsub rc w = (e, w1)" by fastforce
    show ?thesis
    proof (cases e)
      case None
      with True rcs u assms(2) have "close_rc (ReceiveChan rc) (r\<lparr>routes := AList.delete (Topic flt) (routes r)\<rparr>) = Some r'" "w' = w1"
        by (auto simp: remove_eq)
      with close [OF this(1)] None u show ?thesis by (simp add: GetTopics_delete)
    next
      case (Some err)
      with True rcs u assms(2) have "close_rc (ReceiveChan rc) (r\<lparr>routes := AList.update (Topic flt) [] (routes r)\<rparr>) = Some r'" "w' = w1"
        by (auto simp: remove_eq)
      with close [OF this(1)] Some u t show ?thesis by (auto simp: GetTopics_update)
    qed
  next
    case False
    with rcs assms(2) have "close_rc (ReceiveChan rc)
        (r\<lparr>routes := AList.update (Topic flt) (remove_ref (ReceiveChan rc) rcs) (routes r)\<rparr>) = Some r'" "w' = w"
      by (auto simp: remove_eq)
    with close [OF this(1)] t show ?thesis by (auto simp: GetTopics_update)
  qed
qed

end
