(* ===== verification/Router_Props.thy ===== *)
theory Router_Props
  imports Router
begin

section \<open>What the router promises its users\<close>

text \<open>
  The contract between a router and the communication binding that owns it (locale
  \<open>topic_binding\<close>): what subscribing and unsubscribing do to the topics the binding is subscribed
  to. Under it, every routed topic stays subscribed. Then the delivery of a dispatched message,
  and the properties of the component.
\<close>

subsection \<open>Routed topics are subscribed\<close>

locale topic_binding =
  fixes subscribed :: "'w \<Rightarrow> 't set"
    and subscribe :: "'t \<Rightarrow> 'w ComBindingFunc"
    and unsubscribe :: "'t \<Rightarrow> 'w ComBindingFunc"
    and publish :: "'p \<Rightarrow> 'w ComBindingFunc"
  assumes subscribe_ok: "subscribe t w = (None, w') \<Longrightarrow> subscribed w' = insert t (subscribed w)"
    and subscribe_err: "subscribe t w = (Some e, w') \<Longrightarrow> subscribed w \<subseteq> subscribed w'"
    and unsubscribe_ok: "unsubscribe t w = (None, w') \<Longrightarrow> subscribed w' = subscribed w - {t}"
    and unsubscribe_err: "unsubscribe t w = (Some e, w') \<Longrightarrow> subscribed w' = subscribed w"
    and publish_keeps: "publish p w = (err, w') \<Longrightarrow> subscribed w' = subscribed w"
begin

text \<open>The topics with a route, and the channels whose unsubscribe function is the binding's own.\<close>

definition coherent :: "('r, 't, 'w) Router \<Rightarrow> 'w \<Rightarrow> bool" where
  "coherent r w \<longleftrightarrow> set (GetTopics r) \<subseteq> subscribed w \<and>
     (\<forall>(t, rc) \<in> routed r. unsub rc = unsubscribe t)"

lemma coherent_NewRouter: "coherent NewRouter w"
  by (simp add: coherent_def NewRouter_def GetTopics_def routed_def)

lemma routed_registered:
  assumes "map_of (routes r) (Topic flt) = Some rcs \<or> map_of (routes r) (Topic flt) = None \<and> rcs = []"
  shows "coherent (register_rc flt rcs rc (r\<lparr>chans := cs\<rparr>)) w \<longleftrightarrow>
    Topic flt \<in> subscribed w \<and> unsub rc = unsubscribe (Topic flt) \<and> coherent r w"
proof -
  have "routed (register_rc flt rcs rc (r\<lparr>chans := cs\<rparr>)) = insert (Topic flt, rc) (routed r)"
    using routed_register [of "r\<lparr>chans := cs\<rparr>" flt rcs rc] assms by simp
  moreover have "set (GetTopics (register_rc flt rcs rc (r\<lparr>chans := cs\<rparr>))) = insert (Topic flt) (set (GetTopics r))"
    using GetTopics_update [of "Topic flt" "rcs @ [rc]" "r\<lparr>chans := cs\<rparr>"] by (simp add: register_rc_def)
  ultimately show ?thesis by (auto simp: coherent_def)
qed

lemma coherent_mono: "coherent r w \<Longrightarrow> subscribed w \<subseteq> subscribed w' \<Longrightarrow> coherent r w'"
  by (auto simp: coherent_def)

lemma coherent_alloc [simp]: "coherent (r\<lparr>chans := cs\<rparr>) w = coherent r w"
  by (simp add: coherent_def)

lemma coherent_Add:
  assumes "coherent r w"
    and "Add r w ctx flt (subscribe (Topic flt)) (publish p) (unsubscribe (Topic flt)) bufferSize = (res, r', w')"
  shows "coherent r' w'"
proof (cases "map_of (routes r) (Topic flt)")
  case (Some rcs)
  then have "Topic flt \<in> set (GetTopics r)" by (simp add: GetTopics_iff)
  moreover obtain e w1 where p: "publish p w = (e, w1)" by fastforce
  moreover have "subscribed w1 = subscribed w" using p by (rule publish_keeps)
  ultimately have "Topic flt \<in> subscribed w1" "coherent r w1"
    using assms(1) by (auto simp: coherent_def)
  with Some p assms(2) show ?thesis
    by (cases e) (auto simp: Add_def Let_def routed_registered)
next
  case None
  obtain e1 w1 where s: "subscribe (Topic flt) w = (e1, w1)" by fastforce
  obtain e2 w2 where p: "publish p w1 = (e2, w2)" by fastforce
  obtain e3 w3 where u: "unsubscribe (Topic flt) w2 = (e3, w3)" by fastforce
  have sub: "subscribed w \<subseteq> subscribed w1" "e1 = None \<Longrightarrow> subscribed w1 = insert (Topic flt) (subscribed w)"
    using s by (cases e1; auto dest: subscribe_ok subscribe_err)+
  have pub: "subscribed w2 = subscribed w1" using p by (rule publish_keeps)
  have un: "subscribed w3 \<supseteq> subscribed w2 - {Topic flt}"
    using u by (cases e3; auto dest: unsubscribe_ok unsubscribe_err)
  have "Topic flt \<notin> set (GetTopics r)"
    using None by (simp add: GetTopics_iff)
  with assms(1) sub(1) pub un have c1: "coherent r w1" and c2: "coherent r w2" and c3: "coherent r w3"
    by (auto simp: coherent_def)
  show ?thesis
    using assms(2) None s p u sub(2) pub c1 c2 c3
    by (cases e1; cases e2) (auto simp: Add_def Let_def routed_registered)
qed

lemma coherent_remove:
  assumes inv: "router_inv r" and coh: "coherent r w" and rc: "(Topic flt, rc) \<in> routed r"
    and rem: "remove (r\<lparr>afterFuncs := fs\<rparr>) w flt rc = (Some r', w')"
  shows "coherent r' w'"
proof -
  let ?t = "Topic flt"
  from remove_routed [OF inv rc rem] have "routed r' = routed r - {(?t, rc)}"
    by auto
  then have unsubs: "\<forall>(t, rd) \<in> routed r'. unsub rd = unsubscribe t"
    using coh by (auto simp: coherent_def)
  from coh rc have u: "unsub rc = unsubscribe ?t" by (auto simp: coherent_def)
  have "set (GetTopics r') \<subseteq> subscribed w'"
    using remove_topics [of flt rc "r\<lparr>afterFuncs := fs\<rparr>" w r' w'] rem rc coh u
      unsubscribe_ok [of ?t w w'] unsubscribe_err [of ?t w _ w']
    by (cases "fst (unsubscribe ?t w)") (fastforce simp: coherent_def)+
  with unsubs show ?thesis by (simp add: coherent_def)
qed

end

subsection \<open>A successful registration\<close>

lemma set_dispatch_targets:
  "set (dispatch_targets z r flt) = {rc. (Topic flt, rc) \<in> routed r \<and> correlationId rc = CorrelationId flt}"
  by (cases "map_of (routes r) (Topic flt)") (auto simp: dispatch_targets_eq routed_def)

lemma Add_success:
  assumes "Add r w ctx flt s p u n = (Inr rc, r', w')"
  shows "rc = \<lparr>ReceiveChan = length (chans r), CtxDone = ctx, correlationId = CorrelationId flt, unsub = u\<rparr>"
    and "routed r' = insert (Topic flt, rc) (routed r)"
    and "dispatch_targets z r' flt = dispatch_targets z r flt @ [rc]"
    and "\<exists>w1. p w1 = (None, w') \<and> (w1 = w \<or> s w = (None, w1))"
proof -
  have reg: "routed (register_rc flt rcs rc (r\<lparr>chans := cs\<rparr>)) = insert (Topic flt, rc) (routed r) \<and>
      dispatch_targets z (register_rc flt rcs rc (r\<lparr>chans := cs\<rparr>)) flt =
        dispatch_targets z r flt @ (if correlationId rc = CorrelationId flt then [rc] else [])"
    if "map_of (routes r) (Topic flt) = Some rcs \<or> map_of (routes r) (Topic flt) = None \<and> rcs = []" for rcs cs
    using that routed_register [of "r\<lparr>chans := cs\<rparr>" flt rcs rc]
    by (auto simp: dispatch_targets_eq register_rc_def)
  show "rc = \<lparr>ReceiveChan = length (chans r), CtxDone = ctx, correlationId = CorrelationId flt, unsub = u\<rparr>"
    "routed r' = insert (Topic flt, rc) (routed r)"
    "dispatch_targets z r' flt = dispatch_targets z r flt @ [rc]"
    "\<exists>w1. p w1 = (None, w') \<and> (w1 = w \<or> s w = (None, w1))"
    using assms reg by (auto simp: Add_def Let_def split: option.splits prod.splits)
qed

text \<open>A new route channel is not yet routed: its receive channel has just been allocated.\<close>

lemma Add_fresh:
  assumes "router_inv r" "Add r w ctx flt s p u n = (Inr rc, r', w')"
  shows "(t, rc) \<notin> routed r"
  using assms(1) Add_success(1) [OF assms(2)] by (force simp: router_inv_def open_refs_def)

lemma Add_targeted:
  assumes "router_inv r" "Add r w ctx flt s p u n = (Inr rc, r', w')"
  shows "rc \<in> set (dispatch_targets z r' flt') \<longleftrightarrow> flt' = flt"
  using Add_success(1,2) [OF assms(2)] Add_fresh [OF assms]
  by (cases flt; cases flt') (auto simp: set_dispatch_targets)

subsection \<open>Delivery\<close>

text \<open>The effect of a dispatch that meets no full channel: the message at the end of every target's buffer.\<close>

definition deliver :: "'r \<Rightarrow> ('t, 'w) RouteChannel \<Rightarrow> ('r, 't, 'w) Router \<Rightarrow> ('r, 't, 'w) Router" where
  "deliver msg rc r = put_chan (ReceiveChan rc) (ch_push msg (chans r ! ReceiveChan rc)) r"

definition deliver_all :: "'r \<Rightarrow> ('t, 'w) RouteChannel list \<Rightarrow> ('r, 't, 'w) Router \<Rightarrow> ('r, 't, 'w) Router" where
  "deliver_all msg rcs r = fold (deliver msg) rcs r"

lemma deliver_all_simps [simp]:
  "deliver_all msg [] r = r"
  "deliver_all msg (rc # rcs) r = deliver_all msg rcs (deliver msg rc r)"
  by (simp_all add: deliver_all_def)

lemma deliver_chan:
  assumes "ReceiveChan rc < length (chans r)"
  shows "chans (deliver msg rc r) ! i =
    (if i = ReceiveChan rc then ch_push msg (chans r ! i) else chans r ! i)"
  using assms by (simp add: deliver_def put_chan_def)

lemma deliver_frame [simp]:
  "length (chans (deliver msg rc r)) = length (chans r)"
  "routes (deliver msg rc r) = routes r" "afterFuncs (deliver msg rc r) = afterFuncs r"
  by (simp_all add: deliver_def put_chan_def)

lemma deliver_all_frame [simp]:
  "length (chans (deliver_all msg rcs r)) = length (chans r)"
  "routes (deliver_all msg rcs r) = routes r" "afterFuncs (deliver_all msg rcs r) = afterFuncs r"
  by (induction rcs arbitrary: r) auto

lemma deliver_all_chan:
  assumes "distinct (map ReceiveChan rcs)" "\<forall>rc\<in>set rcs. ReceiveChan rc < length (chans r)"
  shows "chans (deliver_all msg rcs r) ! i =
    (if i \<in> ReceiveChan ` set rcs then ch_push msg (chans r ! i) else chans r ! i)"
  using assms
proof (induction rcs arbitrary: r)
  case Nil
  then show ?case by simp
next
  case (Cons rc rcs)
  then have "chans (deliver_all msg rcs (deliver msg rc r)) ! i =
      (if i \<in> ReceiveChan ` set rcs then ch_push msg (chans (deliver msg rc r) ! i)
       else chans (deliver msg rc r) ! i)"
    by simp
  with Cons.prems show ?case by (auto simp: deliver_chan)
qed

lemma dispatch_run:
  assumes "\<forall>rc\<in>set rcs. CtxDone rc \<notin> doneCtxs s \<and> ReceiveChan rc < length (chans (router s)) \<and>
      ch_ready (chans (router s) ! ReceiveChan rc) \<and> \<not> ch_closed (chans (router s) ! ReceiveChan rc)"
    and "distinct (map ReceiveChan rcs)"
    and "inflight s = [\<lparr>d_msg = msg, d_todo = rcs, d_checked = False\<rparr>]"
  shows "(rstep z)\<^sup>*\<^sup>* (Running s) (Running (s\<lparr>router := deliver_all msg rcs (router s), inflight := []\<rparr>))"
  using assms
proof (induction rcs arbitrary: s)
  case Nil
  then have "rstep z (Running s) (Running (s\<lparr>inflight := [] @ []\<rparr>))" by (intro dispatch_end) auto
  then show ?case by simp
next
  case (Cons rc rcs)
  let ?d = "\<lparr>d_msg = msg, d_todo = rc # rcs, d_checked = False\<rparr>"
  let ?s1 = "s\<lparr>inflight := [] @ ?d\<lparr>d_checked := True\<rparr> # []\<rparr>"
  let ?s2 = "?s1\<lparr>router := put_chan (ReceiveChan rc) (ch_push msg (chans (router s) ! ReceiveChan rc)) (router s),
    inflight := [] @ (?d\<lparr>d_checked := True\<rparr>)\<lparr>d_todo := rcs, d_checked := False\<rparr> # []\<rparr>"
  have "rstep z (Running s) (Running ?s1)" using Cons.prems by (intro poll_default) auto
  moreover have "rstep z (Running ?s1) (Running ?s2)"
    using send [of ?s1 "[]" "?d\<lparr>d_checked := True\<rparr>" "[]" rc rcs z] Cons.prems by simp
  moreover have "(rstep z)\<^sup>*\<^sup>* (Running ?s2) (Running (?s2\<lparr>router := deliver_all msg rcs (router ?s2), inflight := []\<rparr>))"
    by (rule Cons.IH) (use Cons.prems in \<open>auto simp: put_chan_def nth_list_update image_iff\<close>)
  ultimately show ?case by (simp add: deliver_def converse_rtranclp_into_rtranclp)
qed

subsection \<open>Properties\<close>

text \<open>
  C1: in every reachable state of a router, under any interleaving of subscriptions, dispatches,
  context cancellations and receivers, the program has not panicked (no send on a closed channel,
  no second close), every registered channel is allocated and open, no channel is registered
  twice, and each registration has exactly one pending removal.
\<close>

theorem router_never_panics:
  assumes "reachable_router zerocid w0 s"
  shows "\<exists>rs. s = Running rs \<and>
    (\<forall>t rc. (t, rc) \<in> routed (router rs) \<longrightarrow>
       ReceiveChan rc < length (chans (router rs)) \<and> \<not> ch_closed (chans (router rs) ! ReceiveChan rc)) \<and>
    inj_on (ReceiveChan \<circ> snd) (routed (router rs)) \<and>
    set (pending (router rs)) = routed (router rs) \<and> distinct (pending (router rs))"
proof -
  from reachable_inv [OF assms] obtain rs where "s = Running rs" "rsys_inv rs"
    using state_inv_Running by blast
  then show ?thesis
    by (auto simp: rsys_inv_def router_inv_def open_refs_def unique_refs_def)
qed

text \<open>A binding that never fails, and two states of an example run: one subscriber, then its context done.\<close>

definition ok_fun :: "'w ComBindingFunc" where
  "ok_fun w = (None, w)"

definition example_rc :: "nat \<Rightarrow> string \<Rightarrow> (string, unit) RouteChannel" where
  "example_rc n cid = \<lparr>ReceiveChan = n, CtxDone = n, correlationId = cid, unsub = ok_fun\<rparr>"

definition example_flt :: "string RouteFilter" where
  "example_flt = \<lparr>Topic = ''foo'', CorrelationId = ''''\<rparr>"

definition example_sys :: "nat set \<Rightarrow> (nat, string, unit) rsys" where
  "example_sys ctxs = \<lparr>router = \<lparr>routes = [(''foo'', [example_rc 0 ''''])], chans = [make_chan 1],
      afterFuncs = [(example_flt, example_rc 0 '''')]\<rparr>, binding = (), doneCtxs = ctxs, inflight = []\<rparr>"

lemma example_reachable: "reachable_router '''' () (Running (example_sys {}))"
proof -
  let ?s = "init_rsys () :: (nat, string, unit) rsys"
  have "Add (router ?s) (binding ?s) 0 example_flt ok_fun ok_fun ok_fun None =
      (Inr (example_rc 0 ''''), router (example_sys {}), ())"
    by (simp add: init_rsys_def Add_def NewRouter_def example_flt_def ok_fun_def example_sys_def
        register_rc_def receiveBufferSize_def example_rc_def Let_def)
  from add [OF _ this, of "''''"] have "rstep '''' (Running ?s) (Running (example_sys {}))"
    by (simp add: init_rsys_def example_sys_def)
  then show ?thesis by (rule reachable_router.step [OF reachable_router.init])
qed

lemma example_cancelled: "reachable_router '''' () (Running (example_sys {0}))"
proof -
  have "rstep '''' (Running (example_sys {})) (Running (example_sys {0}))"
    using cancel [of "''''" "example_sys {}" 0] by (simp add: example_sys_def)
  then show ?thesis by (rule reachable_router.step [OF example_reachable])
qed

theorem router_never_panics_witness:
  "\<exists>rs. Running (example_sys {0}) = Running rs \<and>
    (\<forall>t rc. (t, rc) \<in> routed (router rs) \<longrightarrow>
       ReceiveChan rc < length (chans (router rs)) \<and> \<not> ch_closed (chans (router rs) ! ReceiveChan rc)) \<and>
    inj_on (ReceiveChan \<circ> snd) (routed (router rs)) \<and>
    set (pending (router rs)) = routed (router rs) \<and> distinct (pending (router rs))"
  by (rule router_never_panics) (rule example_cancelled)

text \<open>
  The in-place shift loop of \<open>remove\<close> computes the removal of one element: it finds the route
  channel exactly if it is in the slice, and the slice shortened by one is then the old one
  without it, in the same order.
\<close>

theorem shift_loop_removes_channel:
  "\<exists>rcs'. shift_loop (length rcs) 0 ref False rcs = (ref \<in> ReceiveChan ` set rcs, rcs') \<and>
    take (length rcs - 1) (if ref \<in> ReceiveChan ` set rcs then rcs' else []) =
      (if ref \<in> ReceiveChan ` set rcs then remove_ref ref rcs else [])"
  using shift_loop_remove [of rcs ref] by auto



text \<open>
  A subscription whose context is done can be removed as soon as no dispatch is in progress:
  its \<open>AfterFunc\<close> is enabled, and running it closes the receive channel and removes this
  registration and no other.
\<close>

theorem cancelled_subscription_removed:
  assumes "reachable_router zerocid w0 (Running s)" "(t, rc) \<in> routed (router s)"
    and "CtxDone rc \<in> doneCtxs s" "inflight s = []"
  shows "\<exists>s'. rstep zerocid (Running s) (Running s') \<and> routed (router s') = routed (router s) - {(t, rc)} \<and>
    ch_closed (chans (router s') ! ReceiveChan rc)"
proof -
  from reachable_inv [OF assms(1)] have inv: "router_inv (router s)" by (simp add: rsys_inv_def)
  with assms(2) have "(t, rc) \<in> set (pending (router s))" by (simp add: router_inv_def)
  then obtain flt where "(flt, rc) \<in> set (afterFuncs (router s))" and t: "t = Topic flt"
    by (auto simp: pending_def)
  then obtain fs gs where af: "afterFuncs (router s) = fs @ (flt, rc) # gs" by (meson split_list)
  obtain res w' where rem: "remove ((router s)\<lparr>afterFuncs := fs @ gs\<rparr>) (binding s) flt rc = (res, w')"
    by fastforce
  from router_inv_remove [OF inv af rem] obtain r' where
    r': "res = Some r'" "routed r' = routed (router s) - {(t, rc)}" "ch_closed (chans r' ! ReceiveChan rc)"
    using t by auto
  from after_func [OF assms(4) af assms(3) rem [unfolded r'(1)]] r'(2,3) show ?thesis
    by (intro exI [of _ "s\<lparr>router := r', binding := w'\<rparr>"]) simp
qed

theorem cancelled_subscription_removed_witness:
  "\<exists>s'. rstep '''' (Running (example_sys {0})) (Running s') \<and>
     routed (router s') = routed (router (example_sys {0})) - {(''foo'', example_rc 0 '''')} \<and>
     ch_closed (chans (router s') ! 0)"
  using cancelled_subscription_removed [OF example_cancelled, of "''foo''" "example_rc 0 ''''"]
  by (simp add: example_sys_def example_rc_def routed_def)

end
