(* ===== verification/Com_Api.thy ===== *)
theory Com_Api
  imports Config
begin

section \<open>Communication API data (services/com/api/api.go)\<close>

text \<open>
  Scopes, subscription filters and the payload structs of the three communication patterns. The
  struct field \<open>Type\<close>, \<open>Id\<close>, \<open>Source\<close>, \<dots> carries a prefix for its struct. A sequence number is
  an \<open>int64\<close>, modelled by an \<open>int\<close> in its range.
\<close>

type_synonym Scope = string

definition ScopeDef :: Scope where "ScopeDef = ''''"
definition ScopeCom :: Scope where "ScopeCom = ''com''"
definition ScopeState :: Scope where "ScopeState = ''sta''"
definition ScopeSideChannel :: Scope where "ScopeSideChannel = ''sdc''"

lemmas scope_defs = ScopeDef_def ScopeCom_def ScopeState_def ScopeSideChannel_def

definition ToScope :: "string \<Rightarrow> goerr + Scope" where
  "ToScope scope =
     (if scope = ScopeDef then Inr ScopeCom
      else if scope = ScopeCom then Inr ScopeCom
      else if scope = ScopeState then Inr ScopeState
      else if scope = ScopeSideChannel then Inr ScopeSideChannel
      else Inl (Errorf ''unknown scope %s''))"

record SubscriptionFilter =
  sf_Scope :: Scope
  sf_Type :: string
  sf_Share :: string

record Event =
  evt_Type :: string
  evt_Id :: string
  evt_Source :: string
  evt_Time :: string
  evt_Data :: bytes
  evt_DataContentType :: string

record Action =
  act_Type :: string
  act_Id :: string
  act_Source :: string
  act_Params :: bytes
  act_DataContentType :: string

record ActionResult =
  acr_Context :: string
  acr_Data :: bytes
  acr_DataContentType :: string
  acr_SequenceNumber :: int

record Query =
  qry_Type :: string
  qry_Id :: string
  qry_Source :: string
  qry_Data :: bytes
  qry_DataContentType :: string

record QueryResult =
  qrr_Context :: string
  qrr_Data :: bytes
  qrr_DataContentType :: string
  qrr_SequenceNumber :: int

text \<open>
  A request with its callback. The callback of an incoming action or query publishes a result with
  the response topic and the correlation data of the request: it is represented by these two
  values, and applied by \<open>publishActionResult\<close> and \<open>publishQueryResult\<close> of the binding.
\<close>

record Callback =
  cb_ResponseTopic :: string
  cb_CorrelationId :: "bytes option"

record ActionWithCallback =
  awc_Action :: Action
  awc_Callback :: Callback

record QueryWithCallback =
  qwc_Query :: Query
  qwc_Callback :: Callback

definition int64_range :: "int \<Rightarrow> bool" where
  "int64_range i \<longleftrightarrow> - (2 ^ 63) \<le> i \<and> i < 2 ^ 63"

subsection \<open>Lemmas\<close>

definition valid_scope :: "Scope \<Rightarrow> bool" where
  "valid_scope s \<longleftrightarrow> s \<in> {ScopeDef, ScopeCom, ScopeState, ScopeSideChannel}"

lemma ToScope_Inr_iff: "(\<exists>t. ToScope s = Inr t) \<longleftrightarrow> valid_scope s"
  by (simp add: ToScope_def valid_scope_def)

lemma ToScope_cases:
  "ToScope s = Inr t \<Longrightarrow> t = (if s = ScopeDef then ScopeCom else s) \<and> ToScope t = Inr t \<and> t \<noteq> ScopeDef"
  by (auto simp: ToScope_def scope_defs split: if_splits)

lemma valid_scope_no_slash: "valid_scope s \<Longrightarrow> CHR ''/'' \<notin> set s"
  by (auto simp: valid_scope_def scope_defs)

end
