(* ===== verification/Mqtt5.thy ===== *)
theory Mqtt5
  imports Com_Api Gostd Services Router_Props
begin

section \<open>The MQTT 5 communication binding (services/com/mqtt5/mqtt5.go)\<close>

text \<open>
  The state of \<open>Mqtt5Binding\<close> and all its operations. The MQTT client (packages \<open>paho\<close> and
  \<open>autopaho\<close>), \<open>url.Parse\<close>, \<open>tls.LoadX509KeyPair\<close> and \<open>uuid.NewString\<close> are parameters: a record
  \<open>paho\<close> of operations on a client world \<open>'w\<close>, and the generated UUID as an argument.

  The fields of the struct that the functions given to a router read when they run (\<open>conn\<close>,
  \<open>qos\<close>, \<open>noLocal\<close>) form the record \<open>link\<close> together with the client world: it is the binding
  state the routers' functions act on. The mutex has no counterpart; each operation is one step.
\<close>

subsection \<open>Constants and packets\<close>

definition pubSubAckTimeout :: int where "pubSubAckTimeout = 1000000000"

definition levelShare :: string where "levelShare = ''$share''"
definition levelEvent :: string where "levelEvent = ''evt''"
definition levelAction :: string where "levelAction = ''act''"
definition levelActionResult :: string where "levelActionResult = ''acr''"
definition levelQuery :: string where "levelQuery = ''qry''"
definition levelQueryResult :: string where "levelQueryResult = ''qrr''"

definition userPropId :: string where "userPropId = ''id''"
definition userPropSource :: string where "userPropSource = ''sr''"
definition userPropTime :: string where "userPropTime = ''tm''"
definition userPropContext :: string where "userPropContext = ''ct''"
definition userPropSequenceNumber :: string where "userPropSequenceNumber = ''sq''"
definition userPropDataContentType :: string where "userPropDataContentType = ''dt''"

lemmas level_defs = levelEvent_def levelAction_def levelActionResult_def levelQuery_def levelQueryResult_def
lemmas prop_defs = userPropId_def userPropSource_def userPropTime_def userPropContext_def
  userPropSequenceNumber_def userPropDataContentType_def

type_synonym UserProperties = "(string \<times> string) list"

record PublishProperties =
  User :: "UserProperties option"
  ResponseTopic :: string
  CorrelationData :: "bytes option"

record Publish =
  pub_QoS :: byte
  pub_Topic :: string
  pub_Payload :: bytes
  pub_Properties :: "PublishProperties option"

record SubscribeOptions =
  sub_Topic :: string
  sub_QoS :: byte
  sub_NoLocal :: bool

record ClientConfig =
  cc_ClientID :: string
  cc_Debug :: bool
  cc_CleanStart :: bool
  cc_BrokerUrl :: string
  cc_UsernamePassword :: "(string \<times> bytes) option"
  cc_TlsCfg :: "(string \<times> bool) option"
  cc_KeepAlive :: "16 word"
  cc_ConnectRetryDelay :: int64
  cc_ConnectTimeout :: int64

text \<open>The deadline of a context is \<open>None\<close> for a background context.\<close>

record ('c, 'w) paho =
  NewConnection :: "ClientConfig \<Rightarrow> 'w \<Rightarrow> (goerr + 'c) \<times> 'w"
  AwaitConnection :: "'c \<Rightarrow> int option \<Rightarrow> 'w \<Rightarrow> goerr option \<times> 'w"
  Connack_SharedSubAvailable :: "'c \<Rightarrow> 'w \<Rightarrow> bool"
  conn_Publish :: "'c \<Rightarrow> int option \<Rightarrow> Publish \<Rightarrow> 'w \<Rightarrow> goerr option \<times> 'w"
  conn_Subscribe :: "'c \<Rightarrow> int option \<Rightarrow> SubscribeOptions list \<Rightarrow> 'w \<Rightarrow> goerr option \<times> 'w"
  conn_Unsubscribe :: "'c \<Rightarrow> int option \<Rightarrow> string list \<Rightarrow> 'w \<Rightarrow> goerr option \<times> 'w"
  conn_Disconnect :: "'c \<Rightarrow> int option \<Rightarrow> 'w \<Rightarrow> goerr option \<times> 'w"
  User_Get :: "UserProperties \<Rightarrow> string \<Rightarrow> string"
  url_Parse :: "string \<Rightarrow> goerr + string"
  LoadX509KeyPair :: "string \<Rightarrow> string \<Rightarrow> goerr + string"

record ('c, 'w) link =
  conn :: "'c option"
  qos :: byte
  noLocal :: bool
  net :: 'w

record ('c, 'w) Mqtt5Binding =
  eventRouter :: "(Event, string, ('c, 'w) link) Router"
  actionRouter :: "(ActionWithCallback, string, ('c, 'w) link) Router"
  actionResultRouter :: "(ActionResult, string, ('c, 'w) link) Router"
  queryRouter :: "(QueryWithCallback, string, ('c, 'w) link) Router"
  queryResultRouter :: "(QueryResult, string, ('c, 'w) link) Router"
  clientId :: string
  cluster :: string
  responseId :: string
  sharedSubAvailable :: bool
  lnk :: "('c, 'w) link"

subsection \<open>Validation, topics, client id\<close>

definition validatePatternTypeIdSource :: "string \<Rightarrow> string \<Rightarrow> string \<Rightarrow> goerr option" where
  "validatePatternTypeIdSource typ ident source =
     (case ValidateName typ of Some err \<Rightarrow> Some err
      | None \<Rightarrow> (case ValidateNonEmpty ident of Some err \<Rightarrow> Some err
      | None \<Rightarrow> (case ValidateNonEmpty source of Some err \<Rightarrow> Some err
      | None \<Rightarrow> None)))"

definition validatePatternFilter :: "('c, 'w) Mqtt5Binding \<Rightarrow> SubscriptionFilter \<Rightarrow> goerr option" where
  "validatePatternFilter b flt =
     (case ValidateName (sf_Type flt) of Some err \<Rightarrow> Some err
      | None \<Rightarrow>
          if sf_Share flt \<noteq> '''' then
            if \<not> sharedSubAvailable b
            then Some (Errorf ''shared subscriptions are not supported by the MQTT 5 broker'')
            else (case ValidateName (sf_Share flt) of Some err \<Rightarrow> Some err | None \<Rightarrow> None)
          else None)"

definition topicWithLevels :: "('c, 'w) Mqtt5Binding \<Rightarrow> string \<Rightarrow> Scope \<Rightarrow> string list \<Rightarrow> string \<times> string" where
  "topicWithLevels b share scope levels =
     (let scope = (if scope = ScopeDef then ScopeCom else scope);
          pubTopic = cluster b @ ''/'' @ scope @ ''/'' @ strings_Join levels CHR ''/'';
          subTopic = (if share \<noteq> ''''
            then levelShare @ ''/'' @ share @ ''/'' @ cluster b @ ''/'' @ scope @ ''/'' @ strings_Join levels CHR ''/''
            else pubTopic)
      in (pubTopic, subTopic))"

definition responseInfo :: "('c, 'w) Mqtt5Binding \<Rightarrow> string \<Rightarrow> string \<Rightarrow> string \<times> string" where
  "responseInfo b uuid topic = (topic @ ''/'' @ responseId b, uuid)"

text \<open>
  The regular expression \<open>[^0-9a-zA-Z]\<close> of strict client ids. It matches runes, not bytes: an encoded
  character outside ASCII is replaced by a single zero.
\<close>

definition strict_char :: "char \<Rightarrow> bool" where
  "strict_char c = (let n = (of_char c :: nat) in
     48 \<le> n \<and> n \<le> 57 \<or> 97 \<le> n \<and> n \<le> 122 \<or> 65 \<le> n \<and> n \<le> 90)"

function strict_replace :: "string \<Rightarrow> string" where
  "strict_replace [] = []"
| "strict_replace (c # cs) =
     (if strict_char c then c else CHR ''0'') # strict_replace (drop (rune_width c cs - 1) cs)"
  by pat_completeness auto
termination
  by (relation "measure length") auto

definition getClientId :: "Config \<Rightarrow> string" where
  "getClientId cfg =
     (let clientId = id_Name (cfg_Identity cfg) @ id_Id (cfg_Identity cfg)
      in if map_of (com_Opts (Com (cfg_Services cfg))) ''strictClientId'' = Some (OptBool True)
         then (let clientId = strict_replace clientId
               in if 23 < length clientId then take 23 clientId else clientId)
         else clientId)"

definition scope_arg :: "Scope option \<Rightarrow> Scope" where
  "scope_arg scope = (case scope of None \<Rightarrow> ScopeDef | Some scp \<Rightarrow> scp)"

subsection \<open>The client's publish, subscribe, and unsubscribe\<close>

definition createPubSubContext :: "('c, 'w) link \<Rightarrow> int option" where
  "createPubSubContext l = (if qos l \<noteq> 0 then Some pubSubAckTimeout else None)"

definition publish_packet ::
  "byte \<Rightarrow> string \<Rightarrow> bytes \<Rightarrow> UserProperties \<Rightarrow> string \<Rightarrow> bytes option \<Rightarrow> Publish"
where
  "publish_packet q topic payload userProps responseTopic cid =
     \<lparr>pub_QoS = q, pub_Topic = topic, pub_Payload = payload,
      pub_Properties = Some \<lparr>User = Some userProps, ResponseTopic = responseTopic,
                             CorrelationData = cid\<rparr>\<rparr>"

text \<open>\<open>publish\<close> is only called with \<open>conn\<close> not nil; a nil connection would be a panic there.\<close>

definition publish ::
  "('c, 'w) paho \<Rightarrow> string \<Rightarrow> bytes \<Rightarrow> UserProperties \<Rightarrow> string \<Rightarrow> bytes option \<Rightarrow> ('c, 'w) link ComBindingFunc"
where
  "publish P topic payload userProps responseTopic cid l =
     (case conn l of
        None \<Rightarrow> (Some (Errorf ''nil pointer dereference''), l)
      | Some c \<Rightarrow>
          (case conn_Publish P c (createPubSubContext l)
                  (publish_packet (qos l) topic payload userProps responseTopic cid) (net l) of
             (err, w) \<Rightarrow> (NewRetryableError err, l\<lparr>net := w\<rparr>)))"

definition subscribe :: "('c, 'w) paho \<Rightarrow> string list \<Rightarrow> ('c, 'w) link ComBindingFunc" where
  "subscribe P topics l =
     (if topics = [] then (None, l)
      else
        (let subs = map (\<lambda>topic. \<lparr>sub_Topic = topic, sub_QoS = qos l,
               sub_NoLocal = (noLocal l \<and> \<not> strings_HasPrefix topic levelShare)\<rparr>) topics
         in case conn l of
              None \<Rightarrow> (Some (Errorf ''subscribe failed as binding is not yet open''), l)
            | Some c \<Rightarrow>
                (case conn_Subscribe P c (createPubSubContext l) subs (net l) of
                   (Some err, w) \<Rightarrow> (Some (RetryableErrorf ''subscribe %v failed: %w''), l\<lparr>net := w\<rparr>)
                 | (None, w) \<Rightarrow> (None, l\<lparr>net := w\<rparr>))))"

definition unsubscribe :: "('c, 'w) paho \<Rightarrow> string list \<Rightarrow> ('c, 'w) link ComBindingFunc" where
  "unsubscribe P topics l =
     (if topics = [] then (None, l)
      else
        (case conn l of
           None \<Rightarrow> (Some (Errorf ''unsubscribe failed as binding is not yet open''), l)
         | Some c \<Rightarrow>
             (case conn_Unsubscribe P c (createPubSubContext l) topics (net l) of
                (Some err, w) \<Rightarrow> (Some (RetryableErrorf ''unsubscribe %v failed: %w''), l\<lparr>net := w\<rparr>)
              | (None, w) \<Rightarrow> (None, l\<lparr>net := w\<rparr>))))"

definition getTopics :: "('c, 'w) Mqtt5Binding \<Rightarrow> string list" where
  "getTopics b = GetTopics (eventRouter b) @ GetTopics (actionRouter b) @ GetTopics (actionResultRouter b) @
     GetTopics (queryRouter b) @ GetTopics (queryResultRouter b)"

text \<open>A failed resubscription is only logged.\<close>

definition resubscribe :: "('c, 'w) paho \<Rightarrow> ('c, 'w) Mqtt5Binding \<Rightarrow> ('c, 'w) Mqtt5Binding" where
  "resubscribe P b = (case subscribe P (getTopics b) (lnk b) of (err, l) \<Rightarrow> b\<lparr>lnk := l\<rparr>)"

subsection \<open>Publications and subscriptions\<close>

definition event_props :: "Event \<Rightarrow> UserProperties" where
  "event_props event = [(userPropId, evt_Id event), (userPropSource, evt_Source event),
     (userPropTime, evt_Time event), (userPropDataContentType, evt_DataContentType event)]"

definition PublishEvent ::
  "('c, 'w) paho \<Rightarrow> ('c, 'w) Mqtt5Binding \<Rightarrow> Event \<Rightarrow> Scope option \<Rightarrow> goerr option \<times> ('c, 'w) Mqtt5Binding"
where
  "PublishEvent P b event scope =
     (case validatePatternTypeIdSource (evt_Type event) (evt_Id event) (evt_Source event) of
        Some err \<Rightarrow> (Some err, b)
      | None \<Rightarrow>
          if conn (lnk b) = None then (Some (Errorf ''PublishEvent %+v failed as binding is not yet open''), b)
          else (case publish P (fst (topicWithLevels b '''' (scope_arg scope) [levelEvent, evt_Type event]))
                        (evt_Data event) (event_props event) '''' None (lnk b) of
                  (err, l) \<Rightarrow> (err, b\<lparr>lnk := l\<rparr>)))"

definition SubscribeEvent ::
  "('c, 'w) paho \<Rightarrow> ('c, 'w) Mqtt5Binding \<Rightarrow> nat \<Rightarrow> SubscriptionFilter \<Rightarrow>
     (goerr + (string, ('c, 'w) link) RouteChannel) \<times> ('c, 'w) Mqtt5Binding"
where
  "SubscribeEvent P b ctx flt =
     (case validatePatternFilter b flt of
        Some err \<Rightarrow> (Inl err, b)
      | None \<Rightarrow>
          if conn (lnk b) = None then (Inl (Errorf ''SubscribeEvent failed as binding is not yet open''), b)
          else (case topicWithLevels b (sf_Share flt) (sf_Scope flt) [levelEvent, sf_Type flt] of
                  (pubTopic, subTopic) \<Rightarrow>
                    (case Add (eventRouter b) (lnk b) ctx \<lparr>Topic = pubTopic, CorrelationId = ''''\<rparr>
                            (subscribe P [subTopic]) (\<lambda>l. (None, l)) (unsubscribe P [subTopic]) None of
                       (res, r, l) \<Rightarrow> (res, b\<lparr>eventRouter := r, lnk := l\<rparr>))))"

definition action_props :: "Action \<Rightarrow> UserProperties" where
  "action_props action = [(userPropId, act_Id action), (userPropSource, act_Source action),
     (userPropDataContentType, act_DataContentType action)]"

definition PublishAction ::
  "('c, 'w) paho \<Rightarrow> ('c, 'w) Mqtt5Binding \<Rightarrow> string \<Rightarrow> nat \<Rightarrow> Action \<Rightarrow> Scope option \<Rightarrow>
     (goerr + (string, ('c, 'w) link) RouteChannel) \<times> ('c, 'w) Mqtt5Binding"
where
  "PublishAction P b uuid ctx action scope =
     (case validatePatternTypeIdSource (act_Type action) (act_Id action) (act_Source action) of
        Some err \<Rightarrow> (Inl err, b)
      | None \<Rightarrow>
          if conn (lnk b) = None then (Inl (Errorf ''PublishAction %+v failed as binding is not yet open''), b)
          else
            (let pubTopic = fst (topicWithLevels b '''' (scope_arg scope) [levelAction, act_Type action]);
                 pubResTopic = fst (topicWithLevels b '''' (scope_arg scope) [levelActionResult, act_Type action])
             in case responseInfo b uuid pubResTopic of
                  (responseTopic, cid) \<Rightarrow>
                    (case Add (actionResultRouter b) (lnk b) ctx
                            \<lparr>Topic = responseTopic, CorrelationId = cid\<rparr>
                            (subscribe P [responseTopic])
                            (publish P pubTopic (act_Params action) (action_props action) responseTopic
                               (Some (bytes_of_string cid)))
                            (unsubscribe P [responseTopic]) None of
                       (res, r, l) \<Rightarrow> (res, b\<lparr>actionResultRouter := r, lnk := l\<rparr>))))"

definition result_props :: "string \<Rightarrow> string \<Rightarrow> int \<Rightarrow> UserProperties" where
  "result_props context contentType seqNo =
     [(userPropContext, context), (userPropDataContentType, contentType),
      (userPropSequenceNumber, FormatInt seqNo)]"

definition publishActionResult ::
  "('c, 'w) paho \<Rightarrow> ('c, 'w) Mqtt5Binding \<Rightarrow> ActionResult \<Rightarrow> string \<Rightarrow> bytes option \<Rightarrow>
     goerr option \<times> ('c, 'w) Mqtt5Binding"
where
  "publishActionResult P b result responseTopic cid =
     (if conn (lnk b) = None
      then (Some (Errorf ''publishActionResult %+v failed as binding is not yet open''), b)
      else (case publish P responseTopic (acr_Data result)
                    (result_props (acr_Context result) (acr_DataContentType result) (acr_SequenceNumber result))
                    '''' cid (lnk b) of
              (err, l) \<Rightarrow> (err, b\<lparr>lnk := l\<rparr>)))"

definition SubscribeAction ::
  "('c, 'w) paho \<Rightarrow> ('c, 'w) Mqtt5Binding \<Rightarrow> nat \<Rightarrow> SubscriptionFilter \<Rightarrow>
     (goerr + (string, ('c, 'w) link) RouteChannel) \<times> ('c, 'w) Mqtt5Binding"
where
  "SubscribeAction P b ctx flt =
     (case validatePatternFilter b flt of
        Some err \<Rightarrow> (Inl err, b)
      | None \<Rightarrow>
          if conn (lnk b) = None then (Inl (Errorf ''SubscribeAction failed as binding is not yet open''), b)
          else (case topicWithLevels b (sf_Share flt) (sf_Scope flt) [levelAction, sf_Type flt] of
                  (pubTopic, subTopic) \<Rightarrow>
                    (case Add (actionRouter b) (lnk b) ctx \<lparr>Topic = pubTopic, CorrelationId = ''''\<rparr>
                            (subscribe P [subTopic]) (\<lambda>l. (None, l)) (unsubscribe P [subTopic]) None of
                       (res, r, l) \<Rightarrow> (res, b\<lparr>actionRouter := r, lnk := l\<rparr>))))"

definition query_props :: "Query \<Rightarrow> UserProperties" where
  "query_props query = [(userPropId, qry_Id query), (userPropSource, qry_Source query),
     (userPropDataContentType, qry_DataContentType query)]"

definition PublishQuery ::
  "('c, 'w) paho \<Rightarrow> ('c, 'w) Mqtt5Binding \<Rightarrow> string \<Rightarrow> nat \<Rightarrow> Query \<Rightarrow> Scope option \<Rightarrow>
     (goerr + (string, ('c, 'w) link) RouteChannel) \<times> ('c, 'w) Mqtt5Binding"
where
  "PublishQuery P b uuid ctx query scope =
     (case validatePatternTypeIdSource (qry_Type query) (qry_Id query) (qry_Source query) of
        Some err \<Rightarrow> (Inl err, b)
      | None \<Rightarrow>
          if conn (lnk b) = None then (Inl (Errorf ''PublishQuery %+v failed as binding is not yet open''), b)
          else
            (let pubTopic = fst (topicWithLevels b '''' (scope_arg scope) [levelQuery, qry_Type query]);
                 pubResTopic = fst (topicWithLevels b '''' (scope_arg scope) [levelQueryResult, qry_Type query])
             in case responseInfo b uuid pubResTopic of
                  (responseTopic, cid) \<Rightarrow>
                    (case Add (queryResultRouter b) (lnk b) ctx
                            \<lparr>Topic = responseTopic, CorrelationId = cid\<rparr>
                            (subscribe P [responseTopic])
                            (publish P pubTopic (qry_Data query) (query_props query) responseTopic
                               (Some (bytes_of_string cid)))
                            (unsubscribe P [responseTopic]) None of
                       (res, r, l) \<Rightarrow> (res, b\<lparr>queryResultRouter := r, lnk := l\<rparr>))))"

definition publishQueryResult ::
  "('c, 'w) paho \<Rightarrow> ('c, 'w) Mqtt5Binding \<Rightarrow> QueryResult \<Rightarrow> string \<Rightarrow> bytes option \<Rightarrow>
     goerr option \<times> ('c, 'w) Mqtt5Binding"
where
  "publishQueryResult P b result responseTopic cid =
     (if conn (lnk b) = None
      then (Some (Errorf ''publishQueryResult %+v failed as binding is not yet open''), b)
      else (case publish P responseTopic (qrr_Data result)
                    (result_props (qrr_Context result) (qrr_DataContentType result) (qrr_SequenceNumber result))
                    '''' cid (lnk b) of
              (err, l) \<Rightarrow> (err, b\<lparr>lnk := l\<rparr>)))"

definition SubscribeQuery ::
  "('c, 'w) paho \<Rightarrow> ('c, 'w) Mqtt5Binding \<Rightarrow> nat \<Rightarrow> SubscriptionFilter \<Rightarrow>
     (goerr + (string, ('c, 'w) link) RouteChannel) \<times> ('c, 'w) Mqtt5Binding"
where
  "SubscribeQuery P b ctx flt =
     (case validatePatternFilter b flt of
        Some err \<Rightarrow> (Inl err, b)
      | None \<Rightarrow>
          if conn (lnk b) = None then (Inl (Errorf ''SubscribeQuery failed as binding is not yet open''), b)
          else (case topicWithLevels b (sf_Share flt) (sf_Scope flt) [levelQuery, sf_Type flt] of
                  (pubTopic, subTopic) \<Rightarrow>
                    (case Add (queryRouter b) (lnk b) ctx \<lparr>Topic = pubTopic, CorrelationId = ''''\<rparr>
                            (subscribe P [subTopic]) (\<lambda>l. (None, l)) (unsubscribe P [subTopic]) None of
                       (res, r, l) \<Rightarrow> (res, b\<lparr>queryRouter := r, lnk := l\<rparr>))))"

subsection \<open>Incoming messages\<close>

text \<open>
  What \<open>handle\<close> does with a packet: the dispatch it starts on one of the routers, or nothing. The
  index expressions \<open>levels[2]\<close> and \<open>levels[3]\<close> panic on a topic with fewer than four levels.
\<close>

datatype handled =
    Discard string
  | IndexPanic
  | DispatchEvent "string RouteFilter" Event
  | DispatchAction "string RouteFilter" ActionWithCallback
  | DispatchActionResult "string RouteFilter" ActionResult
  | DispatchQuery "string RouteFilter" QueryWithCallback
  | DispatchQueryResult "string RouteFilter" QueryResult

definition cid_string :: "bytes option \<Rightarrow> string" where
  "cid_string c = (case c of None \<Rightarrow> '''' | Some b \<Rightarrow> string_of_bytes b)"

definition handle :: "('c, 'w) paho \<Rightarrow> Publish \<Rightarrow> handled" where
  "handle P p =
     (case pub_Properties p of
        None \<Rightarrow> Discard ''handle: discard incoming topic %s without Properties''
      | Some props \<Rightarrow>
     (case User props of
        None \<Rightarrow> Discard ''handle: discard incoming topic %s without Properties''
      | Some user \<Rightarrow>
          (let levels = strings_Split (pub_Topic p) CHR ''/'' in
           if length levels \<le> 3 then IndexPanic
           else
             (let levelPattern = levels ! 2; typeName = levels ! 3;
                  ident = User_Get P user userPropId; source = User_Get P user userPropSource;
                  cid = CorrelationData props; responseTopic = ResponseTopic props
              in case ToScope (levels ! 1) of
                   Inl err \<Rightarrow> Discard ''handle: error on incoming topic: %v''
                 | Inr _ \<Rightarrow>
                     if levelPattern = levelEvent then
                       DispatchEvent \<lparr>Topic = pub_Topic p, CorrelationId = ''''\<rparr>
                         \<lparr>evt_Type = typeName, evt_Id = ident, evt_Source = source,
                          evt_Time = User_Get P user userPropTime, evt_Data = pub_Payload p,
                          evt_DataContentType = User_Get P user userPropDataContentType\<rparr>
                     else if levelPattern = levelAction then
                       DispatchAction \<lparr>Topic = pub_Topic p, CorrelationId = ''''\<rparr>
                         \<lparr>awc_Action = \<lparr>act_Type = typeName, act_Id = ident, act_Source = source,
                            act_Params = pub_Payload p,
                            act_DataContentType = User_Get P user userPropDataContentType\<rparr>,
                          awc_Callback = \<lparr>cb_ResponseTopic = responseTopic, cb_CorrelationId = cid\<rparr>\<rparr>
                     else if levelPattern = levelActionResult then
                       (case ParseInt (User_Get P user userPropSequenceNumber) of
                          Inl err \<Rightarrow> Discard ''handle: error on SequenceNumber: %v''
                        | Inr seqNo \<Rightarrow>
                            DispatchActionResult
                              \<lparr>Topic = pub_Topic p, CorrelationId = cid_string (CorrelationData props)\<rparr>
                              \<lparr>acr_Context = User_Get P user userPropContext, acr_Data = pub_Payload p,
                               acr_DataContentType = User_Get P user userPropDataContentType,
                               acr_SequenceNumber = seqNo\<rparr>)
                     else if levelPattern = levelQuery then
                       DispatchQuery \<lparr>Topic = pub_Topic p, CorrelationId = ''''\<rparr>
                         \<lparr>qwc_Query = \<lparr>qry_Type = typeName, qry_Id = ident, qry_Source = source,
                            qry_Data = pub_Payload p,
                            qry_DataContentType = User_Get P user userPropDataContentType\<rparr>,
                          qwc_Callback = \<lparr>cb_ResponseTopic = responseTopic, cb_CorrelationId = cid\<rparr>\<rparr>
                     else if levelPattern = levelQueryResult then
                       (case ParseInt (User_Get P user userPropSequenceNumber) of
                          Inl err \<Rightarrow> Discard ''handle: error on SequenceNumber: %v''
                        | Inr seqNo \<Rightarrow>
                            DispatchQueryResult
                              \<lparr>Topic = pub_Topic p, CorrelationId = cid_string (CorrelationData props)\<rparr>
                              \<lparr>qrr_Context = User_Get P user userPropContext, qrr_Data = pub_Payload p,
                               qrr_DataContentType = User_Get P user userPropDataContentType,
                               qrr_SequenceNumber = seqNo\<rparr>)
                     else Discard ''handle: discard malformed incoming topic %s''))))"

subsection \<open>Client configuration, opening and closing\<close>

text \<open>
  \<open>getClientConfig\<close> returns the client configuration and sets \<open>qos\<close>: the integer options are
  converted with \<open>uint16(v)\<close>, \<open>byte(v)\<close> and \<open>time.Duration(v) * time.Millisecond\<close>, which wrap.
  \<open>cc_TlsCfg\<close> holds the certificate and \<open>InsecureSkipVerify\<close>; \<open>plogEnabled\<close> is \<open>plog.Enabled()\<close>.
\<close>

definition millis :: "optval option \<Rightarrow> int \<Rightarrow> int64" where
  "millis opt dflt =
     (case opt of Some (OptInt v) \<Rightarrow> word_of_int v * 1000000 | _ \<Rightarrow> word_of_int dflt * 1000000)"

definition getClientConfig ::
  "('c, 'w) paho \<Rightarrow> bool \<Rightarrow> Config \<Rightarrow> ('c, 'w) Mqtt5Binding \<Rightarrow> (goerr + ClientConfig) \<times> ('c, 'w) Mqtt5Binding"
where
  "getClientConfig P plogEnabled cfg b =
     (let comCfg = Com (cfg_Services cfg); auth = com_Auth comCfg; opt = map_of (com_Opts comCfg);
          sUrl = (if com_Url comCfg = '''' then ''tcp://localhost:1883'' else com_Url comCfg)
      in case url_Parse P sUrl of
           Inl err \<Rightarrow> (Inl (Errorf ''invalid 'services.com.url' in DDA configuration: %w''), b)
         | Inr brokerUrl \<Rightarrow>
      (case (if auth_Method auth = ''none'' \<or> auth_Method auth = '''' then Inr None
             else if auth_Method auth = ''tls'' then
               (case LoadX509KeyPair P (auth_Cert auth) (auth_Key auth) of
                  Inl err \<Rightarrow> Inl (Errorf ''invalid or missing PEM file in DDA configuration under 'services.com.auth.cert/.key' : %w'')
                | Inr cert \<Rightarrow> Inr (Some (cert, \<not> auth_Verify auth)))
             else Inl (Errorf ''unsupported 'services.com.auth.method' %s in DDA configuration'')) of
         Inl err \<Rightarrow> (Inl err, b)
       | Inr tls \<Rightarrow>
      (case (case opt ''keepAlive'' of
               Some (OptInt v) \<Rightarrow>
                 if v < 0 then Inl (Errorf ''keepAlive must be a positive integer'') else Inr (word_of_int v)
             | _ \<Rightarrow> Inr 30) of
         Inl err \<Rightarrow> (Inl err, b)
       | Inr keepAlive \<Rightarrow>
           (Inr \<lparr>cc_ClientID = clientId b,
                 cc_Debug = (opt ''debug'' = Some (OptBool True) \<and> plogEnabled),
                 cc_CleanStart = True,
                 cc_BrokerUrl = brokerUrl,
                 cc_UsernamePassword =
                   (if auth_Password auth \<noteq> ''''
                    then Some (auth_Username auth, bytes_of_string (auth_Password auth)) else None),
                 cc_TlsCfg = tls,
                 cc_KeepAlive = keepAlive,
                 cc_ConnectRetryDelay = millis (opt ''connectRetryDelay'') 1000,
                 cc_ConnectTimeout = millis (opt ''connectTimeout'') 10000\<rparr>,
            b\<lparr>lnk := (lnk b)\<lparr>qos := (case opt ''qos'' of Some (OptInt v) \<Rightarrow> word_of_int v | _ \<Rightarrow> 0)\<rparr>\<rparr>))))"

text \<open>The first connection is reported to \<open>Open\<close>; every later one resubscribes.\<close>

definition OnConnectionUp :: "('c, 'w) paho \<Rightarrow> bool \<Rightarrow> ('c, 'w) Mqtt5Binding \<Rightarrow> ('c, 'w) Mqtt5Binding" where
  "OnConnectionUp P connackPending b = (if connackPending then b else resubscribe P b)"

definition prepare_open :: "Config \<Rightarrow> ('c, 'w) Mqtt5Binding \<Rightarrow> ('c, 'w) Mqtt5Binding" where
  "prepare_open cfg b =
     b\<lparr>clientId := getClientId cfg, cluster := Cluster cfg, responseId := id_Id (cfg_Identity cfg),
       eventRouter := NewRouter, actionRouter := NewRouter, actionResultRouter := NewRouter,
       queryRouter := NewRouter, queryResultRouter := NewRouter,
       lnk := (lnk b)\<lparr>noLocal :=
         (map_of (com_Opts (Com (cfg_Services cfg))) ''noLocal'' = Some (OptBool True))\<rparr>\<rparr>"

definition set_net :: "'w \<Rightarrow> ('c, 'w) Mqtt5Binding \<Rightarrow> ('c, 'w) Mqtt5Binding" where
  "set_net w b = b\<lparr>lnk := (lnk b)\<lparr>net := w\<rparr>\<rparr>"

definition Open ::
  "('c, 'w) paho \<Rightarrow> bool \<Rightarrow> ('c, 'w) Mqtt5Binding \<Rightarrow> Config \<Rightarrow> int \<Rightarrow> goerr option \<times> ('c, 'w) Mqtt5Binding"
where
  "Open P plogEnabled b cfg timeout =
     (if conn (lnk b) \<noteq> None then (None, b)
      else
        (case getClientConfig P plogEnabled cfg (prepare_open cfg b) of
           (Inl err, b1) \<Rightarrow> (Some err, b1)
         | (Inr ccfg, b1) \<Rightarrow>
             (case NewConnection P ccfg (net (lnk b1)) of
                (Inl err, w) \<Rightarrow> (Some err, set_net w b1)
              | (Inr c, w) \<Rightarrow>
                  (case AwaitConnection P c (if 0 < timeout then Some timeout else None) w of
                     (Some err, w1) \<Rightarrow>
                       (NewRetryableError (Some err), set_net (snd (conn_Disconnect P c None w1)) b1)
                   | (None, w1) \<Rightarrow>
                       (None, b1\<lparr>sharedSubAvailable := Connack_SharedSubAvailable P c w1,
                                 lnk := (lnk b1)\<lparr>conn := Some c, net := w1\<rparr>\<rparr>)))))"

definition disconnectTimeout :: int where "disconnectTimeout = 1000000000"

definition Close :: "('c, 'w) paho \<Rightarrow> ('c, 'w) Mqtt5Binding \<Rightarrow> ('c, 'w) Mqtt5Binding" where
  "Close P b =
     (case conn (lnk b) of
        None \<Rightarrow> b
      | Some c \<Rightarrow>
          (case conn_Disconnect P c (Some disconnectTimeout) (net (lnk b)) of
             (err, w) \<Rightarrow> b\<lparr>lnk := (lnk b)\<lparr>conn := None, net := w\<rparr>\<rparr>))"

end
