(* ===== verification/Mqtt5_Props.thy ===== *)
theory Mqtt5_Props
  imports Mqtt5
begin

section \<open>What the MQTT 5 binding promises\<close>

text \<open>
  The contract with the MQTT client (locales \<open>user_properties\<close> and \<open>mqtt_client\<close>), a client held
  in memory that fulfils it, and the properties of the binding: what is published is what a
  subscriber's \<open>handle\<close> dispatches, a response reaches the publisher that waits for it and no
  other, and every routed topic is subscribed.
\<close>

subsection \<open>Topics\<close>

definition norm_scope :: "Scope \<Rightarrow> Scope" where
  "norm_scope scope = (if scope = ScopeDef then ScopeCom else scope)"

lemma norm_scope_valid: "valid_scope s \<Longrightarrow> \<exists>t. ToScope (norm_scope s) = Inr t"
  by (auto simp: norm_scope_def valid_scope_def ToScope_def)

lemma norm_scope_no_slash: "valid_scope s \<Longrightarrow> CHR ''/'' \<notin> set (norm_scope s)"
  by (auto simp: norm_scope_def ScopeCom_def dest: valid_scope_no_slash)

lemma pub_topic:
  "fst (topicWithLevels b share scope [lvl, typ]) =
     cluster b @ CHR ''/'' # norm_scope scope @ CHR ''/'' # lvl @ CHR ''/'' # typ"
  by (simp add: topicWithLevels_def Let_def norm_scope_def)

lemma sub_topic:
  "snd (topicWithLevels b share scope [lvl, typ]) =
     (if share = '''' then fst (topicWithLevels b share scope [lvl, typ])
      else ''$share/'' @ share @ CHR ''/'' # fst (topicWithLevels b share scope [lvl, typ]))"
  by (simp add: topicWithLevels_def Let_def levelShare_def)

lemma split_pub_topic:
  assumes "CHR ''/'' \<notin> set cl" "valid_scope scope" "CHR ''/'' \<notin> set lvl"
  shows "strings_Split (cl @ CHR ''/'' # norm_scope scope @ CHR ''/'' # lvl @ CHR ''/'' # rest) CHR ''/'' =
    cl # norm_scope scope # lvl # strings_Split rest CHR ''/''"
  using assms norm_scope_no_slash by (simp add: strings_Split_append)

lemma level_no_slash [simp]:
  "CHR ''/'' \<notin> set levelEvent" "CHR ''/'' \<notin> set levelAction" "CHR ''/'' \<notin> set levelActionResult"
  "CHR ''/'' \<notin> set levelQuery" "CHR ''/'' \<notin> set levelQueryResult"
  by (simp_all add: level_defs)

lemma level_distinct [simp]:
  "distinct [levelEvent, levelAction, levelActionResult, levelQuery, levelQueryResult]"
  by (simp add: level_defs)

lemma level_neq [simp]:
  "levelEvent \<noteq> levelAction" "levelEvent \<noteq> levelActionResult" "levelEvent \<noteq> levelQuery" "levelEvent \<noteq> levelQueryResult"
  "levelAction \<noteq> levelEvent" "levelAction \<noteq> levelActionResult" "levelAction \<noteq> levelQuery" "levelAction \<noteq> levelQueryResult"
  "levelActionResult \<noteq> levelEvent" "levelActionResult \<noteq> levelAction" "levelActionResult \<noteq> levelQuery" "levelActionResult \<noteq> levelQueryResult"
  "levelQuery \<noteq> levelEvent" "levelQuery \<noteq> levelAction" "levelQuery \<noteq> levelActionResult" "levelQuery \<noteq> levelQueryResult"
  "levelQueryResult \<noteq> levelEvent" "levelQueryResult \<noteq> levelAction" "levelQueryResult \<noteq> levelActionResult" "levelQueryResult \<noteq> levelQuery"
  by (simp_all add: level_defs)

lemma pub_topic_inj:
  assumes "CHR ''/'' \<notin> set cl" "valid_scope s" "valid_scope s'" "CHR ''/'' \<notin> set lvl" "CHR ''/'' \<notin> set lvl'"
    "CHR ''/'' \<notin> set t" "CHR ''/'' \<notin> set t'"
  shows "cl @ CHR ''/'' # norm_scope s @ CHR ''/'' # lvl @ CHR ''/'' # t =
      cl @ CHR ''/'' # norm_scope s' @ CHR ''/'' # lvl' @ CHR ''/'' # t' \<longleftrightarrow>
    norm_scope s = norm_scope s' \<and> lvl = lvl' \<and> t = t'"
  (is "?l = ?r \<longleftrightarrow> _")
proof
  assume "?l = ?r"
  then have "strings_Split ?l CHR ''/'' = strings_Split ?r CHR ''/''" by simp
  with assms show "norm_scope s = norm_scope s' \<and> lvl = lvl' \<and> t = t'"
    by (simp add: split_pub_topic strings_Split_no_sep)
qed simp

lemma pub_topic_eq:
  assumes "CHR ''/'' \<notin> set (cluster b)" "cluster b2 = cluster b" "valid_scope s" "valid_scope s'"
    "CHR ''/'' \<notin> set lvl" "compliesWithNamingConvention t" "compliesWithNamingConvention t'"
  shows "fst (topicWithLevels b share s [lvl, t]) = fst (topicWithLevels b2 share' s' [lvl, t']) \<longleftrightarrow>
    t' = t \<and> norm_scope s' = norm_scope s"
  using pub_topic_inj [OF assms(1,3,4,5,5) complies_no_slash complies_no_slash, OF assms(6,7)] assms(2)
  by (simp only: pub_topic) (simp only: eq_commute conj_commute simp_thms)

lemma validate_pattern_None:
  "validatePatternTypeIdSource typ ident source = None \<longleftrightarrow>
    compliesWithNamingConvention typ \<and> ident \<noteq> '''' \<and> source \<noteq> ''''"
  by (auto simp: validatePatternTypeIdSource_def ValidateName_def ValidateNonEmpty_def split: option.splits)

lemma validate_filter_None:
  "validatePatternFilter b flt = None \<longleftrightarrow> compliesWithNamingConvention (sf_Type flt) \<and>
    (sf_Share flt = '''' \<or> sharedSubAvailable b \<and> compliesWithNamingConvention (sf_Share flt))"
  by (auto simp: validatePatternFilter_def ValidateName_def split: option.splits)

subsection \<open>User properties and incoming packets\<close>

text \<open>
  \<open>UserProperties.Get\<close> is documented to return the value of the first entry with the key, or the
  empty string.
\<close>

locale user_properties =
  fixes P :: "('c, 'w) paho"
  assumes Get: "User_Get P ps k = (case map_of ps k of None \<Rightarrow> '''' | Some v \<Rightarrow> v)"
begin

lemma get_event:
  "User_Get P (event_props e) userPropId = evt_Id e" "User_Get P (event_props e) userPropSource = evt_Source e"
  "User_Get P (event_props e) userPropTime = evt_Time e"
  "User_Get P (event_props e) userPropDataContentType = evt_DataContentType e"
  by (simp_all add: Get event_props_def prop_defs)

lemma get_action:
  "User_Get P (action_props a) userPropId = act_Id a" "User_Get P (action_props a) userPropSource = act_Source a"
  "User_Get P (action_props a) userPropDataContentType = act_DataContentType a"
  by (simp_all add: Get action_props_def prop_defs)

lemma get_query:
  "User_Get P (query_props q) userPropId = qry_Id q" "User_Get P (query_props q) userPropSource = qry_Source q"
  "User_Get P (query_props q) userPropDataContentType = qry_DataContentType q"
  by (simp_all add: Get query_props_def prop_defs)

lemma get_result:
  "User_Get P (result_props c t n) userPropContext = c" "User_Get P (result_props c t n) userPropDataContentType = t"
  "User_Get P (result_props c t n) userPropSequenceNumber = FormatInt n"
  by (simp_all add: Get result_props_def prop_defs)

lemmas gets = get_event get_action get_query get_result

lemma handle_packet:
  assumes "CHR ''/'' \<notin> set cl" "valid_scope scope" "CHR ''/'' \<notin> set lvl" "strings_Split rest CHR ''/'' = ty # rst"
  shows "handle P (publish_packet q (cl @ CHR ''/'' # norm_scope scope @ CHR ''/'' # lvl @ CHR ''/'' # rest)
      payload props rt c) = 
    (let t = cl @ CHR ''/'' # norm_scope scope @ CHR ''/'' # lvl @ CHR ''/'' # rest;
         rf = \<lparr>Topic = t, CorrelationId = ''''\<rparr>;
         rs = \<lparr>Topic = t, CorrelationId = cid_string c\<rparr>;
         cb = \<lparr>cb_ResponseTopic = rt, cb_CorrelationId = c\<rparr>;
         g = User_Get P props
     in if lvl = levelEvent then DispatchEvent rf \<lparr>evt_Type = ty, evt_Id = g userPropId, evt_Source = g userPropSource,
          evt_Time = g userPropTime, evt_Data = payload, evt_DataContentType = g userPropDataContentType\<rparr>
        else if lvl = levelAction then DispatchAction rf \<lparr>awc_Action = \<lparr>act_Type = ty, act_Id = g userPropId,
          act_Source = g userPropSource, act_Params = payload, act_DataContentType = g userPropDataContentType\<rparr>,
          awc_Callback = cb\<rparr>
        else if lvl = levelActionResult then
          (case ParseInt (g userPropSequenceNumber) of
             Inl err \<Rightarrow> Discard ''handle: error on SequenceNumber: %v''
           | Inr seqNo \<Rightarrow> DispatchActionResult rs \<lparr>acr_Context = g userPropContext, acr_Data = payload,
               acr_DataContentType = g userPropDataContentType, acr_SequenceNumber = seqNo\<rparr>)
        else if lvl = levelQuery then DispatchQuery rf \<lparr>qwc_Query = \<lparr>qry_Type = ty, qry_Id = g userPropId,
          qry_Source = g userPropSource, qry_Data = payload, qry_DataContentType = g userPropDataContentType\<rparr>,
          qwc_Callback = cb\<rparr>
        else if lvl = levelQueryResult then
          (case ParseInt (g userPropSequenceNumber) of
             Inl err \<Rightarrow> Discard ''handle: error on SequenceNumber: %v''
           | Inr seqNo \<Rightarrow> DispatchQueryResult rs \<lparr>qrr_Context = g userPropContext, qrr_Data = payload,
               qrr_DataContentType = g userPropDataContentType, qrr_SequenceNumber = seqNo\<rparr>)
        else Discard ''handle: discard malformed incoming topic %s'')"
proof -
  obtain t where "ToScope (norm_scope scope) = Inr t" using norm_scope_valid assms(2) by blast
  then show ?thesis
    using assms by (simp add: handle_def publish_packet_def split_pub_topic Let_def split: sum.split)
qed

end

context user_properties begin

lemma handle_event:
  assumes "CHR ''/'' \<notin> set cl" "valid_scope scope" "compliesWithNamingConvention (evt_Type e)"
  shows "handle P (publish_packet q (cl @ CHR ''/'' # norm_scope scope @ CHR ''/'' # levelEvent @ CHR ''/'' # evt_Type e)
      (evt_Data e) (event_props e) rt c) =
    DispatchEvent \<lparr>Topic = cl @ CHR ''/'' # norm_scope scope @ CHR ''/'' # levelEvent @ CHR ''/'' # evt_Type e,
      CorrelationId = ''''\<rparr> e"
  using assms
  by (subst handle_packet [where ty = "evt_Type e" and rst = "[]"])
    (auto simp: strings_Split_no_sep complies_no_slash Let_def gets)

lemma handle_action:
  assumes "CHR ''/'' \<notin> set cl" "valid_scope scope" "compliesWithNamingConvention (act_Type a)"
  shows "handle P (publish_packet q (cl @ CHR ''/'' # norm_scope scope @ CHR ''/'' # levelAction @ CHR ''/'' # act_Type a)
      (act_Params a) (action_props a) rt c) =
    DispatchAction \<lparr>Topic = cl @ CHR ''/'' # norm_scope scope @ CHR ''/'' # levelAction @ CHR ''/'' # act_Type a,
      CorrelationId = ''''\<rparr> \<lparr>awc_Action = a, awc_Callback = \<lparr>cb_ResponseTopic = rt, cb_CorrelationId = c\<rparr>\<rparr>"
  using assms level_distinct
  by (subst handle_packet [where ty = "act_Type a" and rst = "[]"])
    (auto simp: strings_Split_no_sep complies_no_slash Let_def gets)

lemma handle_query:
  assumes "CHR ''/'' \<notin> set cl" "valid_scope scope" "compliesWithNamingConvention (qry_Type a)"
  shows "handle P (publish_packet q (cl @ CHR ''/'' # norm_scope scope @ CHR ''/'' # levelQuery @ CHR ''/'' # qry_Type a)
      (qry_Data a) (query_props a) rt c) =
    DispatchQuery \<lparr>Topic = cl @ CHR ''/'' # norm_scope scope @ CHR ''/'' # levelQuery @ CHR ''/'' # qry_Type a,
      CorrelationId = ''''\<rparr> \<lparr>qwc_Query = a, qwc_Callback = \<lparr>cb_ResponseTopic = rt, cb_CorrelationId = c\<rparr>\<rparr>"
  using assms level_distinct
  by (subst handle_packet [where ty = "qry_Type a" and rst = "[]"])
    (auto simp: strings_Split_no_sep complies_no_slash Let_def gets)

lemma handle_action_result:
  assumes "CHR ''/'' \<notin> set cl" "valid_scope scope" "int64_range (acr_SequenceNumber a)"
  shows "handle P (publish_packet q
      (cl @ CHR ''/'' # norm_scope scope @ CHR ''/'' # levelActionResult @ CHR ''/'' # rest)
      (acr_Data a) (result_props (acr_Context a) (acr_DataContentType a) (acr_SequenceNumber a)) rt c) =
    DispatchActionResult \<lparr>Topic = cl @ CHR ''/'' # norm_scope scope @ CHR ''/'' # levelActionResult @ CHR ''/'' # rest,
      CorrelationId = cid_string c\<rparr> a"
  using assms level_distinct
  by (subst handle_packet [where ty = "hd (strings_Split rest CHR ''/'')" and rst = "tl (strings_Split rest CHR ''/'')"])
    (auto simp: Let_def gets ParseInt_FormatInt int64_range_def)

lemma handle_query_result:
  assumes "CHR ''/'' \<notin> set cl" "valid_scope scope" "int64_range (qrr_SequenceNumber a)"
  shows "handle P (publish_packet q
      (cl @ CHR ''/'' # norm_scope scope @ CHR ''/'' # levelQueryResult @ CHR ''/'' # rest)
      (qrr_Data a) (result_props (qrr_Context a) (qrr_DataContentType a) (qrr_SequenceNumber a)) rt c) =
    DispatchQueryResult \<lparr>Topic = cl @ CHR ''/'' # norm_scope scope @ CHR ''/'' # levelQueryResult @ CHR ''/'' # rest,
      CorrelationId = cid_string c\<rparr> a"
  using assms level_distinct
  by (subst handle_packet [where ty = "hd (strings_Split rest CHR ''/'')" and rst = "tl (strings_Split rest CHR ''/'')"])
    (auto simp: Let_def gets ParseInt_FormatInt int64_range_def)

end

subsection \<open>Successful operations\<close>

lemma publish_ok:
  assumes "publish P topic payload props rt c l = (None, l')"
  shows "\<exists>cn. conn l = Some cn \<and> l' = l\<lparr>net := net l'\<rparr> \<and>
    conn_Publish P cn (createPubSubContext l) (publish_packet (qos l) topic payload props rt c) (net l) = (None, net l')"
  using assms by (auto simp: publish_def NewRetryableError_def split: option.splits prod.splits)

lemma PublishEvent_ok:
  assumes "PublishEvent P b event scope = (None, b')"
  shows "compliesWithNamingConvention (evt_Type event)"
    and "\<exists>c. conn (lnk b) = Some c \<and>
      conn_Publish P c (createPubSubContext (lnk b))
        (publish_packet (qos (lnk b)) (fst (topicWithLevels b '''' (scope_arg scope) [levelEvent, evt_Type event]))
          (evt_Data event) (event_props event) '''' None) (net (lnk b)) = (None, net (lnk b'))"
proof -
  from assms have v: "validatePatternTypeIdSource (evt_Type event) (evt_Id event) (evt_Source event) = None"
    and "\<exists>l. publish P (fst (topicWithLevels b '''' (scope_arg scope) [levelEvent, evt_Type event]))
        (evt_Data event) (event_props event) '''' None (lnk b) = (None, l) \<and> b' = b\<lparr>lnk := l\<rparr>"
    by (auto simp: PublishEvent_def split: option.splits prod.splits if_splits)
  then show "compliesWithNamingConvention (evt_Type event)"
    "\<exists>c. conn (lnk b) = Some c \<and>
      conn_Publish P c (createPubSubContext (lnk b))
        (publish_packet (qos (lnk b)) (fst (topicWithLevels b '''' (scope_arg scope) [levelEvent, evt_Type event]))
          (evt_Data event) (event_props event) '''' None) (net (lnk b)) = (None, net (lnk b'))"
    by (auto simp: validate_pattern_None dest!: publish_ok)
qed

lemma SubscribeEvent_ok:
  assumes "SubscribeEvent P b ctx flt = (Inr rc, b')"
  shows "compliesWithNamingConvention (sf_Type flt)"
    and "\<exists>s u l. Add (eventRouter b) (lnk b) ctx
      \<lparr>Topic = fst (topicWithLevels b (sf_Share flt) (sf_Scope flt) [levelEvent, sf_Type flt]), CorrelationId = ''''\<rparr>
      s (\<lambda>l. (None, l)) u None = (Inr rc, eventRouter b', l)"
proof -
  show "compliesWithNamingConvention (sf_Type flt)"
    using assms by (auto simp: SubscribeEvent_def validate_filter_None split: option.splits)
  show "\<exists>s u l. Add (eventRouter b) (lnk b) ctx
      \<lparr>Topic = fst (topicWithLevels b (sf_Share flt) (sf_Scope flt) [levelEvent, sf_Type flt]), CorrelationId = ''''\<rparr>
      s (\<lambda>l. (None, l)) u None = (Inr rc, eventRouter b', l)"
    using assms by (force simp: SubscribeEvent_def split: option.splits prod.splits if_splits)
qed

text \<open>The callback a request carries: its response topic and its correlation id.\<close>

definition callback_of :: "('c, 'w) Mqtt5Binding \<Rightarrow> string \<Rightarrow> Scope option \<Rightarrow> string \<Rightarrow> string \<Rightarrow> Callback" where
  "callback_of b uuid scope lvl ty =
     \<lparr>cb_ResponseTopic = fst (responseInfo b uuid (fst (topicWithLevels b '''' (scope_arg scope) [lvl, ty]))),
      cb_CorrelationId = Some (bytes_of_string uuid)\<rparr>"

lemma callback_topic:
  "cb_ResponseTopic (callback_of b uuid scope lvl ty) =
    cluster b @ CHR ''/'' # norm_scope (scope_arg scope) @ CHR ''/'' # lvl @ CHR ''/'' # ty @ CHR ''/'' # responseId b"
  by (simp add: callback_of_def responseInfo_def pub_topic)

lemma PublishAction_ok:
  assumes "PublishAction P b uuid ctx a scope = (Inr rc, b')"
  defines "cb \<equiv> callback_of b uuid scope levelActionResult (act_Type a)"
  shows "compliesWithNamingConvention (act_Type a)"
    and "\<exists>s p u l. Add (actionResultRouter b) (lnk b) ctx \<lparr>Topic = cb_ResponseTopic cb, CorrelationId = uuid\<rparr> s p u None =
      (Inr rc, actionResultRouter b', l)"
    and "\<exists>c q w t. conn_Publish P c t
      (publish_packet q (fst (topicWithLevels b '''' (scope_arg scope) [levelAction, act_Type a])) (act_Params a)
        (action_props a) (cb_ResponseTopic cb) (cb_CorrelationId cb)) w = (None, net (lnk b'))"
proof -
  let ?p = "publish P (fst (topicWithLevels b '''' (scope_arg scope) [levelAction, act_Type a])) (act_Params a)
    (action_props a) (cb_ResponseTopic cb) (cb_CorrelationId cb)"
  from assms obtain s u l where
    v: "validatePatternTypeIdSource (act_Type a) (act_Id a) (act_Source a) = None" and
    add: "Add (actionResultRouter b) (lnk b) ctx \<lparr>Topic = cb_ResponseTopic cb, CorrelationId = uuid\<rparr> s ?p u None =
      (Inr rc, actionResultRouter b', l)" and l: "lnk b' = l"
    by (auto simp: PublishAction_def callback_of_def responseInfo_def Let_def split: option.splits prod.splits if_splits)
  from v show "compliesWithNamingConvention (act_Type a)" by (simp add: validate_pattern_None)
  from add show "\<exists>s p u l. Add (actionResultRouter b) (lnk b) ctx
      \<lparr>Topic = cb_ResponseTopic cb, CorrelationId = uuid\<rparr> s p u None = (Inr rc, actionResultRouter b', l)" by blast
  from Add_success(4) [OF add] obtain w1 where "?p w1 = (None, l)" by blast
  with l publish_ok show "\<exists>c q w t. conn_Publish P c t
      (publish_packet q (fst (topicWithLevels b '''' (scope_arg scope) [levelAction, act_Type a])) (act_Params a)
        (action_props a) (cb_ResponseTopic cb) (cb_CorrelationId cb)) w = (None, net (lnk b'))"
    by metis
qed

lemma PublishQuery_ok:
  assumes "PublishQuery P b uuid ctx a scope = (Inr rc, b')"
  defines "cb \<equiv> callback_of b uuid scope levelQueryResult (qry_Type a)"
  shows "compliesWithNamingConvention (qry_Type a)"
    and "\<exists>s p u l. Add (queryResultRouter b) (lnk b) ctx \<lparr>Topic = cb_ResponseTopic cb, CorrelationId = uuid\<rparr> s p u None =
      (Inr rc, queryResultRouter b', l)"
    and "\<exists>c q w t. conn_Publish P c t
      (publish_packet q (fst (topicWithLevels b '''' (scope_arg scope) [levelQuery, qry_Type a])) (qry_Data a)
        (query_props a) (cb_ResponseTopic cb) (cb_CorrelationId cb)) w = (None, net (lnk b'))"
proof -
  let ?p = "publish P (fst (topicWithLevels b '''' (scope_arg scope) [levelQuery, qry_Type a])) (qry_Data a)
    (query_props a) (cb_ResponseTopic cb) (cb_CorrelationId cb)"
  from assms obtain s u l where
    v: "validatePatternTypeIdSource (qry_Type a) (qry_Id a) (qry_Source a) = None" and
    add: "Add (queryResultRouter b) (lnk b) ctx \<lparr>Topic = cb_ResponseTopic cb, CorrelationId = uuid\<rparr> s ?p u None =
      (Inr rc, queryResultRouter b', l)" and l: "lnk b' = l"
    by (auto simp: PublishQuery_def callback_of_def responseInfo_def Let_def split: option.splits prod.splits if_splits)
  from v show "compliesWithNamingConvention (qry_Type a)" by (simp add: validate_pattern_None)
  from add show "\<exists>s p u l. Add (queryResultRouter b) (lnk b) ctx
      \<lparr>Topic = cb_ResponseTopic cb, CorrelationId = uuid\<rparr> s p u None = (Inr rc, queryResultRouter b', l)" by blast
  from Add_success(4) [OF add] obtain w1 where "?p w1 = (None, l)" by blast
  with l publish_ok show "\<exists>c q w t. conn_Publish P c t
      (publish_packet q (fst (topicWithLevels b '''' (scope_arg scope) [levelQuery, qry_Type a])) (qry_Data a)
        (query_props a) (cb_ResponseTopic cb) (cb_CorrelationId cb)) w = (None, net (lnk b'))"
    by metis
qed

lemma SubscribeAction_ok:
  assumes "SubscribeAction P b ctx flt = (Inr rc, b')"
  shows "compliesWithNamingConvention (sf_Type flt)"
    and "\<exists>s u l. Add (actionRouter b) (lnk b) ctx
      \<lparr>Topic = fst (topicWithLevels b (sf_Share flt) (sf_Scope flt) [levelAction, sf_Type flt]), CorrelationId = ''''\<rparr>
      s (\<lambda>l. (None, l)) u None = (Inr rc, actionRouter b', l)"
proof -
  show "compliesWithNamingConvention (sf_Type flt)"
    using assms by (auto simp: SubscribeAction_def validate_filter_None split: option.splits)
  show "\<exists>s u l. Add (actionRouter b) (lnk b) ctx
      \<lparr>Topic = fst (topicWithLevels b (sf_Share flt) (sf_Scope flt) [levelAction, sf_Type flt]), CorrelationId = ''''\<rparr>
      s (\<lambda>l. (None, l)) u None = (Inr rc, actionRouter b', l)"
    using assms by (force simp: SubscribeAction_def split: option.splits prod.splits if_splits)
qed

lemma SubscribeQuery_ok:
  assumes "SubscribeQuery P b ctx flt = (Inr rc, b')"
  shows "compliesWithNamingConvention (sf_Type flt)"
    and "\<exists>s u l. Add (queryRouter b) (lnk b) ctx
      \<lparr>Topic = fst (topicWithLevels b (sf_Share flt) (sf_Scope flt) [levelQuery, sf_Type flt]), CorrelationId = ''''\<rparr>
      s (\<lambda>l. (None, l)) u None = (Inr rc, queryRouter b', l)"
proof -
  show "compliesWithNamingConvention (sf_Type flt)"
    using assms by (auto simp: SubscribeQuery_def validate_filter_None split: option.splits)
  show "\<exists>s u l. Add (queryRouter b) (lnk b) ctx
      \<lparr>Topic = fst (topicWithLevels b (sf_Share flt) (sf_Scope flt) [levelQuery, sf_Type flt]), CorrelationId = ''''\<rparr>
      s (\<lambda>l. (None, l)) u None = (Inr rc, queryRouter b', l)"
    using assms by (force simp: SubscribeQuery_def split: option.splits prod.splits if_splits)
qed

subsection \<open>A client held in memory\<close>

text \<open>
  A client that accepts everything: its state holds the topics subscribed and the packets sent.
  It is the instance that shows the contracts of this theory can be fulfilled.
\<close>

record mem_client =
  mq_topics :: "string list"
  mq_sent :: "Publish list"

definition mem_paho :: "(unit, mem_client) paho" where
  "mem_paho = \<lparr>
     NewConnection = (\<lambda>cfg w. (Inr (), w)),
     AwaitConnection = (\<lambda>c t w. (None, w)),
     Connack_SharedSubAvailable = (\<lambda>c w. True),
     conn_Publish = (\<lambda>c t p w. (None, w\<lparr>mq_sent := mq_sent w @ [p]\<rparr>)),
     conn_Subscribe = (\<lambda>c t subs w. (None, w\<lparr>mq_topics := map sub_Topic subs @ mq_topics w\<rparr>)),
     conn_Unsubscribe = (\<lambda>c t topics w. (None, w\<lparr>mq_topics := filter (\<lambda>x. x \<notin> set topics) (mq_topics w)\<rparr>)),
     conn_Disconnect = (\<lambda>c t w. (None, w\<lparr>mq_topics := []\<rparr>)),
     User_Get = (\<lambda>ps k. case map_of ps k of None \<Rightarrow> '''' | Some v \<Rightarrow> v),
     url_Parse = (\<lambda>s. Inr s),
     LoadX509KeyPair = (\<lambda>c k. Inr c)\<rparr>"

interpretation mem: user_properties mem_paho
  by unfold_locales (simp add: mem_paho_def)

lemma user_properties_mem: "user_properties mem_paho"
  by (rule mem.user_properties_axioms)

definition mem_binding :: "string \<Rightarrow> (unit, mem_client) Mqtt5Binding" where
  "mem_binding ident = \<lparr>eventRouter = NewRouter, actionRouter = NewRouter, actionResultRouter = NewRouter,
     queryRouter = NewRouter, queryResultRouter = NewRouter, clientId = ''DDA'' @ ident, cluster = ''dda'',
     responseId = ident, sharedSubAvailable = True,
     lnk = \<lparr>conn = Some (), qos = 0, noLocal = False, net = \<lparr>mq_topics = [], mq_sent = []\<rparr>\<rparr>\<rparr>"

subsection \<open>Requests reach their subscribers, responses their publisher\<close>

lemma action_delivered:
  assumes "user_properties P'" "CHR ''/'' \<notin> set (cluster b)" "cluster b2 = cluster b"
    and "valid_scope (scope_arg scope)" "valid_scope (sf_Scope flt)" "router_inv (actionRouter b2)"
    and pub: "PublishAction P b uuid ctx action scope = (Inr rc, b')"
    and sub: "SubscribeAction P' b2 ctx2 flt = (Inr rc2, b2')"
  shows "\<exists>c t w p rf. conn_Publish P c t p w = (None, net (lnk b')) \<and>
    handle P' p = DispatchAction rf \<lparr>awc_Action = action,
      awc_Callback = callback_of b uuid scope levelActionResult (act_Type action)\<rparr> \<and>
    (rc2 \<in> set (dispatch_targets '''' (actionRouter b2') rf) \<longleftrightarrow>
       sf_Type flt = act_Type action \<and> norm_scope (sf_Scope flt) = norm_scope (scope_arg scope))"
proof -
  let ?cb = "callback_of b uuid scope levelActionResult (act_Type action)"
  let ?t = "fst (topicWithLevels b '''' (scope_arg scope) [levelAction, act_Type action])"
  from SubscribeAction_ok [OF sub] obtain s u l where ty: "compliesWithNamingConvention (sf_Type flt)" and
    add: "Add (actionRouter b2) (lnk b2) ctx2
      \<lparr>Topic = fst (topicWithLevels b2 (sf_Share flt) (sf_Scope flt) [levelAction, sf_Type flt]), CorrelationId = ''''\<rparr>
      s (\<lambda>l. (None, l)) u None = (Inr rc2, actionRouter b2', l)"
    by blast
  note a = PublishAction_ok [OF pub]
  have "rc2 \<in> set (dispatch_targets '''' (actionRouter b2') \<lparr>Topic = ?t, CorrelationId = ''''\<rparr>) \<longleftrightarrow>
      sf_Type flt = act_Type action \<and> norm_scope (sf_Scope flt) = norm_scope (scope_arg scope)"
    by (simp add: Add_targeted [OF assms(6) add] pub_topic_eq [OF assms(2-5) level_no_slash(2) a(1) ty])
  moreover from a(3) obtain c q w t where "conn_Publish P c t (publish_packet q ?t (act_Params action)
      (action_props action) (cb_ResponseTopic ?cb) (cb_CorrelationId ?cb)) w = (None, net (lnk b'))"
    by (elim exE)
  moreover have "handle P' (publish_packet q ?t (act_Params action) (action_props action) (cb_ResponseTopic ?cb)
      (cb_CorrelationId ?cb)) = DispatchAction \<lparr>Topic = ?t, CorrelationId = ''''\<rparr> \<lparr>awc_Action = action, awc_Callback = ?cb\<rparr>"
    using user_properties.handle_action [OF assms(1,2,4) a(1)] by (simp add: pub_topic)
  ultimately show ?thesis by (intro exI conjI)
qed

lemma action_answered:
  assumes "user_properties P" "CHR ''/'' \<notin> set (cluster b)" "valid_scope (scope_arg scope)"
    and pub: "PublishAction P b uuid ctx action scope = (Inr rc, b')"
    and fresh: "\<And>t rc'. (t, rc') \<in> routed (actionResultRouter b) \<Longrightarrow> correlationId rc' \<noteq> uuid"
    and seq: "int64_range (acr_SequenceNumber result)"
    and cb: "cb = callback_of b uuid scope levelActionResult (act_Type action)"
    and res: "publishActionResult P' b2 result (cb_ResponseTopic cb) (cb_CorrelationId cb) = (None, b2')"
  shows "\<exists>c p rf. conn (lnk b2) = Some c \<and>
    conn_Publish P' c (createPubSubContext (lnk b2)) p (net (lnk b2)) = (None, net (lnk b2')) \<and>
    handle P p = DispatchActionResult rf result \<and> dispatch_targets '''' (actionResultRouter b') rf = [rc]"
proof -
  let ?rf = "\<lparr>Topic = cb_ResponseTopic cb, CorrelationId = uuid\<rparr>"
  let ?p = "publish_packet (qos (lnk b2)) (cb_ResponseTopic cb) (acr_Data result)
    (result_props (acr_Context result) (acr_DataContentType result) (acr_SequenceNumber result)) '''' (cb_CorrelationId cb)"
  from PublishAction_ok(2) [OF pub] obtain s p u l where
    add: "Add (actionResultRouter b) (lnk b) ctx ?rf s p u None = (Inr rc, actionResultRouter b', l)"
    unfolding cb by (elim exE)
  have "set (dispatch_targets '''' (actionResultRouter b) ?rf) = {}"
    using fresh by (auto simp: set_dispatch_targets)
  then have "dispatch_targets '''' (actionResultRouter b') ?rf = [rc]"
    using Add_success(3) [OF add, of "''''"] by simp
  moreover have "handle P ?p = DispatchActionResult ?rf result"
    using user_properties.handle_action_result [OF assms(1-3) seq] by (simp add: cb callback_topic)
      (simp add: callback_of_def cid_string_def)
  moreover from res obtain c where "conn (lnk b2) = Some c"
      "conn_Publish P' c (createPubSubContext (lnk b2)) ?p (net (lnk b2)) = (None, net (lnk b2'))"
    by (auto simp: publishActionResult_def split: prod.splits if_splits dest!: publish_ok)
  ultimately show ?thesis by (intro exI conjI)
qed

text \<open>
  C2: an event published without error is one packet given to the MQTT client; a binding of the
  same cluster that handles this packet dispatches exactly the published event, and the dispatch
  includes the channel of a subscriber if and only if its filter has the type and the scope of the
  event, whatever share it asked for.
\<close>

theorem event_reaches_subscriber:
  assumes "user_properties P'" "CHR ''/'' \<notin> set (cluster b)" "cluster b2 = cluster b"
    and "valid_scope (scope_arg scope)" "valid_scope (sf_Scope flt)" "router_inv (eventRouter b2)"
    and pub: "PublishEvent P b event scope = (None, b')"
    and sub: "SubscribeEvent P' b2 ctx flt = (Inr rc, b2')"
  shows "\<exists>c p rf. conn (lnk b) = Some c \<and>
    conn_Publish P c (createPubSubContext (lnk b)) p (net (lnk b)) = (None, net (lnk b')) \<and>
    handle P' p = DispatchEvent rf event \<and>
    (rc \<in> set (dispatch_targets '''' (eventRouter b2') rf) \<longleftrightarrow>
       sf_Type flt = evt_Type event \<and> norm_scope (sf_Scope flt) = norm_scope (scope_arg scope))"
proof -
  from SubscribeEvent_ok [OF sub] obtain s u l where ty: "compliesWithNamingConvention (sf_Type flt)" and
    add: "Add (eventRouter b2) (lnk b2) ctx
      \<lparr>Topic = fst (topicWithLevels b2 (sf_Share flt) (sf_Scope flt) [levelEvent, sf_Type flt]), CorrelationId = ''''\<rparr>
      s (\<lambda>l. (None, l)) u None = (Inr rc, eventRouter b2', l)"
    by blast
  note ev = PublishEvent_ok [OF pub]
  show ?thesis
    using ev(2) user_properties.handle_event [OF assms(1,2,4) ev(1)] Add_targeted [OF assms(6) add, of "''''"]
      pub_topic_eq [OF assms(2-5) level_no_slash(1) ev(1) ty, of "''''" "sf_Share flt"]
    by (force simp: pub_topic)
qed

text \<open>An event, an action and a query of type \<open>t\<close>, and the filter that subscribes to them.\<close>

definition example_event :: Event where
  "example_event = \<lparr>evt_Type = ''t'', evt_Id = ''1'', evt_Source = ''s'', evt_Time = '''', evt_Data = [42],
     evt_DataContentType = ''''\<rparr>"

definition example_action :: Action where
  "example_action = \<lparr>act_Type = ''t'', act_Id = ''1'', act_Source = ''s'', act_Params = [42], act_DataContentType = ''''\<rparr>"

definition example_query :: Query where
  "example_query = \<lparr>qry_Type = ''t'', qry_Id = ''1'', qry_Source = ''s'', qry_Data = [42], qry_DataContentType = ''''\<rparr>"

definition example_filter :: SubscriptionFilter where
  "example_filter = \<lparr>sf_Scope = '''', sf_Type = ''t'', sf_Share = ''g''\<rparr>"

lemmas example_defs = example_event_def example_action_def example_query_def example_filter_def mem_binding_def
  mem_paho_def scope_arg_def valid_scope_def scope_defs NewRouter_def

lemma complies_examples [simp]: "compliesWithNamingConvention ''t''" "compliesWithNamingConvention ''g''"
  by (simp_all add: compliesWithNamingConvention_def naming_char_def)

lemma router_inv_NewRouter [simp]: "router_inv NewRouter"
  using rsys_inv_init by (simp add: rsys_inv_def init_rsys_def)

lemmas example_eval = example_defs validatePatternTypeIdSource_def validatePatternFilter_def ValidateName_def
  ValidateNonEmpty_def Add_def publish_def subscribe_def
  Let_def NewRetryableError_def topicWithLevels_def responseInfo_def register_rc_def

lemma example_publish:
  "fst (PublishEvent mem_paho (mem_binding ''a'') example_event None) = None"
  "\<not> isl (fst (SubscribeEvent mem_paho (mem_binding ''b'') 0 example_filter))"
  "\<not> isl (fst (PublishAction mem_paho (mem_binding ''a'') ''u'' 0 example_action None))"
  "\<not> isl (fst (SubscribeAction mem_paho (mem_binding ''b'') 0 example_filter))"
  "\<not> isl (fst (PublishQuery mem_paho (mem_binding ''a'') ''u'' 0 example_query None))"
  "\<not> isl (fst (SubscribeQuery mem_paho (mem_binding ''b'') 0 example_filter))"
  by (simp_all add: PublishEvent_def SubscribeEvent_def PublishAction_def SubscribeAction_def PublishQuery_def
      SubscribeQuery_def example_eval)

lemma example_ok:
  "PublishEvent mem_paho (mem_binding ''a'') example_event None =
    (None, snd (PublishEvent mem_paho (mem_binding ''a'') example_event None))"
  "SubscribeEvent mem_paho (mem_binding ''b'') 0 example_filter =
    (Inr (projr (fst (SubscribeEvent mem_paho (mem_binding ''b'') 0 example_filter))),
     snd (SubscribeEvent mem_paho (mem_binding ''b'') 0 example_filter))"
  "PublishAction mem_paho (mem_binding ''a'') ''u'' 0 example_action None =
    (Inr (projr (fst (PublishAction mem_paho (mem_binding ''a'') ''u'' 0 example_action None))),
     snd (PublishAction mem_paho (mem_binding ''a'') ''u'' 0 example_action None))"
  "SubscribeAction mem_paho (mem_binding ''b'') 0 example_filter =
    (Inr (projr (fst (SubscribeAction mem_paho (mem_binding ''b'') 0 example_filter))),
     snd (SubscribeAction mem_paho (mem_binding ''b'') 0 example_filter))"
  "PublishQuery mem_paho (mem_binding ''a'') ''u'' 0 example_query None =
    (Inr (projr (fst (PublishQuery mem_paho (mem_binding ''a'') ''u'' 0 example_query None))),
     snd (PublishQuery mem_paho (mem_binding ''a'') ''u'' 0 example_query None))"
  "SubscribeQuery mem_paho (mem_binding ''b'') 0 example_filter =
    (Inr (projr (fst (SubscribeQuery mem_paho (mem_binding ''b'') 0 example_filter))),
     snd (SubscribeQuery mem_paho (mem_binding ''b'') 0 example_filter))"
  using example_publish by (simp_all add: prod_eq_iff)

lemma example_hyps:
  "CHR ''/'' \<notin> set (cluster (mem_binding ''a''))" "cluster (mem_binding ''b'') = cluster (mem_binding ''a'')"
  "valid_scope (scope_arg None)" "valid_scope (sf_Scope example_filter)"
  "router_inv (eventRouter (mem_binding ''b''))" "router_inv (actionRouter (mem_binding ''b''))"
  "router_inv (queryRouter (mem_binding ''b''))"
  by (simp_all add: mem_binding_def scope_arg_def valid_scope_def example_filter_def scope_defs)

theorem event_reaches_subscriber_witness:
  "\<exists>p rf. handle mem_paho p = DispatchEvent rf example_event \<and>
    projr (fst (SubscribeEvent mem_paho (mem_binding ''b'') 0 example_filter)) \<in>
      set (dispatch_targets '''' (eventRouter (snd (SubscribeEvent mem_paho (mem_binding ''b'') 0 example_filter))) rf)"
  using event_reaches_subscriber [OF user_properties_mem example_hyps(1-5) example_ok(1,2)]
  by (auto simp: example_filter_def example_event_def scope_arg_def ScopeDef_def)


definition example_action_result :: ActionResult where
  "example_action_result = \<lparr>acr_Context = '''', acr_Data = [7], acr_DataContentType = '''', acr_SequenceNumber = -3\<rparr>"


text \<open>
  A query published without error is one packet given to the MQTT client; a binding of the
  same cluster that handles it dispatches the published query together with a callback made of
  the publisher's response topic and the correlation id of this publication, and the dispatch
  includes the channel of a subscriber if and only if its filter has the type and scope of the query.
\<close>

theorem query_reaches_subscriber:
  assumes "user_properties P'" "CHR ''/'' \<notin> set (cluster b)" "cluster b2 = cluster b"
    and "valid_scope (scope_arg scope)" "valid_scope (sf_Scope flt)" "router_inv (queryRouter b2)"
    and pub: "PublishQuery P b uuid ctx query scope = (Inr rc, b')"
    and sub: "SubscribeQuery P' b2 ctx2 flt = (Inr rc2, b2')"
  shows "\<exists>c t w p rf. conn_Publish P c t p w = (None, net (lnk b')) \<and>
    handle P' p = DispatchQuery rf \<lparr>qwc_Query = query,
      qwc_Callback = callback_of b uuid scope levelQueryResult (qry_Type query)\<rparr> \<and>
    (rc2 \<in> set (dispatch_targets '''' (queryRouter b2') rf) \<longleftrightarrow>
       sf_Type flt = qry_Type query \<and> norm_scope (sf_Scope flt) = norm_scope (scope_arg scope))"
proof -
  let ?cb = "callback_of b uuid scope levelQueryResult (qry_Type query)"
  let ?t = "fst (topicWithLevels b '''' (scope_arg scope) [levelQuery, qry_Type query])"
  from SubscribeQuery_ok [OF sub] obtain s u l where ty: "compliesWithNamingConvention (sf_Type flt)" and
    add: "Add (queryRouter b2) (lnk b2) ctx2
      \<lparr>Topic = fst (topicWithLevels b2 (sf_Share flt) (sf_Scope flt) [levelQuery, sf_Type flt]), CorrelationId = ''''\<rparr>
      s (\<lambda>l. (None, l)) u None = (Inr rc2, queryRouter b2', l)"
    by blast
  note a = PublishQuery_ok [OF pub]
  have "rc2 \<in> set (dispatch_targets '''' (queryRouter b2') \<lparr>Topic = ?t, CorrelationId = ''''\<rparr>) \<longleftrightarrow>
      sf_Type flt = qry_Type query \<and> norm_scope (sf_Scope flt) = norm_scope (scope_arg scope)"
    by (simp add: Add_targeted [OF assms(6) add] pub_topic_eq [OF assms(2-5) level_no_slash(4) a(1) ty])
  moreover from a(3) obtain c q w t where "conn_Publish P c t (publish_packet q ?t (qry_Data query)
      (query_props query) (cb_ResponseTopic ?cb) (cb_CorrelationId ?cb)) w = (None, net (lnk b'))"
    by (elim exE)
  moreover have "handle P' (publish_packet q ?t (qry_Data query) (query_props query) (cb_ResponseTopic ?cb)
      (cb_CorrelationId ?cb)) = DispatchQuery \<lparr>Topic = ?t, CorrelationId = ''''\<rparr> \<lparr>qwc_Query = query, qwc_Callback = ?cb\<rparr>"
    using user_properties.handle_query [OF assms(1,2,4) a(1)] by (simp add: pub_topic)
  ultimately show ?thesis by (intro exI conjI)
qed

theorem query_reaches_subscriber_witness:
  "\<exists>p rf. handle mem_paho p = DispatchQuery rf \<lparr>qwc_Query = example_query,
      qwc_Callback = callback_of (mem_binding ''a'') ''u'' None levelQueryResult ''t''\<rparr> \<and>
    projr (fst (SubscribeQuery mem_paho (mem_binding ''b'') 0 example_filter)) \<in>
      set (dispatch_targets '''' (queryRouter (snd (SubscribeQuery mem_paho (mem_binding ''b'') 0 example_filter))) rf)"
  using query_reaches_subscriber [OF user_properties_mem example_hyps(1-4,7) example_ok(5,6)]
  by (auto simp: example_filter_def example_query_def scope_arg_def ScopeDef_def)

text \<open>
  A result that a responder publishes through the callback of a query is one packet; when the
  publisher of the query handles it, it dispatches exactly this result (its sequence number is
  read back from the decimal text), to exactly the channel returned by this publication, as long
  as no other pending publication has drawn the same correlation id.
\<close>

theorem query_response_correlated:
  assumes "user_properties P" "CHR ''/'' \<notin> set (cluster b)" "valid_scope (scope_arg scope)"
    and pub: "PublishQuery P b uuid ctx query scope = (Inr rc, b')"
    and fresh: "\<And>t rc'. (t, rc') \<in> routed (queryResultRouter b) \<Longrightarrow> correlationId rc' \<noteq> uuid"
    and seq: "int64_range (qrr_SequenceNumber result)"
    and cb: "cb = callback_of b uuid scope levelQueryResult (qry_Type query)"
    and res: "publishQueryResult P' b2 result (cb_ResponseTopic cb) (cb_CorrelationId cb) = (None, b2')"
  shows "\<exists>c p rf. conn (lnk b2) = Some c \<and>
    conn_Publish P' c (createPubSubContext (lnk b2)) p (net (lnk b2)) = (None, net (lnk b2')) \<and>
    handle P p = DispatchQueryResult rf result \<and> dispatch_targets '''' (queryResultRouter b') rf = [rc]"
proof -
  let ?rf = "\<lparr>Topic = cb_ResponseTopic cb, CorrelationId = uuid\<rparr>"
  let ?p = "publish_packet (qos (lnk b2)) (cb_ResponseTopic cb) (qrr_Data result)
    (result_props (qrr_Context result) (qrr_DataContentType result) (qrr_SequenceNumber result)) '''' (cb_CorrelationId cb)"
  from PublishQuery_ok(2) [OF pub] obtain s p u l where
    add: "Add (queryResultRouter b) (lnk b) ctx ?rf s p u None = (Inr rc, queryResultRouter b', l)"
    unfolding cb by (elim exE)
  have "set (dispatch_targets '''' (queryResultRouter b) ?rf) = {}"
    using fresh by (auto simp: set_dispatch_targets)
  then have "dispatch_targets '''' (queryResultRouter b') ?rf = [rc]"
    using Add_success(3) [OF add, of "''''"] by simp
  moreover have "handle P ?p = DispatchQueryResult ?rf result"
    using user_properties.handle_query_result [OF assms(1-3) seq] by (simp add: cb callback_topic)
      (simp add: callback_of_def cid_string_def)
  moreover from res obtain c where "conn (lnk b2) = Some c"
      "conn_Publish P' c (createPubSubContext (lnk b2)) ?p (net (lnk b2)) = (None, net (lnk b2'))"
    by (auto simp: publishQueryResult_def split: prod.splits if_splits dest!: publish_ok)
  ultimately show ?thesis by (intro exI conjI)
qed

definition example_query_result :: QueryResult where
  "example_query_result = \<lparr>qrr_Context = '''', qrr_Data = [7], qrr_DataContentType = '''', qrr_SequenceNumber = -3\<rparr>"

theorem query_response_correlated_witness:
  "\<exists>p rf. handle mem_paho p = DispatchQueryResult rf example_query_result \<and>
    dispatch_targets '''' (queryResultRouter (snd (PublishQuery mem_paho (mem_binding ''a'') ''u'' 0 example_query None))) rf =
      [projr (fst (PublishQuery mem_paho (mem_binding ''a'') ''u'' 0 example_query None))]"
proof -
  let ?cb = "callback_of (mem_binding ''a'') ''u'' None levelQueryResult (qry_Type example_query)"
  have "fst (publishQueryResult mem_paho (mem_binding ''b'') example_query_result (cb_ResponseTopic ?cb) (cb_CorrelationId ?cb)) = None"
    by (simp add: publishQueryResult_def example_eval)
  then have "publishQueryResult mem_paho (mem_binding ''b'') example_query_result (cb_ResponseTopic ?cb) (cb_CorrelationId ?cb) =
      (None, snd (publishQueryResult mem_paho (mem_binding ''b'') example_query_result (cb_ResponseTopic ?cb) (cb_CorrelationId ?cb)))"
    by (simp add: prod_eq_iff)
  from query_response_correlated [OF user_properties_mem example_hyps(1,3) example_ok(5) _ _ refl this]
  show ?thesis by (force simp: mem_binding_def NewRouter_def routed_def example_query_result_def int64_range_def)
qed

subsection \<open>Client ids\<close>

lemma strict_replace_strict: "list_all strict_char (strict_replace s)"
  by (induction s rule: strict_replace.induct) (simp_all add: strict_char_def)

lemma strict_replace_Nil [simp]: "strict_replace s = [] \<longleftrightarrow> s = []"
  by (cases s) simp_all

lemma strict_replace_ascii:
  "list_all (\<lambda>c. of_char c < (128 :: nat)) s \<Longrightarrow>
    strict_replace (s @ t) = map (\<lambda>c. if strict_char c then c else CHR ''0'') s @ strict_replace t"
  by (induction s) (simp_all add: rune_width_ascii)

text \<open>
  C31: strict client ids. With the option \<open>strictClientId\<close> the client id is what every broker has to accept: at
  most 23 characters, only digits and letters, and not empty unless name and id both are. The
  length is reached by cutting off the end, where the id is: of an ASCII name of 23 or more
  characters the id does not enter the client id at all, so that agents of the same name share one.
\<close>

theorem strict_client_id:
  assumes "map_of (com_Opts (Com (cfg_Services cfg))) ''strictClientId'' = Some (OptBool True)"
  shows "length (getClientId cfg) \<le> 23 \<and> list_all strict_char (getClientId cfg) \<and>
    (getClientId cfg = [] \<longleftrightarrow> id_Name (cfg_Identity cfg) = [] \<and> id_Id (cfg_Identity cfg) = []) \<and>
    (list_all (\<lambda>c. of_char c < (128 :: nat)) (id_Name (cfg_Identity cfg)) \<and> 23 \<le> length (id_Name (cfg_Identity cfg)) \<longrightarrow>
      getClientId cfg = take 23 (map (\<lambda>c. if strict_char c then c else CHR ''0'') (id_Name (cfg_Identity cfg))))"
proof -
  let ?s = "strict_replace (id_Name (cfg_Identity cfg) @ id_Id (cfg_Identity cfg))"
  have e: "getClientId cfg = take 23 ?s" using assms by (simp add: getClientId_def Let_def)
  have "list_all strict_char (take 23 ?s)"
    using strict_replace_strict by (auto simp: list_all_iff dest: in_set_takeD)
  then show ?thesis by (auto simp: e strict_replace_ascii)
qed

theorem strict_client_id_witness:
  "getClientId ((Config.New ''4f2a'')\<lparr>cfg_Services := (cfg_Services (Config.New ''4f2a''))
      \<lparr>Com := (Com (cfg_Services (Config.New ''4f2a'')))\<lparr>com_Opts := [(''strictClientId'', OptBool True)]\<rparr>\<rparr>,
      cfg_Identity := \<lparr>id_Name = ''temperature-sensor-agent'', id_Id = ''4f2a''\<rparr>\<rparr>) = ''temperature0sensor0agen''"
  by (subst strict_client_id [THEN conjunct2, THEN conjunct2, THEN conjunct2, rule_format]) (simp_all add: strict_char_def)

end
