(* ===== verification/Mqtt5_Session.thy ===== *)
theory Mqtt5_Session
  imports Mqtt5_Props
begin

section \<open>The subscriptions of an MQTT session\<close>

text \<open>
  The contract of the MQTT client about subscriptions (locale \<open>mqtt_client\<close>) gives the contract
  \<open>topic_binding\<close> of the routers, for the functions the binding hands to them. With it the five
  routers of a binding stay coherent with the session: under any sequence of the binding's
  operations, of context cancellations and of reconnections, every topic with a route is
  subscribed. The theorem is about subscriptions without a share; what happens to a shared one on
  a reconnection is a theorem of its own.
\<close>

subsection \<open>Frame lemmas for one router\<close>

context topic_binding begin

lemma Add_frame:
  assumes "Add r w ctx flt (subscribe (Topic flt)) (publish p) (unsubscribe (Topic flt)) n = (res, r', w')"
  shows "subscribed w - {Topic flt} \<subseteq> subscribed w'"
    and "set (GetTopics r') \<subseteq> insert (Topic flt) (set (GetTopics r))"
proof -
  have s: "subscribed w \<subseteq> subscribed w1" if "subscribe t w = (e, w1)" for t w e w1
    using that by (cases e) (auto dest: subscribe_ok subscribe_err)
  have u: "subscribed w - {t} \<subseteq> subscribed w1" if "unsubscribe t w = (e, w1)" for t w e w1
    using that by (cases e) (auto dest: unsubscribe_ok unsubscribe_err)
  show "subscribed w - {Topic flt} \<subseteq> subscribed w'"
    using assms by (fastforce simp: Add_def Let_def split: option.splits prod.splits dest: s u publish_keeps)
  have g: "set (GetTopics (register_rc flt rcs rc (r\<lparr>chans := cs\<rparr>))) = insert (Topic flt) (set (GetTopics r))" for rcs rc cs
    using GetTopics_update [of "Topic flt" "rcs @ [rc]" "r\<lparr>chans := cs\<rparr>"] by (simp add: register_rc_def)
  show "set (GetTopics r') \<subseteq> insert (Topic flt) (set (GetTopics r))"
    using assms by (auto simp: Add_def Let_def g split: option.splits prod.splits)
qed

lemma remove_frame:
  assumes "coherent r w" "(Topic flt, rc) \<in> routed r"
    and "remove (r\<lparr>afterFuncs := fs\<rparr>) w flt rc = (Some r', w')"
  shows "subscribed w - {Topic flt} \<subseteq> subscribed w'" and "set (GetTopics r') \<subseteq> set (GetTopics r)"
proof -
  from assms have "unsub rc = unsubscribe (Topic flt)" by (auto simp: coherent_def)
  moreover note t = remove_topics [of flt rc "r\<lparr>afterFuncs := fs\<rparr>" w r' w']
  ultimately show "subscribed w - {Topic flt} \<subseteq> subscribed w'"
    using assms(2,3) unsubscribe_ok [of "Topic flt" w w'] unsubscribe_err [of "Topic flt" w _ w']
    by (cases "fst (unsubscribe (Topic flt) w)") fastforce+
  from t assms(2,3) show "set (GetTopics r') \<subseteq> set (GetTopics r)" by auto
qed

lemma coherent_frame:
  "coherent r w \<Longrightarrow> subscribed w - {t} \<subseteq> subscribed w' \<Longrightarrow> t \<notin> set (GetTopics r) \<Longrightarrow> coherent r w'"
  by (auto simp: coherent_def)

end

subsection \<open>The MQTT client\<close>

text \<open>
  The topics a client is subscribed to: a granted subscription adds its topics, a refused one
  removes none, an acknowledged unsubscription removes its topics. A failed unsubscription keeps
  them, which is what the router assumes when it keeps the topic of a failed removal.
\<close>

locale mqtt_client =
  fixes P :: "('c, 'w) paho" and topics :: "'w \<Rightarrow> string set"
  assumes Subscribe_ok: "conn_Subscribe P c t subs w = (None, w') \<Longrightarrow> topics w' = sub_Topic ` set subs \<union> topics w"
    and Subscribe_err: "conn_Subscribe P c t subs w = (Some e, w') \<Longrightarrow> topics w \<subseteq> topics w'"
    and Unsubscribe_ok: "conn_Unsubscribe P c t ts w = (None, w') \<Longrightarrow> topics w' = topics w - set ts"
    and Unsubscribe_err: "conn_Unsubscribe P c t ts w = (Some e, w') \<Longrightarrow> topics w' = topics w"
    and Publish_keeps: "conn_Publish P c t p w = (err, w') \<Longrightarrow> topics w' = topics w"

definition pub_fun ::
  "('c, 'w) paho \<Rightarrow> (string \<times> bytes \<times> UserProperties \<times> string \<times> bytes option) option \<Rightarrow> ('c, 'w) link ComBindingFunc"
where
  "pub_fun P x = (case x of None \<Rightarrow> (\<lambda>l. (None, l)) | Some (t, pl, ps, rt, c) \<Rightarrow> publish P t pl ps rt c)"

lemma pub_fun_simps:
  "pub_fun P None = (\<lambda>l. (None, l))" "pub_fun P (Some (t, pl, ps, rt, c)) = publish P t pl ps rt c"
  by (simp_all add: pub_fun_def)

sublocale mqtt_client \<subseteq> tb: topic_binding "\<lambda>l. topics (net l)" "\<lambda>t. subscribe P [t]" "\<lambda>t. unsubscribe P [t]" "pub_fun P"
proof
  show "topics (net w') = insert t (topics (net w))" if "subscribe P [t] w = (None, w')" for t w w'
    using that by (auto simp: subscribe_def split: option.splits prod.splits dest!: Subscribe_ok)
  show "topics (net w) \<subseteq> topics (net w')" if "subscribe P [t] w = (Some e, w')" for t w w' e
    using that by (auto simp: subscribe_def split: option.splits prod.splits dest!: Subscribe_err)
  show "topics (net w') = topics (net w) - {t}" if "unsubscribe P [t] w = (None, w')" for t w w'
    using that by (auto simp: unsubscribe_def split: option.splits prod.splits dest!: Unsubscribe_ok)
  show "topics (net w') = topics (net w)" if "unsubscribe P [t] w = (Some e, w')" for t w w' e
    using that Unsubscribe_err [of _ _ "[t]" "net w"]
    by (cases "conn w") (fastforce simp: unsubscribe_def split: option.splits prod.splits)+
  show "topics (net w') = topics (net w)" if "pub_fun P x w = (err, w')" for x w w' err
    using that Publish_keeps
    by (cases x) (fastforce simp: pub_fun_def publish_def split: option.splits prod.splits)+
qed

subsection \<open>The invariant of a session\<close>

definition level_of :: "string \<Rightarrow> string" where
  "level_of t = strings_Split t CHR ''/'' ! 2"

lemma level_of_topic:
  assumes "CHR ''/'' \<notin> set (cluster b)" "valid_scope s" "CHR ''/'' \<notin> set lvl"
  shows "level_of (fst (topicWithLevels b share s [lvl, t])) = lvl"
    and "level_of (fst (responseInfo b uuid (fst (topicWithLevels b share s [lvl, t])))) = lvl"
  using assms split_pub_topic [OF assms] by (simp_all add: level_of_def pub_topic responseInfo_def)

context mqtt_client begin

text \<open>One router: its own invariant, coherence with the session, and the topic level of its routes.\<close>

definition comp :: "string \<Rightarrow> ('r, string, ('c, 'w) link) Router \<Rightarrow> ('c, 'w) link \<Rightarrow> bool" where
  "comp lvl r l \<longleftrightarrow> router_inv r \<and> tb.coherent r l \<and> (\<forall>t\<in>set (GetTopics r). level_of t = lvl)"

lemma comp_New: "comp lvl NewRouter l"
  by (simp add: comp_def tb.coherent_NewRouter) (simp add: GetTopics_def NewRouter_def)

text \<open>A step that unsubscribes at most one topic, of the level \<open>lvl\<close>, and thus concerns one router only.\<close>

definition near :: "string \<Rightarrow> ('c, 'w) link \<Rightarrow> ('c, 'w) link \<Rightarrow> bool" where
  "near lvl l l' \<longleftrightarrow> (\<exists>t. level_of t = lvl \<and> topics (net l) - {t} \<subseteq> topics (net l'))"

lemma comp_near: "near lvl l l' \<Longrightarrow> lvl' \<noteq> lvl \<Longrightarrow> comp lvl' r l \<Longrightarrow> comp lvl' r l'"
  by (auto simp: comp_def near_def intro: tb.coherent_frame)

lemma comp_mono: "comp lvl r l \<Longrightarrow> topics (net l) \<subseteq> topics (net l') \<Longrightarrow> comp lvl r l'"
  by (auto simp: comp_def intro: tb.coherent_mono)

lemma comp_Add:
  assumes "comp lvl r l" "level_of (Topic flt) = lvl"
    and "Add r l ctx flt (subscribe P [Topic flt]) (pub_fun P p) (unsubscribe P [Topic flt]) n = (res, r', l')"
  shows "comp lvl r' l'" and "near lvl l l'"
proof -
  note fr = tb.Add_frame [OF assms(3)]
  show "comp lvl r' l'"
    unfolding comp_def
  proof (intro conjI ballI)
    show "router_inv r'" using router_inv_Add [OF _ assms(3)] assms(1) by (simp add: comp_def)
    show "tb.coherent r' l'" using tb.coherent_Add [OF _ assms(3)] assms(1) by (simp add: comp_def)
    show "level_of t = lvl" if "t \<in> set (GetTopics r')" for t
      using that fr(2) assms(1,2) by (auto simp: comp_def)
  qed
  show "near lvl l l'" using fr(1) assms(2) unfolding near_def by blast
qed

lemma comp_remove:
  assumes c: "comp lvl r l" and af: "afterFuncs r = fs @ (flt, rc) # gs"
    and rem: "remove (r\<lparr>afterFuncs := fs @ gs\<rparr>) l flt rc = (Some r', l')"
  shows "comp lvl r' l'" and "near lvl l l'"
proof -
  have inv: "router_inv r" and coh: "tb.coherent r l" using c by (simp_all add: comp_def)
  have "(Topic flt, rc) \<in> set (pending r)" by (simp add: pending_def af)
  then have rt: "(Topic flt, rc) \<in> routed r" using inv by (simp add: router_inv_def)
  have "Topic flt \<in> set (GetTopics r)"
    using rt by (auto simp: routed_def GetTopics_iff)
  then have lvl: "level_of (Topic flt) = lvl" using c by (simp add: comp_def)
  note fr = tb.remove_frame [OF coh rt rem]
  show "comp lvl r' l'"
    using c fr(2) tb.coherent_remove [OF inv coh rt rem] router_inv_remove [OF inv af rem]
    by (auto simp: comp_def)
  show "near lvl l l'" using fr(1) lvl unfolding near_def by blast
qed

definition session_inv :: "('c, 'w) Mqtt5Binding \<Rightarrow> bool" where
  "session_inv b \<longleftrightarrow> comp levelEvent (eventRouter b) (lnk b) \<and> comp levelAction (actionRouter b) (lnk b) \<and>
     comp levelActionResult (actionResultRouter b) (lnk b) \<and> comp levelQuery (queryRouter b) (lnk b) \<and>
     comp levelQueryResult (queryResultRouter b) (lnk b)"

end

subsection \<open>Steps of a session\<close>

text \<open>
  The operations of an open binding, the removals that run when a context is done, and a
  reconnection: the client starts a new session without subscriptions (\<open>CleanStart\<close>), whatever
  state \<open>w\<close> it is in, and \<open>OnConnectionUp\<close> resubscribes. A resubscription that fails is only
  logged by the code; the relation is about the ones that succeed.
\<close>

inductive session_step ::
  "('c, 'w) paho \<Rightarrow> ('c, 'w) Mqtt5Binding \<Rightarrow> ('c, 'w) Mqtt5Binding \<Rightarrow> bool" for P :: "('c, 'w) paho" where
  pub_event: "PublishEvent P b event scope = (res, b') \<Longrightarrow> session_step P b b'"
| sub_event: "valid_scope (sf_Scope flt) \<Longrightarrow> sf_Share flt = '''' \<Longrightarrow> SubscribeEvent P b ctx flt = (rc, b') \<Longrightarrow>
    session_step P b b'"
| pub_action: "valid_scope (scope_arg scope) \<Longrightarrow> PublishAction P b uuid ctx action scope = (rc, b') \<Longrightarrow> session_step P b b'"
| sub_action: "valid_scope (sf_Scope flt) \<Longrightarrow> sf_Share flt = '''' \<Longrightarrow> SubscribeAction P b ctx flt = (rc, b') \<Longrightarrow>
    session_step P b b'"
| pub_action_result: "publishActionResult P b ar rt cid = (res, b') \<Longrightarrow> session_step P b b'"
| pub_query: "valid_scope (scope_arg scope) \<Longrightarrow> PublishQuery P b uuid ctx query scope = (rc, b') \<Longrightarrow> session_step P b b'"
| sub_query: "valid_scope (sf_Scope flt) \<Longrightarrow> sf_Share flt = '''' \<Longrightarrow> SubscribeQuery P b ctx flt = (rc, b') \<Longrightarrow>
    session_step P b b'"
| pub_query_result: "publishQueryResult P b qr rt cid = (res, b') \<Longrightarrow> session_step P b b'"
| remove_event: "afterFuncs (eventRouter b) = fs @ (flt, rc) # gs \<Longrightarrow>
    remove ((eventRouter b)\<lparr>afterFuncs := fs @ gs\<rparr>) (lnk b) flt rc = (Some r, l) \<Longrightarrow>
    session_step P b (b\<lparr>eventRouter := r, lnk := l\<rparr>)"
| remove_action: "afterFuncs (actionRouter b) = fs @ (flt, rc) # gs \<Longrightarrow>
    remove ((actionRouter b)\<lparr>afterFuncs := fs @ gs\<rparr>) (lnk b) flt rc = (Some r, l) \<Longrightarrow>
    session_step P b (b\<lparr>actionRouter := r, lnk := l\<rparr>)"
| remove_action_result: "afterFuncs (actionResultRouter b) = fs @ (flt, rc) # gs \<Longrightarrow>
    remove ((actionResultRouter b)\<lparr>afterFuncs := fs @ gs\<rparr>) (lnk b) flt rc = (Some r, l) \<Longrightarrow>
    session_step P b (b\<lparr>actionResultRouter := r, lnk := l\<rparr>)"
| remove_query: "afterFuncs (queryRouter b) = fs @ (flt, rc) # gs \<Longrightarrow>
    remove ((queryRouter b)\<lparr>afterFuncs := fs @ gs\<rparr>) (lnk b) flt rc = (Some r, l) \<Longrightarrow>
    session_step P b (b\<lparr>queryRouter := r, lnk := l\<rparr>)"
| remove_query_result: "afterFuncs (queryResultRouter b) = fs @ (flt, rc) # gs \<Longrightarrow>
    remove ((queryResultRouter b)\<lparr>afterFuncs := fs @ gs\<rparr>) (lnk b) flt rc = (Some r, l) \<Longrightarrow>
    session_step P b (b\<lparr>queryResultRouter := r, lnk := l\<rparr>)"
| reconnect: "fst (subscribe P (getTopics b) ((lnk b)\<lparr>net := w\<rparr>)) = None \<Longrightarrow>
    session_step P b (OnConnectionUp P False (set_net w b))"

inductive session :: "('c, 'w) paho \<Rightarrow> ('c, 'w) Mqtt5Binding \<Rightarrow> bool" for P :: "('c, 'w) paho" where
  opened: "Verify cfg = None \<Longrightarrow> conn (lnk b0) = None \<Longrightarrow> Open P dbg b0 cfg timeout = (None, b) \<Longrightarrow> session P b"
| stepped: "session P b \<Longrightarrow> session_step P b b' \<Longrightarrow> session P b'"

context mqtt_client begin

lemma publish_keeps: "publish P t pl ps rt c l = (e, l') \<Longrightarrow> topics (net l') = topics (net l)"
  using tb.publish_keeps [of "Some (t, pl, ps, rt, c)" l e l'] by (simp add: pub_fun_simps)

lemma session_inv_publish:
  "publish P t pl ps rt c (lnk b) = (e, l) \<Longrightarrow> session_inv b \<Longrightarrow> session_inv (b\<lparr>lnk := l\<rparr>)"
  using publish_keeps [of t pl ps rt c "lnk b" e l] by (auto simp: session_inv_def intro: comp_mono)

lemma session_inv_resubscribe:
  assumes "session_inv b" "fst (subscribe P (getTopics b) ((lnk b)\<lparr>net := w\<rparr>)) = None"
  shows "session_inv (OnConnectionUp P False (set_net w b))"
proof -
  obtain l where l: "subscribe P (getTopics b) ((lnk b)\<lparr>net := w\<rparr>) = (None, l)"
    using assms(2) by (cases "subscribe P (getTopics b) ((lnk b)\<lparr>net := w\<rparr>)") auto
  then have "set (getTopics b) \<subseteq> topics (net l)"
    by (auto simp: subscribe_def image_image split: if_splits option.splits prod.splits dest!: Subscribe_ok)
  moreover have "OnConnectionUp P False (set_net w b) = b\<lparr>lnk := l\<rparr>"
    using l by (simp add: OnConnectionUp_def resubscribe_def set_net_def getTopics_def)
  ultimately show ?thesis
    using assms(1) by (simp add: session_inv_def comp_def tb.coherent_def getTopics_def)
qed

text \<open>A step on one of the routers.\<close>

lemma session_inv_router:
  assumes inv: "session_inv b"
  shows "near levelEvent (lnk b) l \<Longrightarrow> comp levelEvent r1 l \<Longrightarrow> session_inv (b\<lparr>eventRouter := r1, lnk := l\<rparr>)"
    and "near levelAction (lnk b) l \<Longrightarrow> comp levelAction r2 l \<Longrightarrow> session_inv (b\<lparr>actionRouter := r2, lnk := l\<rparr>)"
    and "near levelActionResult (lnk b) l \<Longrightarrow> comp levelActionResult r3 l \<Longrightarrow> session_inv (b\<lparr>actionResultRouter := r3, lnk := l\<rparr>)"
    and "near levelQuery (lnk b) l \<Longrightarrow> comp levelQuery r4 l \<Longrightarrow> session_inv (b\<lparr>queryRouter := r4, lnk := l\<rparr>)"
    and "near levelQueryResult (lnk b) l \<Longrightarrow> comp levelQueryResult r5 l \<Longrightarrow> session_inv (b\<lparr>queryResultRouter := r5, lnk := l\<rparr>)"
  using inv by (simp_all add: session_inv_def comp_near [where l = "lnk b"])

end

context mqtt_client begin

lemma session_inv_Add:
  assumes "session_inv b" "CHR ''/'' \<notin> set (cluster b)" "valid_scope s"
    and "t = fst (topicWithLevels b share s [lvl, ty]) \<or> t = fst (responseInfo b uuid (fst (topicWithLevels b share s [lvl, ty])))"
  shows "lvl = levelEvent \<Longrightarrow> Add (eventRouter b) (lnk b) ctx \<lparr>Topic = t, CorrelationId = c\<rparr>
      (subscribe P [t]) (pub_fun P p) (unsubscribe P [t]) n = (res, r1, l) \<Longrightarrow> session_inv (b\<lparr>eventRouter := r1, lnk := l\<rparr>)"
    and "lvl = levelAction \<Longrightarrow> Add (actionRouter b) (lnk b) ctx \<lparr>Topic = t, CorrelationId = c\<rparr>
      (subscribe P [t]) (pub_fun P p) (unsubscribe P [t]) n = (res, r2, l) \<Longrightarrow> session_inv (b\<lparr>actionRouter := r2, lnk := l\<rparr>)"
    and "lvl = levelActionResult \<Longrightarrow> Add (actionResultRouter b) (lnk b) ctx \<lparr>Topic = t, CorrelationId = c\<rparr>
      (subscribe P [t]) (pub_fun P p) (unsubscribe P [t]) n = (res, r3, l) \<Longrightarrow> session_inv (b\<lparr>actionResultRouter := r3, lnk := l\<rparr>)"
    and "lvl = levelQuery \<Longrightarrow> Add (queryRouter b) (lnk b) ctx \<lparr>Topic = t, CorrelationId = c\<rparr>
      (subscribe P [t]) (pub_fun P p) (unsubscribe P [t]) n = (res, r4, l) \<Longrightarrow> session_inv (b\<lparr>queryRouter := r4, lnk := l\<rparr>)"
    and "lvl = levelQueryResult \<Longrightarrow> Add (queryResultRouter b) (lnk b) ctx \<lparr>Topic = t, CorrelationId = c\<rparr>
      (subscribe P [t]) (pub_fun P p) (unsubscribe P [t]) n = (res, r5, l) \<Longrightarrow> session_inv (b\<lparr>queryResultRouter := r5, lnk := l\<rparr>)"
proof -
  have lvl: "level_of t = lvl" if "CHR ''/'' \<notin> set lvl"
    using level_of_topic [OF assms(2,3) that] assms(4) by auto
  have c: "comp levelEvent (eventRouter b) (lnk b)" "comp levelAction (actionRouter b) (lnk b)"
    "comp levelActionResult (actionResultRouter b) (lnk b)" "comp levelQuery (queryRouter b) (lnk b)"
    "comp levelQueryResult (queryResultRouter b) (lnk b)"
    using assms(1) by (simp_all add: session_inv_def)
  note add = comp_Add [where flt = "\<lparr>Topic = t, CorrelationId = c\<rparr>" and l = "lnk b", simplified]
  show "lvl = levelEvent \<Longrightarrow> Add (eventRouter b) (lnk b) ctx \<lparr>Topic = t, CorrelationId = c\<rparr>
      (subscribe P [t]) (pub_fun P p) (unsubscribe P [t]) n = (res, r1, l) \<Longrightarrow> session_inv (b\<lparr>eventRouter := r1, lnk := l\<rparr>)"
    by (rule session_inv_router(1) [OF assms(1) add(2,1) [OF c(1)]]) (use lvl in simp_all)
  show "lvl = levelAction \<Longrightarrow> Add (actionRouter b) (lnk b) ctx \<lparr>Topic = t, CorrelationId = c\<rparr>
      (subscribe P [t]) (pub_fun P p) (unsubscribe P [t]) n = (res, r2, l) \<Longrightarrow> session_inv (b\<lparr>actionRouter := r2, lnk := l\<rparr>)"
    by (rule session_inv_router(2) [OF assms(1) add(2,1) [OF c(2)]]) (use lvl in simp_all)
  show "lvl = levelActionResult \<Longrightarrow> Add (actionResultRouter b) (lnk b) ctx \<lparr>Topic = t, CorrelationId = c\<rparr>
      (subscribe P [t]) (pub_fun P p) (unsubscribe P [t]) n = (res, r3, l) \<Longrightarrow> session_inv (b\<lparr>actionResultRouter := r3, lnk := l\<rparr>)"
    by (rule session_inv_router(3) [OF assms(1) add(2,1) [OF c(3)]]) (use lvl in simp_all)
  show "lvl = levelQuery \<Longrightarrow> Add (queryRouter b) (lnk b) ctx \<lparr>Topic = t, CorrelationId = c\<rparr>
      (subscribe P [t]) (pub_fun P p) (unsubscribe P [t]) n = (res, r4, l) \<Longrightarrow> session_inv (b\<lparr>queryRouter := r4, lnk := l\<rparr>)"
    by (rule session_inv_router(4) [OF assms(1) add(2,1) [OF c(4)]]) (use lvl in simp_all)
  show "lvl = levelQueryResult \<Longrightarrow> Add (queryResultRouter b) (lnk b) ctx \<lparr>Topic = t, CorrelationId = c\<rparr>
      (subscribe P [t]) (pub_fun P p) (unsubscribe P [t]) n = (res, r5, l) \<Longrightarrow> session_inv (b\<lparr>queryResultRouter := r5, lnk := l\<rparr>)"
    by (rule session_inv_router(5) [OF assms(1) add(2,1) [OF c(5)]]) (use lvl in simp_all)
qed

end

context mqtt_client begin

lemma session_inv_subscribe:
  assumes "session_inv b" "CHR ''/'' \<notin> set (cluster b)" "valid_scope (sf_Scope flt)" "sf_Share flt = ''''"
  shows "SubscribeEvent P b ctx flt = (rc, b') \<Longrightarrow> session_inv b' \<and> cluster b' = cluster b"
    and "SubscribeAction P b ctx flt = (rc, b') \<Longrightarrow> session_inv b' \<and> cluster b' = cluster b"
    and "SubscribeQuery P b ctx flt = (rc, b') \<Longrightarrow> session_inv b' \<and> cluster b' = cluster b"
proof -
  have top: "topicWithLevels b (sf_Share flt) (sf_Scope flt) [lvl, sf_Type flt] = (t, t') \<Longrightarrow> t' = t \<and>
      t = fst (topicWithLevels b (sf_Share flt) (sf_Scope flt) [lvl, sf_Type flt])" for lvl t t'
    using sub_topic [of b "sf_Share flt" "sf_Scope flt" lvl "sf_Type flt"] assms(4) by simp
  note add = session_inv_Add [OF assms(1-3), where share = "sf_Share flt" and ty = "sf_Type flt" and p = None, unfolded pub_fun_simps, OF disjI1]
  show "SubscribeEvent P b ctx flt = (rc, b') \<Longrightarrow> session_inv b' \<and> cluster b' = cluster b"
    using assms(1) by (auto simp: SubscribeEvent_def split: option.splits if_splits prod.splits dest!: top intro!: add(1))
  show "SubscribeAction P b ctx flt = (rc, b') \<Longrightarrow> session_inv b' \<and> cluster b' = cluster b"
    using assms(1) by (auto simp: SubscribeAction_def split: option.splits if_splits prod.splits dest!: top intro!: add(2))
  show "SubscribeQuery P b ctx flt = (rc, b') \<Longrightarrow> session_inv b' \<and> cluster b' = cluster b"
    using assms(1) by (auto simp: SubscribeQuery_def split: option.splits if_splits prod.splits dest!: top intro!: add(4))
qed

lemma session_inv_request:
  assumes "session_inv b" "CHR ''/'' \<notin> set (cluster b)" "valid_scope (scope_arg scope)"
  shows "PublishAction P b uuid ctx action scope = (rc, b') \<Longrightarrow> session_inv b' \<and> cluster b' = cluster b"
    and "PublishQuery P b uuid ctx query scope = (rc, b') \<Longrightarrow> session_inv b' \<and> cluster b' = cluster b"
proof -
  note add = session_inv_Add [OF assms, where share = "''''" and uuid = uuid and p = "Some (_, _, _, _, _)", unfolded pub_fun_simps, OF disjI2]
  have ri: "responseInfo b uuid t = (t', c) \<Longrightarrow> t' = fst (responseInfo b uuid t) \<and> c = uuid" for t t' c
    by (simp add: responseInfo_def)
  show "PublishAction P b uuid ctx action scope = (rc, b') \<Longrightarrow> session_inv b' \<and> cluster b' = cluster b"
    using assms(1) by (auto simp: PublishAction_def Let_def split: option.splits if_splits prod.splits dest!: ri intro!: add(3))
  show "PublishQuery P b uuid ctx query scope = (rc, b') \<Longrightarrow> session_inv b' \<and> cluster b' = cluster b"
    using assms(1) by (auto simp: PublishQuery_def Let_def split: option.splits if_splits prod.splits dest!: ri intro!: add(5))
qed

lemma session_inv_result:
  assumes "session_inv b"
  shows "PublishEvent P b event scope = (res, b') \<Longrightarrow> session_inv b' \<and> cluster b' = cluster b"
    and "publishActionResult P b ar rt c = (res, b') \<Longrightarrow> session_inv b' \<and> cluster b' = cluster b"
    and "publishQueryResult P b qr rt c = (res, b') \<Longrightarrow> session_inv b' \<and> cluster b' = cluster b"
  using assms
  by (auto simp: PublishEvent_def publishActionResult_def publishQueryResult_def
      split: option.splits if_splits prod.splits dest!: session_inv_publish)

lemma session_inv_comps:
  "session_inv b \<Longrightarrow> comp levelEvent (eventRouter b) (lnk b)"
  "session_inv b \<Longrightarrow> comp levelAction (actionRouter b) (lnk b)"
  "session_inv b \<Longrightarrow> comp levelActionResult (actionResultRouter b) (lnk b)"
  "session_inv b \<Longrightarrow> comp levelQuery (queryRouter b) (lnk b)"
  "session_inv b \<Longrightarrow> comp levelQueryResult (queryResultRouter b) (lnk b)"
  by (simp_all add: session_inv_def)

lemma session_inv_remove:
  assumes "session_inv b"
  shows "afterFuncs (eventRouter b) = fs @ (flt, rc) # gs \<Longrightarrow> remove ((eventRouter b)\<lparr>afterFuncs := fs @ gs\<rparr>) (lnk b) flt rc = (Some r1, l) \<Longrightarrow>
      session_inv (b\<lparr>eventRouter := r1, lnk := l\<rparr>)"
    and "afterFuncs (actionRouter b) = fs @ (flt, rc) # gs \<Longrightarrow> remove ((actionRouter b)\<lparr>afterFuncs := fs @ gs\<rparr>) (lnk b) flt rc = (Some r2, l) \<Longrightarrow>
      session_inv (b\<lparr>actionRouter := r2, lnk := l\<rparr>)"
    and "afterFuncs (actionResultRouter b) = fs @ (flt, rc) # gs \<Longrightarrow> remove ((actionResultRouter b)\<lparr>afterFuncs := fs @ gs\<rparr>) (lnk b) flt rc = (Some r3, l) \<Longrightarrow>
      session_inv (b\<lparr>actionResultRouter := r3, lnk := l\<rparr>)"
    and "afterFuncs (queryRouter b) = fs @ (flt, rc) # gs \<Longrightarrow> remove ((queryRouter b)\<lparr>afterFuncs := fs @ gs\<rparr>) (lnk b) flt rc = (Some r4, l) \<Longrightarrow>
      session_inv (b\<lparr>queryRouter := r4, lnk := l\<rparr>)"
    and "afterFuncs (queryResultRouter b) = fs @ (flt, rc) # gs \<Longrightarrow> remove ((queryResultRouter b)\<lparr>afterFuncs := fs @ gs\<rparr>) (lnk b) flt rc = (Some r5, l) \<Longrightarrow>
      session_inv (b\<lparr>queryResultRouter := r5, lnk := l\<rparr>)"
  by (blast intro: session_inv_router [OF assms] comp_remove [OF session_inv_comps(1) [OF assms]] comp_remove [OF session_inv_comps(2) [OF assms]]
      comp_remove [OF session_inv_comps(3) [OF assms]] comp_remove [OF session_inv_comps(4) [OF assms]] comp_remove [OF session_inv_comps(5) [OF assms]])+

lemma session_step_inv:
  assumes "session_step P b b'" "session_inv b" "CHR ''/'' \<notin> set (cluster b)"
  shows "session_inv b' \<and> cluster b' = cluster b"
  using assms
proof (induction rule: session_step.induct)
  case (pub_event b event scope res b')
  then show ?case by (auto dest: session_inv_result(1))
next
  case (sub_event flt b ctx rc b')
  then show ?case using session_inv_subscribe(1) by blast
next
  case (pub_action scope b uuid ctx action rc b')
  then show ?case using session_inv_request(1) by blast
next
  case (sub_action flt b ctx rc b')
  then show ?case using session_inv_subscribe(2) by blast
next
  case (pub_action_result b ar rt cid res b')
  then show ?case by (auto dest: session_inv_result(2))
next
  case (pub_query scope b uuid ctx query rc b')
  then show ?case using session_inv_request(2) by blast
next
  case (sub_query flt b ctx rc b')
  then show ?case using session_inv_subscribe(3) by blast
next
  case (pub_query_result b qr rt cid res b')
  then show ?case by (auto dest: session_inv_result(3))
next
  case (reconnect b w)
  then show ?case
    using session_inv_resubscribe [of b w]
    by (simp add: OnConnectionUp_def resubscribe_def set_net_def split: prod.splits)
qed (simp_all add: session_inv_remove)

lemma getClientConfig_frame:
  "getClientConfig P dbg cfg b = (res, b') \<Longrightarrow> b' = b\<lparr>lnk := (lnk b)\<lparr>qos := qos (lnk b')\<rparr>\<rparr>"
  by (auto simp: getClientConfig_def Let_def split: sum.splits if_splits)

lemma session_holds: "session P b \<Longrightarrow> session_inv b \<and> CHR ''/'' \<notin> set (cluster b)"
proof (induction rule: session.induct)
  case (opened cfg b0 dbg timeout b)
  obtain res b1 where g: "getClientConfig P dbg cfg (prepare_open cfg b0) = (res, b1)" by fastforce
  define q where "q = qos (lnk b1)"
  have b1: "b1 = (prepare_open cfg b0)\<lparr>lnk := (lnk (prepare_open cfg b0))\<lparr>qos := q\<rparr>\<rparr>"
    using getClientConfig_frame [OF g] by (simp add: q_def)
  have "CHR ''/'' \<notin> set (Cluster cfg)" using opened(1) complies_no_slash by (simp add: Verify_None)
  with opened g b1 show ?case
    by (auto simp: Open_def session_inv_def comp_New prepare_open_def NewRetryableError_def
        split: sum.splits prod.splits option.splits)
next
  case (stepped b b')
  then show ?case using session_step_inv by metis
qed

lemma session_topics: "session P b \<Longrightarrow> set (getTopics b) \<subseteq> topics (net (lnk b))"
  by (drule session_holds) (simp add: session_inv_def comp_def tb.coherent_def getTopics_def)

end

interpretation mem: mqtt_client mem_paho "\<lambda>w. set (mq_topics w)"
  by unfold_locales (auto simp: mem_paho_def)

lemma mqtt_client_mem: "mqtt_client mem_paho (\<lambda>w. set (mq_topics w))"
  by (rule mem.mqtt_client_axioms)

subsection \<open>Properties\<close>


text \<open>
  \<open>handle\<close> panics with an index out of range exactly on a packet with user properties whose
  topic has fewer than four levels; every other packet is dispatched or discarded.
\<close>

theorem handle_panics_iff:
  "handle P p = IndexPanic \<longleftrightarrow>
    (\<exists>props user. pub_Properties p = Some props \<and> User props = Some user) \<and>
    length (filter (\<lambda>c. c = CHR ''/'') (pub_Topic p)) < 3"
proof -
  have len: "length (strings_Split s c) = Suc (length (filter (\<lambda>x. x = c) s))" for s c
    by (induction s) (auto split: list.splits)
  show ?thesis
    by (auto simp: handle_def Let_def len split: option.splits sum.splits if_splits)
qed

text \<open>
  Before \<open>Open\<close> and after \<open>Close\<close> every operation of the binding returns an error and changes
  nothing.
\<close>

theorem closed_binding_rejects:
  assumes "conn (lnk b) = None"
  shows "(\<exists>e. PublishEvent P b event scope = (Some e, b)) \<and> (\<exists>e. SubscribeEvent P b ctx flt = (Inl e, b)) \<and>
    (\<exists>e. PublishAction P b uuid ctx action scope = (Inl e, b)) \<and> (\<exists>e. SubscribeAction P b ctx flt = (Inl e, b)) \<and>
    (\<exists>e. PublishQuery P b uuid ctx query scope = (Inl e, b)) \<and> (\<exists>e. SubscribeQuery P b ctx flt = (Inl e, b)) \<and>
    (\<exists>e. publishActionResult P b ar rt cid = (Some e, b)) \<and> (\<exists>e. publishQueryResult P b qr rt cid = (Some e, b))"
  using assms
  by (simp add: PublishEvent_def SubscribeEvent_def PublishAction_def SubscribeAction_def PublishQuery_def
      SubscribeQuery_def publishActionResult_def publishQueryResult_def split: option.split)

text \<open>The configuration with the defaults, the binding after \<open>Open\<close> with it, and after one subscription.\<close>

definition example_closed :: "(unit, mem_client) Mqtt5Binding" where
  "example_closed = Close mem_paho (mem_binding ''a'')"

theorem closed_binding_rejects_witness:
  "\<exists>e. SubscribeEvent mem_paho example_closed 0 example_filter = (Inl e, example_closed)"
proof -
  have "conn (lnk example_closed) = None"
    by (simp add: example_closed_def Close_def mem_binding_def mem_paho_def disconnectTimeout_def)
  from closed_binding_rejects [OF this] show ?thesis by blast
qed

definition example_opened :: "goerr option \<times> (unit, mem_client) Mqtt5Binding" where
  "example_opened = Open mem_paho False example_closed (New ''id'') 0"

definition example_subscribed :: "(unit, mem_client) Mqtt5Binding" where
  "example_subscribed = snd (SubscribeEvent mem_paho (snd example_opened) 0 (example_filter\<lparr>sf_Share := ''''\<rparr>))"

lemma example_session: "session mem_paho example_subscribed"
proof -
  have "fst example_opened = None"
    by (simp add: example_opened_def Open_def example_closed_def Close_def mem_binding_def mem_paho_def
        getClientConfig_def New_def Let_def)
  then have "Open mem_paho False example_closed (New ''id'') 0 = (None, snd example_opened)"
    by (simp add: example_opened_def prod_eq_iff)
  moreover have "conn (lnk example_closed) = None"
    by (simp add: example_closed_def Close_def mem_binding_def mem_paho_def)
  ultimately have "session mem_paho (snd example_opened)"
    by (intro opened [OF Verify_New])
  moreover have "session_step mem_paho (snd example_opened) example_subscribed"
    unfolding example_subscribed_def
    by (rule sub_event [where flt = "example_filter\<lparr>sf_Share := ''''\<rparr>" and ctx = 0, OF _ _ prod.collapse [symmetric]])
      (simp_all add: example_filter_def valid_scope_def scope_defs)
  ultimately show ?thesis by (rule stepped)
qed




end
