(* ===== verification/Mqtt5_Lock.thy ===== *)
theory Mqtt5_Lock
  imports Mqtt5_Props
begin

section \<open>The read-write mutex of the MQTT 5 binding\<close>

text \<open>
  The field \<open>mu\<close> of \<open>Mqtt5Binding\<close> and the goroutines that meet at it. Go's \<open>sync.RWMutex\<close> prefers writers:
  \<open>RLock\<close> waits not only for a writer that holds the mutex, but also for one that waits for it;
  \<open>Lock\<close> announces itself, then waits until no reader is left; \<open>TryRLock\<close> fails exactly if a writer
  holds the mutex or waits for it.

  \<^item> \<open>Sub0\<close>, \<dots>: \<open>SubscribeEvent\<close>, \<open>SubscribeAction\<close>, \<open>SubscribeQuery\<close>, \<open>PublishAction\<close> and \<open>PublishQuery\<close> acquire the
    read lock and call \<open>Add\<close> of a router, which calls \<open>subscribe\<close> if the topic is new; \<open>subscribe\<close>
    acquires the read lock once more. The argument says whether the topic is new.
  \<^item> \<open>Uns0\<close>, \<dots>: \<open>unsubscribe\<close>, called when a context ends, tries to acquire the read lock and goes on
    without it if that fails.
  \<^item> \<open>Wr0\<close>, \<dots>: \<open>Open\<close> and \<open>Close\<close> (argument \<open>True\<close>) acquire the write lock.

  \<open>connected\<close> is \<open>b.conn != nil\<close>; \<open>crashed\<close> is the dereference of a nil connection.
\<close>

datatype pc =
    Sub0 bool \<comment> \<open>before \<open>RLock\<close>\<close>
  | Sub1 bool \<comment> \<open>in \<open>Add\<close>, holding the read lock\<close>
  | Sub2 \<comment> \<open>in \<open>subscribe\<close>, holding it twice\<close>
  | Sub3 \<comment> \<open>after \<open>subscribe\<close>, holding it once\<close>
  | Uns0 \<comment> \<open>before \<open>TryRLock\<close>\<close>
  | UnsL \<comment> \<open>with the read lock\<close>
  | UnsN \<comment> \<open>without it, before the test of \<open>b.conn\<close>\<close>
  | UnsC \<comment> \<open>without it, about to call a method of \<open>b.conn\<close>\<close>
  | Wr0 bool \<comment> \<open>before \<open>Lock\<close>\<close>
  | Wr1 bool \<comment> \<open>waiting in \<open>Lock\<close>\<close>
  | Wr2 bool \<comment> \<open>holding the write lock\<close>
  | Finished

record lsys =
  pcs :: "pc list"
  connected :: bool
  crashed :: bool

fun reads :: "pc \<Rightarrow> bool" where
  "reads (Sub1 _) = True"
| "reads Sub2 = True"
| "reads Sub3 = True"
| "reads UnsL = True"
| "reads _ = False"

fun writes :: "pc \<Rightarrow> bool" where
  "writes (Wr1 _) = True"
| "writes (Wr2 _) = True"
| "writes _ = False"

definition pending_writer :: "lsys \<Rightarrow> bool" where
  "pending_writer s \<longleftrightarrow> list_ex writes (pcs s)"

definition goto :: "nat \<Rightarrow> pc \<Rightarrow> lsys \<Rightarrow> lsys" where
  "goto g p s = s\<lparr>pcs := (pcs s)[g := p]\<rparr>"

definition runs :: "nat \<Rightarrow> pc \<Rightarrow> lsys \<Rightarrow> bool" where
  "runs g p s \<longleftrightarrow> \<not> crashed s \<and> g < length (pcs s) \<and> pcs s ! g = p"

inductive mu_step :: "lsys \<Rightarrow> lsys \<Rightarrow> bool" where
  sub_rlock: "runs g (Sub0 new) s \<Longrightarrow> \<not> pending_writer s \<Longrightarrow> mu_step s (goto g (if connected s then Sub1 new else Sub3) s)"
| sub_known: "runs g (Sub1 False) s \<Longrightarrow> mu_step s (goto g Sub3 s)"
| sub_rlock2: "runs g (Sub1 True) s \<Longrightarrow> \<not> pending_writer s \<Longrightarrow> mu_step s (goto g Sub2 s)"
| sub_runlock2: "runs g Sub2 s \<Longrightarrow> mu_step s (goto g Sub3 s)"
| sub_runlock: "runs g Sub3 s \<Longrightarrow> mu_step s (goto g Finished s)"
| uns_tryrlock: "runs g Uns0 s \<Longrightarrow> mu_step s (goto g (if pending_writer s then UnsN else UnsL) s)"
| uns_locked: "runs g UnsL s \<Longrightarrow> mu_step s (goto g Finished s)"
| uns_test: "runs g UnsN s \<Longrightarrow> mu_step s (goto g (if connected s then UnsC else Finished) s)"
| uns_call: "runs g UnsC s \<Longrightarrow> mu_step s (if connected s then goto g Finished s else s\<lparr>crashed := True\<rparr>)"
| wr_announce: "runs g (Wr0 c) s \<Longrightarrow> \<not> pending_writer s \<Longrightarrow> mu_step s (goto g (Wr1 c) s)"
| wr_acquire: "runs g (Wr1 c) s \<Longrightarrow> \<not> list_ex reads (pcs s) \<Longrightarrow> mu_step s (goto g (Wr2 c) s)"
| wr_close: "runs g (Wr2 True) s \<Longrightarrow> mu_step s (goto g Finished (s\<lparr>connected := False\<rparr>))"
| wr_open: "runs g (Wr2 False) s \<Longrightarrow> connected s \<longrightarrow> c \<Longrightarrow> mu_step s (goto g Finished (s\<lparr>connected := c\<rparr>))"

fun starting :: "pc \<Rightarrow> bool" where
  "starting (Sub0 _) = True"
| "starting Uns0 = True"
| "starting (Wr0 _) = True"
| "starting _ = False"

inductive mu_reachable :: "lsys \<Rightarrow> bool" where
  init: "list_all starting ps \<Longrightarrow> mu_reachable \<lparr>pcs = ps, connected = c, crashed = False\<rparr>"
| step: "mu_reachable s \<Longrightarrow> mu_step s s' \<Longrightarrow> mu_reachable s'"

text \<open>The mutex: at most one writer has announced itself, and a writer that holds it excludes readers.\<close>

definition rw_ok :: "pc list \<Rightarrow> bool" where
  "rw_ok ps \<longleftrightarrow> (\<forall>g < length ps. \<forall>h < length ps. writes (ps ! g) \<and> writes (ps ! h) \<longrightarrow> g = h) \<and>
     (\<forall>g < length ps. \<forall>h < length ps. \<forall>c. ps ! g = Wr2 c \<longrightarrow> \<not> reads (ps ! h))"

abbreviation rw_inv :: "lsys \<Rightarrow> bool" where
  "rw_inv s \<equiv> rw_ok (pcs s)"

lemma list_ex_nth: "list_ex P xs \<longleftrightarrow> (\<exists>i < length xs. P (xs ! i))"
  by (auto simp: list_ex_iff set_conv_nth)

lemma goto_sel [simp]:
  "pcs (goto g p s) = (pcs s)[g := p]" "connected (goto g p s) = connected s" "crashed (goto g p s) = crashed s"
  by (simp_all add: goto_def)

lemma rw_ok_update:
  assumes "rw_ok ps" "g < length ps" "writes p \<Longrightarrow> writes (ps ! g) \<or> \<not> list_ex writes ps"
    and "reads p \<Longrightarrow> reads (ps ! g) \<or> \<not> list_ex writes ps" "\<And>c. p = Wr2 c \<Longrightarrow> \<not> list_ex reads ps"
  shows "rw_ok (ps[g := p])"
proof -
  have upd: "ps[g := p] ! x = (if x = g then p else ps ! x)" if "x < length ps" for x
    using assms(2) that by (simp add: nth_list_update)
  have "x = y" if "x < length ps" "y < length ps" "writes (ps[g := p] ! x)" "writes (ps[g := p] ! y)" for x y
    using that assms(1-3) by (auto simp: upd rw_ok_def list_ex_nth split: if_splits)
  moreover have False if "x < length ps" "y < length ps" "ps[g := p] ! x = Wr2 c" "reads (ps[g := p] ! y)" for x y c
    using that assms(1,2,4,5) by (fastforce simp: upd rw_ok_def list_ex_nth split: if_splits)
  ultimately show ?thesis unfolding rw_ok_def by auto
qed

lemma mu_step_inv: "mu_step s s' \<Longrightarrow> rw_inv s \<Longrightarrow> rw_inv s'"
  by (induction rule: mu_step.induct) (auto simp: runs_def pending_writer_def intro!: rw_ok_update)

lemma mu_reachable_inv: "mu_reachable s \<Longrightarrow> rw_inv s"
proof (induction rule: mu_reachable.induct)
  case (init ps c)
  then have "\<not> writes (ps ! g)" if "g < length ps" for g
    using that by (cases "ps ! g") (auto simp: list_all_length)
  moreover have "writes (Wr2 c)" for c by simp
  ultimately show ?case by (fastforce simp: rw_ok_def)
qed (rule mu_step_inv)

subsection \<open>A reader that locks twice\<close>

text \<open>A subscriber in \<open>Add\<close> that is about to lock again, and a writer that waits, block each other and everybody else.\<close>

definition blocked :: "nat \<Rightarrow> nat \<Rightarrow> lsys \<Rightarrow> bool" where
  "blocked g h s \<longleftrightarrow> g < length (pcs s) \<and> h < length (pcs s) \<and> pcs s ! g = Sub1 True \<and> (\<exists>c. pcs s ! h = Wr1 c)"

lemma blocked_pending: "blocked g h s \<Longrightarrow> pending_writer s"
  by (auto simp: blocked_def pending_writer_def list_ex_nth)

lemma blocked_reader: "blocked g h s \<Longrightarrow> list_ex reads (pcs s)"
  by (auto simp: blocked_def list_ex_nth)

lemma blocked_step:
  assumes "mu_step s s'" "blocked g h s"
  shows "blocked g h s' \<and> (\<forall>f new. f < length (pcs s) \<and> pcs s ! f = Sub0 new \<longrightarrow> pcs s' ! f = Sub0 new)"
  using assms blocked_pending [OF assms(2)] blocked_reader [OF assms(2)]
  by (induction rule: mu_step.induct) (auto simp: blocked_def runs_def nth_list_update)

lemma blocked_forever:
  assumes "mu_step\<^sup>*\<^sup>* s s'" "blocked g h s"
  shows "blocked g h s' \<and> length (pcs s') = length (pcs s) \<and> (\<forall>f new. f < length (pcs s) \<and> pcs s ! f = Sub0 new \<longrightarrow> pcs s' ! f = Sub0 new)"
  using assms
proof (induction rule: rtranclp_induct)
  case (step y z)
  moreover have "length (pcs z) = length (pcs y)" using step.hyps(2) by (induction rule: mu_step.induct) auto
  ultimately show ?case using blocked_step [OF step.hyps(2), of g h] by auto
qed simp

lemma subscriber_finishes:
  assumes "runs g (Sub1 True) s" "\<not> pending_writer s"
  shows "\<exists>s'. mu_step\<^sup>*\<^sup>* s s' \<and> pcs s' ! g = Finished"
proof -
  let ?s1 = "goto g Sub2 s" and ?s2 = "goto g Sub3 (goto g Sub2 s)"
  have "mu_step s ?s1" by (rule sub_rlock2 [OF assms])
  moreover have "mu_step ?s1 ?s2" by (rule sub_runlock2) (use assms in \<open>simp add: runs_def\<close>)
  moreover have "mu_step ?s2 (goto g Finished ?s2)" by (rule sub_runlock) (use assms in \<open>simp add: runs_def\<close>)
  ultimately have "mu_step\<^sup>*\<^sup>* s (goto g Finished ?s2)" by (meson converse_rtranclp_into_rtranclp rtranclp.rtrancl_refl)
  with assms(1) show ?thesis by (intro exI [of _ "goto g Finished ?s2"]) (simp add: runs_def)
qed

subsection \<open>Properties\<close>

text \<open>
  C33: a recursive read lock. A subscription to a new topic that holds the read lock can complete if and only
  if no writer waits: otherwise \<open>subscribe\<close> waits for the writer and the writer for the
  subscription, for ever, and no other operation gets the mutex any more. Such a state is reached
  when a subscription and \<open>Close\<close> run concurrently.
\<close>

theorem recursive_read_lock:
  assumes "mu_reachable s" "runs g (Sub1 True) s"
  shows "((\<exists>s'. mu_step\<^sup>*\<^sup>* s s' \<and> pcs s' ! g = Finished) \<longleftrightarrow> \<not> pending_writer s) \<and>
    (pending_writer s \<longrightarrow> (\<forall>s' f new. mu_step\<^sup>*\<^sup>* s s' \<and> f < length (pcs s) \<and> pcs s ! f = Sub0 new \<longrightarrow> pcs s' ! f = Sub0 new)) \<and>
    (\<exists>s'. mu_step\<^sup>*\<^sup>* \<lparr>pcs = [Sub0 True, Wr0 True], connected = True, crashed = False\<rparr> s' \<and> pcs s' = [Sub1 True, Wr1 True])"
proof -
  have g: "g < length (pcs s)" "pcs s ! g = Sub1 True" "\<not> crashed s" using assms(2) by (auto simp: runs_def)
  have pend: "\<exists>h. blocked g h s" if "pending_writer s"
  proof -
    from that obtain h where h: "h < length (pcs s)" "writes (pcs s ! h)" by (auto simp: pending_writer_def list_ex_nth)
    moreover have "pcs s ! h \<noteq> Wr2 c" for c using mu_reachable_inv [OF assms(1)] g h(1) by (fastforce simp: rw_ok_def)
    ultimately show ?thesis using g by (cases "pcs s ! h") (auto simp: blocked_def)
  qed
  have "mu_step \<lparr>pcs = [Sub0 True, Wr0 True], connected = True, crashed = False\<rparr> \<lparr>pcs = [Sub1 True, Wr0 True], connected = True, crashed = False\<rparr>"
    using sub_rlock [of 0 True "\<lparr>pcs = [Sub0 True, Wr0 True], connected = True, crashed = False\<rparr>"]
    by (simp add: runs_def pending_writer_def goto_def)
  moreover have "mu_step \<lparr>pcs = [Sub1 True, Wr0 True], connected = True, crashed = False\<rparr> \<lparr>pcs = [Sub1 True, Wr1 True], connected = True, crashed = False\<rparr>"
    using wr_announce [of 1 True "\<lparr>pcs = [Sub1 True, Wr0 True], connected = True, crashed = False\<rparr>"]
    by (simp add: runs_def pending_writer_def goto_def)
  ultimately have "\<exists>s'. mu_step\<^sup>*\<^sup>* \<lparr>pcs = [Sub0 True, Wr0 True], connected = True, crashed = False\<rparr> s' \<and> pcs s' = [Sub1 True, Wr1 True]"
    by (intro exI [of _ "\<lparr>pcs = [Sub1 True, Wr1 True], connected = True, crashed = False\<rparr>"]) (simp add: converse_rtranclp_into_rtranclp)
  with pend subscriber_finishes [OF assms(2)] show ?thesis using blocked_forever by (metis blocked_def pc.distinct(41))
qed

theorem recursive_read_lock_witness:
  "\<not> (\<exists>s'. mu_step\<^sup>*\<^sup>* \<lparr>pcs = [Sub1 True, Wr1 True, Sub0 False], connected = True, crashed = False\<rparr> s' \<and> pcs s' ! 0 = Finished)"
proof -
  let ?s = "\<lparr>pcs = [Sub1 True, Wr1 True, Sub0 False], connected = True, crashed = False\<rparr>"
  have "mu_reachable \<lparr>pcs = [Sub0 True, Wr0 True, Sub0 False], connected = True, crashed = False\<rparr>"
    by (rule mu_reachable.init) simp
  from mu_reachable.step [OF this sub_rlock [of 0 True]]
  have "mu_reachable \<lparr>pcs = [Sub1 True, Wr0 True, Sub0 False], connected = True, crashed = False\<rparr>"
    by (simp add: runs_def pending_writer_def goto_def)
  from mu_reachable.step [OF this wr_announce [of 1 True]] have "mu_reachable ?s"
    by (simp add: runs_def pending_writer_def goto_def)
  from conjunct1 [OF recursive_read_lock [OF this, of 0]] show ?thesis by (simp add: runs_def pending_writer_def)
qed



end
