(* ===== verification/Pebble.thy ===== *)
theory Pebble
  imports Config Services "HOL-Library.Sublist"
begin

section \<open>The Pebble storage binding (services/store/pebble/pebble.go)\<close>

text \<open>
  All operations of \<open>PebbleBinding\<close>. The storage engine (package \<open>pebble\<close>) is a parameter: a
  record \<open>pebble\<close> of operations on the state \<open>'w\<close> of its file system, with a handle \<open>'d\<close> for an
  open database. An iterator is represented by the sequence of key-value pairs it visits and the
  error of its \<open>Close\<close>; it is a snapshot, as Pebble documents.

  A byte slice that may be nil is a \<open>bytes option\<close>. A callback of a scan acts on a state of its own
  and returns whether to continue.
\<close>

record iter =
  it_items :: "(bytes \<times> bytes) list"
  it_Close :: "goerr option"

record ('d, 'w) pebble =
  pebble_Open :: "string \<Rightarrow> bool \<Rightarrow> 'w \<Rightarrow> (goerr + 'd) \<times> 'w"
  db_Close :: "'d \<Rightarrow> 'w \<Rightarrow> goerr option \<times> 'w"
  db_Get :: "'d \<Rightarrow> bytes \<Rightarrow> 'w \<Rightarrow> goerr + bytes"
  db_Set :: "'d \<Rightarrow> bytes \<Rightarrow> bytes \<Rightarrow> bool \<Rightarrow> 'w \<Rightarrow> goerr option \<times> 'w"
  db_Delete :: "'d \<Rightarrow> bytes \<Rightarrow> bool \<Rightarrow> 'w \<Rightarrow> goerr option \<times> 'w"
  db_DeleteRange :: "'d \<Rightarrow> bytes option \<Rightarrow> bytes option \<Rightarrow> bool \<Rightarrow> 'w \<Rightarrow> goerr option \<times> 'w"
  db_Flush :: "'d \<Rightarrow> 'w \<Rightarrow> goerr option \<times> 'w"
  db_NewIter :: "'d \<Rightarrow> bytes option \<Rightarrow> bytes option \<Rightarrow> 'w \<Rightarrow> iter"

record ('d, 'w) PebbleBinding =
  db :: "'d option"
  fs :: 'w

subsection \<open>Opening and closing\<close>

definition Open :: "('d, 'w) pebble \<Rightarrow> ('d, 'w) PebbleBinding \<Rightarrow> Config \<Rightarrow> goerr option \<times> ('d, 'w) PebbleBinding" where
  "Open P b cfg =
     (if db b \<noteq> None then (None, b)
      else
        (let loc = store_Location (Store (cfg_Services cfg)); inMem = (loc = '''')
         in case pebble_Open P loc inMem (fs b) of
              (Inl err, w) \<Rightarrow> (Some err, b\<lparr>db := None, fs := w\<rparr>)
            | (Inr d, w) \<Rightarrow> (None, b\<lparr>db := Some d, fs := w\<rparr>)))"

definition Close :: "('d, 'w) pebble \<Rightarrow> ('d, 'w) PebbleBinding \<Rightarrow> ('d, 'w) PebbleBinding" where
  "Close P b =
     (case db b of
        None \<Rightarrow> b
      | Some d \<Rightarrow> (case db_Close P d (fs b) of (err, w) \<Rightarrow> b\<lparr>db := None, fs := w\<rparr>))"

subsection \<open>Single keys\<close>

definition GetB :: "('d, 'w) pebble \<Rightarrow> ('d, 'w) PebbleBinding \<Rightarrow> bytes \<Rightarrow> goerr + bytes option" where
  "GetB P b key =
     (case db b of
        None \<Rightarrow> Inl (Errorf ''GetB %v failed as binding is not yet open'')
      | Some d \<Rightarrow>
          (case db_Get P d key (fs b) of
             Inl err \<Rightarrow> if err = Ext PebbleErrNotFound then Inr None else Inl (RetryableError err)
           | Inr v \<Rightarrow> Inr (Some v)))"

definition Get :: "('d, 'w) pebble \<Rightarrow> ('d, 'w) PebbleBinding \<Rightarrow> string \<Rightarrow> goerr + bytes option" where
  "Get P b key = GetB P b (bytes_of_string key)"

text \<open>The common tail of the mutating operations: wrap the engine's error as retryable.\<close>

definition db_op ::
  "('d, 'w) PebbleBinding \<Rightarrow> string \<Rightarrow> ('d \<Rightarrow> 'w \<Rightarrow> goerr option \<times> 'w) \<Rightarrow> goerr option \<times> ('d, 'w) PebbleBinding"
where
  "db_op b notOpen f =
     (case db b of
        None \<Rightarrow> (Some (Errorf notOpen), b)
      | Some d \<Rightarrow> (case f d (fs b) of (err, w) \<Rightarrow> (NewRetryableError err, b\<lparr>fs := w\<rparr>)))"

definition SetB :: "('d, 'w) pebble \<Rightarrow> ('d, 'w) PebbleBinding \<Rightarrow> bytes \<Rightarrow> bytes option \<Rightarrow> goerr option \<times> ('d, 'w) PebbleBinding" where
  "SetB P b key val =
     (case val of
        None \<Rightarrow> (Some (Errorf ''SetB %v failed as value must not be nil''), b)
      | Some v \<Rightarrow> db_op b ''SetB %v failed as binding is not yet open'' (\<lambda>d. db_Set P d key v True))"

definition Set :: "('d, 'w) pebble \<Rightarrow> ('d, 'w) PebbleBinding \<Rightarrow> string \<Rightarrow> bytes option \<Rightarrow> goerr option \<times> ('d, 'w) PebbleBinding" where
  "Set P b key val = SetB P b (bytes_of_string key) val"

definition DeleteB :: "('d, 'w) pebble \<Rightarrow> ('d, 'w) PebbleBinding \<Rightarrow> bytes \<Rightarrow> goerr option \<times> ('d, 'w) PebbleBinding" where
  "DeleteB P b key = db_op b ''DeleteB %v failed as binding is not yet open'' (\<lambda>d. db_Delete P d key True)"

definition Delete :: "('d, 'w) pebble \<Rightarrow> ('d, 'w) PebbleBinding \<Rightarrow> string \<Rightarrow> goerr option \<times> ('d, 'w) PebbleBinding" where
  "Delete P b key = DeleteB P b (bytes_of_string key)"

subsection \<open>Ranges\<close>

text \<open>
  The loop of \<open>KeyUpperBound\<close>: \<open>kub_loop (i + 1)\<close> is its body at index \<open>i\<close>; bytes wrap from 255 to 0.
\<close>

fun kub_loop :: "nat \<Rightarrow> bytes \<Rightarrow> bytes option" where
  "kub_loop 0 end' = None"
| "kub_loop (Suc i) end' =
     (let end' = end'[i := end' ! i + 1]
      in if end' ! i \<noteq> 0 then Some (take (i + 1) end') else kub_loop i end')"

definition KeyUpperBound :: "bytes \<Rightarrow> bytes option" where
  "KeyUpperBound key = kub_loop (length key) key"

text \<open>
  The loop of \<open>DeleteAll\<close>: on the first failing deletion the error and the result of
  \<open>iter.Close\<close> are returned. \<open>Flush\<close> runs when the function returns.
\<close>

fun delete_items ::
  "('d, 'w) pebble \<Rightarrow> 'd \<Rightarrow> (bytes \<times> bytes) list \<Rightarrow> 'w \<Rightarrow> goerr option \<times> 'w"
where
  "delete_items P d [] w = (None, w)"
| "delete_items P d ((k, v) # items) w =
     (case db_Delete P d k False w of
        (Some err, w1) \<Rightarrow> (NewRetryableError (Some (Errorf ''DeleteAll failed on key %v: %w: %w'')), w1)
      | (None, w1) \<Rightarrow> delete_items P d items w1)"

definition DeleteAll :: "('d, 'w) pebble \<Rightarrow> ('d, 'w) PebbleBinding \<Rightarrow> goerr option \<times> ('d, 'w) PebbleBinding" where
  "DeleteAll P b =
     (case db b of
        None \<Rightarrow> (Some (Errorf ''DeleteAll failed as binding is not yet open''), b)
      | Some d \<Rightarrow>
          (let it = db_NewIter P d None None (fs b) in
           case delete_items P d (it_items it) (fs b) of
             (Some err, w) \<Rightarrow> (Some err, b\<lparr>fs := snd (db_Flush P d w)\<rparr>)
           | (None, w) \<Rightarrow> (it_Close it, b\<lparr>fs := snd (db_Flush P d w)\<rparr>)))"

definition DeletePrefixB :: "('d, 'w) pebble \<Rightarrow> ('d, 'w) PebbleBinding \<Rightarrow> bytes \<Rightarrow> goerr option \<times> ('d, 'w) PebbleBinding" where
  "DeletePrefixB P b pre =
     db_op b ''DeletePrefixB %v failed as binding is not yet open''
       (\<lambda>d. db_DeleteRange P d (Some pre) (KeyUpperBound pre) True)"

definition DeletePrefix :: "('d, 'w) pebble \<Rightarrow> ('d, 'w) PebbleBinding \<Rightarrow> string \<Rightarrow> goerr option \<times> ('d, 'w) PebbleBinding" where
  "DeletePrefix P b pre = DeletePrefixB P b (bytes_of_string pre)"

definition DeleteRangeB ::
  "('d, 'w) pebble \<Rightarrow> ('d, 'w) PebbleBinding \<Rightarrow> bytes option \<Rightarrow> bytes option \<Rightarrow> goerr option \<times> ('d, 'w) PebbleBinding"
where
  "DeleteRangeB P b start end' =
     db_op b ''DeleteRangeB [%v,%v) failed as binding is not yet open'' (\<lambda>d. db_DeleteRange P d start end' True)"

definition DeleteRange ::
  "('d, 'w) pebble \<Rightarrow> ('d, 'w) PebbleBinding \<Rightarrow> string \<Rightarrow> string \<Rightarrow> goerr option \<times> ('d, 'w) PebbleBinding"
where
  "DeleteRange P b start end' = DeleteRangeB P b (Some (bytes_of_string start)) (Some (bytes_of_string end'))"

subsection \<open>Scans\<close>

type_synonym 's ScanKeyValueB = "bytes \<Rightarrow> bytes \<Rightarrow> 's \<Rightarrow> bool \<times> 's"
type_synonym 's ScanKeyValue = "string \<Rightarrow> bytes \<Rightarrow> 's \<Rightarrow> bool \<times> 's"

fun scan_loop :: "'s ScanKeyValueB \<Rightarrow> (bytes \<times> bytes) list \<Rightarrow> 's \<Rightarrow> 's" where
  "scan_loop callback [] s = s"
| "scan_loop callback ((key, val) # items) s =
     (case callback key val s of (cont, s') \<Rightarrow> if \<not> cont then s' else scan_loop callback items s')"

definition ScanPrefixB ::
  "('d, 'w) pebble \<Rightarrow> ('d, 'w) PebbleBinding \<Rightarrow> bytes \<Rightarrow> 's ScanKeyValueB \<Rightarrow> 's \<Rightarrow> goerr option \<times> 's"
where
  "ScanPrefixB P b pre callback s =
     (case db b of
        None \<Rightarrow> (Some (Errorf ''ScanPrefixB %v failed as binding is not yet open''), s)
      | Some d \<Rightarrow>
          (let it = db_NewIter P d (Some pre) (KeyUpperBound pre) (fs b)
           in (it_Close it, scan_loop callback (it_items it) s)))"

definition ScanPrefix ::
  "('d, 'w) pebble \<Rightarrow> ('d, 'w) PebbleBinding \<Rightarrow> string \<Rightarrow> 's ScanKeyValue \<Rightarrow> 's \<Rightarrow> goerr option \<times> 's"
where
  "ScanPrefix P b pre callback s =
     ScanPrefixB P b (bytes_of_string pre) (\<lambda>key val. callback (string_of_bytes key) val) s"

definition ScanRangeB ::
  "('d, 'w) pebble \<Rightarrow> ('d, 'w) PebbleBinding \<Rightarrow> bytes option \<Rightarrow> bytes option \<Rightarrow> 's ScanKeyValueB \<Rightarrow> 's \<Rightarrow> goerr option \<times> 's"
where
  "ScanRangeB P b start end' callback s =
     (case db b of
        None \<Rightarrow> (Some (Errorf ''ScanRangeB [%v,%v) failed as binding is not yet open''), s)
      | Some d \<Rightarrow>
          (let it = db_NewIter P d start end' (fs b)
           in (it_Close it, scan_loop callback (it_items it) s)))"

definition ScanRange ::
  "('d, 'w) pebble \<Rightarrow> ('d, 'w) PebbleBinding \<Rightarrow> string \<Rightarrow> string \<Rightarrow> 's ScanKeyValue \<Rightarrow> 's \<Rightarrow> goerr option \<times> 's"
where
  "ScanRange P b start end' callback s =
     ScanRangeB P b (Some (bytes_of_string start)) (Some (bytes_of_string end'))
       (\<lambda>key val. callback (string_of_bytes key) val) s"

text \<open>From \<open>Last\<close> to the front: the visited sequence is the reverse one.\<close>

definition ScanRangeReverseB ::
  "('d, 'w) pebble \<Rightarrow> ('d, 'w) PebbleBinding \<Rightarrow> bytes option \<Rightarrow> bytes option \<Rightarrow> 's ScanKeyValueB \<Rightarrow> 's \<Rightarrow> goerr option \<times> 's"
where
  "ScanRangeReverseB P b start end' callback s =
     (case db b of
        None \<Rightarrow> (Some (Errorf ''ScanRangeReverseB [%v,%v) failed as binding is not yet open''), s)
      | Some d \<Rightarrow>
          (let it = db_NewIter P d start end' (fs b)
           in (it_Close it, scan_loop callback (rev (it_items it)) s)))"

subsection \<open>KeyUpperBound bounds the keys with a prefix\<close>

text \<open>The positions behind the index have been visited; the loop no longer looks at them.\<close>

lemma kub_loop_snoc:
  "kub_loop (Suc (length q)) (q @ x # r) =
     (if x = 255 then kub_loop (length q) (q @ 0 # r) else Some (q @ [x + 1]))"
  using byte_inc0 [of x] by (auto simp: Let_def nth_append list_update_append)

lemma kub_loop_tail: "kub_loop (length p) (p @ r) = kub_loop (length p) (p @ r')"
proof (induction p arbitrary: r r' rule: rev_induct)
  case (snoc x q)
  show ?case using snoc.IH [of "0 # r" "0 # r'"] by (simp add: kub_loop_snoc del: kub_loop.simps(2))
qed simp

lemma KeyUpperBound_Nil [simp]: "KeyUpperBound [] = None"
  by (simp add: KeyUpperBound_def)

lemma KeyUpperBound_snoc:
  "KeyUpperBound (q @ [x]) = (if x = 255 then KeyUpperBound q else Some (q @ [x + 1]))"
  using kub_loop_snoc [of q x "[]"] kub_loop_tail [of q "[0]" "[]"]
  by (simp add: KeyUpperBound_def del: kub_loop.simps(2))

lemma KeyUpperBound_Cons:
  "KeyUpperBound (x # p) =
     (case KeyUpperBound p of Some u \<Rightarrow> Some (x # u) | None \<Rightarrow> if x = 255 then None else Some [x + 1])"
proof (induction p rule: rev_induct)
  case Nil
  show ?case using KeyUpperBound_snoc [of "[]" x] by simp
next
  case (snoc y q)
  then show ?case
    using KeyUpperBound_snoc [of "x # q" y] KeyUpperBound_snoc [of q y] by simp
qed

text \<open>The keys below an optional exclusive upper bound, and a key range.\<close>

definition below :: "bytes option \<Rightarrow> bytes \<Rightarrow> bool" where
  "below u k \<longleftrightarrow> (case u of None \<Rightarrow> True | Some u \<Rightarrow> k < u)"

definition in_range :: "bytes option \<Rightarrow> bytes option \<Rightarrow> bytes \<Rightarrow> bool" where
  "in_range s e k \<longleftrightarrow> (case s of None \<Rightarrow> True | Some s \<Rightarrow> s \<le> k) \<and> below e k"

lemma prefix_in_range: "prefix p k \<longleftrightarrow> p \<le> k \<and> below (KeyUpperBound p) k"
proof (induction p arbitrary: k)
  case Nil
  show ?case by (simp add: below_def)
next
  case (Cons x p)
  show ?case
  proof (cases k)
    case (Cons y k')
    with Cons.IH [of k'] show ?thesis
      by (cases "KeyUpperBound p"; cases "x = 255")
        (auto simp: KeyUpperBound_Cons below_def byte_inc intro: le_neq_trans)
  qed (simp add: below_def)
qed

lemma KeyUpperBound_None_iff: "KeyUpperBound p = None \<longleftrightarrow> set p \<subseteq> {255}"
  by (induction p) (auto simp: KeyUpperBound_Cons split: option.splits)

end
