(* ===== verification/Store_Api.thy ===== *)
theory Store_Api
  imports Pebble
begin

section \<open>The storage API (services/store/api/api.go) and its contract\<close>

text \<open>
  The interface \<open>api.Api\<close> of the storage service, as far as other components call it, as a record of
  methods on a store state \<open>'s\<close>. A scan is represented by the pairs it offers to its callback, in
  order, and its error; the caller applies its callback with \<open>scan_loop\<close>.

  Locale \<open>kv_store\<close> states what the interface documents: a store is a finite map from keys to
  values. It is interpreted by the Pebble binding on any storage engine that fulfils
  \<open>pebble_db\<close>, the documented laws of the engine; an engine held in memory is the instance that
  shows these laws can be fulfilled.
\<close>

record 's store_api =
  st_GetB :: "'s \<Rightarrow> bytes \<Rightarrow> goerr + bytes option"
  st_SetB :: "'s \<Rightarrow> bytes \<Rightarrow> bytes option \<Rightarrow> goerr option \<times> 's"
  st_DeleteB :: "'s \<Rightarrow> bytes \<Rightarrow> goerr option \<times> 's"
  st_DeleteAll :: "'s \<Rightarrow> goerr option \<times> 's"
  st_DeleteRangeB :: "'s \<Rightarrow> bytes option \<Rightarrow> bytes option \<Rightarrow> goerr option \<times> 's"
  st_ScanRangeB :: "'s \<Rightarrow> bytes option \<Rightarrow> bytes option \<Rightarrow> goerr option \<times> (bytes \<times> bytes) list"
  st_ScanRangeReverseB :: "'s \<Rightarrow> bytes option \<Rightarrow> bytes option \<Rightarrow> goerr option \<times> (bytes \<times> bytes) list"
  st_KeyUpperBound :: "bytes \<Rightarrow> bytes option"

definition collect :: "(bytes \<times> bytes) list ScanKeyValueB" where
  "collect k v s = (True, s @ [(k, v)])"

definition pebble_api :: "('d, 'w) pebble \<Rightarrow> ('d, 'w) PebbleBinding store_api" where
  "pebble_api P = \<lparr>st_GetB = GetB P, st_SetB = SetB P, st_DeleteB = DeleteB P, st_DeleteAll = DeleteAll P,
     st_DeleteRangeB = DeleteRangeB P, st_ScanRangeB = (\<lambda>b s e. ScanRangeB P b s e collect []),
     st_ScanRangeReverseB = (\<lambda>b s e. ScanRangeReverseB P b s e collect []), st_KeyUpperBound = KeyUpperBound\<rparr>"

subsection \<open>The contract of the API\<close>

text \<open>The entries of a map in a key range, in ascending order.\<close>

definition entries :: "(bytes \<rightharpoonup> bytes) \<Rightarrow> bytes set \<Rightarrow> (bytes \<times> bytes) list \<Rightarrow> bool" where
  "entries m A items \<longleftrightarrow> sorted_wrt (<) (map fst items) \<and> map_of items = m |` A"

locale kv_store =
  fixes S :: "'s store_api" and content :: "'s \<Rightarrow> bytes \<rightharpoonup> bytes"
  assumes get: "st_GetB S s k = Inr v \<Longrightarrow> content s k = v"
    and set: "st_SetB S s k v = (None, s') \<Longrightarrow> v \<noteq> None \<and> content s' = (content s)(k := v)"
    and delete: "st_DeleteB S s k = (None, s') \<Longrightarrow> content s' = (content s)(k := None)"
    and delete_all: "st_DeleteAll S s = (None, s') \<Longrightarrow> content s' = Map.empty"
    and delete_range: "st_DeleteRangeB S s a (Some e) = (None, s') \<Longrightarrow>
      content s' = content s |` {k. \<not> in_range a (Some e) k}"
    and scan: "st_ScanRangeB S s a u = (None, items) \<Longrightarrow> entries (content s) {k. in_range a u k} items"
    and scan_reverse: "st_ScanRangeReverseB S s a u = (None, items) \<Longrightarrow>
      entries (content s) {k. in_range a u k} (rev items)"
    and upper_bound: "st_KeyUpperBound S = KeyUpperBound"
begin

lemma get_after_set:
  "st_SetB S s k (Some v) = (None, s') \<Longrightarrow> st_GetB S s' k' = Inr r \<Longrightarrow> r = (if k' = k then Some v else content s k')"
  by (drule set, drule get) auto

lemma get_after_delete:
  "st_DeleteB S s k = (None, s') \<Longrightarrow> st_GetB S s' k' = Inr r \<Longrightarrow> r = (if k' = k then None else content s k')"
  by (drule delete, drule get) auto

end

subsection \<open>The contract of the storage engine\<close>

text \<open>
  What Pebble documents of its operations when they succeed: \<open>Get\<close> returns the value or
  \<open>ErrNotFound\<close>, \<open>Set\<close> and \<open>Delete\<close> act on one key, \<open>DeleteRange\<close> on the keys in \<open>[start, end)\<close>,
  \<open>Flush\<close> changes no contents, and an iterator closed without error has visited the keys within
  its bounds in order (nil for no bound). Nothing is assumed of an operation that fails, nor of
  \<open>DeleteRange\<close> with a nil end.
\<close>

locale pebble_db =
  fixes P :: "('d, 'w) pebble" and contents :: "'d \<Rightarrow> 'w \<Rightarrow> bytes \<rightharpoonup> bytes"
  assumes Get_ok: "db_Get P d k w = Inr v \<Longrightarrow> contents d w k = Some v"
    and Get_missing: "db_Get P d k w = Inl (Ext PebbleErrNotFound) \<Longrightarrow> contents d w k = None"
    and Set_ok: "db_Set P d k v sync w = (None, w') \<Longrightarrow> contents d w' = (contents d w)(k \<mapsto> v)"
    and Delete_ok: "db_Delete P d k sync w = (None, w') \<Longrightarrow> contents d w' = (contents d w)(k := None)"
    and DeleteRange_ok: "db_DeleteRange P d a (Some e) sync w = (None, w') \<Longrightarrow>
      contents d w' = contents d w |` {k. \<not> in_range a (Some e) k}"
    and Flush_keeps: "db_Flush P d w = (err, w') \<Longrightarrow> contents d w' = contents d w"
    and NewIter_ok: "db_NewIter P d a u w = it \<Longrightarrow> it_Close it = None \<Longrightarrow>
      entries (contents d w) {k. in_range a u k} (it_items it)"
begin

definition content :: "('d, 'w) PebbleBinding \<Rightarrow> bytes \<rightharpoonup> bytes" where
  "content b = (case db b of None \<Rightarrow> Map.empty | Some d \<Rightarrow> contents d (fs b))"

lemma db_op_ok:
  "db_op b msg f = (None, b') \<Longrightarrow> \<exists>d. db b = Some d \<and> db b' = Some d \<and> f d (fs b) = (None, fs b')"
  by (auto simp: db_op_def NewRetryableError_def split: option.splits prod.splits)

lemma delete_items_ok:
  "delete_items P d items w = (None, w') \<Longrightarrow> contents d w' = contents d w |` {k. k \<notin> fst ` set items}"
proof (induction items arbitrary: w)
  case (Cons x items)
  obtain k v where x: "x = (k, v)" by fastforce
  from Cons.prems obtain w1 where "db_Delete P d k False w = (None, w1)" "delete_items P d items w1 = (None, w')"
    by (auto simp: x NewRetryableError_def split: prod.splits option.splits)
  with Cons.IH Delete_ok show ?case by (force simp: x restrict_map_def)
qed (simp add: restrict_map_def)

lemma DeleteAll_ok:
  assumes "DeleteAll P b = (None, b')"
  shows "content b' = Map.empty"
proof -
  from assms obtain d w where d: "db b = Some d" and c: "it_Close (db_NewIter P d None None (fs b)) = None"
    and del: "delete_items P d (it_items (db_NewIter P d None None (fs b))) (fs b) = (None, w)"
    and b': "b' = b\<lparr>fs := snd (db_Flush P d w)\<rparr>"
    by (auto simp: DeleteAll_def Let_def split: option.splits prod.splits)
  have "map_of (it_items (db_NewIter P d None None (fs b))) = contents d (fs b)"
    using NewIter_ok [OF refl c] by (auto simp: entries_def in_range_def below_def restrict_map_def)
  then have "k \<notin> fst ` set (it_items (db_NewIter P d None None (fs b))) \<Longrightarrow> contents d (fs b) k = None" for k
    by (metis map_of_eq_None_iff)
  with delete_items_ok [OF del] have "contents d w = Map.empty" by (auto simp: restrict_map_def)
  with Flush_keeps d b' show ?thesis by (simp add: content_def) (metis prod.collapse)
qed

lemma collect_all: "scan_loop collect items s = s @ items"
  by (induction items arbitrary: s) (auto simp: collect_def)

end

sublocale pebble_db \<subseteq> api: kv_store "pebble_api P" content
proof
  show "content s k = v" if "st_GetB (pebble_api P) s k = Inr v" for s k v
    using that by (auto simp: pebble_api_def GetB_def content_def Get_ok Get_missing split: option.splits sum.splits if_splits)
  show "v \<noteq> None \<and> content s' = (content s)(k := v)" if "st_SetB (pebble_api P) s k v = (None, s')" for s k v s'
    using that by (auto simp: pebble_api_def SetB_def content_def split: option.splits dest!: db_op_ok Set_ok)
  show "content s' = (content s)(k := None)" if "st_DeleteB (pebble_api P) s k = (None, s')" for s k s'
    using that by (auto simp: pebble_api_def DeleteB_def content_def split: option.splits dest!: db_op_ok Delete_ok)
  show "content s' = Map.empty" if "st_DeleteAll (pebble_api P) s = (None, s')" for s s'
    using that DeleteAll_ok by (simp add: pebble_api_def)
  show "content s' = content s |` {k. \<not> in_range a (Some e) k}"
    if "st_DeleteRangeB (pebble_api P) s a (Some e) = (None, s')" for s a e s'
    using that by (auto simp: pebble_api_def DeleteRangeB_def content_def split: option.splits dest!: db_op_ok DeleteRange_ok)
  show "entries (content s) {k. in_range a u k} items" if "st_ScanRangeB (pebble_api P) s a u = (None, items)" for s a u items
    using that by (auto simp: pebble_api_def ScanRangeB_def content_def Let_def collect_all split: option.splits intro: NewIter_ok)
  show "entries (content s) {k. in_range a u k} (rev items)"
    if "st_ScanRangeReverseB (pebble_api P) s a u = (None, items)" for s a u items
    using that by (auto simp: pebble_api_def ScanRangeReverseB_def content_def Let_def collect_all split: option.splits intro: NewIter_ok)
  show "st_KeyUpperBound (pebble_api P) = KeyUpperBound" by (simp add: pebble_api_def)
qed

context pebble_db begin

lemma set_then_get:
  assumes "SetB P b k v = (None, b')" "GetB P b' k' = Inr r" "GetB P b k' = Inr r0"
  shows "v \<noteq> None \<and> r = (if k' = k then v else r0)"
  using assms api.set [of b k v b'] api.get [of b' k' r] api.get [of b k' r0] by (auto simp: pebble_api_def)

lemma api_get_after_set:
  "SetB P b k (Some v) = (None, b') \<Longrightarrow> GetB P b' k' = Inr r \<Longrightarrow> r = (if k' = k then Some v else content b k')"
  using api.get_after_set [of b k v b' k' r] by (simp add: pebble_api_def)

lemma delete_prefix:
  assumes "DeletePrefixB P b p = (None, b')" "db b = Some d" "\<not> set p \<subseteq> {255}"
  shows "db b' = Some d \<and> contents d (fs b') = contents d (fs b) |` {k. \<not> prefix p k}"
proof -
  from assms(3) obtain u where u: "KeyUpperBound p = Some u" using KeyUpperBound_None_iff by (cases "KeyUpperBound p") auto
  with assms(1,2) have "db b' = Some d" "db_DeleteRange P d (Some p) (Some u) True (fs b) = (None, fs b')"
    by (auto simp: DeletePrefixB_def dest!: db_op_ok)
  with DeleteRange_ok u show ?thesis by (simp add: in_range_def prefix_in_range)
qed

lemma delete_all_range:
  assumes "db b = Some d" "DeleteAll P b = (None, b1)" "DeleteRange P b start stop = (None, b2)"
  shows "contents d (fs b1) = Map.empty \<and>
    contents d (fs b2) = contents d (fs b) |` {k. \<not> (bytes_of_string start \<le> k \<and> k < bytes_of_string stop)}"
proof -
  from assms(1,2) have "db b1 = Some d"
    by (auto simp: DeleteAll_def Let_def split: option.splits prod.splits)
  with DeleteAll_ok [OF assms(2)] have "contents d (fs b1) = Map.empty" by (simp add: content_def)
  moreover have "contents d (fs b2) = contents d (fs b) |` {k. \<not> in_range (Some (bytes_of_string start)) (Some (bytes_of_string stop)) k}"
    using assms(1,3) by (auto simp: DeleteRange_def DeleteRangeB_def dest!: db_op_ok DeleteRange_ok)
  ultimately show ?thesis by (simp add: in_range_def below_def)
qed

lemma scans:
  assumes "db b = Some d" "ScanPrefixB P b p cb s = (None, s1)" "ScanRangeB P b lo hi cb s = (None, s2)"
    and "ScanRangeReverseB P b lo hi cb s = (None, s3)"
  shows "\<exists>pre range. entries (contents d (fs b)) {k. prefix p k} pre \<and> s1 = scan_loop cb pre s \<and>
    entries (contents d (fs b)) {k. in_range lo hi k} range \<and> s2 = scan_loop cb range s \<and>
    s3 = scan_loop cb (rev range) s"
  using assms NewIter_ok [of d "Some p" "KeyUpperBound p" "fs b"] NewIter_ok [of d lo hi "fs b"]
  by (auto simp: ScanPrefixB_def ScanRangeB_def ScanRangeReverseB_def Let_def in_range_def prefix_in_range)

end

subsection \<open>A storage engine held in memory\<close>

type_synonym mem_db = "(bytes, bytes) gomap"

definition mem_iter :: "bytes option \<Rightarrow> bytes option \<Rightarrow> mem_db \<Rightarrow> iter" where
  "mem_iter a u w = \<lparr>it_items = map (\<lambda>k. (k, the (map_of w k)))
     (filter (in_range a u) (sorted_list_of_set (set (gm_keys w)))), it_Close = None\<rparr>"

definition mem_pebble :: "(unit, mem_db) pebble" where
  "mem_pebble = \<lparr>
     pebble_Open = (\<lambda>loc inMem w. (Inr (), w)),
     db_Close = (\<lambda>d w. (None, w)),
     db_Get = (\<lambda>d k w. case map_of w k of None \<Rightarrow> Inl (Ext PebbleErrNotFound) | Some v \<Rightarrow> Inr v),
     db_Set = (\<lambda>d k v sync w. (None, AList.update k v w)),
     db_Delete = (\<lambda>d k sync w. (None, AList.delete k w)),
     db_DeleteRange = (\<lambda>d a e sync w. (None, filter (\<lambda>(k, v). \<not> in_range a e k) w)),
     db_Flush = (\<lambda>d w. (None, w)),
     db_NewIter = (\<lambda>d a u w. mem_iter a u w)\<rparr>"

lemma map_of_filter_key: "map_of (filter (\<lambda>(k, v). Q k) w) = map_of w |` {k. Q k}"
  by (induction w) (auto simp: restrict_map_def fun_eq_iff)

lemma mem_iter_entries: "entries (map_of w) {k. in_range a u k} (it_items (mem_iter a u w))"
proof -
  let ?ks = "filter (in_range a u) (sorted_list_of_set (set (gm_keys w)))"
  have "sorted_wrt (<) ?ks" by (intro sorted_wrt_filter strict_sorted_list_of_set)
  moreover have "map_of (map (\<lambda>k. (k, the (map_of w k))) ?ks) k = (map_of w |` {k. in_range a u k}) k" for k
  proof (cases "k \<in> set ?ks")
    case True
    then have "k \<in> set (gm_keys w)" by simp
    then have "map_of w k \<noteq> None" by (simp add: map_of_eq_None_iff)
    with True show ?thesis by (auto simp: map_of_map_restrict restrict_map_def)
  next
    case False
    then have "k \<in> set (gm_keys w) \<Longrightarrow> \<not> in_range a u k" by simp
    then have "(map_of w |` {k. in_range a u k}) k = None"
      by (auto simp: restrict_map_def map_of_eq_None_iff)
    with False show ?thesis by (simp add: map_of_map_restrict)
  qed
  ultimately show ?thesis by (auto simp: entries_def mem_iter_def comp_def)
qed

interpretation mem: pebble_db mem_pebble "\<lambda>d w. map_of w"
proof
  show "entries (map_of w) {k. in_range a u k} (it_items it)" if "db_NewIter mem_pebble d a u w = it" for d a u w it
    using that mem_iter_entries by (auto simp: mem_pebble_def)
  show "map_of w' = map_of w |` {k. \<not> in_range a (Some e) k}"
    if "db_DeleteRange mem_pebble d a (Some e) sync w = (None, w')" for d a e sync w w'
    using that by (auto simp: mem_pebble_def map_of_filter_key)
qed (auto simp: mem_pebble_def split: option.splits)

lemma pebble_db_mem: "pebble_db mem_pebble (\<lambda>d w. map_of w)"
  by (rule mem.pebble_db_axioms)

definition example_store :: "(unit, mem_db) PebbleBinding" where
  "example_store = \<lparr>db = Some (), fs = [([1, 2], [7]), ([1], [8]), ([2], [9])]\<rparr>"

subsection \<open>Properties\<close>

text \<open>
  C25: \<open>KeyUpperBound\<close> bounds a prefix: the keys that start with a prefix are exactly the keys from
  the prefix on and below its upper bound, where no bound is returned (nil) exactly for a
  prefix of bytes 255 only.
\<close>

theorem KeyUpperBound_prefix:
  "(prefix p k \<longleftrightarrow> in_range (Some p) (KeyUpperBound p) k) \<and> (KeyUpperBound p = None \<longleftrightarrow> set p \<subseteq> {255})"
  by (simp add: in_range_def prefix_in_range KeyUpperBound_None_iff)

text \<open>
  Reading after writing. On an engine that fulfils its contract, after a \<open>SetB\<close> that returns
  no error a \<open>GetB\<close> that returns no error yields the value for the key written, and for every
  other key what it yielded before; and the value written was not nil.
\<close>

theorem store_get_after_set:
  assumes "pebble_db P contents" "SetB P b k v = (None, b')" "GetB P b' k' = Inr r" "GetB P b k' = Inr r0"
  shows "v \<noteq> None \<and> r = (if k' = k then v else r0)"
  by (rule pebble_db.set_then_get) fact+

theorem store_get_after_set_witness:
  "\<exists>b'. SetB mem_pebble example_store [1] (Some []) = (None, b') \<and>
    GetB mem_pebble b' [1] = Inr (Some []) \<and> GetB mem_pebble b' [2] = Inr (Some [9])"
proof -
  let ?b = "example_store\<lparr>fs := AList.update [1] [] (fs example_store)\<rparr>"
  have s: "SetB mem_pebble example_store [1] (Some []) = (None, ?b)"
    by (simp add: SetB_def db_op_def mem_pebble_def example_store_def NewRetryableError_def)
  have g: "GetB mem_pebble ?b [1] = Inr (Some [])" "GetB mem_pebble ?b [2] = Inr (Some [9])"
    "GetB mem_pebble example_store [1] = Inr (Some [8])" "GetB mem_pebble example_store [2] = Inr (Some [9])"
    by (simp_all add: GetB_def mem_pebble_def example_store_def)
  show ?thesis
    using store_get_after_set [OF pebble_db_mem s g(1,3)] store_get_after_set [OF pebble_db_mem s g(2,4)] s g by auto
qed



text \<open>
  \<open>DeleteAll\<close> without error empties the store, and \<open>DeleteRange\<close> without error deletes exactly
  the keys from \<open>start\<close> on and below \<open>end\<close>, in the order of the bytes of the strings.
\<close>

theorem delete_all_and_range_exact:
  assumes "pebble_db P contents" "db b = Some d"
    and "DeleteAll P b = (None, b1)" "DeleteRange P b start stop = (None, b2)"
  shows "contents d (fs b1) = Map.empty \<and>
    contents d (fs b2) = contents d (fs b) |` {k. \<not> (bytes_of_string start \<le> k \<and> k < bytes_of_string stop)}"
  by (rule pebble_db.delete_all_range) fact+

theorem delete_all_and_range_exact_witness:
  "fs (snd (DeleteAll mem_pebble example_store)) = []"
proof -
  have "sorted_list_of_set {[1, 2], [1], [2 :: byte]} = [[1], [1, 2], [2]]"
    by (simp add: sorted_list_of_set_sort_remdups [of "[[1, 2], [1], [2 :: byte]]", simplified])
  then have "DeleteAll mem_pebble example_store = (None, snd (DeleteAll mem_pebble example_store))"
    by (simp add: DeleteAll_def mem_pebble_def example_store_def mem_iter_def in_range_def below_def Let_def)
  moreover have "DeleteRange mem_pebble example_store '''' '''' = (None, snd (DeleteRange mem_pebble example_store '''' ''''))"
    by (simp add: DeleteRange_def DeleteRangeB_def db_op_def mem_pebble_def example_store_def NewRetryableError_def)
  ultimately have "map_of (fs (snd (DeleteAll mem_pebble example_store))) = Map.empty"
    using delete_all_and_range_exact [OF pebble_db_mem, of example_store "()"] by (simp add: example_store_def)
  then show ?thesis by simp
qed



text \<open>
  A store that is not open rejects every operation with an error and keeps its state, and a
  nil value is rejected also by an open store.
\<close>

theorem closed_store_rejects:
  assumes "db b = None"
  shows "(\<exists>e. Get P b key = Inl e) \<and> (\<exists>e. Set P b key v = (Some e, b)) \<and> (\<exists>e. Delete P b key = (Some e, b)) \<and>
    (\<exists>e. DeleteAll P b = (Some e, b)) \<and> (\<exists>e. DeletePrefix P b key = (Some e, b)) \<and>
    (\<exists>e. DeleteRange P b key key2 = (Some e, b)) \<and> (\<exists>e. ScanPrefix P b key cb s = (Some e, s)) \<and>
    (\<exists>e. ScanRange P b key key2 cb s = (Some e, s)) \<and> (\<exists>e. Set P b2 key None = (Some e, b2)) \<and> Close P b = b"
  using assms
  by (simp add: Get_def GetB_def Set_def SetB_def Delete_def DeleteB_def DeleteAll_def DeletePrefix_def DeletePrefixB_def
      DeleteRange_def DeleteRangeB_def ScanPrefix_def ScanPrefixB_def ScanRange_def ScanRangeB_def db_op_def Close_def
      split: option.split)

theorem closed_store_rejects_witness:
  "\<exists>e. Set mem_pebble (Close mem_pebble example_store) ''k'' (Some [1]) = (Some e, Close mem_pebble example_store)"
proof -
  have "db (Close mem_pebble example_store) = None"
    by (simp add: Close_def mem_pebble_def example_store_def)
  then show ?thesis by (rule closed_store_rejects [THEN conjunct2, THEN conjunct1])
qed

end
