(* ===== verification/Fsm.thy ===== *)
theory Fsm
  imports Prelude
begin

section \<open>The replicated state machine (services/state/raft/fsm.go, services/state/api/api.go)\<close>

text \<open>
  The key-value state every member of a Raft group keeps, the log entries applied to it, its
  snapshots, and the observers of its changes. MessagePack encoding (\<open>codec.go\<close> calls
  \<open>go-msgpack\<close>) and the snapshot sink of the Raft library are parameters.

  A channel of an observer is an index into \<open>sent\<close>, which holds everything sent on the channel so
  far: the observer is expected to receive continuously, so a send does not block. A
  goroutine started by \<open>AddStateChangeObserver\<close> that has not run yet is an entry of \<open>emitting\<close>.
  A nil and an empty value are not told apart.
\<close>

type_synonym State = "(string, bytes) gomap"
type_synonym InputOp = int

definition InputOpUndefined :: InputOp where "InputOpUndefined = 0"
definition InputOpSet :: InputOp where "InputOpSet = 1"
definition InputOpDelete :: InputOp where "InputOpDelete = 2"

lemmas op_defs = InputOpUndefined_def InputOpSet_def InputOpDelete_def

record Input =
  in_Op :: InputOp
  in_Key :: string
  in_Value :: bytes

record MembershipChange =
  mc_Id :: string
  mc_Joined :: bool

record fsmSnapshot =
  snap_State :: State

text \<open>The uses of \<open>EncodeMsgPack\<close>, \<open>DecodeMsgPack\<close> and \<open>DecodeMsgPackFromReader\<close>.\<close>

record msgpack =
  enc_input :: "Input \<Rightarrow> goerr + bytes"
  dec_input :: "bytes \<Rightarrow> goerr + Input"
  enc_snapshot :: "fsmSnapshot \<Rightarrow> goerr + bytes"
  dec_snapshot :: "bytes \<Rightarrow> goerr + fsmSnapshot"

record RaftFsm =
  state :: State
  observers :: "(uint64, nat) gomap"
  nextObserverId :: uint64
  sent :: "Input list list"
  emitting :: "nat list"

definition NewRaftFsm :: RaftFsm where
  "NewRaftFsm = \<lparr>state = [], observers = [], nextObserverId = 0, sent = [], emitting = []\<rparr>"

subsection \<open>Operations\<close>

definition cloneState :: "State \<Rightarrow> State" where
  "cloneState st = fold (\<lambda>(k, v) s. AList.update k v s) st []"

definition State' :: "RaftFsm \<Rightarrow> State" where
  "State' f = cloneState (state f)"

definition cloneInput :: "Input \<Rightarrow> Input" where
  "cloneInput inp =
     (if in_Op inp = InputOpSet then \<lparr>in_Op = in_Op inp, in_Key = in_Key inp, in_Value = in_Value inp\<rparr>
      else \<lparr>in_Op = in_Op inp, in_Key = in_Key inp, in_Value = []\<rparr>)"

definition send :: "nat \<Rightarrow> Input \<Rightarrow> Input list list \<Rightarrow> Input list list" where
  "send ch inp ss = ss[ch := ss ! ch @ [inp]]"

definition sendStateChange :: "Input \<Rightarrow> RaftFsm \<Rightarrow> RaftFsm" where
  "sendStateChange inp f = f\<lparr>sent := fold (\<lambda>(i, ch). send ch (cloneInput inp)) (observers f) (sent f)\<rparr>"

definition Apply :: "msgpack \<Rightarrow> RaftFsm \<Rightarrow> bytes \<Rightarrow> goerr option \<times> RaftFsm" where
  "Apply M f entryData =
     (case dec_input M entryData of
        Inl err \<Rightarrow> (Some err, f)
      | Inr input \<Rightarrow>
          if in_Op input = InputOpUndefined then (None, f)
          else if in_Op input = InputOpSet then
            (None, sendStateChange input (f\<lparr>state := AList.update (in_Key input) (in_Value input) (state f)\<rparr>))
          else if in_Op input = InputOpDelete then
            (None, sendStateChange input (f\<lparr>state := AList.delete (in_Key input) (state f)\<rparr>))
          else (Some (Errorf ''unknown input operation in Raft log entry: %v''), f))"

text \<open>
  The first part of \<open>AddStateChangeObserver\<close>, up to \<open>Unlock\<close>, on a channel made for this call;
  then the goroutine is started. The id it returns is read in \<open>observer_id\<close>, after the lock has
  been released.
\<close>

definition AddStateChangeObserver :: "RaftFsm \<Rightarrow> RaftFsm" where
  "AddStateChangeObserver f =
     (let ch = length (sent f); nid = nextObserverId f + 1
      in f\<lparr>nextObserverId := nid, observers := AList.update nid ch (observers f),
           sent := sent f @ [[]], emitting := emitting f @ [ch]\<rparr>)"

definition observer_id :: "RaftFsm \<Rightarrow> uint64" where
  "observer_id f = nextObserverId f"

text \<open>The goroutine: synthetic inputs that reproduce the current state.\<close>

definition emitState :: "nat \<Rightarrow> RaftFsm \<Rightarrow> RaftFsm" where
  "emitState ch f =
     f\<lparr>sent := fold (\<lambda>(k, v). send ch (cloneInput \<lparr>in_Op = InputOpSet, in_Key = k, in_Value = v\<rparr>)) (state f) (sent f),
       emitting := remove1 ch (emitting f)\<rparr>"

definition RemoveStateChangeObserver :: "uint64 \<Rightarrow> RaftFsm \<Rightarrow> RaftFsm" where
  "RemoveStateChangeObserver chanId f = f\<lparr>observers := AList.delete chanId (observers f)\<rparr>"

definition Snapshot :: "RaftFsm \<Rightarrow> fsmSnapshot" where
  "Snapshot f = \<lparr>snap_State = cloneState (state f)\<rparr>"

definition Restore :: "msgpack \<Rightarrow> RaftFsm \<Rightarrow> bytes \<Rightarrow> goerr option \<times> RaftFsm" where
  "Restore M f snapshot =
     (case dec_snapshot M snapshot of
        Inl err \<Rightarrow> (Some err, f)
      | Inr snap \<Rightarrow> (None, f\<lparr>state := snap_State snap\<rparr>))"

record 'w sink =
  sink_Write :: "bytes \<Rightarrow> 'w \<Rightarrow> goerr option \<times> 'w"
  sink_Close :: "'w \<Rightarrow> goerr option \<times> 'w"
  sink_Cancel :: "'w \<Rightarrow> goerr option \<times> 'w"

definition persist_body :: "msgpack \<Rightarrow> 'w sink \<Rightarrow> fsmSnapshot \<Rightarrow> 'w \<Rightarrow> goerr option \<times> 'w" where
  "persist_body M K snap w =
     (case enc_snapshot M snap of
        Inl err \<Rightarrow> (Some err, w)
      | Inr b \<Rightarrow>
          (case sink_Write K b w of
             (Some err, w1) \<Rightarrow> (Some err, w1)
           | (None, w1) \<Rightarrow>
               (case sink_Close K w1 of (Some err, w2) \<Rightarrow> (Some err, w2) | (None, w2) \<Rightarrow> (None, w2))))"

definition Persist :: "msgpack \<Rightarrow> 'w sink \<Rightarrow> fsmSnapshot \<Rightarrow> 'w \<Rightarrow> goerr option \<times> 'w" where
  "Persist M K snap w =
     (case persist_body M K snap w of
        (Some err, w1) \<Rightarrow> (Some err, snd (sink_Cancel K w1))
      | (None, w1) \<Rightarrow> (None, w1))"

subsection \<open>Abstract specification\<close>

text \<open>The state as a partial map, and the effect of one input on it.\<close>

definition apply_input :: "Input \<Rightarrow> (string \<rightharpoonup> bytes) \<Rightarrow> (string \<rightharpoonup> bytes)" where
  "apply_input inp m =
     (if in_Op inp = InputOpSet then m(in_Key inp \<mapsto> in_Value inp)
      else if in_Op inp = InputOpDelete then m(in_Key inp := None) else m)"

definition replay :: "Input list \<Rightarrow> (string \<rightharpoonup> bytes)" where
  "replay inps = fold apply_input inps Map.empty"

lemma replay_snoc [simp]: "replay (inps @ [inp]) = apply_input inp (replay inps)"
  by (simp add: replay_def)

lemma replay_Nil [simp]: "replay [] = Map.empty"
  by (simp add: replay_def)

lemma apply_clone [simp]: "apply_input (cloneInput inp) = apply_input inp"
  by (auto simp: cloneInput_def apply_input_def op_defs)

lemma fold_update_map:
  "distinct (map fst st) \<Longrightarrow> map_of (fold (\<lambda>(k, v) s. AList.update k v s) st s) = map_of s ++ map_of st"
proof (induction st arbitrary: s)
  case (Cons x st)
  then have "map_of st (fst x) = None" by (simp add: map_of_eq_None_iff)
  with Cons show ?case
    by (cases x) (auto simp: fun_eq_iff map_add_def split: option.splits)
qed simp

lemma map_of_cloneState [simp]: "gm_ok st \<Longrightarrow> map_of (cloneState st) = map_of st"
  by (simp add: cloneState_def fold_update_map gm_ok_def)

lemma gm_ok_cloneState: "gm_ok (cloneState st)"
proof -
  have "gm_ok s \<Longrightarrow> gm_ok (fold (\<lambda>(k, v) s. AList.update k v s) st s)" for s
    by (induction st arbitrary: s) (auto intro: gm_ok_update)
  then show ?thesis by (simp add: cloneState_def)
qed

lemma Apply_state:
  "map_of (state (snd (Apply M f e))) =
    (case dec_input M e of Inl _ \<Rightarrow> map_of (state f) | Inr inp \<Rightarrow> apply_input inp (map_of (state f)))"
  by (auto simp: Apply_def apply_input_def sendStateChange_def op_defs split: sum.splits)

lemma Apply_gm_ok: "gm_ok (state f) \<Longrightarrow> gm_ok (state (snd (Apply M f e)))"
  by (auto simp: Apply_def sendStateChange_def gm_ok_update gm_ok_delete split: sum.splits)

subsection \<open>What has been sent to the observers\<close>

text \<open>
  The channels of registered observers are allocated, and no two observers share one. An observer
  that has received the synthetic inputs can replay the state; before, it can do so for the keys
  it has heard of.
\<close>

definition touched :: "Input list \<Rightarrow> string set" where
  "touched inps = in_Key ` set inps"

definition tracks :: "(string \<rightharpoonup> bytes) \<Rightarrow> Input list \<Rightarrow> bool" where
  "tracks m inps \<longleftrightarrow> replay inps = m"

definition tracks_touched :: "(string \<rightharpoonup> bytes) \<Rightarrow> Input list \<Rightarrow> bool" where
  "tracks_touched m inps \<longleftrightarrow> (\<forall>k. replay inps k = (if k \<in> touched inps then m k else None))"

definition obs_ok :: "RaftFsm \<Rightarrow> nat \<Rightarrow> bool" where
  "obs_ok f ch \<longleftrightarrow> ch < length (sent f) \<and>
     (if ch \<in> set (emitting f) then tracks_touched (map_of (state f)) (sent f ! ch)
      else tracks (map_of (state f)) (sent f ! ch))"

definition fsm_inv :: "RaftFsm \<Rightarrow> bool" where
  "fsm_inv f \<longleftrightarrow> gm_ok (state f) \<and> gm_ok (observers f) \<and> distinct (map snd (observers f)) \<and> distinct (emitting f) \<and>
     (\<forall>ch \<in> set (emitting f). ch < length (sent f)) \<and> (\<forall>ch \<in> snd ` set (observers f). obs_ok f ch)"

lemma length_send [simp]: "length (send ch inp ss) = length ss"
  by (simp add: send_def)

lemma nth_send: "ch < length ss \<Longrightarrow> send ch inp ss ! c = (if c = ch then ss ! c @ [inp] else ss ! c)"
  by (simp add: send_def)

lemma sendStateChange_frame [simp]:
  "state (sendStateChange inp f) = state f" "observers (sendStateChange inp f) = observers f"
  "emitting (sendStateChange inp f) = emitting f" "nextObserverId (sendStateChange inp f) = nextObserverId f"
  by (simp_all add: sendStateChange_def)

lemma fold_send_length: "length (fold (\<lambda>(i, ch). send ch inp) obs ss) = length ss"
  by (induction obs arbitrary: ss) auto

lemma length_sendStateChange [simp]: "length (sent (sendStateChange inp f)) = length (sent f)"
  by (simp add: sendStateChange_def fold_send_length)

lemma fold_send_nth:
  assumes "distinct (map snd obs)" "\<forall>(i, ch) \<in> set obs. ch < length ss"
  shows "fold (\<lambda>(i, ch). send ch inp) obs ss ! c = (if c \<in> snd ` set obs then ss ! c @ [inp] else ss ! c)"
  using assms
proof (induction obs arbitrary: ss)
  case (Cons x obs)
  then show ?case by (cases x) (auto simp: nth_send)
qed simp

lemma tracks_apply: "tracks m inps \<Longrightarrow> tracks (apply_input inp m) (inps @ [cloneInput inp])"
  by (simp add: tracks_def)

lemma tracks_touched_apply:
  "in_Op inp = InputOpSet \<or> in_Op inp = InputOpDelete \<Longrightarrow> tracks_touched m inps \<Longrightarrow>
    tracks_touched (apply_input inp m) (inps @ [cloneInput inp])"
  by (auto simp: tracks_touched_def touched_def apply_input_def cloneInput_def op_defs)

lemma sent_change:
  "fsm_inv f \<Longrightarrow> ch \<in> snd ` set (observers f) \<Longrightarrow> sent (sendStateChange inp f) ! ch = sent f ! ch @ [cloneInput inp]"
  using fold_send_nth [of "observers f" "sent f" "cloneInput inp" ch]
  by (force simp: sendStateChange_def fsm_inv_def obs_ok_def)

lemma fsm_inv_change:
  assumes inv: "fsm_inv f" and op: "in_Op inp = InputOpSet \<or> in_Op inp = InputOpDelete"
    and st: "gm_ok st" "map_of st = apply_input inp (map_of (state f))"
  shows "fsm_inv (sendStateChange inp (f\<lparr>state := st\<rparr>))"
proof -
  have "obs_ok (sendStateChange inp (f\<lparr>state := st\<rparr>)) ch" if ch: "ch \<in> snd ` set (observers f)" for ch
  proof -
    have "sent (sendStateChange inp (f\<lparr>state := st\<rparr>)) ! ch = sent f ! ch @ [cloneInput inp]"
      using sent_change [OF inv ch, of inp] by (simp add: sendStateChange_def)
    moreover have "obs_ok f ch" using inv ch by (auto simp: fsm_inv_def)
    ultimately show ?thesis
      using op st(2) by (auto simp: obs_ok_def intro: tracks_apply tracks_touched_apply split: if_splits)
  qed
  with inv st(1) show ?thesis by (simp add: fsm_inv_def)
qed

lemma fsm_inv_Apply:
  assumes "fsm_inv f"
  shows "fsm_inv (snd (Apply M f e))"
proof (cases "dec_input M e")
  case (Inr inp)
  have st: "gm_ok (state f)" using assms by (simp add: fsm_inv_def)
  show ?thesis
    using assms fsm_inv_change [OF assms, of inp] st
    by (auto simp: Apply_def Inr apply_input_def gm_ok_update gm_ok_delete op_defs)
qed (simp add: Apply_def assms)

text \<open>A new channel is not shared with another observer.\<close>

lemma snd_update: "snd ` set (AList.update k v m) \<subseteq> insert v (snd ` set m)"
  by (induction m) auto

lemma distinct_snd_update:
  "v \<notin> snd ` set m \<Longrightarrow> distinct (map snd m) \<Longrightarrow> distinct (map snd (AList.update k v m))"
proof (induction m)
  case (Cons x m)
  then have "snd x \<notin> snd ` set (AList.update k v m)" using snd_update [of k v m] by auto
  with Cons show ?case by (cases x) auto
qed simp

lemma fsm_inv_Add:
  assumes "fsm_inv f"
  shows "fsm_inv (AddStateChangeObserver f)"
proof -
  let ?ch = "length (sent f)"
  have obs: "ch < ?ch" if "ch \<in> snd ` set (observers f)" for ch
    using assms that by (auto simp: fsm_inv_def obs_ok_def)
  have emit: "ch < ?ch" if "ch \<in> set (emitting f)" for ch
    using assms that by (simp add: fsm_inv_def)
  have "obs_ok (AddStateChangeObserver f) ch" if "ch \<in> insert ?ch (snd ` set (observers f))" for ch
    using that obs assms
    by (auto simp: obs_ok_def AddStateChangeObserver_def Let_def fsm_inv_def nth_append tracks_touched_def touched_def)
  then have ok: "\<forall>ch \<in> snd ` set (observers (AddStateChangeObserver f)). obs_ok (AddStateChangeObserver f) ch"
    using snd_update [of "nextObserverId f + 1" ?ch "observers f"]
    by (auto simp: AddStateChangeObserver_def Let_def simp del: snd_conv)
  have "?ch \<notin> snd ` set (observers f)" "?ch \<notin> set (emitting f)"
    using obs emit by auto
  with assms show ?thesis
    unfolding fsm_inv_def using ok
    by (auto simp: AddStateChangeObserver_def Let_def distinct_snd_update gm_ok_update less_Suc_eq)
qed

lemma fsm_inv_Remove:
  assumes "fsm_inv f"
  shows "fsm_inv (RemoveStateChangeObserver i f)"
proof -
  have "set (AList.delete i (observers f)) \<subseteq> set (observers f)" by (auto simp: AList.delete_eq)
  moreover have "distinct (map snd (observers f)) \<Longrightarrow> distinct (map snd (AList.delete i (observers f)))"
    by (simp add: AList.delete_eq distinct_map_filter)
  moreover have "obs_ok (RemoveStateChangeObserver i f) ch = obs_ok f ch" for ch
    by (simp add: obs_ok_def RemoveStateChangeObserver_def)
  ultimately show ?thesis
    using assms by (auto simp: fsm_inv_def RemoveStateChangeObserver_def gm_ok_delete)
qed

text \<open>The synthetic inputs of the goroutine make an observer that tracks the keys it has heard of track all.\<close>

definition set_input :: "string \<times> bytes \<Rightarrow> Input" where
  "set_input kv = \<lparr>in_Op = InputOpSet, in_Key = fst kv, in_Value = snd kv\<rparr>"

lemma emit_sent:
  "ch < length ss \<Longrightarrow>
    fold (\<lambda>(k, v). send ch (cloneInput \<lparr>in_Op = InputOpSet, in_Key = k, in_Value = v\<rparr>)) st ss =
      ss[ch := ss ! ch @ map set_input st]"
proof (induction st arbitrary: ss)
  case (Cons x st)
  then show ?case by (cases x) (simp add: send_def cloneInput_def set_input_def op_defs)
qed simp

lemma replay_sets: "distinct (map fst st) \<Longrightarrow> replay (inps @ map set_input st) = replay inps ++ map_of st"
proof (induction st arbitrary: inps)
  case (Cons x st)
  have "map_of st (fst x) = None" using Cons.prems by (simp add: map_of_eq_None_iff)
  with Cons.IH [of "inps @ [set_input x]"] Cons.prems show ?case
    by (auto simp: apply_input_def set_input_def fun_eq_iff map_add_def split: option.splits)
qed simp

lemma tracks_emit:
  assumes "tracks_touched (map_of st) inps" "gm_ok st"
  shows "tracks (map_of st) (inps @ map set_input st)"
  using assms
  by (auto simp: tracks_def tracks_touched_def replay_sets gm_ok_def map_add_def fun_eq_iff split: option.splits)

lemma fsm_inv_emit:
  assumes inv: "fsm_inv f" and ch: "ch \<in> set (emitting f)"
  shows "fsm_inv (emitState ch f)"
proof -
  have len: "ch < length (sent f)" and st: "gm_ok (state f)" and em: "distinct (emitting f)"
    using inv ch by (auto simp: fsm_inv_def)
  have sent: "sent (emitState ch f) = (sent f)[ch := sent f ! ch @ map set_input (state f)]"
    using emit_sent [OF len] by (simp add: emitState_def)
  have "obs_ok (emitState ch f) c" if c: "c \<in> snd ` set (observers f)" for c
  proof -
    have ok: "obs_ok f c" using inv c by (auto simp: fsm_inv_def)
    show ?thesis
    proof (cases "c = ch")
      case True
      with ok ch tracks_emit [OF _ st, of "sent f ! ch"] em show ?thesis
        by (simp add: obs_ok_def sent len) (simp add: emitState_def)
    next
      case False
      with ok show ?thesis by (simp add: obs_ok_def sent) (simp add: emitState_def)
    qed
  qed
  then have "\<forall>c \<in> snd ` set (observers (emitState ch f)). obs_ok (emitState ch f) c"
    by (simp add: emitState_def)
  moreover have "\<forall>c \<in> set (emitting (emitState ch f)). c < length (sent (emitState ch f))"
    using inv sent by (auto simp: fsm_inv_def emitState_def dest: notin_set_remove1)
  ultimately show ?thesis
    unfolding fsm_inv_def using inv by (simp add: fsm_inv_def) (simp add: emitState_def)
qed

lemma fsm_inv_tracks:
  assumes "fsm_inv f" "map_of (observers f) i = Some ch" "ch \<notin> set (emitting f)"
  shows "replay (sent f ! ch) = map_of (state f)"
proof -
  have "ch \<in> snd ` set (observers f)" using assms(2) by (force dest: map_of_SomeD)
  with assms(1,3) show ?thesis by (auto simp: fsm_inv_def obs_ok_def tracks_def)
qed

end
