(* ===== verification/Codec.thy ===== *)
theory Codec
  imports Fsm
begin

section \<open>The MessagePack codec (services/state/raft/codec.go)\<close>

text \<open>
  \<open>EncodeMsgPack\<close>, \<open>DecodeMsgPack\<close> and \<open>DecodeMsgPackFromReader\<close> on the library \<open>go-msgpack\<close>, which is a
  parameter: for each Go type \<open>'a\<close> a record of its encoder, which writes to a byte slice, and of its
  decoder, which reads a byte slice or a reader (the bytes it yields) into a variable. The callers decode
  into a variable that holds the zero value of its type, and look at an error first: this is
  \<open>msgpack_of\<close>, the two types the state machine uses.
\<close>

record 'a go_codec =
  Encode :: "'a \<Rightarrow> bytes \<Rightarrow> goerr option \<times> bytes"
  Decode :: "bytes \<Rightarrow> 'a \<Rightarrow> goerr option \<times> 'a"
  Decode_reader :: "bytes \<Rightarrow> 'a \<Rightarrow> goerr option \<times> 'a"

definition DecodeMsgPack :: "'a go_codec \<Rightarrow> bytes \<Rightarrow> 'a \<Rightarrow> goerr option \<times> 'a" where
  "DecodeMsgPack L b out = Decode L b out"

definition DecodeMsgPackFromReader :: "'a go_codec \<Rightarrow> bytes \<Rightarrow> 'a \<Rightarrow> goerr option \<times> 'a" where
  "DecodeMsgPackFromReader L r out = Decode_reader L r out"

definition EncodeMsgPack :: "'a go_codec \<Rightarrow> 'a \<Rightarrow> bytes \<times> goerr option" where
  "EncodeMsgPack L x = (case Encode L x [] of (err, b) \<Rightarrow> (b, err))"

definition zero_Input :: Input where
  "zero_Input = \<lparr>in_Op = InputOpUndefined, in_Key = '''', in_Value = []\<rparr>"

definition zero_Snapshot :: fsmSnapshot where
  "zero_Snapshot = \<lparr>snap_State = []\<rparr>"

definition encoded :: "bytes \<times> goerr option \<Rightarrow> goerr + bytes" where
  "encoded r = (case r of (b, None) \<Rightarrow> Inr b | (b, Some err) \<Rightarrow> Inl err)"

definition decoded :: "goerr option \<times> 'a \<Rightarrow> goerr + 'a" where
  "decoded r = (case r of (None, x) \<Rightarrow> Inr x | (Some err, x) \<Rightarrow> Inl err)"

definition msgpack_of :: "Input go_codec \<Rightarrow> fsmSnapshot go_codec \<Rightarrow> msgpack" where
  "msgpack_of LI LS =
     \<lparr>enc_input = (\<lambda>i. encoded (EncodeMsgPack LI i)), dec_input = (\<lambda>b. decoded (DecodeMsgPack LI b zero_Input)),
      enc_snapshot = (\<lambda>s. encoded (EncodeMsgPack LS s)),
      dec_snapshot = (\<lambda>b. decoded (DecodeMsgPackFromReader LS b zero_Snapshot))\<rparr>"

subsection \<open>The contract\<close>

text \<open>
  The code relies on decoding what was encoded (locale \<open>msgpack_codec\<close>): an input as it was, a snapshot with
  the same map, whatever the order of its keys. The library gives this contract if it decodes
  what it has encoded (locale \<open>go_msgpack\<close>). A self-delimiting binary encoding, given here in full, is
  the instance that shows that the contracts can be fulfilled.
\<close>

locale msgpack_codec =
  fixes M :: msgpack
  assumes input_roundtrip: "enc_input M i = Inr b \<Longrightarrow> dec_input M b = Inr i"
    and snapshot_roundtrip: "enc_snapshot M s = Inr b \<Longrightarrow> gm_ok (snap_State s) \<Longrightarrow>
      \<exists>s'. dec_snapshot M b = Inr s' \<and> gm_ok (snap_State s') \<and> map_of (snap_State s') = map_of (snap_State s)"

locale go_msgpack =
  fixes LI :: "Input go_codec" and LS :: "fsmSnapshot go_codec"
  assumes decode_input: "Encode LI i [] = (None, b) \<Longrightarrow> Decode LI b zero_Input = (None, i)"
    and decode_snapshot: "Encode LS s [] = (None, b) \<Longrightarrow> gm_ok (snap_State s) \<Longrightarrow>
      \<exists>s'. Decode_reader LS b zero_Snapshot = (None, s') \<and> gm_ok (snap_State s') \<and> map_of (snap_State s') = map_of (snap_State s)"

lemma encoded_Inr: "encoded (EncodeMsgPack L x) = Inr b \<longleftrightarrow> Encode L x [] = (None, b)"
  by (auto simp: encoded_def EncodeMsgPack_def split: prod.splits option.splits)

sublocale go_msgpack \<subseteq> msgpack_codec "msgpack_of LI LS"
proof unfold_locales
  fix i b
  assume "enc_input (msgpack_of LI LS) i = Inr b"
  then show "dec_input (msgpack_of LI LS) b = Inr i"
    by (simp add: msgpack_of_def encoded_Inr decoded_def DecodeMsgPack_def decode_input)
next
  fix s b
  assume "enc_snapshot (msgpack_of LI LS) s = Inr b" "gm_ok (snap_State s)"
  then have "Encode LS s [] = (None, b)" by (simp add: msgpack_of_def encoded_Inr)
  from decode_snapshot [OF this \<open>gm_ok (snap_State s)\<close>]
  show "\<exists>s'. dec_snapshot (msgpack_of LI LS) b = Inr s' \<and> gm_ok (snap_State s') \<and> map_of (snap_State s') = map_of (snap_State s)"
    by (auto simp: msgpack_of_def decoded_def DecodeMsgPackFromReader_def)
qed

subsection \<open>A self-delimiting encoding\<close>

text \<open>Numbers in groups of seven bits, the highest bit of a byte telling that more follow.\<close>

fun enc_nat :: "nat \<Rightarrow> bytes" where
  "enc_nat n = (if n < 128 then [word_of_nat n] else word_of_nat (128 + n mod 128) # enc_nat (n div 128))"

declare enc_nat.simps [simp del]

fun dec_nat :: "bytes \<Rightarrow> (nat \<times> bytes) option" where
  "dec_nat [] = None"
| "dec_nat (b # bs) =
     (if unat b < 128 then Some (unat b, bs)
      else (case dec_nat bs of None \<Rightarrow> None | Some (n, r) \<Rightarrow> Some (unat b - 128 + 128 * n, r)))"

lemma unat_byte: "n < 256 \<Longrightarrow> unat (word_of_nat n :: byte) = n"
  by (simp add: unat_of_nat take_bit_nat_eq_self)

lemma dec_enc_nat [simp]: "dec_nat (enc_nat n @ r) = Some (n, r)"
proof (induction n rule: enc_nat.induct)
  case (1 n)
  show ?case
  proof (cases "n < 128")
    case True
    then show ?thesis by (simp add: enc_nat.simps [of n] unat_byte)
  next
    case False
    have "128 + n mod 128 < 256" by simp
    then have "unat (word_of_nat (128 + n mod 128) :: byte) = 128 + n mod 128" by (rule unat_byte)
    with False 1 show ?thesis by (simp add: enc_nat.simps [of n])
  qed
qed

definition enc_bytes :: "bytes \<Rightarrow> bytes" where
  "enc_bytes b = enc_nat (length b) @ b"

definition dec_bytes :: "bytes \<Rightarrow> (bytes \<times> bytes) option" where
  "dec_bytes bs = (case dec_nat bs of None \<Rightarrow> None
     | Some (n, r) \<Rightarrow> if length r < n then None else Some (take n r, drop n r))"

lemma dec_enc_bytes [simp]: "dec_bytes (enc_bytes b @ r) = Some (b, r)"
  by (simp add: enc_bytes_def dec_bytes_def)

definition enc_int :: "int \<Rightarrow> bytes" where
  "enc_int i = (if i < 0 then 1 # enc_nat (nat (- i)) else 0 # enc_nat (nat i))"

definition dec_int :: "bytes \<Rightarrow> (int \<times> bytes) option" where
  "dec_int bs = (case bs of [] \<Rightarrow> None
     | b # bs \<Rightarrow> (case dec_nat bs of None \<Rightarrow> None | Some (n, r) \<Rightarrow> Some (if b = 1 then - int n else int n, r)))"

lemma dec_enc_int [simp]: "dec_int (enc_int i @ r) = Some (i, r)"
  by (simp add: enc_int_def dec_int_def)

definition plain_enc_input :: "Input \<Rightarrow> bytes" where
  "plain_enc_input i = enc_int (in_Op i) @ enc_bytes (bytes_of_string (in_Key i)) @ enc_bytes (in_Value i)"

definition plain_dec_input :: "bytes \<Rightarrow> goerr + Input" where
  "plain_dec_input bs =
     (case dec_int bs of None \<Rightarrow> Inl (Ext (OtherExt ''msgpack''))
      | Some (op, r) \<Rightarrow> (case dec_bytes r of None \<Rightarrow> Inl (Ext (OtherExt ''msgpack''))
      | Some (k, r) \<Rightarrow> (case dec_bytes r of None \<Rightarrow> Inl (Ext (OtherExt ''msgpack''))
      | Some (v, r) \<Rightarrow> Inr \<lparr>in_Op = op, in_Key = string_of_bytes k, in_Value = v\<rparr>)))"

lemma plain_input_roundtrip: "plain_dec_input (plain_enc_input i) = Inr i"
  using dec_enc_bytes [of "in_Value i" "[]"] by (simp add: plain_dec_input_def plain_enc_input_def)

fun enc_pairs :: "State \<Rightarrow> bytes" where
  "enc_pairs [] = []"
| "enc_pairs ((k, v) # st) = enc_bytes (bytes_of_string k) @ enc_bytes v @ enc_pairs st"

fun dec_pairs :: "nat \<Rightarrow> bytes \<Rightarrow> State option" where
  "dec_pairs 0 bs = Some []"
| "dec_pairs (Suc n) bs =
     (case dec_bytes bs of None \<Rightarrow> None
      | Some (k, r) \<Rightarrow> (case dec_bytes r of None \<Rightarrow> None
      | Some (v, r) \<Rightarrow> map_option ((#) (string_of_bytes k, v)) (dec_pairs n r)))"

lemma dec_enc_pairs: "dec_pairs (length st) (enc_pairs st) = Some st"
  by (induction st rule: enc_pairs.induct) auto

definition plain_codec :: msgpack where
  "plain_codec = \<lparr>enc_input = (\<lambda>i. Inr (plain_enc_input i)), dec_input = plain_dec_input,
     enc_snapshot = (\<lambda>s. Inr (enc_nat (length (snap_State s)) @ enc_pairs (snap_State s))),
     dec_snapshot = (\<lambda>b. case dec_nat b of None \<Rightarrow> Inl (Ext (OtherExt ''msgpack''))
       | Some (n, r) \<Rightarrow> (case dec_pairs n r of None \<Rightarrow> Inl (Ext (OtherExt ''msgpack''))
       | Some st \<Rightarrow> Inr \<lparr>snap_State = st\<rparr>))\<rparr>"

lemma plain_snapshot_roundtrip: "enc_snapshot plain_codec s = Inr b \<Longrightarrow> dec_snapshot plain_codec b = Inr s"
  by (auto simp: plain_codec_def dec_enc_pairs)

text \<open>The encoding as a library.\<close>

definition plain_lib :: "('a \<Rightarrow> bytes) \<Rightarrow> (bytes \<Rightarrow> goerr + 'a) \<Rightarrow> 'a go_codec" where
  "plain_lib enc dec =
     \<lparr>Encode = (\<lambda>x b. (None, b @ enc x)), Decode = (\<lambda>b x. case dec b of Inl e \<Rightarrow> (Some e, x) | Inr y \<Rightarrow> (None, y)),
      Decode_reader = (\<lambda>b x. case dec b of Inl e \<Rightarrow> (Some e, x) | Inr y \<Rightarrow> (None, y))\<rparr>"

interpretation plain: go_msgpack "plain_lib plain_enc_input plain_dec_input"
  "plain_lib (\<lambda>s. enc_nat (length (snap_State s)) @ enc_pairs (snap_State s)) (dec_snapshot plain_codec)"
  using plain_snapshot_roundtrip
  by unfold_locales (auto simp: plain_lib_def plain_input_roundtrip plain_codec_def)

lemma plain_codec_lib:
  "plain_codec = msgpack_of (plain_lib plain_enc_input plain_dec_input)
    (plain_lib (\<lambda>s. enc_nat (length (snap_State s)) @ enc_pairs (snap_State s)) (dec_snapshot plain_codec))"
  by (auto simp: plain_codec_def msgpack_of_def plain_lib_def encoded_def decoded_def EncodeMsgPack_def DecodeMsgPack_def
      DecodeMsgPackFromReader_def fun_eq_iff split: sum.splits option.splits prod.splits)

lemma msgpack_codec_plain: "msgpack_codec plain_codec"
  by (subst plain_codec_lib) (rule plain.msgpack_codec_axioms)

end
