(* ===== verification/Raft_Store.thy ===== *)
theory Raft_Store
  imports Store_Api Codec
begin

section \<open>The Raft log and stable store (services/state/raft/store.go)\<close>

text \<open>
  \<open>RaftStore\<close> keeps the Raft log and the stable store in two Pebble bindings, keys of the log being
  the big-endian bytes of the index, and tells observers about changes of the group's members.

  The types of the Raft library are parameters: a log entry \<open>'log\<close> is used through its index, its
  type, the server ids of the configuration it may carry, and its MessagePack encoding (record
  \<open>hraft_log\<close>); the file system calls are the record \<open>os\<close>. Everything sent on a channel of an
  observer is kept in \<open>msent\<close>; a goroutine of \<open>AddMembershipChangeObserver\<close> that has not run yet
  is an entry of \<open>madding\<close>.
\<close>

subsection \<open>Big-endian encoding\<close>

definition uint64ToBytes :: "uint64 \<Rightarrow> bytes" where
  "uint64ToBytes u = map (\<lambda>i. ucast (drop_bit (8 * i) u)) [7, 6, 5, 4, 3, 2, 1, 0]"

text \<open>\<open>binary.BigEndian.Uint64\<close> panics on fewer than eight bytes and ignores what follows them.\<close>

definition bytesToUint64 :: "bytes \<Rightarrow> uint64 option" where
  "bytesToUint64 b =
     (if length b < 8 then None else Some (foldl (\<lambda>acc x. acc * 256 + ucast x) 0 (take 8 b)))"

subsection \<open>State and construction\<close>

record 'log hraft_log =
  log_Index :: "'log \<Rightarrow> uint64"
  log_isConfiguration :: "'log \<Rightarrow> bool"
  log_Servers :: "'log \<Rightarrow> string list"
  enc_log :: "'log \<Rightarrow> goerr + bytes"
  dec_log :: "bytes \<Rightarrow> goerr + 'log"

record ('d, 'w, 'snap) RaftStore =
  logDir :: string
  logStore :: "('d, 'w) PebbleBinding"
  stableDir :: string
  stableStore :: "('d, 'w) PebbleBinding"
  snapDir :: string
  SnapStore :: 'snap
  rs_observers :: "(uint64, nat) gomap"
  rs_nextObserverId :: uint64
  memberIds :: "string list"
  msent :: "MembershipChange list list"
  madding :: "(nat \<times> uint64) list"

record 'snap os =
  filepath_Join :: "string \<Rightarrow> string \<Rightarrow> string"
  NewFileSnapshotStore :: "string \<Rightarrow> nat \<Rightarrow> goerr + 'snap"
  NewInmemSnapshotStore :: 'snap

definition retainSnapshotCount :: nat where
  "retainSnapshotCount = 2"

definition store_config :: "string \<Rightarrow> string \<Rightarrow> Config" where
  "store_config uuid loc =
     (let cfg = New uuid
      in cfg\<lparr>cfg_Services := (cfg_Services cfg)\<lparr>Store :=
           \<lparr>store_Engine = ''pebble'', store_Location = loc, store_Disabled = False\<rparr>\<rparr>\<rparr>)"

definition NewRaftStore ::
  "('d, 'w) pebble \<Rightarrow> 'snap os \<Rightarrow> string \<Rightarrow> 'w \<Rightarrow> 'w \<Rightarrow> string \<Rightarrow> goerr + ('d, 'w, 'snap) RaftStore"
where
  "NewRaftStore P OS uuid logFs stableFs location =
     (let logDir' = (if location \<noteq> '''' then filepath_Join OS location ''log'' else location);
          stableDir' = (if location \<noteq> '''' then filepath_Join OS location ''stable'' else location)
      in case (if location \<noteq> '''' then NewFileSnapshotStore OS location retainSnapshotCount
               else Inr (NewInmemSnapshotStore OS)) of
           Inl err \<Rightarrow> Inl err
         | Inr snapStore \<Rightarrow>
             (case Pebble.Open P \<lparr>db = None, fs = logFs\<rparr> (store_config uuid logDir') of
                (Some err, _) \<Rightarrow> Inl err
              | (None, ls) \<Rightarrow>
                  (case Pebble.Open P \<lparr>db = None, fs = stableFs\<rparr> (store_config uuid stableDir') of
                     (Some err, _) \<Rightarrow> Inl err
                   | (None, ss) \<Rightarrow>
                       Inr \<lparr>logDir = logDir', logStore = ls, stableDir = stableDir', stableStore = ss,
                            snapDir = location, SnapStore = snapStore, rs_observers = [], rs_nextObserverId = 0,
                            memberIds = [], msent = [], madding = []\<rparr>)))"

text \<open>\<open>removed\<close> are the directories given to \<open>os.RemoveAll\<close>, whose errors are ignored.\<close>

definition Close ::
  "('d, 'w) pebble \<Rightarrow> ('d, 'w, 'snap) RaftStore \<Rightarrow> bool \<Rightarrow> ('d, 'w, 'snap) RaftStore \<times> string list"
where
  "Close P s removeStorage =
     (let s1 = s\<lparr>logStore := Pebble.Close P (logStore s), stableStore := Pebble.Close P (stableStore s)\<rparr>;
          removed = filter (\<lambda>dir. removeStorage \<and> dir \<noteq> '''') [logDir s, stableDir s, snapDir s]
      in (s1, removed))"

subsection \<open>The log store\<close>

text \<open>\<open>None\<close> is the panic of \<open>bytesToUint64\<close> in the callback.\<close>

definition scan_index :: "uint64 option ScanKeyValueB" where
  "scan_index k v s = (False, bytesToUint64 k)"

definition index_result :: "goerr option \<times> uint64 option \<Rightarrow> (goerr + uint64) option" where
  "index_result r = (case r of
     (_, None) \<Rightarrow> None
   | (Some err, Some _) \<Rightarrow> Some (Inl err)
   | (None, Some i) \<Rightarrow> Some (Inr i))"

definition FirstIndex :: "('d, 'w) pebble \<Rightarrow> ('d, 'w, 'snap) RaftStore \<Rightarrow> (goerr + uint64) option" where
  "FirstIndex P s = index_result (ScanRangeB P (logStore s) None None scan_index (Some 0))"

definition LastIndex :: "('d, 'w) pebble \<Rightarrow> ('d, 'w, 'snap) RaftStore \<Rightarrow> (goerr + uint64) option" where
  "LastIndex P s = index_result (ScanRangeReverseB P (logStore s) None None scan_index (Some 0))"

definition GetLog :: "('d, 'w) pebble \<Rightarrow> 'log hraft_log \<Rightarrow> ('d, 'w, 'snap) RaftStore \<Rightarrow> uint64 \<Rightarrow> goerr + 'log" where
  "GetLog P H s index =
     (case GetB P (logStore s) (uint64ToBytes index) of
        Inl err \<Rightarrow> Inl err
      | Inr None \<Rightarrow> Inl (Ext HraftErrLogNotFound)
      | Inr (Some val) \<Rightarrow> dec_log H val)"

subsection \<open>Membership changes\<close>

definition msend :: "nat \<Rightarrow> MembershipChange \<Rightarrow> MembershipChange list list \<Rightarrow> MembershipChange list list" where
  "msend ch c ss = ss[ch := ss ! ch @ [c]]"

definition mbroadcast :: "MembershipChange \<Rightarrow> ('d, 'w, 'snap) RaftStore \<Rightarrow> ('d, 'w, 'snap) RaftStore" where
  "mbroadcast c s = s\<lparr>msent := fold (\<lambda>(i, ch). msend ch c) (rs_observers s) (msent s)\<rparr>"

text \<open>The two loops of \<open>sendMembershipChangesForServers\<close>: members that have left, members that have joined.\<close>

definition leave_step :: "string list \<Rightarrow> string \<Rightarrow> ('d, 'w, 'snap) RaftStore \<Rightarrow> ('d, 'w, 'snap) RaftStore" where
  "leave_step servers ident s =
     (if ident \<notin> set servers
      then mbroadcast \<lparr>mc_Id = ident, mc_Joined = False\<rparr> (s\<lparr>memberIds := removeAll ident (memberIds s)\<rparr>)
      else s)"

definition join_step :: "string \<Rightarrow> ('d, 'w, 'snap) RaftStore \<Rightarrow> ('d, 'w, 'snap) RaftStore" where
  "join_step ident s =
     (if ident \<notin> set (memberIds s)
      then mbroadcast \<lparr>mc_Id = ident, mc_Joined = True\<rparr> (s\<lparr>memberIds := memberIds s @ [ident]\<rparr>)
      else s)"

definition sendMembershipChangesForServers ::
  "string list \<Rightarrow> ('d, 'w, 'snap) RaftStore \<Rightarrow> ('d, 'w, 'snap) RaftStore"
where
  "sendMembershipChangesForServers servers s =
     (if rs_observers s = [] then s
      else fold join_step servers (fold (leave_step servers) (memberIds s) s))"

definition AddMembershipChangeObserver ::
  "('d, 'w, 'snap) RaftStore \<Rightarrow> uint64 \<times> ('d, 'w, 'snap) RaftStore"
where
  "AddMembershipChangeObserver s =
     (let nid = rs_nextObserverId s + 1; ch = length (msent s)
      in (nid, s\<lparr>rs_nextObserverId := nid, msent := msent s @ [[]], madding := madding s @ [(ch, nid)]\<rparr>))"

text \<open>\<open>conf\<close> is what \<open>raft.GetConfiguration\<close> returns: an error, or the ids of the servers.\<close>

definition join_first :: "nat \<Rightarrow> string \<Rightarrow> ('d, 'w, 'snap) RaftStore \<Rightarrow> ('d, 'w, 'snap) RaftStore" where
  "join_first ch ident s =
     (if ident \<notin> set (memberIds s)
      then s\<lparr>memberIds := memberIds s @ [ident], msent := msend ch \<lparr>mc_Id = ident, mc_Joined = True\<rparr> (msent s)\<rparr>
      else s)"

definition sendMembershipChangesForObserver ::
  "goerr + string list \<Rightarrow> nat \<Rightarrow> uint64 \<Rightarrow> ('d, 'w, 'snap) RaftStore \<Rightarrow> ('d, 'w, 'snap) RaftStore"
where
  "sendMembershipChangesForObserver conf ch observerId s =
     (let s = s\<lparr>madding := remove1 (ch, observerId) (madding s)\<rparr> in
      if rs_observers s = [] then
        (case conf of
           Inl err \<Rightarrow> s
         | Inr servers \<Rightarrow>
             (let s1 = fold (join_first ch) servers s
              in s1\<lparr>rs_observers := AList.update (rs_nextObserverId s1) ch (rs_observers s1)\<rparr>))
      else
        (let s1 = s\<lparr>msent := fold (\<lambda>ident. msend ch \<lparr>mc_Id = ident, mc_Joined = True\<rparr>) (memberIds s) (msent s)\<rparr>
         in s1\<lparr>rs_observers := AList.update (rs_nextObserverId s1) ch (rs_observers s1)\<rparr>))"

definition RemoveMembershipChangeObserver :: "uint64 \<Rightarrow> ('d, 'w, 'snap) RaftStore \<Rightarrow> ('d, 'w, 'snap) RaftStore" where
  "RemoveMembershipChangeObserver chanId s =
     (let s1 = s\<lparr>rs_observers := AList.delete chanId (rs_observers s)\<rparr>
      in if rs_observers s1 = [] then s1\<lparr>memberIds := []\<rparr> else s1)"

subsection \<open>Writing logs\<close>

fun StoreLogs ::
  "('d, 'w) pebble \<Rightarrow> 'log hraft_log \<Rightarrow> ('d, 'w, 'snap) RaftStore \<Rightarrow> 'log list \<Rightarrow> goerr option \<times> ('d, 'w, 'snap) RaftStore"
where
  "StoreLogs P H s [] = (None, s)"
| "StoreLogs P H s (log # logs) =
     (let s1 = (if log_isConfiguration H log then sendMembershipChangesForServers (log_Servers H log) s else s);
          key = uint64ToBytes (log_Index H log)
      in case enc_log H log of
           Inl err \<Rightarrow> (Some err, s1)
         | Inr b \<Rightarrow>
             (case SetB P (logStore s1) key (Some b) of
                (Some err, ls) \<Rightarrow> (Some err, s1\<lparr>logStore := ls\<rparr>)
              | (None, ls) \<Rightarrow> StoreLogs P H (s1\<lparr>logStore := ls\<rparr>) logs))"

definition StoreLog ::
  "('d, 'w) pebble \<Rightarrow> 'log hraft_log \<Rightarrow> ('d, 'w, 'snap) RaftStore \<Rightarrow> 'log \<Rightarrow> goerr option \<times> ('d, 'w, 'snap) RaftStore"
where
  "StoreLog P H s log = StoreLogs P H s [log]"

definition DeleteRange ::
  "('d, 'w) pebble \<Rightarrow> ('d, 'w, 'snap) RaftStore \<Rightarrow> uint64 \<Rightarrow> uint64 \<Rightarrow> goerr option \<times> ('d, 'w, 'snap) RaftStore"
where
  "DeleteRange P s lo hi =
     (let maxb = (if hi = - 1 then KeyUpperBound (uint64ToBytes hi) else Some (uint64ToBytes (hi + 1)))
      in case DeleteRangeB P (logStore s) (Some (uint64ToBytes lo)) maxb of
           (err, ls) \<Rightarrow> (err, s\<lparr>logStore := ls\<rparr>))"

subsection \<open>The stable store\<close>

definition Set ::
  "('d, 'w) pebble \<Rightarrow> ('d, 'w, 'snap) RaftStore \<Rightarrow> bytes \<Rightarrow> bytes option \<Rightarrow> goerr option \<times> ('d, 'w, 'snap) RaftStore"
where
  "Set P s key val = (case SetB P (stableStore s) key val of (err, ss) \<Rightarrow> (err, s\<lparr>stableStore := ss\<rparr>))"

definition Get :: "('d, 'w) pebble \<Rightarrow> ('d, 'w, 'snap) RaftStore \<Rightarrow> bytes \<Rightarrow> goerr + bytes" where
  "Get P s key =
     (case GetB P (stableStore s) key of
        Inl err \<Rightarrow> Inl err
      | Inr None \<Rightarrow> Inl ErrKeyNotFound
      | Inr (Some v) \<Rightarrow> Inr v)"

definition SetUint64 ::
  "('d, 'w) pebble \<Rightarrow> ('d, 'w, 'snap) RaftStore \<Rightarrow> bytes \<Rightarrow> uint64 \<Rightarrow> goerr option \<times> ('d, 'w, 'snap) RaftStore"
where
  "SetUint64 P s key val =
     (case SetB P (stableStore s) key (Some (uint64ToBytes val)) of (err, ss) \<Rightarrow> (err, s\<lparr>stableStore := ss\<rparr>))"

definition GetUint64 :: "('d, 'w) pebble \<Rightarrow> ('d, 'w, 'snap) RaftStore \<Rightarrow> bytes \<Rightarrow> (goerr + uint64) option" where
  "GetUint64 P s key =
     (case GetB P (stableStore s) key of
        Inl err \<Rightarrow> Some (Inl err)
      | Inr None \<Rightarrow> Some (Inl ErrKeyNotFound)
      | Inr (Some v) \<Rightarrow> map_option Inr (bytesToUint64 v))"

end
