(* ===== verification/Raft_Store_Props.thy ===== *)
theory Raft_Store_Props
  imports Raft_Store
begin

section \<open>What the Raft store promises\<close>

text \<open>
  The big-endian encoding of indices is a bijection that keeps the order, so the keys of the log
  store are in index order; on a storage engine that fulfils its contract the log store is then a
  map from indices to entries with its first and last index, as the Raft library requires. Then
  the stable store, and the observers of membership changes.
\<close>

subsection \<open>Big-endian order\<close>

text \<open>The number a big-endian byte list stands for.\<close>

definition be_val :: "bytes \<Rightarrow> nat" where
  "be_val bs = foldl (\<lambda>a b. a * 256 + unat b) 0 bs"

lemma pow256: "(256::nat) ^ i = 2 ^ (8 * i)" by (simp add: power_mult)

lemma unat_byte_at: "unat (ucast (drop_bit (8 * i) u) :: byte) = unat (u :: uint64) div 256 ^ i mod 256"
proof -
  have "unat (drop_bit (8 * i) u) = drop_bit (8 * i) (unat u)"
    using unsigned_less [of u, where 'a = nat] by (simp only: unsigned_drop_bit_eq) (simp add: take_bit_nat_eq_self)
  then have "unat (drop_bit (8 * i) u) = unat u div 256 ^ i"
    by (simp add: drop_bit_eq_div pow256)
  then show ?thesis by (simp add: unsigned_ucast_eq take_bit_eq_mod)
qed

lemma be_val_app: "foldl (\<lambda>a b. a * 256 + unat b) x (bs :: byte list) = x * 256 ^ length bs + be_val bs"
proof (induction bs arbitrary: x)
  case Nil
  then show ?case by (simp add: be_val_def)
next
  case (Cons b bs)
  from Cons [of "x * 256 + unat b"] Cons [of "unat b"] show ?case
    by (simp add: be_val_def algebra_simps)
qed

lemma be_val_Cons: "be_val (b # bs) = unat b * 256 ^ length bs + be_val bs"
  using be_val_app [of "unat b" bs] by (simp add: be_val_def)

lemma be_val_less: "be_val bs < 256 ^ length bs"
proof (induction bs)
  case (Cons b bs)
  have "unat b < 256" using unsigned_less [of b, where 'a = nat] by simp
  then have "unat b * 256 ^ length bs + be_val bs < (unat b + 1) * 256 ^ length bs" using Cons by simp
  also have "\<dots> \<le> 256 * 256 ^ length bs" using \<open>unat b < 256\<close> by (intro mult_right_mono) auto
  finally show ?case by (simp add: be_val_Cons)
qed (simp add: be_val_def)

lemma be_val_order: "length bs = length cs \<Longrightarrow> bs < cs \<longleftrightarrow> be_val bs < be_val cs"
proof (induction bs cs rule: list_induct2)
  case (Cons b bs c cs)
  have lt: "unat b < unat c \<Longrightarrow> be_val (b # bs) < be_val (c # cs)" if "length bs = length cs" for b c bs cs
  proof -
    assume "unat b < unat c"
    then have "(unat b + 1) * 256 ^ length bs \<le> unat c * 256 ^ length bs" by (intro mult_right_mono) auto
    with be_val_less [of bs] that show ?thesis by (simp add: be_val_Cons)
  qed
  show ?case
  proof (cases "b = c")
    case True
    with Cons show ?thesis by (simp add: be_val_Cons)
  next
    case False
    then consider "unat b < unat c" | "unat c < unat b" by (metis linorder_neqE_nat unsigned_word_eqI)
    then show ?thesis
      using lt [of bs cs b c] lt [of cs bs c b] Cons False by cases (auto simp: word_less_nat_alt)
  qed
qed (simp add: be_val_def)
lemma be_val_bytes: "be_val (map (\<lambda>i. ucast (drop_bit (8 * i) (u :: uint64))) (rev [0..<n])) = unat u mod 256 ^ n"
proof (induction n)
  case (Suc n)
  have "map (\<lambda>i. ucast (drop_bit (8 * i) u)) (rev [0..<Suc n]) =
      (ucast (drop_bit (8 * n) u) :: byte) # map (\<lambda>i. ucast (drop_bit (8 * i) u)) (rev [0..<n])"
    by simp
  then have "be_val (map (\<lambda>i. ucast (drop_bit (8 * i) u)) (rev [0..<Suc n])) =
      unat u div 256 ^ n mod 256 * 256 ^ n + unat u mod 256 ^ n"
    using Suc by (simp only: be_val_Cons unat_byte_at) simp
  also have "\<dots> = unat u mod (256 ^ n * 256)"
    using mod_mult2_eq [of "unat u" "256 ^ n" 256] by (simp only: mult.commute [of "256 ^ n" "unat u div 256 ^ n mod 256"])
  finally show ?case by (simp only: power_Suc2)
qed (simp add: be_val_def)

lemma be_val_uint64ToBytes: "be_val (uint64ToBytes u) = unat u"
proof -
  have "uint64ToBytes u = map (\<lambda>i. ucast (drop_bit (8 * i) u)) (rev [0..<8])"
    by (simp add: uint64ToBytes_def upt_rec)
  then show ?thesis using be_val_bytes [of u 8] unsigned_less [of u, where 'a = nat] by simp
qed

lemma foldl_word: "foldl (\<lambda>acc x. acc * 256 + ucast x) (word_of_nat a) (bs :: byte list) = (word_of_nat (foldl (\<lambda>a b. a * 256 + unat b) a bs) :: uint64)"
proof (induction bs arbitrary: a)
  case (Cons b bs)
  have u: "(ucast b :: uint64) = word_of_nat (unat b)" by simp
  have "word_of_nat a * 256 + ucast b = (word_of_nat (a * 256 + unat b) :: uint64)"
    unfolding u of_nat_add of_nat_mult of_nat_numeral ..
  with Cons [of "a * 256 + unat b"] show ?case by (simp only: foldl_Cons)
qed simp

lemma uint64ToBytes_length [simp]: "length (uint64ToBytes u) = 8"
  by (simp add: uint64ToBytes_def)

lemma bytesToUint64_eq: "length b = 8 \<Longrightarrow> bytesToUint64 b = Some (word_of_nat (be_val b))"
  using foldl_word [of 0 b] by (simp add: bytesToUint64_def be_val_def)

lemma bytesToUint64_uint64ToBytes [simp]: "bytesToUint64 (uint64ToBytes u) = Some u"
  by (simp add: bytesToUint64_eq be_val_uint64ToBytes)

lemma uint64ToBytes_less [simp]: "uint64ToBytes u < uint64ToBytes v \<longleftrightarrow> u < v"
  using be_val_order [of "uint64ToBytes u" "uint64ToBytes v"] by (simp add: be_val_uint64ToBytes word_less_nat_alt)

lemma uint64ToBytes_inj [simp]: "uint64ToBytes u = uint64ToBytes v \<longleftrightarrow> u = v"
  by (metis bytesToUint64_uint64ToBytes option.inject)

lemma uint64ToBytes_le [simp]: "uint64ToBytes u \<le> uint64ToBytes v \<longleftrightarrow> u \<le> v"
  by (simp add: le_less)

lemma uint64_inc: "v \<noteq> - 1 \<Longrightarrow> u < v + 1 \<longleftrightarrow> u \<le> (v :: uint64)"
proof -
  assume "v \<noteq> - 1"
  then have "1 + v \<noteq> 0" by (metis add.commute eq_neg_iff_add_eq_0)
  then have "unat (1 + v) = Suc (unat v)" by (rule unatSuc)
  then show ?thesis by (simp add: word_less_nat_alt word_le_nat_alt add.commute less_Suc_eq_le)
qed

subsection \<open>The log store on a storage engine\<close>

text \<open>The keys of the log store are indices.\<close>

definition log_keys :: "(bytes \<rightharpoonup> bytes) \<Rightarrow> bool" where
  "log_keys m \<longleftrightarrow> dom m \<subseteq> range uint64ToBytes"

lemma scan_index_first:
  "scan_loop scan_index items s = (case items of [] \<Rightarrow> s | (k, v) # _ \<Rightarrow> bytesToUint64 k)"
  by (cases items rule: remdups_adj.cases) (auto simp: scan_index_def)

lemma entries_first:
  assumes "entries m UNIV items" "log_keys m"
  shows "items = [] \<Longrightarrow> m (uint64ToBytes u) = None"
    and "items = (k, v) # rst \<Longrightarrow> \<exists>i. k = uint64ToBytes i \<and> m k = Some v \<and> (\<forall>u. m (uint64ToBytes u) \<noteq> None \<longrightarrow> i \<le> u)"
    and "items = front @ [(k, v)] \<Longrightarrow> \<exists>i. k = uint64ToBytes i \<and> m k = Some v \<and> (\<forall>u. m (uint64ToBytes u) \<noteq> None \<longrightarrow> u \<le> i)"
proof -
  have m: "map_of items = m" and srt: "sorted_wrt (<) (map fst items)"
    using assms(1) by (auto simp: entries_def restrict_map_def)
  have dist: "distinct (map fst items)" using srt by (simp add: strict_sorted_iff)
  have key: "\<exists>i. k = uint64ToBytes i \<and> m k = Some v" if "(k, v) \<in> set items" for k v
  proof -
    have "m k = Some v" using that dist m by auto
    then show ?thesis using assms(2) by (force simp: log_keys_def)
  qed
  have mem: "uint64ToBytes u \<in> set (map fst items)" if "m (uint64ToBytes u) \<noteq> None" for u
    using that m map_of_eq_None_iff [of items "uint64ToBytes u"] by auto
  show "items = [] \<Longrightarrow> m (uint64ToBytes u) = None" using m by auto
  show "items = (k, v) # rst \<Longrightarrow> \<exists>i. k = uint64ToBytes i \<and> m k = Some v \<and> (\<forall>u. m (uint64ToBytes u) \<noteq> None \<longrightarrow> i \<le> u)"
    using key [of k v] srt mem by (force simp: le_less)
  show "items = front @ [(k, v)] \<Longrightarrow> \<exists>i. k = uint64ToBytes i \<and> m k = Some v \<and> (\<forall>u. m (uint64ToBytes u) \<noteq> None \<longrightarrow> u \<le> i)"
    using key [of k v] srt mem by (force simp: le_less sorted_wrt_append)
qed

lemma store_frame [simp]:
  "logStore (mbroadcast c s) = logStore s" "rs_observers (mbroadcast c s) = rs_observers s"
  "memberIds (mbroadcast c s) = memberIds s"
  by (simp_all add: mbroadcast_def)

lemma logStore_membership [simp]: "logStore (sendMembershipChangesForServers servers s) = logStore s"
proof -
  have l: "logStore (fold (leave_step servers) ids s) = logStore s" for ids s
    by (induction ids arbitrary: s) (auto simp: leave_step_def)
  have j: "logStore (fold join_step ids s) = logStore s" for ids s
    by (induction ids arbitrary: s) (auto simp: join_step_def)
  show ?thesis by (simp add: sendMembershipChangesForServers_def l j)
qed

text \<open>What \<open>StoreLogs\<close> leaves at an index: the last of the stored logs with this index.\<close>

definition last_log :: "'log hraft_log \<Rightarrow> uint64 \<Rightarrow> 'log list \<Rightarrow> 'log option" where
  "last_log H i logs = find (\<lambda>l. log_Index H l = i) (rev logs)"

lemma find_snoc: "find Q (xs @ [x]) = (case find Q xs of None \<Rightarrow> if Q x then Some x else None | Some y \<Rightarrow> Some y)"
  by (induction xs) auto

lemma last_log_Cons:
  "last_log H i (l # logs) = (case last_log H i logs of None \<Rightarrow> if log_Index H l = i then Some l else None | Some l' \<Rightarrow> Some l')"
  by (simp add: last_log_def find_snoc)

context pebble_db begin

lemma index_bounds:
  assumes "db (logStore s) = Some d" and k: "log_keys (contents d (fs (logStore s)))"
    and first: "FirstIndex P s = Some (Inr i)" and last: "LastIndex P s = Some (Inr j)"
  defines "I \<equiv> {u. contents d (fs (logStore s)) (uint64ToBytes u) \<noteq> None}"
  shows "if I = {} then i = 0 \<and> j = 0 else i \<in> I \<and> j \<in> I \<and> (\<forall>u\<in>I. i \<le> u \<and> u \<le> j)"
proof -
  let ?it = "db_NewIter P d None None (fs (logStore s))"
  have c: "it_Close ?it = None" and i: "scan_loop scan_index (it_items ?it) (Some 0) = Some i"
    and j: "scan_loop scan_index (rev (it_items ?it)) (Some 0) = Some j"
    using first last assms(1)
    by (auto simp: FirstIndex_def LastIndex_def ScanRangeB_def ScanRangeReverseB_def index_result_def Let_def
        split: option.splits prod.splits)
  have e: "entries (contents d (fs (logStore s))) UNIV (it_items ?it)"
    using NewIter_ok [OF refl c] by (simp add: in_range_def below_def)
  show ?thesis
  proof (cases "it_items ?it")
    case Nil
    then have "I = {}" using entries_first(1) [OF e k] by (simp add: I_def)
    with Nil i j show ?thesis by (simp add: scan_index_first)
  next
    case (Cons x rst)
    obtain k0 v0 where x: "x = (k0, v0)" by fastforce
    obtain front k1 v1 where l: "it_items ?it = front @ [(k1, v1)]"
      using Cons by (metis list.discI rev_exhaust surj_pair)
    from entries_first(2) [OF e k, of k0 v0 rst] Cons x obtain a where
      a: "k0 = uint64ToBytes a" "a \<in> I" "\<forall>u\<in>I. a \<le> u" by (auto simp: I_def)
    from entries_first(3) [OF e k, of front k1 v1] l obtain b where
      b: "k1 = uint64ToBytes b" "b \<in> I" "\<forall>u\<in>I. u \<le> b" by (auto simp: I_def)
    have "i = a" using i Cons x a(1) by (simp add: scan_index_def)
    moreover have "j = b" using j l b(1) by (simp add: scan_index_def)
    ultimately show ?thesis using a b by auto
  qed
qed

lemma StoreLogs_step:
  assumes "StoreLogs P H s (l # logs) = (None, s')" "db (logStore s) = Some d"
  shows "\<exists>b s1. enc_log H l = Inr b \<and> db (logStore s1) = Some d \<and> StoreLogs P H s1 logs = (None, s') \<and>
    contents d (fs (logStore s1)) = (contents d (fs (logStore s)))(uint64ToBytes (log_Index H l) \<mapsto> b)"
proof -
  let ?s = "if log_isConfiguration H l then sendMembershipChangesForServers (log_Servers H l) s else s"
  have ls: "logStore ?s = logStore s" by simp
  from assms(1) ls obtain b ls where b: "enc_log H l = Inr b" and
    set: "SetB P (logStore s) (uint64ToBytes (log_Index H l)) (Some b) = (None, ls)" and
    rest: "StoreLogs P H (?s\<lparr>logStore := ls\<rparr>) logs = (None, s')"
    by (auto simp: Let_def split: sum.splits prod.splits option.splits if_splits)
  from set assms(2) have "db ls = Some d"
    "contents d (fs ls) = (contents d (fs (logStore s)))(uint64ToBytes (log_Index H l) \<mapsto> b)"
    by (auto simp: SetB_def dest!: db_op_ok Set_ok)
  with b rest show ?thesis by (intro exI [of _ b] exI [of _ "?s\<lparr>logStore := ls\<rparr>"]) simp
qed

lemma StoreLogs_at:
  "StoreLogs P H s logs = (None, s') \<Longrightarrow> db (logStore s) = Some d \<Longrightarrow> db (logStore s') = Some d \<and>
    contents d (fs (logStore s')) (uint64ToBytes i) = (case last_log H i logs of
        None \<Rightarrow> contents d (fs (logStore s)) (uint64ToBytes i)
      | Some l \<Rightarrow> (case enc_log H l of Inr b \<Rightarrow> Some b | Inl _ \<Rightarrow> None)) \<and>
    (last_log H i logs = Some l \<longrightarrow> (\<exists>b. enc_log H l = Inr b)) \<and>
    (log_keys (contents d (fs (logStore s))) \<longrightarrow> log_keys (contents d (fs (logStore s'))))"
proof (induction logs arbitrary: s)
  case Nil
  then show ?case by (simp add: last_log_def)
next
  case (Cons l0 logs)
  from StoreLogs_step [OF Cons.prems] obtain b s1 where s1: "enc_log H l0 = Inr b" "db (logStore s1) = Some d"
    "StoreLogs P H s1 logs = (None, s')"
    "contents d (fs (logStore s1)) = (contents d (fs (logStore s)))(uint64ToBytes (log_Index H l0) \<mapsto> b)"
    by blast
  then have "log_keys (contents d (fs (logStore s))) \<longrightarrow> log_keys (contents d (fs (logStore s1)))"
    by (auto simp: log_keys_def)
  moreover note IH = Cons.IH [OF s1(3,2)]
  ultimately have "log_keys (contents d (fs (logStore s))) \<longrightarrow> log_keys (contents d (fs (logStore s')))"
    by blast
  moreover have "contents d (fs (logStore s1)) (uint64ToBytes i) =
      (if log_Index H l0 = i then Some b else contents d (fs (logStore s)) (uint64ToBytes i))"
    using s1(4) by simp
  ultimately show ?case
    using IH s1(1) by (auto simp: last_log_Cons split: option.splits)
qed

lemma store_then_get:
  assumes codec: "\<And>l b. enc_log H l = Inr b \<Longrightarrow> dec_log H b = Inr l"
    and st: "StoreLogs P H s logs = (None, s')" "db (logStore s) = Some d"
  shows "case last_log H i logs of
      Some l \<Rightarrow> GetLog P H s' i = Inr l \<or> (\<exists>e. GetLog P H s' i = Inl (RetryableError e))
    | None \<Rightarrow> GetLog P H s' i = Inr l' \<longrightarrow> GetLog P H s i = Inr l'' \<longrightarrow> l' = l''"
proof -
  have d': "db (logStore s') = Some d" using StoreLogs_at [OF st] by blast
  have get: "GetLog P H r i = (case contents d (fs (logStore r)) (uint64ToBytes i) of
      None \<Rightarrow> Inl (Ext HraftErrLogNotFound) | Some b \<Rightarrow> dec_log H b) \<or> (\<exists>e. GetLog P H r i = Inl (RetryableError e))"
    if "db (logStore r) = Some d" for r :: "('d, 'w, 'snap) RaftStore"
    using that Get_ok Get_missing by (auto simp: GetLog_def GetB_def split: sum.splits option.splits if_splits)
  show ?thesis
  proof (cases "last_log H i logs")
    case None
    with StoreLogs_at [OF st, of i] get [OF d'] get [OF st(2)] show ?thesis by auto
  next
    case (Some l)
    with StoreLogs_at [OF st, of i l] obtain b where "enc_log H l = Inr b"
      "contents d (fs (logStore s')) (uint64ToBytes i) = Some b" by auto
    with Some get [OF d'] codec show ?thesis by auto
  qed
qed

lemma delete_log_range:
  assumes "Raft_Store.DeleteRange P s lo hi = (None, s')" "db (logStore s) = Some d" "hi \<noteq> - 1"
  shows "db (logStore s') = Some d \<and> contents d (fs (logStore s')) (uint64ToBytes i) =
    (if lo \<le> i \<and> i \<le> hi then None else contents d (fs (logStore s)) (uint64ToBytes i))"
proof -
  from assms obtain ls where "DeleteRangeB P (logStore s) (Some (uint64ToBytes lo)) (Some (uint64ToBytes (hi + 1))) = (None, ls)"
    "s' = s\<lparr>logStore := ls\<rparr>"
    by (auto simp: Raft_Store.DeleteRange_def Let_def split: prod.splits)
  with assms(2) have "db ls = Some d" "contents d (fs ls) = contents d (fs (logStore s)) |`
      {k. \<not> in_range (Some (uint64ToBytes lo)) (Some (uint64ToBytes (hi + 1))) k}" "s' = s\<lparr>logStore := ls\<rparr>"
    by (auto simp: DeleteRangeB_def dest!: db_op_ok DeleteRange_ok)
  then show ?thesis by (auto simp: restrict_map_def in_range_def below_def uint64_inc [OF assms(3)])
qed

lemma stable_uint64:
  assumes "SetUint64 P s key v = (None, s')"
  shows "GetUint64 P s' key = Some (Inr v) \<or> (\<exists>e. GetUint64 P s' key = Some (Inl (RetryableError e)))"
proof -
  from assms obtain ss d where "db ss = Some d" "contents d (fs ss) key = Some (uint64ToBytes v)" "s' = s\<lparr>stableStore := ss\<rparr>"
    by (auto simp: SetUint64_def SetB_def split: prod.splits dest!: db_op_ok Set_ok)
  then show ?thesis
    using Get_ok [of d key "fs ss"] Get_missing [of d key "fs ss"]
    by (auto simp: GetUint64_def GetB_def split: sum.splits)
qed

end

subsection \<open>Membership observers\<close>

text \<open>The members an observer knows from the changes it has received.\<close>

definition known_members :: "MembershipChange list \<Rightarrow> string set" where
  "known_members cs = fold (\<lambda>c ids. if mc_Joined c then insert (mc_Id c) ids else ids - {mc_Id c}) cs {}"

lemma known_members_snoc [simp]:
  "known_members (cs @ [c]) = (if mc_Joined c then insert (mc_Id c) (known_members cs) else known_members cs - {mc_Id c})"
  by (simp add: known_members_def)

text \<open>The channels of the observers are allocated and not shared, and each has been told of all members.\<close>

definition members_inv :: "('d, 'w, 'snap) RaftStore \<Rightarrow> bool" where
  "members_inv s \<longleftrightarrow> distinct (map snd (rs_observers s)) \<and>
     (\<forall>ch \<in> snd ` set (rs_observers s). ch < length (msent s) \<and> known_members (msent s ! ch) = set (memberIds s))"

lemma length_msend [simp]: "length (msend ch c ss) = length ss"
  by (simp add: msend_def)

lemma nth_msend: "ch < length ss \<Longrightarrow> msend ch c ss ! k = (if k = ch then ss ! k @ [c] else ss ! k)"
  by (simp add: msend_def)

lemma fold_msend_nth:
  assumes "distinct (map snd obs)" "\<forall>ch \<in> snd ` set obs. ch < length ss"
  shows "fold (\<lambda>(i, ch). msend ch c) obs ss ! k = (if k \<in> snd ` set obs then ss ! k @ [c] else ss ! k) \<and>
    length (fold (\<lambda>(i, ch). msend ch c) obs ss) = length ss"
  using assms
proof (induction obs arbitrary: ss)
  case (Cons x obs)
  obtain i ch where x: "x = (i, ch)" by fastforce
  have "fold (\<lambda>(i, ch). msend ch c) obs (msend ch c ss) ! k =
      (if k \<in> snd ` set obs then msend ch c ss ! k @ [c] else msend ch c ss ! k) \<and>
      length (fold (\<lambda>(i, ch). msend ch c) obs (msend ch c ss)) = length (msend ch c ss)"
    using Cons.prems by (intro Cons.IH) (auto simp: x)
  with Cons.prems show ?case by (auto simp: x nth_msend)
qed simp

lemma members_inv_broadcast:
  assumes "members_inv s" and "set ids = (if mc_Joined c then insert (mc_Id c) (set (memberIds s)) else set (memberIds s) - {mc_Id c})"
  shows "members_inv (mbroadcast c (s\<lparr>memberIds := ids\<rparr>))"
  using assms fold_msend_nth [of "rs_observers s" "msent s" c] by (auto simp: members_inv_def mbroadcast_def)

lemma leave_loop:
  "members_inv s \<Longrightarrow> members_inv (fold (leave_step servers) ids s) \<and>
    rs_observers (fold (leave_step servers) ids s) = rs_observers s \<and>
    set (memberIds (fold (leave_step servers) ids s)) = set (memberIds s) - (set ids - set servers)"
proof (induction ids arbitrary: s)
  case (Cons a ids)
  have "members_inv (leave_step servers a s)" "rs_observers (leave_step servers a s) = rs_observers s"
    "set (memberIds (leave_step servers a s)) = set (memberIds s) - ({a} - set servers)"
    using Cons.prems members_inv_broadcast [of s "removeAll a (memberIds s)" "\<lparr>mc_Id = a, mc_Joined = False\<rparr>"]
    by (auto simp: leave_step_def)
  with Cons.IH [of "leave_step servers a s"] show ?case by auto
qed simp

lemma join_loop:
  "members_inv s \<Longrightarrow> members_inv (fold join_step ids s) \<and> rs_observers (fold join_step ids s) = rs_observers s \<and>
    set (memberIds (fold join_step ids s)) = set (memberIds s) \<union> set ids"
proof (induction ids arbitrary: s)
  case (Cons a ids)
  have "members_inv (join_step a s)" "rs_observers (join_step a s) = rs_observers s"
    "set (memberIds (join_step a s)) = insert a (set (memberIds s))"
    using Cons.prems members_inv_broadcast [of s "memberIds s @ [a]" "\<lparr>mc_Id = a, mc_Joined = True\<rparr>"]
    by (auto simp: join_step_def)
  with Cons.IH [of "join_step a s"] show ?case by auto
qed simp

lemma members_changed:
  assumes "members_inv s" "rs_observers s \<noteq> []"
  shows "members_inv (sendMembershipChangesForServers servers s) \<and>
    set (memberIds (sendMembershipChangesForServers servers s)) = set servers \<and>
    rs_observers (sendMembershipChangesForServers servers s) = rs_observers s"
proof -
  note l = leave_loop [OF assms(1), of servers "memberIds s"]
  with join_loop [of "fold (leave_step servers) (memberIds s) s" servers] assms(2) show ?thesis
    by (auto simp: sendMembershipChangesForServers_def)
qed

subsection \<open>Properties\<close>

text \<open>
  The encoding of indices as keys. Eight bytes, decoded to the same number, and in the byte
  order of the store exactly if the numbers are in order.
\<close>

theorem index_encoding:
  "length (uint64ToBytes u) = 8 \<and> bytesToUint64 (uint64ToBytes u) = Some u \<and>
    (uint64ToBytes u < uint64ToBytes v \<longleftrightarrow> u < v)"
  by simp

text \<open>
  C21: \<open>FirstIndex\<close> and \<open>LastIndex\<close>. On an engine that fulfils its contract, with index keys only,
  they return the least and the greatest index in the log, and 0 for an empty log.
\<close>

theorem log_index_bounds:
  assumes "pebble_db P contents" "db (logStore s) = Some d" "log_keys (contents d (fs (logStore s)))"
    and "FirstIndex P s = Some (Inr i)" "LastIndex P s = Some (Inr j)"
    and "I = {u. contents d (fs (logStore s)) (uint64ToBytes u) \<noteq> None}"
  shows "if I = {} then i = 0 \<and> j = 0 else i \<in> I \<and> j \<in> I \<and> (\<forall>u\<in>I. i \<le> u \<and> u \<le> j)"
  unfolding assms(6) by (rule pebble_db.index_bounds [OF assms(1-5)])

definition example_raft_store :: "(unit, mem_db, unit) RaftStore" where
  "example_raft_store = \<lparr>logDir = '''', logStore = \<lparr>db = Some (), fs = [(uint64ToBytes 5, [1]), (uint64ToBytes 300, [2])]\<rparr>,
     stableDir = '''', stableStore = \<lparr>db = Some (), fs = []\<rparr>, snapDir = '''', SnapStore = (), rs_observers = [(1, 0)],
     rs_nextObserverId = 1, memberIds = [''a''], msent = [[\<lparr>mc_Id = ''a'', mc_Joined = True\<rparr>]], madding = []\<rparr>"

lemma example_log_sorted:
  "sorted_list_of_set {uint64ToBytes 5, uint64ToBytes 300} = [uint64ToBytes 5, uint64ToBytes 300]"
proof -
  have "uint64ToBytes 5 < uint64ToBytes 300" by (simp only: uint64ToBytes_less) simp
  then have "sorted_wrt (<) [uint64ToBytes 5, uint64ToBytes 300]" by simp
  from sorted_list_of_set.idem_if_sorted_distinct [of "[uint64ToBytes 5, uint64ToBytes 300]"] this show ?thesis
    by (simp add: strict_sorted_iff)
qed

theorem log_index_bounds_witness:
  "FirstIndex mem_pebble example_raft_store = Some (Inr 5) \<and> LastIndex mem_pebble example_raft_store = Some (Inr 300) \<and>
    {u. map_of (fs (logStore example_raft_store)) (uint64ToBytes u) \<noteq> None} \<subseteq> {5..300}"
proof -
  have f: "FirstIndex mem_pebble example_raft_store = Some (Inr 5)" "LastIndex mem_pebble example_raft_store = Some (Inr 300)"
    by (simp_all add: FirstIndex_def LastIndex_def ScanRangeB_def ScanRangeReverseB_def example_raft_store_def mem_pebble_def
        mem_iter_def index_result_def in_range_def below_def Let_def example_log_sorted scan_index_def)
  have d: "db (logStore example_raft_store) = Some ()" by (simp add: example_raft_store_def)
  have k: "log_keys (map_of (fs (logStore example_raft_store)))"
    by (auto simp: log_keys_def example_raft_store_def split: if_splits)
  have "map_of (fs (logStore example_raft_store)) (uint64ToBytes 5) \<noteq> None"
    by (simp add: example_raft_store_def)
  then have "{u. map_of (fs (logStore example_raft_store)) (uint64ToBytes u) \<noteq> None} \<noteq> {}" by blast
  with log_index_bounds [OF pebble_db_mem d k f refl]
  have "\<forall>u\<in>{u. map_of (fs (logStore example_raft_store)) (uint64ToBytes u) \<noteq> None}. 5 \<le> u \<and> u \<le> 300" by meson
  then have "{u. map_of (fs (logStore example_raft_store)) (uint64ToBytes u) \<noteq> None} \<subseteq> {5..300}"
    by (intro subsetI) (simp only: atLeastAtMost_iff)
  with f show ?thesis by blast
qed


definition example_log :: "(uint64 \<times> bytes) hraft_log" where
  "example_log = \<lparr>log_Index = fst, log_isConfiguration = (\<lambda>l. False), log_Servers = (\<lambda>l. []),
     enc_log = (\<lambda>l. Inr (uint64ToBytes (fst l) @ snd l)),
     dec_log = (\<lambda>b. case bytesToUint64 b of None \<Rightarrow> Inl (Ext (OtherExt ''msgpack'')) | Some i \<Rightarrow> Inr (i, drop 8 b))\<rparr>"

lemma example_log_codec: "enc_log example_log l = Inr b \<Longrightarrow> dec_log example_log b = Inr l"
  using bytesToUint64_uint64ToBytes [of "fst l"] by (auto simp: example_log_def bytesToUint64_def)




text \<open>
  The stable store. A number written with \<open>SetUint64\<close> is read back by \<open>GetUint64\<close>, unless the
  engine fails with a retryable error; \<open>GetUint64\<close> does not panic on it.
\<close>

theorem stable_uint64_roundtrip:
  assumes "pebble_db P contents" "SetUint64 P s key v = (None, s')"
  shows "GetUint64 P s' key = Some (Inr v) \<or> (\<exists>e. GetUint64 P s' key = Some (Inl (RetryableError e)))"
  by (rule pebble_db.stable_uint64) fact+

theorem stable_uint64_roundtrip_witness:
  "\<exists>s'. SetUint64 mem_pebble example_raft_store [1] 7 = (None, s') \<and>
    (GetUint64 mem_pebble s' [1] = Some (Inr 7) \<or> (\<exists>e. GetUint64 mem_pebble s' [1] = Some (Inl (RetryableError e))))"
proof -
  let ?s = "snd (SetUint64 mem_pebble example_raft_store [1] 7)"
  have "SetUint64 mem_pebble example_raft_store [1] 7 = (None, ?s)"
    by (simp add: SetUint64_def SetB_def db_op_def mem_pebble_def example_raft_store_def NewRetryableError_def)
  with stable_uint64_roundtrip [OF pebble_db_mem this] show ?thesis by blast
qed



text \<open>
  C39: an observer registers itself under the id that was handed out last, not under its own. If a
  second observer is added before the goroutine of the first has run, both register under the id of
  the second: the first channel is no longer registered once both goroutines have run, and no
  observer is registered under the first id.
\<close>

theorem concurrent_membership_observer_lost:
  assumes "AddMembershipChangeObserver s = (id1, s1)" "AddMembershipChangeObserver s1 = (id2, s2)"
    and "ch1 = length (msent s)" "ch2 = length (msent s1)" "rs_observers s = []"
    and "s3 = sendMembershipChangesForObserver (Inr servers) ch1 id1 s2"
    and "s4 = sendMembershipChangesForObserver (Inr servers) ch2 id2 s3"
  shows "rs_observers s3 = [(id2, ch1)] \<and> rs_observers s4 = [(id2, ch2)] \<and> id1 \<noteq> id2 \<and> ch1 \<noteq> ch2"
proof -
  have j: "rs_observers (fold (join_first ch) ids r) = rs_observers r \<and> rs_nextObserverId (fold (join_first ch) ids r) = rs_nextObserverId r"
    for ch ids and r :: "('a, 'b, 'c) RaftStore"
    by (induction ids arbitrary: r) (auto simp: join_first_def)
  have ids: "id1 = rs_nextObserverId s + 1" "id2 = id1 + 1" "rs_nextObserverId s2 = id2" "rs_observers s2 = []" "ch2 = Suc ch1"
    using assms(1-5) by (auto simp: AddMembershipChangeObserver_def Let_def)
  then have s3: "rs_observers s3 = [(id2, ch1)]" "rs_nextObserverId s3 = id2"
    using assms(6) j by (auto simp: sendMembershipChangesForObserver_def Let_def)
  then have "rs_observers s4 = [(id2, ch2)]"
    using assms(7) by (auto simp: sendMembershipChangesForObserver_def Let_def)
  with s3 ids show ?thesis by simp
qed

theorem concurrent_membership_observer_lost_witness:
  "\<exists>s1 s2. AddMembershipChangeObserver (example_raft_store\<lparr>rs_observers := []\<rparr>) = (2, s1) \<and>
    AddMembershipChangeObserver s1 = (3, s2) \<and>
    rs_observers (sendMembershipChangesForObserver (Inr [''a'']) 2 3 (sendMembershipChangesForObserver (Inr [''a'']) 1 2 s2)) = [(3, 2)]"
proof -
  let ?s = "example_raft_store\<lparr>rs_observers := []\<rparr>"
  let ?s1 = "snd (AddMembershipChangeObserver ?s)" and ?s2 = "snd (AddMembershipChangeObserver (snd (AddMembershipChangeObserver ?s)))"
  have a: "AddMembershipChangeObserver ?s = (2, ?s1)" "AddMembershipChangeObserver ?s1 = (3, ?s2)"
    "length (msent ?s) = 1" "length (msent ?s1) = 2" "rs_observers ?s = []"
    by (simp_all add: AddMembershipChangeObserver_def example_raft_store_def)
  from concurrent_membership_observer_lost [OF a(1,2) a(3,4) [symmetric] a(5) refl refl, of "[''a'']"] a(1,2) show ?thesis
    by blast
qed

end
