(* ===== verification/Transport.thy ===== *)
theory Transport
  imports Com_Api Services
begin

section \<open>The Raft transport over pub-sub actions (services/state/raft/transport.go)\<close>

text \<open>
  Remote operations between Raft nodes as actions and action results of the communication API, and
  the forwarding of operations to the leader. Types of the Raft library are parameters: \<open>'h\<close> are its
  other requests, \<open>'r\<close> the responses; of an \<open>AppendEntriesRequest\<close> the fields the code reads are kept.
  The MessagePack codec and the environment of a call are records of functions:

  \<^item> \<open>com_PublishAction\<close>, with the deadline of the context: the error of the publication, or how the
    \<open>select\<close> on the shutdown channel and the result channel ends (the channel is closed when
    the context is done);
  \<^item> \<open>com_SubscribeAction\<close>: the error of a subscription;
  \<^item> \<open>consume\<close>: what a consumer of the RPC channels, or the heartbeat function, answers;
  \<^item> \<open>callback\<close>: the callback of an incoming action.
\<close>

subsection \<open>Data\<close>

definition rpcAppendEntries :: string where "rpcAppendEntries = ''ae''"
definition rpcRequestVote :: string where "rpcRequestVote = ''rv''"
definition rpcInstallSnapshot :: string where "rpcInstallSnapshot = ''is''"
definition rpcTimeoutNow :: string where "rpcTimeoutNow = ''tn''"
definition rpcAddVoter :: string where "rpcAddVoter = ''av''"
definition rpcRemoveServer :: string where "rpcRemoveServer = ''rs''"
definition rpcApply :: string where "rpcApply = ''ap''"

definition rpcTargetedType :: string where "rpcTargetedType = ''rpc''"
definition rpcLeaderForwardedType :: string where "rpcLeaderForwardedType = ''lfw''"

lemmas rpc_op_defs = rpcAppendEntries_def rpcRequestVote_def rpcInstallSnapshot_def rpcTimeoutNow_def
  rpcAddVoter_def rpcRemoveServer_def rpcApply_def
lemmas rpc_type_defs = rpcTargetedType_def rpcLeaderForwardedType_def

record 'r rpcResponse =
  Response :: "'r option"
  rr_Error :: string
  rr_Retryable :: bool

record AddVoterRequest =
  av_ServerId :: string
  av_ServerAddress :: string
  av_Timeout :: int64

record RemoveServerRequest =
  rsv_ServerId :: string
  rsv_Timeout :: int64

record ApplyRequest =
  ap_Command :: bytes
  ap_Timeout :: int64

record ApplyResponse =
  apr_Index :: uint64
  apr_Response :: "goerr option"

record AppendEntriesRequest =
  ae_Term :: uint64
  ae_Addr :: "bytes option"
  ae_PrevLogEntry :: uint64
  ae_PrevLogTerm :: uint64
  ae_Entries :: "bytes list"
  ae_LeaderCommitIndex :: uint64

datatype 'h command =
    AddVoter AddVoterRequest
  | RemoveServer RemoveServerRequest
  | ApplyCmd ApplyRequest
  | AppendEntriesCmd AppendEntriesRequest 'h
  | RequestVoteCmd 'h
  | InstallSnapshotCmd 'h bytes
  | TimeoutNowCmd 'h

record 'r RPCResponse =
  resp_Response :: 'r
  resp_Error :: "goerr option"

text \<open>\<open>EncodeMsgPack\<close> and \<open>DecodeMsgPack\<close> at the types of the transport.\<close>

record ('h, 'r) rpc_codec =
  enc_cmd :: "'h command \<Rightarrow> goerr + bytes"
  dec_cmd :: "string \<Rightarrow> bytes \<Rightarrow> goerr + 'h command"
  enc_resp :: "'r rpcResponse \<Rightarrow> goerr + bytes"
  dec_resp :: "bytes \<Rightarrow> goerr + 'r rpcResponse"

datatype rpc_outcome = ShutdownFirst | ChannelClosed "goerr option" | Received ActionResult

datatype consumer = ConsumeCh | LfwChan | HeartbeatFn

record ('h, 'r, 'w) env =
  com_PublishAction :: "int64 option \<Rightarrow> Action \<Rightarrow> Scope \<Rightarrow> 'w \<Rightarrow> (goerr + rpc_outcome) \<times> 'w"
  com_SubscribeAction :: "SubscriptionFilter \<Rightarrow> 'w \<Rightarrow> goerr option \<times> 'w"
  consume :: "consumer \<Rightarrow> 'h command \<Rightarrow> 'w \<Rightarrow> 'r RPCResponse \<times> 'w"
  callback :: "ActionResult \<Rightarrow> 'w \<Rightarrow> goerr option \<times> 'w"
  errText :: "exterr \<Rightarrow> string"

record RaftTransportConfig =
  tc_Timeout :: int64
  tc_TimeoutScale :: int64

record RaftTransport =
  localAddr :: string
  timeout :: int64
  timeoutScale :: int64
  shutdown :: bool
  heartbeatFn :: bool \<comment> \<open>is a heartbeat function set\<close>
  openChans :: "consumer set" \<comment> \<open>the RPC channels not closed yet\<close>

definition DefaultRpcTimeout :: int64 where
  "DefaultRpcTimeout = 1000 * 1000000"

definition DefaultInstallSnapshotTimeoutScale :: int64 where
  "DefaultInstallSnapshotTimeoutScale = 256 * 1024"

subsection \<open>Construction and closing\<close>

definition publicationType :: "string \<Rightarrow> string list \<Rightarrow> string" where
  "publicationType rpcType target =
     (if rpcType = rpcTargetedType then rpcTargetedType @ hd target else rpcLeaderForwardedType)"

definition subscriptionType :: "RaftTransport \<Rightarrow> string \<Rightarrow> string" where
  "subscriptionType t rpcType =
     (if rpcType = rpcTargetedType then rpcTargetedType @ localAddr t else rpcLeaderForwardedType)"

text \<open>The filters \<open>subscribeRpcs\<close> subscribes to.\<close>

definition rpcFilters :: "RaftTransport \<Rightarrow> SubscriptionFilter list" where
  "rpcFilters t =
     [\<lparr>sf_Scope = ScopeState, sf_Type = subscriptionType t rpcTargetedType, sf_Share = ''''\<rparr>,
      \<lparr>sf_Scope = ScopeState, sf_Type = subscriptionType t rpcLeaderForwardedType, sf_Share = ''''\<rparr>]"

definition make_transport :: "RaftTransportConfig option \<Rightarrow> string \<Rightarrow> RaftTransport" where
  "make_transport config addr =
     (let config = (case config of None \<Rightarrow> \<lparr>tc_Timeout = 0, tc_TimeoutScale = 0\<rparr> | Some c \<Rightarrow> c);
          tmo = (if sint (tc_Timeout config) \<le> 0 then DefaultRpcTimeout else tc_Timeout config);
          scale = (if sint (tc_TimeoutScale config) \<le> 0 then DefaultInstallSnapshotTimeoutScale else tc_TimeoutScale config)
      in \<lparr>localAddr = addr, timeout = tmo, timeoutScale = scale, shutdown = False, heartbeatFn = False,
          openChans = {ConsumeCh, LfwChan}\<rparr>)"

text \<open>Both subscriptions are made; an error of one is only logged.\<close>

definition subscribeRpcs :: "('h, 'r, 'w) env \<Rightarrow> RaftTransport \<Rightarrow> 'w \<Rightarrow> 'w" where
  "subscribeRpcs E t w = fold (\<lambda>flt w. snd (com_SubscribeAction E flt w)) (rpcFilters t) w"

definition NewRaftTransport ::
  "('h, 'r, 'w) env \<Rightarrow> RaftTransportConfig option \<Rightarrow> string \<Rightarrow> 'w \<Rightarrow> RaftTransport \<times> 'w"
where
  "NewRaftTransport E config addr w = (let t = make_transport config addr in (t, subscribeRpcs E t w))"

text \<open>
  The goroutine started by \<open>subscribeRpcs\<close>, on what its \<open>select\<close> has chosen so far: every action received is
  handed to a goroutine of its own that runs \<open>handleRpc\<close>; the loop ends when the transport is shut
  down or a subscription is closed. The result is the actions handed over and whether it has ended.
\<close>

datatype rpc_select = FromNode Action | FromLfw Action | SubscriptionClosed | ShutdownDone

fun rpc_loop :: "rpc_select list \<Rightarrow> Action list \<times> bool" where
  "rpc_loop [] = ([], False)"
| "rpc_loop (FromNode ac # rest) = (case rpc_loop rest of (acs, ended) \<Rightarrow> (ac # acs, ended))"
| "rpc_loop (FromLfw ac # rest) = (case rpc_loop rest of (acs, ended) \<Rightarrow> (ac # acs, ended))"
| "rpc_loop (SubscriptionClosed # rest) = ([], True)"
| "rpc_loop (ShutdownDone # rest) = ([], True)"

definition SetHeartbeatHandler :: "RaftTransport \<Rightarrow> RaftTransport" where
  "SetHeartbeatHandler t = t\<lparr>heartbeatFn := True\<rparr>"

definition Close :: "RaftTransport \<Rightarrow> RaftTransport" where
  "Close t = (if \<not> shutdown t then t\<lparr>openChans := {}, shutdown := True\<rparr> else t)"

definition EncodePeer :: "string \<Rightarrow> bytes" where
  "EncodePeer addr = bytes_of_string addr"

definition DecodePeer :: "bytes \<Rightarrow> string" where
  "DecodePeer buf = string_of_bytes buf"

definition AppendEntriesPipeline :: "string \<Rightarrow> goerr" where
  "AppendEntriesPipeline target = Ext HraftErrPipelineReplicationNotSupported"

subsection \<open>Sending\<close>

text \<open>
  The result is the error and what has been written to the response variable, if anything. A
  result channel closed by the end of the context gives the error of the context.
\<close>

definition sendRPC ::
  "('h, 'r) rpc_codec \<Rightarrow> ('h, 'r, 'w) env \<Rightarrow> int64 option \<Rightarrow> RaftTransport \<Rightarrow> string \<Rightarrow> string \<Rightarrow> 'h command \<Rightarrow> 'w \<Rightarrow>
     (goerr option \<times> 'r option) \<times> 'w"
where
  "sendRPC C E deadline t pubType rpcOp args w =
     (case enc_cmd C args of
        Inl err \<Rightarrow> ((Some err, None), w)
      | Inr b \<Rightarrow>
          (case com_PublishAction E deadline
                  \<lparr>act_Type = pubType, act_Id = rpcOp, act_Source = localAddr t, act_Params = b, act_DataContentType = ''''\<rparr>
                  ScopeState w of
             (Inl err, w1) \<Rightarrow> ((Some err, None), w1)
           | (Inr ShutdownFirst, w1) \<Rightarrow> ((Some ErrTransportShutdown, None), w1)
           | (Inr (ChannelClosed ctxErr), w1) \<Rightarrow> ((ctxErr, None), w1)
           | (Inr (Received ar), w1) \<Rightarrow>
               (case dec_resp C (acr_Data ar) of
                  Inl err \<Rightarrow> ((Some err, None), w1)
                | Inr res \<Rightarrow>
                    if rr_Error res = '''' then ((None, Response res), w1)
                    else if rr_Retryable res then ((Some (RetryableErrorf (rr_Error res)), None), w1)
                    else ((Some (Errorf (rr_Error res)), None), w1))))"

definition AppendEntries ::
  "('h, 'r) rpc_codec \<Rightarrow> ('h, 'r, 'w) env \<Rightarrow> RaftTransport \<Rightarrow> string \<Rightarrow> AppendEntriesRequest \<Rightarrow> 'h \<Rightarrow> 'w \<Rightarrow> (goerr option \<times> 'r option) \<times> 'w"
where
  "AppendEntries C E t target args rest w =
     sendRPC C E (Some (timeout t)) t (publicationType rpcTargetedType [target]) rpcAppendEntries (AppendEntriesCmd args rest) w"

definition RequestVote ::
  "('h, 'r) rpc_codec \<Rightarrow> ('h, 'r, 'w) env \<Rightarrow> RaftTransport \<Rightarrow> string \<Rightarrow> 'h \<Rightarrow> 'w \<Rightarrow> (goerr option \<times> 'r option) \<times> 'w"
where
  "RequestVote C E t target args w =
     sendRPC C E (Some (timeout t)) t (publicationType rpcTargetedType [target]) rpcRequestVote (RequestVoteCmd args) w"

text \<open>Integer division truncates towards zero; the product of durations wraps.\<close>

definition go_div :: "int \<Rightarrow> int \<Rightarrow> int" where
  "go_div a b = (if (a < 0) = (b < 0) then \<bar>a\<bar> div \<bar>b\<bar> else - (\<bar>a\<bar> div \<bar>b\<bar>))"

definition snapshotTimeout :: "RaftTransport \<Rightarrow> int64 \<Rightarrow> int64" where
  "snapshotTimeout t sz =
     (let tmo = timeout t * word_of_int (go_div (sint sz) (sint (timeoutScale t)))
      in if sint tmo < sint (timeout t) then timeout t else tmo)"

definition InstallSnapshot ::
  "('h, 'r) rpc_codec \<Rightarrow> ('h, 'r, 'w) env \<Rightarrow> RaftTransport \<Rightarrow> string \<Rightarrow> 'h \<Rightarrow> int64 \<Rightarrow> goerr + bytes \<Rightarrow> 'w \<Rightarrow>
     (goerr option \<times> 'r option) \<times> 'w"
where
  "InstallSnapshot C E t target args sz data w =
     (case data of
        Inl err \<Rightarrow> ((Some err, None), w)
      | Inr b \<Rightarrow> sendRPC C E (Some (snapshotTimeout t sz)) t (publicationType rpcTargetedType [target])
                  rpcInstallSnapshot (InstallSnapshotCmd args b) w)"

definition TimeoutNow ::
  "('h, 'r) rpc_codec \<Rightarrow> ('h, 'r, 'w) env \<Rightarrow> RaftTransport \<Rightarrow> string \<Rightarrow> 'h \<Rightarrow> 'w \<Rightarrow> (goerr option \<times> 'r option) \<times> 'w"
where
  "TimeoutNow C E t target args w =
     sendRPC C E (Some (timeout t)) t (publicationType rpcTargetedType [target]) rpcTimeoutNow (TimeoutNowCmd args) w"

definition LfwAddVoter ::
  "('h, 'r) rpc_codec \<Rightarrow> ('h, 'r, 'w) env \<Rightarrow> int64 option \<Rightarrow> RaftTransport \<Rightarrow> AddVoterRequest \<Rightarrow> 'w \<Rightarrow> (goerr option \<times> 'r option) \<times> 'w"
where
  "LfwAddVoter C E ctx t args w = sendRPC C E ctx t (publicationType rpcLeaderForwardedType []) rpcAddVoter (AddVoter args) w"

definition LfwRemoveServer ::
  "('h, 'r) rpc_codec \<Rightarrow> ('h, 'r, 'w) env \<Rightarrow> int64 option \<Rightarrow> RaftTransport \<Rightarrow> RemoveServerRequest \<Rightarrow> 'w \<Rightarrow> (goerr option \<times> 'r option) \<times> 'w"
where
  "LfwRemoveServer C E ctx t args w =
     sendRPC C E ctx t (publicationType rpcLeaderForwardedType []) rpcRemoveServer (RemoveServer args) w"

definition LfwApply ::
  "('h, 'r) rpc_codec \<Rightarrow> ('h, 'r, 'w) env \<Rightarrow> int64 option \<Rightarrow> RaftTransport \<Rightarrow> ApplyRequest \<Rightarrow> 'w \<Rightarrow> (goerr option \<times> 'r option) \<times> 'w"
where
  "LfwApply C E ctx t args w = sendRPC C E ctx t (publicationType rpcLeaderForwardedType []) rpcApply (ApplyCmd args) w"

subsection \<open>Responding\<close>

definition sendRPCResponse ::
  "('h, 'r) rpc_codec \<Rightarrow> ('h, 'r, 'w) env \<Rightarrow> RaftTransport \<Rightarrow> 'r RPCResponse \<Rightarrow> 'w \<Rightarrow> goerr option \<times> 'w"
where
  "sendRPCResponse C E t resp w =
     (let res = (case resp_Error resp of
            Some err \<Rightarrow> \<lparr>Response = None, rr_Error = Error (errText E) err, rr_Retryable = IsRetryable (Some err)\<rparr>
          | None \<Rightarrow> \<lparr>Response = Some (resp_Response resp), rr_Error = '''', rr_Retryable = False\<rparr>)
      in case enc_resp C res of
           Inl err \<Rightarrow> (Some err, w)
         | Inr b \<Rightarrow>
             (case callback E \<lparr>acr_Context = localAddr t, acr_Data = b, acr_DataContentType = '''', acr_SequenceNumber = 0\<rparr> w of
                (Some err, w1) \<Rightarrow> (Some err, w1)
              | (None, w1) \<Rightarrow> (None, w1)))"

definition sendLfwResponse ::
  "('h, 'r) rpc_codec \<Rightarrow> ('h, 'r, 'w) env \<Rightarrow> RaftTransport \<Rightarrow> 'r RPCResponse \<Rightarrow> 'w \<Rightarrow> goerr option \<times> 'w"
where
  "sendLfwResponse C E t resp w =
     (case ErrorRetryable (resp_Error resp) of
        None \<Rightarrow> sendRPCResponse C E t resp w
      | Some rError \<Rightarrow>
          if rError = Ext HraftErrNotLeader then (None, w)
          else if rError = Ext HraftErrLeadershipTransferInProgress then sendRPCResponse C E t resp w
          else if rError = Ext HraftErrLeadershipLost then sendRPCResponse C E t resp w
          else if rError = Ext HraftErrLeader then sendRPCResponse C E t resp w
          else if rError = Ext HraftErrAbortedByRestore then sendRPCResponse C E t resp w
          else (Some rError, w))"

subsection \<open>Incoming operations\<close>

definition is_heartbeat :: "AppendEntriesRequest \<Rightarrow> bool" where
  "is_heartbeat req \<longleftrightarrow> ae_Term req \<noteq> 0 \<and> ae_Addr req \<noteq> None \<and> ae_PrevLogEntry req = 0 \<and> ae_PrevLogTerm req = 0 \<and>
     length (ae_Entries req) = 0 \<and> ae_LeaderCommitIndex req = 0"

text \<open>
  \<open>errResponse\<close> is the response to a request that cannot be decoded; its response value is never
  looked at. The send on the RPC channel and the wait for the answer are \<open>consume\<close>.
\<close>

definition handleRpc ::
  "('h, 'r) rpc_codec \<Rightarrow> ('h, 'r, 'w) env \<Rightarrow> 'r \<Rightarrow> RaftTransport \<Rightarrow> Action \<Rightarrow> 'w \<Rightarrow> goerr option \<times> 'w"
where
  "handleRpc C E nil t ac w =
     (if act_Type ac = rpcLeaderForwardedType \<and> act_Source ac = localAddr t then (None, w)
      else if shutdown t then (None, w)
      else if act_Type ac = rpcLeaderForwardedType then
        if act_Id ac \<in> {rpcAddVoter, rpcRemoveServer, rpcApply} then
          (case dec_cmd C (act_Id ac) (act_Params ac) of
             Inl err \<Rightarrow> sendRPCResponse C E t \<lparr>resp_Response = nil, resp_Error = Some err\<rparr> w
           | Inr cmd \<Rightarrow> (case consume E LfwChan cmd w of (resp, w1) \<Rightarrow> sendLfwResponse C E t resp w1))
        else (Some (Errorf ''unknown leader forwarding rpc type %s from %s''), w)
      else
        if act_Id ac \<in> {rpcAppendEntries, rpcRequestVote, rpcInstallSnapshot, rpcTimeoutNow} then
          (case dec_cmd C (act_Id ac) (act_Params ac) of
             Inl err \<Rightarrow> sendRPCResponse C E t \<lparr>resp_Response = nil, resp_Error = Some err\<rparr> w
           | Inr cmd \<Rightarrow>
               (let ch = (case cmd of
                      AppendEntriesCmd req _ \<Rightarrow> if is_heartbeat req \<and> heartbeatFn t then HeartbeatFn else ConsumeCh
                    | _ \<Rightarrow> ConsumeCh)
                in case consume E ch cmd w of (resp, w1) \<Rightarrow> sendRPCResponse C E t resp w1))
        else (Some (Errorf ''unknown rpc type %s from %s''), w))"

end
