(* ===== verification/Raft_Binding.thy ===== *)
theory Raft_Binding
  imports Raft_Store Transport
begin

section \<open>The Raft state synchronization binding (services/state/raft/raft.go)\<close>

text \<open>
  \<open>RaftBinding\<close> opens the store, the state machine, the transport and the Raft node, proposes inputs
  (locally on the leader, by leader forwarding elsewhere), answers forwarded requests, and hands out
  the observers of the state and of the members.

  The Raft library is the record \<open>hraft\<close> of its operations on a world \<open>'w\<close>, which is also the world
  of the communication API: a future is what its methods return once it is resolved. \<open>ctx_Err\<close> is the
  error of the context of a forwarded request at the moment the code compares with it. The
  critical sections of \<open>mu\<close> are the operations.
\<close>

definition Millisecond :: int64 where
  "Millisecond = 1000000"

definition DefaultStartupTimeout :: int64 where
  "DefaultStartupTimeout = 10000 * Millisecond"

definition DefaultLfwTimeout :: int64 where
  "DefaultLfwTimeout = 20000 * Millisecond"

datatype 'x response =
    NilResponse
  | AddVoterResponse uint64
  | RemoveServerResponse uint64
  | ApplyResponse ApplyResponse
  | HraftResponse 'x

record future =
  f_Error :: "goerr option"
  f_Index :: uint64
  f_Response :: "goerr option" \<comment> \<open>the response, if it is an error\<close>

record hraft_config =
  LocalID :: string
  HeartbeatTimeout :: int64
  ElectionTimeout :: int64
  SnapshotInterval :: int64
  SnapshotThreshold :: uint64
  CommitTimeout :: int64
  LogLevel :: string

record 'w hraft =
  DefaultConfig :: hraft_config
  NewRaft :: "hraft_config \<Rightarrow> 'w \<Rightarrow> goerr option \<times> 'w"
  BootstrapCluster :: "(string \<times> string) list \<Rightarrow> 'w \<Rightarrow> goerr option \<times> 'w"
  LeaderCh :: "int64 \<Rightarrow> 'w \<Rightarrow> bool option \<times> 'w" \<comment> \<open>\<open>None\<close>: the timer was first\<close>
  r_Apply :: "bytes \<Rightarrow> int64 \<Rightarrow> 'w \<Rightarrow> future \<times> 'w"
  r_AddVoter :: "string \<Rightarrow> string \<Rightarrow> uint64 \<Rightarrow> int64 \<Rightarrow> 'w \<Rightarrow> future \<times> 'w"
  r_RemoveServer :: "string \<Rightarrow> uint64 \<Rightarrow> int64 \<Rightarrow> 'w \<Rightarrow> future \<times> 'w"
  r_Barrier :: "int64 \<Rightarrow> 'w \<Rightarrow> goerr option \<times> 'w"
  r_isLeader :: "'w \<Rightarrow> bool"
  r_Shutdown :: "'w \<Rightarrow> goerr option \<times> 'w"
  ctx_Err :: "'w \<Rightarrow> goerr option"
  sleep :: "int64 \<Rightarrow> 'w \<Rightarrow> 'w"

record ('d, 'f, 'snap) RaftBinding =
  raftId :: string
  raftDir :: string
  raft :: bool \<comment> \<open>is the Raft node not nil\<close>
  store :: "('d, 'f, 'snap) RaftStore option"
  fsm :: "RaftFsm option"
  trans :: "RaftTransport option"
  lfwTimeout :: int64

definition zero_binding :: "('d, 'f, 'snap) RaftBinding" where
  "zero_binding = \<lparr>raftId = '''', raftDir = '''', raft = False, store = None, fsm = None, trans = None, lfwTimeout = 0\<rparr>"

subsection \<open>Leader forwarding, the requesting side\<close>

definition addVoterByLeaderForwarding ::
  "('h, 'x response) rpc_codec \<Rightarrow> ('h, 'x response, 'w) env \<Rightarrow> ('d, 'f, 'snap) RaftBinding \<Rightarrow> int64 \<Rightarrow> int64 \<Rightarrow> 'w \<Rightarrow> goerr option \<times> 'w"
where
  "addVoterByLeaderForwarding C E b tmo startDelayOnLeader w =
     (case LfwAddVoter C E (Some tmo) (the (trans b))
             \<lparr>av_ServerId = raftId b, av_ServerAddress = raftId b, av_Timeout = startDelayOnLeader\<rparr> w of
        ((Some err, _), w1) \<Rightarrow> (Some err, w1)
      | ((None, _), w1) \<Rightarrow> (None, w1))"

definition removeServerByLeaderForwarding ::
  "('h, 'x response) rpc_codec \<Rightarrow> ('h, 'x response, 'w) env \<Rightarrow> ('d, 'f, 'snap) RaftBinding \<Rightarrow> int64 \<Rightarrow> int64 \<Rightarrow> 'w \<Rightarrow> goerr option \<times> 'w"
where
  "removeServerByLeaderForwarding C E b tmo startDelayOnLeader w =
     (case LfwRemoveServer C E (Some tmo) (the (trans b)) \<lparr>rsv_ServerId = raftId b, rsv_Timeout = startDelayOnLeader\<rparr> w of
        ((Some err, _), w1) \<Rightarrow> (Some err, w1)
      | ((None, _), w1) \<Rightarrow> (None, w1))"

definition applyByLeaderForwarding ::
  "('h, 'x response) rpc_codec \<Rightarrow> ('h, 'x response, 'w) env \<Rightarrow> ('d, 'f, 'snap) RaftBinding \<Rightarrow> int64 \<Rightarrow> bytes \<Rightarrow> int64 \<Rightarrow> 'w \<Rightarrow>
     goerr option \<times> 'w"
where
  "applyByLeaderForwarding C E b tmo cmd startDelayOnLeader w =
     (case LfwApply C E (Some tmo) (the (trans b)) \<lparr>ap_Command = cmd, ap_Timeout = startDelayOnLeader\<rparr> w of
        ((Some err, _), w1) \<Rightarrow> (Some err, w1)
      | ((None, resp), w1) \<Rightarrow>
          (case resp of Some (ApplyResponse r) \<Rightarrow> (apr_Response r, w1) | _ \<Rightarrow> (None, w1)))"

text \<open>\<open>if err == ctx.Err() { return services.NewRetryableError(err) } else { return err }\<close>\<close>

definition lfw_result :: "'w hraft \<Rightarrow> goerr option \<times> 'w \<Rightarrow> goerr option \<times> 'w" where
  "lfw_result N r = (case r of (err, w) \<Rightarrow> (if err = ctx_Err N w then NewRetryableError err else err, w))"

definition lfw_backoff :: Backoff where
  "lfw_backoff = \<lparr>Base = 100 * Millisecond, Cap = 100 * Millisecond, Max' = 0\<rparr>"

subsection \<open>Proposing an input\<close>

definition propose_attempt ::
  "('h, 'x response) rpc_codec \<Rightarrow> ('h, 'x response, 'w) env \<Rightarrow> 'w hraft \<Rightarrow> ('d, 'f, 'snap) RaftBinding \<Rightarrow> bytes \<Rightarrow> 'w retry_op"
where
  "propose_attempt C E N b cmd cnt w =
     (case r_Apply N cmd 0 w of (f, w1) \<Rightarrow>
        if f_Error f \<noteq> None then
          if f_Error f \<noteq> Some (Ext HraftErrNotLeader) then (NewRetryableError (f_Error f), w1)
          else lfw_result N (applyByLeaderForwarding C E b (lfwTimeout b) cmd 0 w1)
        else (f_Response f, w1))"

text \<open>\<open>None\<close> when the retry loop never ends. \<open>wait\<close> is the context of the caller.\<close>

definition ProposeInput ::
  "msgpack \<Rightarrow> ('h, 'x response) rpc_codec \<Rightarrow> ('h, 'x response, 'w) env \<Rightarrow> 'w hraft \<Rightarrow> ('d, 'f, 'snap) RaftBinding \<Rightarrow>
     'w retry_wait \<Rightarrow> Input \<Rightarrow> 'w \<Rightarrow> (goerr option \<times> 'w) option"
where
  "ProposeInput M C E N b wait inp w =
     (if \<not> raft b then Some (Some (Errorf ''ProposeInput %+v failed as binding is not yet open''), w)
      else case enc_input M inp of
          Inl err \<Rightarrow> Some (Some err, w)
        | Inr cmd \<Rightarrow> RetryWithBackoff wait lfw_backoff (propose_attempt C E N b cmd) w)"

subsection \<open>Leader forwarding, the answering side\<close>

text \<open>The first component is the result \<open>stop\<close>, the second what \<open>rpc.Respond\<close> is called with.\<close>

definition processLeaderForwardingRPC ::
  "'w hraft \<Rightarrow> ('d, 'f, 'snap) RaftBinding \<Rightarrow> 'h command \<Rightarrow> 'w \<Rightarrow> (bool \<times> 'x response RPCResponse) \<times> 'w"
where
  "processLeaderForwardingRPC N b cmd w =
     (if \<not> raft b then ((True, \<lparr>resp_Response = NilResponse, resp_Error = Some (Ext HraftErrNotLeader)\<rparr>), w)
      else case cmd of
          AddVoter c \<Rightarrow>
            (case r_AddVoter N (av_ServerId c) (av_ServerAddress c) 0 (av_Timeout c) w of (f, w1) \<Rightarrow>
               if f_Error f \<noteq> None then ((False, \<lparr>resp_Response = NilResponse, resp_Error = NewRetryableError (f_Error f)\<rparr>), w1)
               else (case r_Barrier N 0 w1 of (fb, w2) \<Rightarrow>
                 if fb \<noteq> None then ((False, \<lparr>resp_Response = NilResponse, resp_Error = NewRetryableError fb\<rparr>), w2)
                 else ((False, \<lparr>resp_Response = AddVoterResponse (f_Index f), resp_Error = None\<rparr>), w2)))
        | RemoveServer c \<Rightarrow>
            (case r_RemoveServer N (rsv_ServerId c) 0 (rsv_Timeout c) w of (f, w1) \<Rightarrow>
               if f_Error f \<noteq> None then ((False, \<lparr>resp_Response = NilResponse, resp_Error = NewRetryableError (f_Error f)\<rparr>), w1)
               else ((False, \<lparr>resp_Response = RemoveServerResponse (f_Index f), resp_Error = None\<rparr>), w1))
        | ApplyCmd c \<Rightarrow>
            (case r_Apply N (ap_Command c) (ap_Timeout c) w of (f, w1) \<Rightarrow>
               if f_Error f \<noteq> None then ((False, \<lparr>resp_Response = NilResponse, resp_Error = NewRetryableError (f_Error f)\<rparr>), w1)
               else if f_Response f \<noteq> None
               then ((False, \<lparr>resp_Response = ApplyResponse \<lparr>apr_Index = 0, apr_Response = f_Response f\<rparr>, resp_Error = None\<rparr>), w1)
               else (case r_Barrier N 0 w1 of (fb, w2) \<Rightarrow>
                 if fb \<noteq> None then ((False, \<lparr>resp_Response = NilResponse, resp_Error = NewRetryableError fb\<rparr>), w2)
                 else ((False, \<lparr>resp_Response = ApplyResponse \<lparr>apr_Index = f_Index f, apr_Response = None\<rparr>, resp_Error = None\<rparr>), w2)))
        | _ \<Rightarrow> ((False, \<lparr>resp_Response = NilResponse, resp_Error = Some (Errorf ''unexpected leader forwarding command %v'')\<rparr>), w))"

text \<open>The goroutine started by \<open>Open\<close>, on the requests received until the channel is closed.\<close>

fun processLeaderForwardedRPCs ::
  "'w hraft \<Rightarrow> ('d, 'f, 'snap) RaftBinding \<Rightarrow> 'h command list \<Rightarrow> 'w \<Rightarrow> 'x response RPCResponse list \<times> 'w"
where
  "processLeaderForwardedRPCs N b [] w = ([], w)"
| "processLeaderForwardedRPCs N b (rpc # rpcs) w =
     (case processLeaderForwardingRPC N b rpc w of
        ((stop, resp), w1) \<Rightarrow>
          if stop then ([resp], w1)
          else (case processLeaderForwardedRPCs N b rpcs w1 of (resps, w2) \<Rightarrow> (resp # resps, w2)))"

subsection \<open>Observers\<close>

text \<open>
  The channel is an index into \<open>sent\<close> and \<open>msent\<close>; the goroutine that waits for the end of the
  context runs \<open>state_ctx_done\<close> and \<open>member_ctx_done\<close> with the id.
\<close>

definition ObserveStateChange ::
  "('d, 'f, 'snap) RaftBinding \<Rightarrow> (goerr + nat \<times> uint64) \<times> ('d, 'f, 'snap) RaftBinding"
where
  "ObserveStateChange b =
     (if \<not> raft b then (Inl (Errorf ''ObserveStateChange failed as binding is not yet open''), b)
      else let f = the (fsm b); f1 = AddStateChangeObserver f
           in (Inr (length (sent f), observer_id f1), b\<lparr>fsm := Some f1\<rparr>))"

definition state_ctx_done :: "uint64 \<Rightarrow> ('d, 'f, 'snap) RaftBinding \<Rightarrow> ('d, 'f, 'snap) RaftBinding" where
  "state_ctx_done i b = b\<lparr>fsm := map_option (RemoveStateChangeObserver i) (fsm b)\<rparr>"

definition ObserveMembershipChange ::
  "('d, 'f, 'snap) RaftBinding \<Rightarrow> (goerr + nat \<times> uint64) \<times> ('d, 'f, 'snap) RaftBinding"
where
  "ObserveMembershipChange b =
     (if \<not> raft b then (Inl (Errorf ''ObserveMemberChange failed as binding is not yet open''), b)
      else let s = the (store b)
           in (case AddMembershipChangeObserver s of (i, s1) \<Rightarrow> (Inr (length (msent s), i), b\<lparr>store := Some s1\<rparr>)))"

definition member_ctx_done :: "uint64 \<Rightarrow> ('d, 'f, 'snap) RaftBinding \<Rightarrow> ('d, 'f, 'snap) RaftBinding" where
  "member_ctx_done i b = b\<lparr>store := map_option (RemoveMembershipChangeObserver i) (store b)\<rparr>"

subsection \<open>Opening\<close>

text \<open>An option that is an int; the product of durations wraps.\<close>

definition opt_int :: "Config \<Rightarrow> string \<Rightarrow> int option" where
  "opt_int cfg name = (case map_of (state_Opts (State (cfg_Services cfg))) name of Some (OptInt v) \<Rightarrow> Some v | _ \<Rightarrow> None)"

definition opt_ms :: "Config \<Rightarrow> string \<Rightarrow> int64 \<Rightarrow> int64" where
  "opt_ms cfg name dflt = (case opt_int cfg name of Some v \<Rightarrow> word_of_int v * Millisecond | None \<Rightarrow> dflt)"

text \<open>The part of \<open>Open\<close> that builds \<open>config\<close>.\<close>

definition raft_config :: "'w hraft \<Rightarrow> bool \<Rightarrow> Config \<Rightarrow> goerr + hraft_config" where
  "raft_config N plogEnabled cfg =
     (let c = DefaultConfig N;
          c = c\<lparr>LocalID := id_Id (cfg_Identity cfg)\<rparr>;
          c = c\<lparr>HeartbeatTimeout := opt_ms cfg ''heartbeatTimeout'' (HeartbeatTimeout c)\<rparr>;
          c = c\<lparr>ElectionTimeout := opt_ms cfg ''electionTimeout'' (ElectionTimeout c)\<rparr>;
          c = c\<lparr>SnapshotInterval := opt_ms cfg ''snapshotInterval'' (SnapshotInterval c)\<rparr>;
          threshold = opt_int cfg ''snapshotThreshold''
      in if (case threshold of Some v \<Rightarrow> v < 0 | None \<Rightarrow> False)
         then Inl (Errorf ''snapshotThreshold must be a positive integer'')
         else let c = (case threshold of Some v \<Rightarrow> c\<lparr>SnapshotThreshold := word_of_int v\<rparr> | None \<Rightarrow> c);
                  c = c\<lparr>CommitTimeout := word_of_int (go_div (sint (HeartbeatTimeout c)) 10)\<rparr>;
                  c = c\<lparr>LogLevel := (if plogEnabled then
                        if map_of (state_Opts (State (cfg_Services cfg))) ''debug'' = Some (OptBool True) then ''DEBUG'' else ''ERROR''
                      else ''OFF'')\<rparr>
              in Inr c)"

definition trans_config :: "Config \<Rightarrow> RaftTransportConfig" where
  "trans_config cfg =
     \<lparr>tc_Timeout = opt_ms cfg ''rpcTimeout'' 0,
      tc_TimeoutScale = (case opt_int cfg ''installSnapshotTimeoutScale'' of Some v \<Rightarrow> word_of_int v | None \<Rightarrow> 0)\<rparr>"

text \<open>The start of the node: as the leader of a new group, or as a follower by leader forwarding.\<close>

definition add_voter_attempt ::
  "('h, 'x response) rpc_codec \<Rightarrow> ('h, 'x response, 'w) env \<Rightarrow> 'w hraft \<Rightarrow> ('d, 'f, 'snap) RaftBinding \<Rightarrow> 'w retry_op"
where
  "add_voter_attempt C E N b cnt w = lfw_result N (addVoterByLeaderForwarding C E b (lfwTimeout b) 0 w)"

definition start_node ::
  "('h, 'x response) rpc_codec \<Rightarrow> ('h, 'x response, 'w) env \<Rightarrow> 'w hraft \<Rightarrow> Config \<Rightarrow> ('d, 'f, 'snap) RaftBinding \<Rightarrow> 'w \<Rightarrow>
     (goerr option \<times> 'w) option"
where
  "start_node C E N cfg b w =
     (let startupTimeout = opt_ms cfg ''startupTimeout'' DefaultStartupTimeout
      in if state_Bootstrap (State (cfg_Services cfg)) then
           (case BootstrapCluster N [(raftId b, raftId b)] w of
              (Some err, w1) \<Rightarrow> Some (Some err, w1)
            | (None, w1) \<Rightarrow>
                (case LeaderCh N startupTimeout w1 of
                   (None, w2) \<Rightarrow> Some (Some (Errorf ''timeout on bootstrapping Raft node as a leader''), w2)
                 | (Some v, w2) \<Rightarrow>
                     if \<not> v then Some (Some (Errorf ''on bootstrap Raft node should become leader''), w2)
                     else Some (None, w2)))
         else RetryWithBackoff (\<lambda>d w. (None, sleep N d w)) lfw_backoff (add_voter_attempt C E N b) w)"

text \<open>
  \<open>uuid\<close>, \<open>logFs\<close> and \<open>stableFs\<close> are the arguments of \<open>NewRaftStore\<close>. The value is \<open>None\<close> when the
  retry loop of a follower never ends.
\<close>

definition Open ::
  "('d, 'f) pebble \<Rightarrow> 'snap os \<Rightarrow> string \<Rightarrow> 'f \<Rightarrow> 'f \<Rightarrow> bool \<Rightarrow>
     ('h, 'x response) rpc_codec \<Rightarrow> ('h, 'x response, 'w) env \<Rightarrow> 'w hraft \<Rightarrow> ('d, 'f, 'snap) RaftBinding \<Rightarrow> Config \<Rightarrow> 'w \<Rightarrow>
     ((goerr option \<times> ('d, 'f, 'snap) RaftBinding) \<times> 'w) option"
where
  "Open P OS uuid logFs stableFs plogEnabled C E N b cfg w =
     (if raft b then Some ((None, b), w)
      else
        let b = b\<lparr>raftId := id_Id (cfg_Identity cfg), raftDir := state_Store (State (cfg_Services cfg))\<rparr> in
        (case NewRaftStore P OS uuid logFs stableFs (raftDir b) of
           Inl err \<Rightarrow> Some ((Some err, b\<lparr>store := None\<rparr>), w)
         | Inr s \<Rightarrow>
             let b = b\<lparr>store := Some s, lfwTimeout := opt_ms cfg ''lfwTimeout'' DefaultLfwTimeout\<rparr> in
             (case raft_config N plogEnabled cfg of
                Inl err \<Rightarrow> Some ((Some err, b), w)
              | Inr c \<Rightarrow>
                  (case NewRaftTransport E (Some (trans_config cfg)) (raftId b) w of
                     (t, w0) \<Rightarrow>
                       let b = b\<lparr>trans := Some t, fsm := Some NewRaftFsm\<rparr> in
                       (case NewRaft N c w0 of
                          (Some err, w1) \<Rightarrow> Some ((Some err, b), w1)
                        | (None, w1) \<Rightarrow>
                            let b = b\<lparr>raft := True\<rparr> in
                            map_option (\<lambda>(err, w2). ((err, b), w2)) (start_node C E N cfg b w1))))))"

subsection \<open>Closing\<close>

text \<open>
  Waiting for the future of \<open>Shutdown\<close> closes the transport, as the interface \<open>WithClose\<close> of the Raft library
  has it; on the leader the code does this itself.
\<close>

definition Close ::
  "('d, 'f) pebble \<Rightarrow> ('h, 'x response) rpc_codec \<Rightarrow> ('h, 'x response, 'w) env \<Rightarrow> 'w hraft \<Rightarrow> ('d, 'f, 'snap) RaftBinding \<Rightarrow> 'w \<Rightarrow>
     ('d, 'f, 'snap) RaftBinding \<times> 'w"
where
  "Close P C E N b w =
     (if \<not> raft b then (b, w)
      else
        (case (if r_isLeader N w then
                 (case r_RemoveServer N (raftId b) 0 0 w of (_, w1) \<Rightarrow> (b\<lparr>trans := map_option Transport.Close (trans b)\<rparr>, w1))
               else
                 (case removeServerByLeaderForwarding C E b (timeout (the (trans b))) 0 w of
                    (_, w1) \<Rightarrow> (b\<lparr>trans := map_option Transport.Close (trans b)\<rparr>, snd (r_Shutdown N w1)))) of
           (b1, w1) \<Rightarrow>
             (b1\<lparr>store := map_option (\<lambda>s. fst (Raft_Store.Close P s False)) (store b1), raft := False\<rparr>, w1)))"

end
