(* ===== verification/Transport_Props.thy ===== *)
theory Transport_Props
  imports Transport Codec
begin

section \<open>What the Raft transport promises\<close>

text \<open>
  The contract of the codec on the wire (locale \<open>rpc_wire\<close>: commands are decoded as they were encoded,
  and so are responses that satisfy \<open>plain\<close>, e.g. carry no Go error value) with a self-delimiting encoding that
  fulfils it; a response arrives as it was sent, with its error marked retryable or not; requests
  reach the addressed node; timeouts are positive and never below the configured one.
\<close>

fun op_of :: "'h command \<Rightarrow> string" where
  "op_of (AddVoter _) = rpcAddVoter"
| "op_of (RemoveServer _) = rpcRemoveServer"
| "op_of (ApplyCmd _) = rpcApply"
| "op_of (AppendEntriesCmd _ _) = rpcAppendEntries"
| "op_of (RequestVoteCmd _) = rpcRequestVote"
| "op_of (InstallSnapshotCmd _ _) = rpcInstallSnapshot"
| "op_of (TimeoutNowCmd _) = rpcTimeoutNow"

locale rpc_wire =
  fixes C :: "('h, 'r) rpc_codec" and plain :: "'r \<Rightarrow> bool"
  assumes cmd_roundtrip: "enc_cmd C c = Inr b \<Longrightarrow> dec_cmd C (op_of c) b = Inr c"
    and resp_roundtrip: "pred_option plain (Response r) \<Longrightarrow> enc_resp C r = Inr b \<Longrightarrow> dec_resp C b = Inr r"

subsection \<open>A self-delimiting encoding\<close>

definition enc_str :: "string \<Rightarrow> bytes" where
  "enc_str s = enc_bytes (bytes_of_string s)"

definition enc_word :: "64 word \<Rightarrow> bytes" where
  "enc_word u = enc_nat (unat u)"

definition dec_str :: "bytes \<Rightarrow> (string \<times> bytes) option" where
  "dec_str bs = map_option (apfst string_of_bytes) (dec_bytes bs)"

definition dec_word :: "bytes \<Rightarrow> (64 word \<times> bytes) option" where
  "dec_word bs = map_option (apfst word_of_nat) (dec_nat bs)"

fun enc_list :: "bytes list \<Rightarrow> bytes" where
  "enc_list [] = []"
| "enc_list (x # xs) = enc_bytes x @ enc_list xs"

fun dec_list :: "nat \<Rightarrow> bytes \<Rightarrow> (bytes list \<times> bytes) option" where
  "dec_list 0 bs = Some ([], bs)"
| "dec_list (Suc n) bs =
     (case dec_bytes bs of None \<Rightarrow> None | Some (x, r) \<Rightarrow> map_option (apfst ((#) x)) (dec_list n r))"

definition enc_opt :: "bytes option \<Rightarrow> bytes" where
  "enc_opt x = (case x of None \<Rightarrow> [0] | Some b \<Rightarrow> 1 # enc_bytes b)"

definition dec_opt :: "bytes \<Rightarrow> (bytes option \<times> bytes) option" where
  "dec_opt bs = (case bs of [] \<Rightarrow> None | b # r \<Rightarrow> if b = 0 then Some (None, r) else map_option (apfst Some) (dec_bytes r))"

lemma dec_enc [simp]:
  "dec_str (enc_str s @ r) = Some (s, r)" "dec_word (enc_word u @ r) = Some (u, r)" "dec_opt (enc_opt x @ r) = Some (x, r)"
  by (auto simp: dec_str_def enc_str_def dec_word_def enc_word_def dec_opt_def enc_opt_def split: option.split)

lemma dec_enc_list [simp]: "dec_list (length xs) (enc_list xs @ r) = Some (xs, r)"
  by (induction xs) auto

fun plain_enc_cmd :: "bytes command \<Rightarrow> bytes" where
  "plain_enc_cmd (AddVoter a) = enc_str (av_ServerId a) @ enc_str (av_ServerAddress a) @ enc_word (av_Timeout a)"
| "plain_enc_cmd (RemoveServer a) = enc_str (rsv_ServerId a) @ enc_word (rsv_Timeout a)"
| "plain_enc_cmd (ApplyCmd a) = enc_bytes (ap_Command a) @ enc_word (ap_Timeout a)"
| "plain_enc_cmd (AppendEntriesCmd a x) = enc_word (ae_Term a) @ enc_opt (ae_Addr a) @ enc_word (ae_PrevLogEntry a) @
     enc_word (ae_PrevLogTerm a) @ enc_nat (length (ae_Entries a)) @ enc_list (ae_Entries a) @
     enc_word (ae_LeaderCommitIndex a) @ enc_bytes x"
| "plain_enc_cmd (RequestVoteCmd x) = x"
| "plain_enc_cmd (InstallSnapshotCmd x d) = enc_bytes x @ d"
| "plain_enc_cmd (TimeoutNowCmd x) = x"

definition wire_error :: goerr where
  "wire_error = Ext (OtherExt ''msgpack'')"

definition the_dec :: "'a option \<Rightarrow> goerr + 'a" where
  "the_dec x = (case x of None \<Rightarrow> Inl wire_error | Some y \<Rightarrow> Inr y)"

definition plain_dec_ae :: "bytes \<Rightarrow> bytes command option" where
  "plain_dec_ae b = Option.bind (dec_word b) (\<lambda>(term, r). Option.bind (dec_opt r) (\<lambda>(addr, r).
     Option.bind (dec_word r) (\<lambda>(pe, r). Option.bind (dec_word r) (\<lambda>(pt, r). Option.bind (dec_nat r) (\<lambda>(n, r).
     Option.bind (dec_list n r) (\<lambda>(es, r). Option.bind (dec_word r) (\<lambda>(ci, r). Option.bind (dec_bytes r) (\<lambda>(x, r).
       Some (AppendEntriesCmd \<lparr>ae_Term = term, ae_Addr = addr, ae_PrevLogEntry = pe, ae_PrevLogTerm = pt,
         ae_Entries = es, ae_LeaderCommitIndex = ci\<rparr> x)))))))))"

definition plain_dec_cmd :: "string \<Rightarrow> bytes \<Rightarrow> goerr + bytes command" where
  "plain_dec_cmd op b =
     (if op = rpcAddVoter then the_dec (Option.bind (dec_str b) (\<lambda>(i, r). Option.bind (dec_str r) (\<lambda>(a, r).
        Option.bind (dec_word r) (\<lambda>(t, r). Some (AddVoter \<lparr>av_ServerId = i, av_ServerAddress = a, av_Timeout = t\<rparr>)))))
      else if op = rpcRemoveServer then the_dec (Option.bind (dec_str b) (\<lambda>(i, r).
        Option.bind (dec_word r) (\<lambda>(t, r). Some (RemoveServer \<lparr>rsv_ServerId = i, rsv_Timeout = t\<rparr>))))
      else if op = rpcApply then the_dec (Option.bind (dec_bytes b) (\<lambda>(c, r).
        Option.bind (dec_word r) (\<lambda>(t, r). Some (ApplyCmd \<lparr>ap_Command = c, ap_Timeout = t\<rparr>))))
      else if op = rpcAppendEntries then the_dec (plain_dec_ae b)
      else if op = rpcRequestVote then Inr (RequestVoteCmd b)
      else if op = rpcInstallSnapshot then the_dec (map_option (\<lambda>(x, d). InstallSnapshotCmd x d) (dec_bytes b))
      else if op = rpcTimeoutNow then Inr (TimeoutNowCmd b)
      else Inl wire_error)"

lemma dec_enc_end [simp]: "dec_word (enc_word u) = Some (u, [])" "dec_bytes (enc_bytes b) = Some (b, [])"
  using dec_enc(2) [of u "[]"] dec_enc_bytes [of b "[]"] by simp_all

lemma plain_cmd_roundtrip: "plain_dec_cmd (op_of c) (plain_enc_cmd c) = Inr c"
  by (cases c) (simp_all add: plain_dec_cmd_def plain_dec_ae_def the_dec_def rpc_op_defs)

definition plain_enc_resp :: "bytes rpcResponse \<Rightarrow> bytes" where
  "plain_enc_resp r = (if rr_Retryable r then 1 else 0) # enc_str (rr_Error r) @ enc_opt (Response r)"

definition plain_dec_resp :: "bytes \<Rightarrow> goerr + bytes rpcResponse" where
  "plain_dec_resp b = (case b of [] \<Rightarrow> Inl wire_error
     | f # r \<Rightarrow> the_dec (Option.bind (dec_str r) (\<lambda>(e, r). Option.bind (dec_opt r) (\<lambda>(x, r).
         Some \<lparr>Response = x, rr_Error = e, rr_Retryable = (f = 1)\<rparr>))))"

lemma plain_resp_roundtrip: "plain_dec_resp (plain_enc_resp r) = Inr r"
  using dec_enc(3) [of "Response r" "[]"] by (simp add: plain_dec_resp_def plain_enc_resp_def the_dec_def)

definition plain_rpc :: "(bytes, bytes) rpc_codec" where
  "plain_rpc = \<lparr>enc_cmd = (\<lambda>c. Inr (plain_enc_cmd c)), dec_cmd = plain_dec_cmd,
     enc_resp = (\<lambda>r. Inr (plain_enc_resp r)), dec_resp = plain_dec_resp\<rparr>"

interpretation plain: rpc_wire plain_rpc "\<lambda>_. True"
  by unfold_locales (auto simp: plain_rpc_def plain_cmd_roundtrip plain_resp_roundtrip)

lemma rpc_wire_plain: "rpc_wire plain_rpc (\<lambda>_. True)"
  by (rule plain.rpc_wire_axioms)

subsection \<open>A response as the requester sees it\<close>

definition rpc_result :: "(exterr \<Rightarrow> string) \<Rightarrow> 'r RPCResponse \<Rightarrow> goerr option \<times> 'r option" where
  "rpc_result ext resp =
     (case resp_Error resp of
        None \<Rightarrow> (None, Some (resp_Response resp))
      | Some e \<Rightarrow> if Error ext e = '''' then (None, None)
                  else (Some (if IsRetryable (Some e) then RetryableErrorf (Error ext e) else Errorf (Error ext e)), None))"

lemma rpc_result_retryable: "IsRetryable (fst (rpc_result ext resp)) \<longleftrightarrow> IsRetryable (resp_Error resp)"
proof (cases "resp_Error resp")
  case (Some e)
  then show ?thesis by (cases e) (simp_all add: rpc_result_def RetryableErrorf_def)
qed (simp add: rpc_result_def)

context rpc_wire begin

lemma response_arrives:
  assumes "sendRPCResponse C E t resp w = (None, w')" "resp_Error resp = None \<Longrightarrow> plain (resp_Response resp)"
  shows "\<exists>ar. callback E ar w = (None, w') \<and> acr_SequenceNumber ar = 0 \<and> (\<forall>(E' :: ('h, 'r, 'v) env) dl t' pt op args b v v'.
      enc_cmd C args = Inr b \<longrightarrow>
      com_PublishAction E' dl \<lparr>act_Type = pt, act_Id = op, act_Source = localAddr t', act_Params = b, act_DataContentType = ''''\<rparr>
        ScopeState v = (Inr (Received ar), v') \<longrightarrow>
      sendRPC C E' dl t' pt op args v = (rpc_result (errText E) resp, v'))"
proof -
  define res where "res = (case resp_Error resp of
      Some err \<Rightarrow> \<lparr>Response = None, rr_Error = Error (errText E) err, rr_Retryable = IsRetryable (Some err)\<rparr>
    | None \<Rightarrow> \<lparr>Response = Some (resp_Response resp), rr_Error = '''', rr_Retryable = False\<rparr>)"
  have "pred_option plain (Response res)" using assms(2) by (simp add: res_def split: option.split)
  from assms(1) obtain b where b: "enc_resp C res = Inr b" and
    cb: "callback E \<lparr>acr_Context = localAddr t, acr_Data = b, acr_DataContentType = '''', acr_SequenceNumber = 0\<rparr> w = (None, w')"
    by (auto simp: sendRPCResponse_def res_def [symmetric] Let_def split: sum.splits prod.splits option.splits)
  from resp_roundtrip [OF \<open>pred_option plain (Response res)\<close> b] have "dec_resp C b = Inr res" .
  with cb show ?thesis
    by (intro exI conjI) (auto simp: sendRPC_def res_def rpc_result_def split: option.splits)
qed

end

subsection \<open>Properties\<close>

text \<open>
  The response of a remote operation. The action result a node answers a request with makes the
  requester return exactly the response or, for an error with a text, an error with this text that
  is retryable if and only if the original one was.
\<close>

theorem rpc_response_roundtrip:
  assumes "rpc_wire C plain" "sendRPCResponse C E t resp w = (None, w')" "enc_cmd C args = Inr b"
    and "resp_Error resp = None \<Longrightarrow> plain (resp_Response resp)"
  shows "\<exists>ar. callback E ar w = (None, w') \<and>
    (\<forall>(E' :: ('h, 'r, 'v) env) dl t' pt op v v'.
      com_PublishAction E' dl \<lparr>act_Type = pt, act_Id = op, act_Source = localAddr t', act_Params = b, act_DataContentType = ''''\<rparr>
        ScopeState v = (Inr (Received ar), v') \<longrightarrow>
      sendRPC C E' dl t' pt op args v = (rpc_result (errText E) resp, v')) \<and>
    (IsRetryable (fst (rpc_result (errText E) resp)) \<longleftrightarrow> IsRetryable (resp_Error resp))"
  using rpc_wire.response_arrives [OF assms(1,2,4)] assms(3) rpc_result_retryable by metis

text \<open>An environment whose world is the list of action results sent, and a requester that receives one.\<close>

definition example_env :: "ActionResult \<Rightarrow> (bytes, bytes, ActionResult list) env" where
  "example_env ar = \<lparr>com_PublishAction = (\<lambda>d a s w. (Inr (Received ar), w)),
     com_SubscribeAction = (\<lambda>f w. (None, w)), consume = (\<lambda>ch cmd w. (\<lparr>resp_Response = [1], resp_Error = None\<rparr>, w)),
     callback = (\<lambda>ar w. (None, w @ [ar])), errText = (\<lambda>e. ''raft error'')\<rparr>"

definition example_trans :: "string \<Rightarrow> RaftTransport" where
  "example_trans addr = make_transport None addr"

definition example_apply :: ApplyRequest where
  "example_apply = \<lparr>ap_Command = [7], ap_Timeout = 0\<rparr>"

definition example_resp :: "bytes RPCResponse" where
  "example_resp = \<lparr>resp_Response = [], resp_Error = Some (RetryableError (Ext HraftErrLeadershipLost))\<rparr>"

theorem rpc_response_roundtrip_witness:
  "\<exists>ar. fst (sendRPC plain_rpc (example_env ar) None (example_trans ''b'') ''lfw'' rpcApply (ApplyCmd example_apply) []) =
    (Some (RetryableErrorf ''retryable error: raft error''), None)"
proof -
  let ?ar0 = "\<lparr>acr_Context = '''', acr_Data = [], acr_DataContentType = '''', acr_SequenceNumber = 0\<rparr>"
  have 1: "sendRPCResponse plain_rpc (example_env ?ar0) (example_trans ''a'') example_resp [] =
      (None, snd (sendRPCResponse plain_rpc (example_env ?ar0) (example_trans ''a'') example_resp []))"
    by (simp add: sendRPCResponse_def plain_rpc_def example_env_def example_resp_def Let_def)
  have 2: "enc_cmd plain_rpc (ApplyCmd example_apply) = Inr (plain_enc_cmd (ApplyCmd example_apply))"
    by (simp add: plain_rpc_def)
  from rpc_response_roundtrip [where 'v = "ActionResult list", OF rpc_wire_plain 1 2 TrueI] obtain ar where
    ar: "com_PublishAction (example_env ar) None \<lparr>act_Type = ''lfw'', act_Id = rpcApply, act_Source = localAddr (example_trans ''b''),
        act_Params = plain_enc_cmd (ApplyCmd example_apply), act_DataContentType = ''''\<rparr> ScopeState [] = (Inr (Received ar), []) \<longrightarrow>
      sendRPC plain_rpc (example_env ar) None (example_trans ''b'') ''lfw'' rpcApply (ApplyCmd example_apply) [] =
        (rpc_result (errText (example_env ?ar0)) example_resp, [])"
    by (elim exE conjE allE) (assumption | rule that)+
  show ?thesis
    using ar by (intro exI [of _ ar]) (simp add: example_env_def rpc_result_def example_resp_def)
qed

text \<open>
  Addressing. A node-targeted request is published under the action type that exactly the node
  with the target address subscribes to, and never under the type of forwarded requests, which
  every node subscribes to.
\<close>

theorem targeted_rpc_addressing:
  "(publicationType rpcTargetedType [target] \<in> sf_Type ` set (rpcFilters t) \<longleftrightarrow> target = localAddr t) \<and>
    publicationType rpcTargetedType [target] \<noteq> rpcLeaderForwardedType \<and>
    publicationType rpcLeaderForwardedType [] \<in> sf_Type ` set (rpcFilters t)"
  by (auto simp: publicationType_def rpcFilters_def subscriptionType_def rpc_type_defs)

text \<open>The loop hands over every action received before the transport or a subscription is closed, in order.\<close>

fun selected :: "rpc_select \<Rightarrow> Action option" where
  "selected (FromNode ac) = Some ac"
| "selected (FromLfw ac) = Some ac"
| "selected _ = None"

lemma rpc_loop_handles:
  "rpc_loop cs = (map (the \<circ> selected) (takeWhile (\<lambda>c. selected c \<noteq> None) cs), \<exists>c \<in> set cs. selected c = None)"
  by (induction cs rule: rpc_loop.induct) simp_all

text \<open>
  C28: timeouts. Whatever the configuration, a transport has a positive timeout and a positive scale,
  and the timeout of a snapshot transfer is never below the timeout of other operations, even if
  the product with the snapshot size overflows.
\<close>

theorem snapshot_timeout_bound:
  "0 < sint (timeout (fst (NewRaftTransport E cfg addr w))) \<and> 0 < sint (timeoutScale (fst (NewRaftTransport E cfg addr w))) \<and>
    sint (timeout (fst (NewRaftTransport E cfg addr w))) \<le> sint (snapshotTimeout (fst (NewRaftTransport E cfg addr w)) sz)"
proof -
  have "0 < sint DefaultRpcTimeout" "0 < sint DefaultInstallSnapshotTimeoutScale"
    by (simp_all add: DefaultRpcTimeout_def DefaultInstallSnapshotTimeoutScale_def)
  then show ?thesis by (simp add: NewRaftTransport_def make_transport_def snapshotTimeout_def Let_def)
qed

text \<open>
  An incoming request is decoded to the command the sender encoded: a forwarded request of
  another node is handed to the consumer of forwarded requests, a targeted one to the consumer of
  node-targeted requests or, for a heartbeat, to the heartbeat function if there is one; a request
  a node has forwarded itself, and any request after \<open>Close\<close>, is ignored.
\<close>

theorem handleRpc_dispatch:
  assumes "rpc_wire C plain" "enc_cmd C cmd = Inr b" "act_Params ac = b" "act_Id ac = op_of cmd"
    and "act_Type ac = (if op_of cmd \<in> {rpcAddVoter, rpcRemoveServer, rpcApply} then rpcLeaderForwardedType
           else rpcTargetedType @ localAddr t)"
  shows "handleRpc C E nil t ac w =
    (if act_Type ac = rpcLeaderForwardedType \<and> act_Source ac = localAddr t \<or> shutdown t then (None, w)
     else case cmd of
         AppendEntriesCmd req _ \<Rightarrow>
           (case consume E (if is_heartbeat req \<and> heartbeatFn t then HeartbeatFn else ConsumeCh) cmd w of
              (resp, w1) \<Rightarrow> sendRPCResponse C E t resp w1)
       | AddVoter _ \<Rightarrow> (case consume E LfwChan cmd w of (resp, w1) \<Rightarrow> sendLfwResponse C E t resp w1)
       | RemoveServer _ \<Rightarrow> (case consume E LfwChan cmd w of (resp, w1) \<Rightarrow> sendLfwResponse C E t resp w1)
       | ApplyCmd _ \<Rightarrow> (case consume E LfwChan cmd w of (resp, w1) \<Rightarrow> sendLfwResponse C E t resp w1)
       | _ \<Rightarrow> (case consume E ConsumeCh cmd w of (resp, w1) \<Rightarrow> sendRPCResponse C E t resp w1))"
proof -
  have "dec_cmd C (act_Id ac) (act_Params ac) = Inr cmd"
    using rpc_wire.cmd_roundtrip [OF assms(1,2)] assms(3,4) by simp
  then show ?thesis
    using assms(4,5) by (cases cmd) (auto simp: handleRpc_def rpc_op_defs rpc_type_defs Let_def)
qed

theorem handleRpc_dispatch_witness:
  "\<exists>w. handleRpc plain_rpc (example_env undefined) [] (example_trans ''a'')
      \<lparr>act_Type = ''lfw'', act_Id = ''ap'', act_Source = ''b'', act_Params = plain_enc_cmd (ApplyCmd example_apply),
       act_DataContentType = ''''\<rparr> [] =
    sendLfwResponse plain_rpc (example_env undefined) (example_trans ''a'') \<lparr>resp_Response = [1], resp_Error = None\<rparr> w"
proof -
  let ?ac = "\<lparr>act_Type = ''lfw'', act_Id = ''ap'', act_Source = ''b'', act_Params = plain_enc_cmd (ApplyCmd example_apply),
       act_DataContentType = ''''\<rparr>"
  have "handleRpc plain_rpc (example_env undefined) [] (example_trans ''a'') ?ac [] =
      (if act_Type ?ac = rpcLeaderForwardedType \<and> act_Source ?ac = localAddr (example_trans ''a'') \<or> shutdown (example_trans ''a'')
       then (None, [])
       else case consume (example_env undefined) LfwChan (ApplyCmd example_apply) [] of
           (resp, w1) \<Rightarrow> sendLfwResponse plain_rpc (example_env undefined) (example_trans ''a'') resp w1)"
    by (subst handleRpc_dispatch [OF rpc_wire_plain, of "ApplyCmd example_apply"])
      (simp_all add: plain_rpc_def rpc_op_defs rpc_type_defs)
  then show ?thesis
    by (intro exI [of _ "[]"]) (simp add: example_trans_def make_transport_def example_env_def Let_def)
qed

end
