(* ===== verification/Fsm_Props.thy ===== *)
theory Fsm_Props
  imports Codec
begin

section \<open>What the replicated state machine promises\<close>

text \<open>
  Refinement of \<open>Apply\<close> to the effect of an input on a partial map, agreement of replicas, snapshots
  as a replacement of the log, and the observers: what an observer has received reproduces the
  current state. The steps of \<open>fsm_step\<close> are the critical sections of the code.
\<close>

inductive fsm_step :: "msgpack \<Rightarrow> RaftFsm \<Rightarrow> RaftFsm \<Rightarrow> bool" for M :: msgpack where
  apply_entry: "fsm_step M f (snd (Apply M f e))"
| add: "fsm_step M f (AddStateChangeObserver f)"
| emit: "ch \<in> set (emitting f) \<Longrightarrow> fsm_step M f (emitState ch f)"
| remove: "fsm_step M f (RemoveStateChangeObserver i f)"

inductive fsm_reachable :: "msgpack \<Rightarrow> RaftFsm \<Rightarrow> bool" for M :: msgpack where
  init: "fsm_reachable M NewRaftFsm"
| step: "fsm_reachable M f \<Longrightarrow> fsm_step M f f' \<Longrightarrow> fsm_reachable M f'"

lemma fsm_inv_New: "fsm_inv NewRaftFsm"
  by (simp add: fsm_inv_def NewRaftFsm_def)

lemma fsm_reachable_inv: "fsm_reachable M f \<Longrightarrow> fsm_inv f"
proof (induction rule: fsm_reachable.induct)
  case init
  show ?case by (rule fsm_inv_New)
next
  case (step f f')
  from step.hyps(2) step.IH show ?case
    by (induction rule: fsm_step.induct) (simp_all add: fsm_inv_Apply fsm_inv_Add fsm_inv_emit fsm_inv_Remove)
qed

text \<open>A log applied to a replica.\<close>

definition apply_log :: "msgpack \<Rightarrow> bytes list \<Rightarrow> RaftFsm \<Rightarrow> RaftFsm" where
  "apply_log M es f = fold (\<lambda>e f. snd (Apply M f e)) es f"

lemma apply_log_state:
  "map_of (state (apply_log M es f)) =
    fold (\<lambda>e m. case dec_input M e of Inl _ \<Rightarrow> m | Inr inp \<Rightarrow> apply_input inp m) es (map_of (state f))"
proof (induction es arbitrary: f)
  case (Cons e es)
  then show ?case using Apply_state [of M f e] by (simp add: apply_log_def split: sum.splits)
qed (simp add: apply_log_def)

lemma apply_log_cong: "map_of (state f) = map_of (state g) \<Longrightarrow> map_of (state (apply_log M es f)) = map_of (state (apply_log M es g))"
  by (simp add: apply_log_state)

lemma apply_log_append: "apply_log M (es @ es') f = apply_log M es' (apply_log M es f)"
  by (simp add: apply_log_def)

context msgpack_codec begin

lemma restore_snapshot:
  assumes "gm_ok (state f)" "Persist M K (Snapshot f) w = (None, w')"
  shows "\<exists>b w1. sink_Write K b w = (None, w1) \<and> sink_Close K w1 = (None, w') \<and>
    fst (Restore M g b) = None \<and> map_of (state (snd (Restore M g b))) = map_of (state f)"
proof -
  from assms(2) obtain b w1 where "enc_snapshot M (Snapshot f) = Inr b" "sink_Write K b w = (None, w1)"
    "sink_Close K w1 = (None, w')"
    by (auto simp: Persist_def persist_body_def split: sum.splits prod.splits option.splits)
  moreover from this(1) obtain s' where "dec_snapshot M b = Inr s'" "gm_ok (snap_State s')" "map_of (snap_State s') = map_of (state f)"
    using snapshot_roundtrip [of "Snapshot f" b] assms(1) by (auto simp: Snapshot_def gm_ok_cloneState)
  ultimately show ?thesis
    by (intro exI [of _ b] exI [of _ w1]) (simp add: Restore_def)
qed

end

subsection \<open>Properties\<close>

text \<open>
  C17: one log entry. \<open>Apply\<close> changes the state as the input it decodes says (set, delete, or
  nothing), returns an error exactly if the entry cannot be decoded or its operation is unknown,
  and sends to the channel of every registered observer one copy of a set or delete, after
  everything sent before, and nothing to others.
\<close>

theorem Apply_refines:
  assumes "fsm_reachable M f" "dec_input M e = Inr inp"
  shows "map_of (state (snd (Apply M f e))) = apply_input inp (map_of (state f)) \<and>
    (fst (Apply M f e) = None \<longleftrightarrow> in_Op inp \<in> {InputOpUndefined, InputOpSet, InputOpDelete}) \<and>
    (\<forall>ch. sent (snd (Apply M f e)) ! ch =
      (if ch \<in> snd ` set (observers f) \<and> in_Op inp \<in> {InputOpSet, InputOpDelete}
       then sent f ! ch @ [cloneInput inp] else sent f ! ch))"
proof -
  have inv: "fsm_inv f" by (rule fsm_reachable_inv) fact
  have "\<forall>(i, ch) \<in> set (observers f). ch < length (sent f)" "distinct (map snd (observers f))"
    using inv by (auto simp: fsm_inv_def obs_ok_def)
  from fold_send_nth [OF this(2,1)] have "\<forall>ch. sent (snd (Apply M f e)) ! ch =
      (if ch \<in> snd ` set (observers f) \<and> in_Op inp \<in> {InputOpSet, InputOpDelete}
       then sent f ! ch @ [cloneInput inp] else sent f ! ch)"
    using assms(2) by (auto simp: Apply_def sendStateChange_def op_defs)
  with assms(2) show ?thesis by (simp add: Apply_state) (simp add: Apply_def)
qed

text \<open>An observed state machine: one observer that has received the synthetic inputs, then a set.\<close>

definition example_input :: Input where
  "example_input = \<lparr>in_Op = InputOpSet, in_Key = ''k'', in_Value = [1]\<rparr>"

definition example_observed :: RaftFsm where
  "example_observed = emitState 0 (AddStateChangeObserver NewRaftFsm)"

lemma example_observed_eq:
  "example_observed = \<lparr>state = [], observers = [(1, 0)], nextObserverId = 1, sent = [[]], emitting = []\<rparr>"
  by (simp add: example_observed_def emitState_def AddStateChangeObserver_def NewRaftFsm_def)

lemma example_observed_reachable: "fsm_reachable M example_observed"
  unfolding example_observed_def
  by (rule fsm_reachable.step [OF fsm_reachable.step [OF fsm_reachable.init add] emit])
    (simp add: AddStateChangeObserver_def NewRaftFsm_def)

lemma example_dec: "dec_input plain_codec (plain_enc_input example_input) = Inr example_input"
  by (simp add: plain_codec_def plain_input_roundtrip)

theorem Apply_refines_witness:
  "map_of (state (snd (Apply plain_codec example_observed (plain_enc_input example_input)))) = [''k'' \<mapsto> [1]] \<and>
    sent (snd (Apply plain_codec example_observed (plain_enc_input example_input))) ! 0 = [example_input]"
  using Apply_refines [OF example_observed_reachable example_dec]
  by (simp add: example_observed_eq apply_input_def example_input_def cloneInput_def)

text \<open>
  C4: the observers. In every reachable state of the machine, under any order of applied entries,
  added and removed observers and goroutines that emit the synthetic inputs, replaying what has
  been sent to a registered observer whose goroutine has run gives exactly the current state.
\<close>

theorem observer_tracks_state:
  assumes "fsm_reachable M f" "map_of (observers f) i = Some ch" "ch \<notin> set (emitting f)"
  shows "replay (sent f ! ch) = map_of (state f)"
  by (rule fsm_inv_tracks [OF fsm_reachable_inv [OF assms(1)] assms(2,3)])

theorem observer_tracks_state_witness:
  "replay (sent (snd (Apply plain_codec example_observed (plain_enc_input example_input))) ! 0) = [''k'' \<mapsto> [1]]"
proof -
  let ?f = "snd (Apply plain_codec example_observed (plain_enc_input example_input))"
  have r: "fsm_reachable plain_codec ?f"
    by (rule fsm_reachable.step [OF example_observed_reachable apply_entry])
  have "map_of (observers ?f) 1 = Some 0" "0 \<notin> set (emitting ?f)" "map_of (state ?f) = [''k'' \<mapsto> [1]]"
    by (simp_all add: Apply_def example_dec) (simp_all add: example_observed_eq example_input_def op_defs)
  with observer_tracks_state [OF r] show ?thesis by metis
qed

text \<open>
  The id an observer is removed by. \<open>AddStateChangeObserver\<close> reads the id it returns after
  it has released the lock; if another observer is added in between, the first caller gets the id
  of the second observer, and removing by it deregisters the second and keeps the first.
\<close>

theorem observer_id_of_concurrent_add:
  assumes "f1 = AddStateChangeObserver f" "f2 = AddStateChangeObserver f1"
    and "ch1 = length (sent f)" "ch2 = length (sent f1)"
  shows "map_of (observers f1) (observer_id f1) = Some ch1 \<and> map_of (observers f2) (observer_id f2) = Some ch2 \<and>
    ch1 \<noteq> ch2 \<and> map_of (observers (RemoveStateChangeObserver (observer_id f2) f2)) (observer_id f1) = Some ch1 \<and>
    map_of (observers (RemoveStateChangeObserver (observer_id f2) f2)) (observer_id f2) = None"
  using assms by (simp add: AddStateChangeObserver_def observer_id_def RemoveStateChangeObserver_def Let_def)

theorem observer_id_of_concurrent_add_witness:
  "map_of (observers (RemoveStateChangeObserver 2 (AddStateChangeObserver (AddStateChangeObserver NewRaftFsm)))) 1 = Some 0"
  using observer_id_of_concurrent_add [OF refl refl refl refl, of NewRaftFsm]
  by (simp add: AddStateChangeObserver_def observer_id_def NewRaftFsm_def)

text \<open>
  C18: a snapshot replaces the log before it. If persisting the snapshot of a reachable machine
  succeeds, the bytes written restore, on any other machine, the state of the snapshot, and
  applying the rest of the log there gives the state of a machine that has applied all of it.
\<close>

theorem snapshot_replaces_log:
  assumes "msgpack_codec M" "fsm_reachable M f" "f = apply_log M es f0"
    and "Persist M K (Snapshot f) w = (None, w')"
  shows "\<exists>b w1. sink_Write K b w = (None, w1) \<and> sink_Close K w1 = (None, w') \<and> fst (Restore M g b) = None \<and>
    map_of (state (apply_log M rest (snd (Restore M g b)))) = map_of (state (apply_log M (es @ rest) f0))"
proof -
  have "gm_ok (state f)" using fsm_reachable_inv [OF assms(2)] by (simp add: fsm_inv_def)
  from msgpack_codec.restore_snapshot [OF assms(1) this assms(4), of g] obtain b w1 where
    "sink_Write K b w = (None, w1)" "sink_Close K w1 = (None, w')" "fst (Restore M g b) = None"
    "map_of (state (snd (Restore M g b))) = map_of (state f)"
    by blast
  moreover from this(4) have "map_of (state (apply_log M rest (snd (Restore M g b)))) = map_of (state (apply_log M rest f))"
    by (rule apply_log_cong)
  moreover have "apply_log M rest f = apply_log M (es @ rest) f0" by (subst assms(3)) (simp add: apply_log_append)
  ultimately show ?thesis by auto
qed

text \<open>A sink that keeps in memory what is written to it.\<close>

definition buffer_sink :: "bytes sink" where
  "buffer_sink = \<lparr>sink_Write = (\<lambda>b w. (None, w @ b)), sink_Close = (\<lambda>w. (None, w)), sink_Cancel = (\<lambda>w. (None, []))\<rparr>"

theorem snapshot_replaces_log_witness:
  "\<exists>b. map_of (state (apply_log plain_codec [plain_enc_input example_input] (snd (Restore plain_codec NewRaftFsm b)))) =
    map_of (state (apply_log plain_codec ([] @ [plain_enc_input example_input]) example_observed))"
proof -
  have "example_observed = apply_log plain_codec [] example_observed" by (simp add: apply_log_def)
  moreover have "Persist plain_codec buffer_sink (Snapshot example_observed) [] =
      (None, snd (Persist plain_codec buffer_sink (Snapshot example_observed) []))"
    by (simp add: Persist_def persist_body_def plain_codec_def buffer_sink_def)
  ultimately show ?thesis
    using snapshot_replaces_log [OF msgpack_codec_plain example_observed_reachable] by metis
qed

text \<open>
  C40: \<open>Restore\<close> changes the state without telling the observers: nothing is sent on any channel,
  whatever the snapshot holds, so an observer that tracked the old state does not track a
  different restored one.
\<close>

theorem restore_not_observed:
  assumes "fsm_reachable M f" "map_of (observers f) i = Some ch" "ch \<notin> set (emitting f)"
    and "dec_snapshot M b = Inr snap"
  shows "sent (snd (Restore M f b)) = sent f \<and>
    (replay (sent (snd (Restore M f b)) ! ch) = map_of (state (snd (Restore M f b))) \<longleftrightarrow>
      map_of (snap_State snap) = map_of (state f))"
  using fsm_inv_tracks [OF fsm_reachable_inv [OF assms(1)] assms(2,3)] assms(4) by (auto simp: Restore_def)

theorem restore_not_observed_witness:
  "\<exists>b. sent (snd (Restore plain_codec example_observed b)) = [[]] \<and>
    replay (sent (snd (Restore plain_codec example_observed b)) ! 0) \<noteq> map_of (state (snd (Restore plain_codec example_observed b)))"
proof -
  let ?s = "\<lparr>snap_State = [(''k'', [1])]\<rparr> :: fsmSnapshot"
  obtain b where "enc_snapshot plain_codec ?s = Inr b" by (simp add: plain_codec_def)
  then have d: "dec_snapshot plain_codec b = Inr ?s" by (rule plain_snapshot_roundtrip)
  have "map_of (observers example_observed) 1 = Some 0" "0 \<notin> set (emitting example_observed)"
    by (simp_all add: example_observed_eq)
  note n = restore_not_observed [OF example_observed_reachable this d]
  have "map_of (snap_State ?s) \<noteq> map_of (state example_observed)" "sent example_observed = [[]]"
    by (simp_all add: example_observed_eq)
  with n show ?thesis by metis
qed

end
