(* ===== verification/Raft_Binding_Props.thy ===== *)
theory Raft_Binding_Props
  imports Raft_Binding Transport_Props Fsm_Props
begin

section \<open>What the Raft binding promises\<close>

text \<open>
  When \<open>ProposeInput\<close> returns nil and that it returns once a leader is there; the path of a forwarded
  proposal from a follower to the leader and back, through the transports of both; the silence of
  nodes that are not the leader; and what opening and closing leave behind.
\<close>

subsection \<open>The retry loop\<close>

text \<open>The worlds reached by rounds in which the operation asks for a retry and the timer fires.\<close>

inductive retry_rounds :: "'w retry_op \<Rightarrow> 'w retry_wait \<Rightarrow> 'w \<Rightarrow> 'w \<Rightarrow> bool" for op wait where
  no_round: "retry_rounds op wait w w"
| a_round: "op k w = (err, w1) \<Longrightarrow> IsRetryable err \<Longrightarrow> wait d w1 = (None, w2) \<Longrightarrow> retry_rounds op wait w2 w3 \<Longrightarrow>
    retry_rounds op wait w w3"

lemma retry_loop_cases:
  assumes "retry_loop b op wait n base w = Some (err, w')" "Max' b \<le> 0"
  shows "\<exists>k w0 e1 w1. retry_rounds op wait w w0 \<and> op k w0 = (e1, w1) \<and>
    (\<not> IsRetryable e1 \<and> (err, w') = (e1, w1) \<or> (\<exists>d e. IsRetryable e1 \<and> wait d w1 = (Some e, w') \<and> err = Some e))"
proof -
  let ?Q = "\<lambda>op wait w r. \<exists>k w0 e1 w1. retry_rounds op wait w w0 \<and> op k w0 = (e1, w1) \<and>
    (\<not> IsRetryable e1 \<and> r = (e1, w1) \<or> (\<exists>d e. IsRetryable e1 \<and> wait d w1 = (Some e, snd r) \<and> fst r = Some e))"
  have "Max' b \<le> 0 \<longrightarrow> ?Q op wait w (err, w')"
  proof (rule retry_loop.raw_induct [where P = "\<lambda>b op wait n base w r. Max' b \<le> 0 \<longrightarrow> ?Q op wait w r", OF _ assms(1)],
      intro impI, goal_cases)
    case (1 f b op wait n base w r)
    obtain e1 w1 where op: "op (n + 1) w = (e1, w1)" by (cases "op (n + 1) w")
    obtain e2 w2 where wt: "wait (backoff_delay b base) w1 = (e2, w2)" by (cases "wait (backoff_delay b base) w1")
    show ?case
    proof (cases "IsRetryable e1 \<and> e2 = None")
      case True
      with 1(2,3) op wt have "f b op wait (n + 1) (next_base b base) w2 = Some r" by simp
      from 1(1) [OF this] 1(3) have "?Q op wait w2 r" by simp
      moreover have "retry_rounds op wait w2 v \<Longrightarrow> retry_rounds op wait w v" for v
        using True op wt by (auto intro: a_round [of op "n + 1" w e1 w1 wait "backoff_delay b base"])
      ultimately show ?thesis by blast
    next
      case False
      with 1(2,3) op wt have "\<not> IsRetryable e1 \<and> r = (e1, w1) \<or>
          (\<exists>e. IsRetryable e1 \<and> wait (backoff_delay b base) w1 = (Some e, snd r) \<and> fst r = Some e)"
        by (cases r; cases "IsRetryable e1"; cases e2) auto
      then show ?thesis using op no_round by metis
    qed
  qed
  with assms(2) show ?thesis by simp
qed

lemma retry_loop_terminates:
  assumes stop: "\<And>k w. rounds w = 0 \<Longrightarrow> \<not> IsRetryable (fst (op k w))"
    and dec: "\<And>k d w. rounds w \<noteq> 0 \<Longrightarrow> IsRetryable (fst (op k w)) \<Longrightarrow>
      fst (wait d (snd (op k w))) = None \<and> rounds (snd (wait d (snd (op k w)))) < (rounds w :: nat)"
    and unb: "Max' b \<le> 0"
  shows "\<exists>k w0 err w'. retry_loop b op wait n base w = Some (err, w') \<and> op k w0 = (err, w') \<and> \<not> IsRetryable err"
proof (induction "rounds w" arbitrary: n base w rule: less_induct)
  case less
  obtain e1 w1 where op: "op (n + 1) w = (e1, w1)" by (cases "op (n + 1) w")
  show ?case
  proof (cases "IsRetryable e1")
    case False
    with op retry_loop_stop [of op n w e1 w1 b wait base] show ?thesis by blast
  next
    case True
    then have "rounds w \<noteq> 0" using stop [of w "n + 1"] op by auto
    obtain e2 w2 where wt: "wait (backoff_delay b base) w1 = (e2, w2)" by (cases "wait (backoff_delay b base) w1")
    from dec [OF \<open>rounds w \<noteq> 0\<close>, of "n + 1" "backoff_delay b base"] op wt True have "e2 = None" "rounds w2 < rounds w" by auto
    with retry_loop_wait [of op n w e1 w1 b wait base] op True unb wt
    have "retry_loop b op wait n base w = retry_loop b op wait (n + 1) (next_base b base) w2" by simp
    with less [OF \<open>rounds w2 < rounds w\<close>] show ?thesis by metis
  qed
qed

lemma lfw_backoff_unbounded [simp]: "Max' lfw_backoff \<le> 0"
  by (simp add: lfw_backoff_def)

subsection \<open>One attempt\<close>

text \<open>What a forwarded apply gives: the error of the request, or the response of the state machine of the leader.\<close>

definition forwarded :: "('h, 'x response) rpc_codec \<Rightarrow> ('h, 'x response, 'w) env \<Rightarrow> ('d, 'f, 'snap) RaftBinding \<Rightarrow> bytes \<Rightarrow> 'w \<Rightarrow> goerr option \<times> 'w" where
  "forwarded C E b cmd w = applyByLeaderForwarding C E b (lfwTimeout b) cmd 0 w"

lemma propose_attempt_nil:
  assumes "propose_attempt C E N b cmd k w = (None, w')"
  shows "(\<exists>f. r_Apply N cmd 0 w = (f, w') \<and> f_Error f = None \<and> f_Response f = None) \<or>
    (\<exists>f w1. r_Apply N cmd 0 w = (f, w1) \<and> f_Error f = Some (Ext HraftErrNotLeader) \<and> forwarded C E b cmd w1 = (None, w'))"
proof -
  obtain f w1 where r: "r_Apply N cmd 0 w = (f, w1)" by (cases "r_Apply N cmd 0 w")
  obtain e w2 where fw: "forwarded C E b cmd w1 = (e, w2)" by (cases "forwarded C E b cmd w1")
  show ?thesis
    using assms r fw
    by (auto simp: propose_attempt_def lfw_result_def forwarded_def NewRetryableError_def split: if_splits option.splits)
qed

text \<open>The communication API closes a result channel only when the context of the request is done.\<close>

definition closed_by_context :: "('h, 'r, 'w) env \<Rightarrow> bool" where
  "closed_by_context E \<longleftrightarrow> (\<forall>d a s e w w'. com_PublishAction E d a s w = (Inr (ChannelClosed e), w') \<longrightarrow> e \<noteq> None)"

lemma closed_by_contextD: "closed_by_context E \<Longrightarrow> com_PublishAction E d a s w = (Inr (ChannelClosed e), w') \<Longrightarrow> e \<noteq> None"
  unfolding closed_by_context_def by metis

text \<open>
  A forwarded apply without error has been answered, by a response that carries no error of the
  state machine.
\<close>

lemma forwarded_nil:
  assumes "forwarded C E b cmd w = (None, w')"
    and closed: "closed_by_context E"
  shows "\<exists>a ar res. com_PublishAction E (Some (lfwTimeout b)) a ScopeState w = (Inr (Received ar), w') \<and>
    act_Type a = rpcLeaderForwardedType \<and> act_Id a = rpcApply \<and> enc_cmd C (ApplyCmd \<lparr>ap_Command = cmd, ap_Timeout = 0\<rparr>) = Inr (act_Params a) \<and>
    dec_resp C (acr_Data ar) = Inr res \<and> rr_Error res = '''' \<and> (\<forall>r. Response res = Some (ApplyResponse r) \<longrightarrow> apr_Response r = None)"
proof -
  let ?t = "the (trans b)"
  from assms(1) obtain pb where pb: "enc_cmd C (ApplyCmd \<lparr>ap_Command = cmd, ap_Timeout = 0\<rparr>) = Inr pb"
    by (auto simp: forwarded_def applyByLeaderForwarding_def LfwApply_def sendRPC_def split: sum.splits)
  let ?a = "\<lparr>act_Type = rpcLeaderForwardedType, act_Id = rpcApply, act_Source = localAddr ?t, act_Params = pb, act_DataContentType = ''''\<rparr>"
  obtain o1 w1 where pub: "com_PublishAction E (Some (lfwTimeout b)) ?a ScopeState w = (o1, w1)"
    by (cases "com_PublishAction E (Some (lfwTimeout b)) ?a ScopeState w")
  have "publicationType rpcLeaderForwardedType [] = rpcLeaderForwardedType"
    by (simp add: publicationType_def rpc_type_defs)
  note call = assms(1) [unfolded forwarded_def applyByLeaderForwarding_def LfwApply_def sendRPC_def this, simplified pb sum.case pub prod.case]
  obtain ar where ar: "o1 = Inr (Received ar)"
    using call pub by (auto split: sum.splits rpc_outcome.splits option.splits dest: closed_by_contextD [OF closed])
  then obtain res where "dec_resp C (acr_Data ar) = Inr res" "rr_Error res = ''''" "w1 = w'"
    "\<forall>r. Response res = Some (ApplyResponse r) \<longrightarrow> apr_Response r = None"
    using call by (auto split: sum.splits if_splits option.splits response.splits)
  with pub ar pb show ?thesis by (intro exI [of _ ?a] exI [of _ ar] exI [of _ res]) simp
qed

lemma ProposeInput_loop:
  "raft b \<Longrightarrow> enc_input M inp = Inr cmd \<Longrightarrow>
    ProposeInput M C E N b wait inp w = retry_loop lfw_backoff (propose_attempt C E N b cmd) wait 0 (Base lfw_backoff) w"
  by (simp add: ProposeInput_def RetryWithBackoff_def)

text \<open>When an attempt asks for another one.\<close>

lemma propose_attempt_retryable:
  assumes "r_Apply N cmd 0 w = (f, w1)" "forwarded C E b cmd w1 = (err, w2)"
  shows "IsRetryable (fst (propose_attempt C E N b cmd k w)) \<longleftrightarrow>
    (case f_Error f of
       None \<Rightarrow> IsRetryable (f_Response f)
     | Some e \<Rightarrow> e = Ext HraftErrNotLeader \<longrightarrow> err \<noteq> None \<and> (err = ctx_Err N w2 \<or> IsRetryable err))"
  using assms
  by (cases "f_Error f"; cases err; cases "ctx_Err N w2") (auto simp: propose_attempt_def lfw_result_def forwarded_def IsRetryable_New)

text \<open>The last attempt of a proposal that was accepted.\<close>

lemma ProposeInput_accepted:
  assumes "raft b" "enc_input M inp = Inr cmd" "closed_by_context E" "ProposeInput M C E N b wait inp w = Some (None, w')"
  shows "\<exists>w0 f w1. retry_rounds (propose_attempt C E N b cmd) wait w w0 \<and> r_Apply N cmd 0 w0 = (f, w1) \<and>
    (f_Error f = None \<and> f_Response f = None \<and> w1 = w' \<or>
     f_Error f = Some (Ext HraftErrNotLeader) \<and> (\<exists>a ar. com_PublishAction E (Some (lfwTimeout b)) a ScopeState w1 = (Inr (Received ar), w') \<and>
       enc_cmd C (ApplyCmd \<lparr>ap_Command = cmd, ap_Timeout = 0\<rparr>) = Inr (act_Params a)))"
proof -
  from retry_loop_cases [OF assms(4) [unfolded ProposeInput_loop [OF assms(1,2)]] lfw_backoff_unbounded]
  obtain k w0 where w0: "retry_rounds (propose_attempt C E N b cmd) wait w w0" "propose_attempt C E N b cmd k w0 = (None, w')"
    by auto
  from propose_attempt_nil [OF w0(2)] w0(1) forwarded_nil [OF _ assms(3), of C b cmd] show ?thesis by metis
qed

subsection \<open>The answering side behind the transport\<close>

text \<open>The environment of a transport whose forwarded requests are consumed by the binding.\<close>

definition lfw_env :: "'w hraft \<Rightarrow> ('d, 'f, 'snap) RaftBinding \<Rightarrow> ('h, 'x response, 'w) env \<Rightarrow> ('h, 'x response, 'w) env" where
  "lfw_env N b E = E\<lparr>consume := (\<lambda>ch cmd w.
     if ch = LfwChan then (case processLeaderForwardingRPC N b cmd w of ((stop, resp), w1) \<Rightarrow> (resp, w1))
     else consume E ch cmd w)\<rparr>"

lemma lfw_env_sel [simp]:
  "consume (lfw_env N b E) LfwChan cmd w = (case processLeaderForwardingRPC N b cmd w of ((stop, resp), w1) \<Rightarrow> (resp, w1))"
  "callback (lfw_env N b E) = callback E" "errText (lfw_env N b E) = errText E"
  by (simp_all add: lfw_env_def)

lemma handleRpc_lfw:
  assumes "rpc_wire C plain" "enc_cmd C cmd = Inr p" "op_of cmd \<in> {rpcAddVoter, rpcRemoveServer, rpcApply}"
    and "src \<noteq> localAddr t" "\<not> shutdown t"
  shows "handleRpc C (lfw_env N b E) nil t
      \<lparr>act_Type = rpcLeaderForwardedType, act_Id = op_of cmd, act_Source = src, act_Params = p, act_DataContentType = ct\<rparr> w =
    (case processLeaderForwardingRPC N b cmd w of ((stop, resp), w1) \<Rightarrow> sendLfwResponse C (lfw_env N b E) t resp w1)"
proof -
  have "dec_cmd C (op_of cmd) p = Inr cmd" by (rule rpc_wire.cmd_roundtrip) fact+
  with assms(3-5) show ?thesis
    by (auto simp: handleRpc_def split: prod.splits)
qed

lemma not_leader_silent:
  "ErrorRetryable (resp_Error resp) = Some (Ext HraftErrNotLeader) \<Longrightarrow> sendLfwResponse C E t resp w = (None, w)"
  by (simp add: sendLfwResponse_def)

subsection \<open>The responses on the wire\<close>

text \<open>
  A response carries no error value of the state machine: \<open>ApplyResponse\<close> has a field of the interface
  type \<open>error\<close>, and nothing is assumed about how the codec treats a value in it.
\<close>

fun plain_response :: "'x response \<Rightarrow> bool" where
  "plain_response (ApplyResponse r) = (apr_Response r = None)"
| "plain_response _ = True"

fun enc_response :: "bytes response \<Rightarrow> bytes" where
  "enc_response NilResponse = [0]"
| "enc_response (AddVoterResponse u) = 1 # enc_word u"
| "enc_response (RemoveServerResponse u) = 2 # enc_word u"
| "enc_response (ApplyResponse r) = 3 # enc_word (apr_Index r)"
| "enc_response (HraftResponse x) = 4 # x"

definition dec_response :: "bytes \<Rightarrow> bytes response" where
  "dec_response b =
     (case b of [] \<Rightarrow> NilResponse | k # r \<Rightarrow>
        if k = 0 then NilResponse else if k = 4 then HraftResponse r
        else case dec_word r of None \<Rightarrow> NilResponse
          | Some (u, _) \<Rightarrow> if k = 1 then AddVoterResponse u else if k = 2 then RemoveServerResponse u
                           else ApplyResponse \<lparr>apr_Index = u, apr_Response = None\<rparr>)"

lemma dec_enc_response: "plain_response x \<Longrightarrow> dec_response (enc_response x) = x"
  by (cases x) (simp_all add: dec_response_def)

definition response_wire :: "(bytes, bytes response) rpc_codec" where
  "response_wire = \<lparr>enc_cmd = (\<lambda>c. Inr (plain_enc_cmd c)), dec_cmd = plain_dec_cmd,
     enc_resp = (\<lambda>r. Inr (plain_enc_resp \<lparr>Response = map_option enc_response (Response r), rr_Error = rr_Error r, rr_Retryable = rr_Retryable r\<rparr>)),
     dec_resp = (\<lambda>b. case plain_dec_resp b of Inl e \<Rightarrow> Inl e
       | Inr r \<Rightarrow> Inr \<lparr>Response = map_option dec_response (Response r), rr_Error = rr_Error r, rr_Retryable = rr_Retryable r\<rparr>)\<rparr>"

interpretation wire: rpc_wire response_wire plain_response
proof unfold_locales
  fix r :: "bytes response rpcResponse" and b
  assume "pred_option plain_response (Response r)" "enc_resp response_wire r = Inr b"
  then show "dec_resp response_wire b = Inr r"
    by (cases r; cases "Response r") (auto simp: response_wire_def plain_resp_roundtrip dec_enc_response)
qed (auto simp: response_wire_def plain_cmd_roundtrip)

lemma rpc_wire_response: "rpc_wire response_wire plain_response"
  by (rule wire.rpc_wire_axioms)

subsection \<open>Properties\<close>

text \<open>
  C5: the result of \<open>ProposeInput\<close>. On an open binding, nil is returned only if, in the last attempt,
  the local node was the leader and applied the input without an error of the state machine, or it
  was not the leader and received a response without an error to the forwarded input. An error is
  the one of the caller's context, after an attempt with a retryable error, or it is not retryable
  and was given by the state machine or by the forwarded request. All attempts before the last
  one had a retryable error.
\<close>

theorem ProposeInput_result:
  assumes "raft b" "enc_input M inp = Inr cmd"
    and "closed_by_context E"
    and "ProposeInput M C E N b wait inp w = Some (err, w')"
  shows "\<exists>w0. retry_rounds (propose_attempt C E N b cmd) wait w w0 \<and>
    ((err \<noteq> None \<and> (\<exists>d w1. wait d w1 = (err, w') \<and> IsRetryable (fst (propose_attempt C E N b cmd 0 w0)))) \<or>
     (\<not> IsRetryable err \<and> (\<exists>f w1. r_Apply N cmd 0 w0 = (f, w1) \<and>
      (f_Error f = None \<and> f_Response f = err \<and> w1 = w' \<or>
       f_Error f = Some (Ext HraftErrNotLeader) \<and> forwarded C E b cmd w1 = (err, w') \<and>
       (err = None \<longrightarrow> (\<exists>a ar res. com_PublishAction E (Some (lfwTimeout b)) a ScopeState w1 = (Inr (Received ar), w') \<and>
          enc_cmd C (ApplyCmd \<lparr>ap_Command = cmd, ap_Timeout = 0\<rparr>) = Inr (act_Params a) \<and>
          dec_resp C (acr_Data ar) = Inr res \<and> rr_Error res = ''''))))))"
proof -
  from retry_loop_cases [OF assms(4) [unfolded ProposeInput_loop [OF assms(1,2)]] lfw_backoff_unbounded]
  obtain k w0 e1 w1 where rounds: "retry_rounds (propose_attempt C E N b cmd) wait w w0"
    and op: "propose_attempt C E N b cmd k w0 = (e1, w1)"
    and res: "\<not> IsRetryable e1 \<and> (err, w') = (e1, w1) \<or> (\<exists>d e. IsRetryable e1 \<and> wait d w1 = (Some e, w') \<and> err = Some e)"
    by blast
  have op0: "propose_attempt C E N b cmd 0 w0 = (e1, w1)" using op by (simp add: propose_attempt_def)
  from res show ?thesis
  proof
    assume "\<exists>d e. IsRetryable e1 \<and> wait d w1 = (Some e, w') \<and> err = Some e"
    with rounds op0 show ?thesis by (intro exI [of _ w0]) auto
  next
    assume nr: "\<not> IsRetryable e1 \<and> (err, w') = (e1, w1)"
    obtain f w2 where r: "r_Apply N cmd 0 w0 = (f, w2)" by (cases "r_Apply N cmd 0 w0")
    have "f_Error f = None \<and> f_Response f = err \<and> w2 = w' \<or>
        f_Error f = Some (Ext HraftErrNotLeader) \<and> forwarded C E b cmd w2 = (err, w')"
      using nr op r by (auto simp: propose_attempt_def forwarded_def lfw_result_def IsRetryable_New split: if_splits prod.splits)
    moreover have "\<exists>a ar res. com_PublishAction E (Some (lfwTimeout b)) a ScopeState w2 = (Inr (Received ar), w') \<and>
        enc_cmd C (ApplyCmd \<lparr>ap_Command = cmd, ap_Timeout = 0\<rparr>) = Inr (act_Params a) \<and>
        dec_resp C (acr_Data ar) = Inr res \<and> rr_Error res = ''''" if "forwarded C E b cmd w2 = (None, w')"
      using forwarded_nil [OF that assms(3)] by metis
    ultimately show ?thesis using nr r rounds by (intro exI [of _ w0]) blast
  qed
qed

text \<open>
  A node that becomes the leader after some rounds, in a group without another leader: the world is
  the number of rounds and the log; a forwarded request is not answered within its deadline.
\<close>

definition example_hraft :: "(nat \<times> bytes list) hraft" where
  "example_hraft = \<lparr>DefaultConfig = \<lparr>LocalID = '''', HeartbeatTimeout = 1000 * Millisecond, ElectionTimeout = 1000 * Millisecond,
       SnapshotInterval = 120000 * Millisecond, SnapshotThreshold = 8192, CommitTimeout = 50 * Millisecond, LogLevel = ''DEBUG''\<rparr>,
     NewRaft = (\<lambda>c w. (None, w)), BootstrapCluster = (\<lambda>s w. (None, w)),
     LeaderCh = (\<lambda>d w. (if fst w = 0 then Some True else None, w)),
     r_Apply = (\<lambda>cmd d w. if fst w = 0 then (\<lparr>f_Error = None, f_Index = word_of_nat (length (snd w)), f_Response = None\<rparr>, (0, snd w @ [cmd]))
                  else (\<lparr>f_Error = Some (Ext HraftErrNotLeader), f_Index = 0, f_Response = None\<rparr>, w)),
     r_AddVoter = (\<lambda>i a p d w. (\<lparr>f_Error = Some (Ext HraftErrNotLeader), f_Index = 0, f_Response = None\<rparr>, w)),
     r_RemoveServer = (\<lambda>i p d w. (\<lparr>f_Error = Some (Ext HraftErrNotLeader), f_Index = 0, f_Response = None\<rparr>, w)),
     r_Barrier = (\<lambda>d w. (None, w)), r_isLeader = (\<lambda>w. fst w = 0), r_Shutdown = (\<lambda>w. (None, w)),
     ctx_Err = (\<lambda>w. Some CtxDeadlineExceeded), sleep = (\<lambda>d w. (fst w - 1, snd w))\<rparr>"

definition lonely_env :: "(bytes, bytes response, nat \<times> bytes list) env" where
  "lonely_env = \<lparr>com_PublishAction = (\<lambda>d a s w. (Inr (ChannelClosed (Some CtxDeadlineExceeded)), w)),
     com_SubscribeAction = (\<lambda>f w. (None, w)), consume = (\<lambda>ch cmd w. (\<lparr>resp_Response = NilResponse, resp_Error = None\<rparr>, w)),
     callback = (\<lambda>ar w. (None, w)), errText = (\<lambda>e. ''raft error'')\<rparr>"

definition example_wait :: "(nat \<times> bytes list) retry_wait" where
  "example_wait d w = (None, (fst w - 1, snd w))"

definition example_binding :: "(unit, unit, unit) RaftBinding" where
  "example_binding = zero_binding\<lparr>raftId := ''a'', raft := True, trans := Some (example_trans ''a''), fsm := Some NewRaftFsm\<rparr>"

lemma example_forwarded [simp]: "forwarded response_wire lonely_env example_binding cmd w = (Some CtxDeadlineExceeded, w)"
  by (simp add: forwarded_def applyByLeaderForwarding_def LfwApply_def sendRPC_def response_wire_def lonely_env_def)

lemma example_attempt:
  "propose_attempt response_wire lonely_env example_hraft example_binding cmd k w =
    (if fst w = 0 then (None, (0, snd w @ [cmd])) else (Some (RetryableError CtxDeadlineExceeded), w))"
  using example_forwarded [of cmd w]
  by (simp add: propose_attempt_def example_hraft_def lfw_result_def forwarded_def)

theorem ProposeInput_result_witness:
  "\<exists>w' w0 f w1. ProposeInput plain_codec response_wire lonely_env example_hraft example_binding example_wait example_input (2, []) = Some (None, w') \<and>
    r_Apply example_hraft (plain_enc_input example_input) 0 w0 = (f, w1) \<and> f_Error f = None \<and> w1 = w'"
proof -
  let ?cmd = "plain_enc_input example_input"
  have b: "raft example_binding" by (simp add: example_binding_def)
  have e: "enc_input plain_codec example_input = Inr ?cmd" by (simp add: plain_codec_def)
  have p: "ProposeInput plain_codec response_wire lonely_env example_hraft example_binding example_wait example_input (2, []) = Some (None, (0, [?cmd]))"
    by (simp add: ProposeInput_loop [OF b e] retry_loop.simps example_attempt example_wait_def) (simp add: lfw_backoff_def)
  have "closed_by_context lonely_env" by (simp add: closed_by_context_def lonely_env_def)
  from ProposeInput_result [OF b e this p] p show ?thesis by auto
qed



text \<open>
  C6: a forwarded input on its way through the leader. The request of a follower, delivered at
  another node, is applied by its Raft node. If this succeeds there and the answer is sent, the
  follower that receives it returns nil; if the leadership was lost or is being transferred
  meanwhile, or the log was overwritten by a restore, it returns a retryable error.
\<close>

theorem forwarded_apply_answered:
  fixes C :: "('h, 'x response) rpc_codec"
  assumes wire: "rpc_wire C plain_response"
    and open_l: "raft bL" "\<not> shutdown tL" "trans b = Some t" "localAddr t \<noteq> localAddr tL"
    and req: "enc_cmd C (ApplyCmd \<lparr>ap_Command = cmd, ap_Timeout = 0\<rparr>) = Inr p"
    and ac: "ac = \<lparr>act_Type = rpcLeaderForwardedType, act_Id = rpcApply, act_Source = localAddr t, act_Params = p, act_DataContentType = ''''\<rparr>"
    and appl: "r_Apply N cmd 0 w = (f, w1)"
    and answered: "handleRpc C (lfw_env N bL E) NilResponse tL ac w = (None, w3)"
    and outcome: "f_Error f = None \<and> f_Response f = None \<and> r_Barrier N 0 w1 = (None, w2) \<or>
      f_Error f \<in> Some ` Ext ` {HraftErrLeadershipLost, HraftErrLeadershipTransferInProgress, HraftErrAbortedByRestore} \<and> w2 = w1"
  shows "\<exists>ar. callback E ar w2 = (None, w3) \<and>
    (\<forall>(E' :: ('h, 'x response, 'v) env) v v'. com_PublishAction E' (Some tmo) ac ScopeState v = (Inr (Received ar), v') \<longrightarrow>
      (\<exists>err. applyByLeaderForwarding C E' b tmo cmd 0 v = (err, v') \<and>
        (if f_Error f = None then err = None else IsRetryable err)))"
proof -
  let ?c = "ApplyCmd \<lparr>ap_Command = cmd, ap_Timeout = 0\<rparr> :: 'h command"
  obtain stop w2' and resp :: "'x response RPCResponse" where pr: "processLeaderForwardingRPC N bL ?c w = ((stop, resp), w2')"
    by (metis prod.collapse)
  have answer: "w2' = w2" "resp_Error resp = NewRetryableError (f_Error f)"
    "f_Error f = None \<Longrightarrow> resp_Response resp = ApplyResponse \<lparr>apr_Index = f_Index f, apr_Response = None\<rparr>"
    using pr open_l(1) appl outcome by (auto simp: processLeaderForwardingRPC_def)
  have "handleRpc C (lfw_env N bL E) NilResponse tL ac w = sendLfwResponse C (lfw_env N bL E) tL resp w2"
    using handleRpc_lfw [OF wire req _ open_l(4,2), of N bL E NilResponse "''''" w] pr ac answer(1) by simp
  with answered outcome answer(2) have "sendRPCResponse C (lfw_env N bL E) tL resp w2 = (None, w3)"
    by (auto simp: sendLfwResponse_def)
  moreover have "resp_Error resp = None \<Longrightarrow> plain_response (resp_Response resp)"
    using answer(2,3) by (cases "f_Error f") auto
  ultimately obtain ar where ar: "callback E ar w2 = (None, w3)" "\<forall>(E' :: ('h, 'x response, 'v) env) dl t' pt op args b v v'.
      enc_cmd C args = Inr b \<longrightarrow>
      com_PublishAction E' dl \<lparr>act_Type = pt, act_Id = op, act_Source = localAddr t', act_Params = b, act_DataContentType = ''''\<rparr>
        ScopeState v = (Inr (Received ar), v') \<longrightarrow>
      sendRPC C E' dl t' pt op args v = (rpc_result (errText E) resp, v')"
    using rpc_wire.response_arrives [OF wire, of "lfw_env N bL E" tL resp w2 w3] by auto
  have res: "if f_Error f = None then rpc_result (errText E) resp = (None, Some (resp_Response resp))
      else \<exists>err. rpc_result (errText E) resp = (Some err, None) \<and> IsRetryable (Some err)"
    using answer(2) by (cases "f_Error f") (simp_all add: rpc_result_def)
  have "publicationType rpcLeaderForwardedType [] = rpcLeaderForwardedType"
    by (simp add: publicationType_def rpc_type_defs)
  with ar(2) [rule_format, OF req] res open_l(3) ac answer(3)
  have "\<exists>err. applyByLeaderForwarding C E' b tmo cmd 0 v = (err, v') \<and> (if f_Error f = None then err = None else IsRetryable err)"
    if "com_PublishAction E' (Some tmo) ac ScopeState v = (Inr (Received ar), v')" for E' :: "('h, 'x response, 'v) env" and v v'
    using that by (auto simp: applyByLeaderForwarding_def LfwApply_def split: if_splits)
  with ar(1) show ?thesis by (intro exI [of _ ar]) simp
qed

text \<open>The leader of the witness: it applies at once; its world is the log and the action results sent.\<close>

definition leader_hraft :: "(bytes list \<times> ActionResult list) hraft" where
  "leader_hraft = \<lparr>DefaultConfig = DefaultConfig example_hraft,
     NewRaft = (\<lambda>c w. (None, w)), BootstrapCluster = (\<lambda>s w. (None, w)), LeaderCh = (\<lambda>d w. (Some True, w)),
     r_Apply = (\<lambda>cmd d w. (\<lparr>f_Error = None, f_Index = word_of_nat (length (fst w)), f_Response = None\<rparr>, (fst w @ [cmd], snd w))),
     r_AddVoter = (\<lambda>i a p d w. (\<lparr>f_Error = None, f_Index = 1, f_Response = None\<rparr>, w)),
     r_RemoveServer = (\<lambda>i p d w. (\<lparr>f_Error = None, f_Index = 1, f_Response = None\<rparr>, w)),
     r_Barrier = (\<lambda>d w. (None, w)), r_isLeader = (\<lambda>w. True), r_Shutdown = (\<lambda>w. (None, w)),
     ctx_Err = (\<lambda>w. None), sleep = (\<lambda>d w. w)\<rparr>"

definition leader_env :: "(bytes, bytes response, bytes list \<times> ActionResult list) env" where
  "leader_env = \<lparr>com_PublishAction = (\<lambda>d a s w. (Inr (ChannelClosed (Some CtxDeadlineExceeded)), w)),
     com_SubscribeAction = (\<lambda>f w. (None, w)), consume = (\<lambda>ch cmd w. (\<lparr>resp_Response = NilResponse, resp_Error = None\<rparr>, w)),
     callback = (\<lambda>ar w. (None, (fst w, snd w @ [ar]))), errText = (\<lambda>e. ''raft error'')\<rparr>"

definition leader_binding :: "(unit, unit, unit) RaftBinding" where
  "leader_binding = zero_binding\<lparr>raftId := ''l'', raft := True, trans := Some (example_trans ''l''), fsm := Some NewRaftFsm\<rparr>"

definition answer_env :: "ActionResult \<Rightarrow> (bytes, bytes response, unit) env" where
  "answer_env ar = \<lparr>com_PublishAction = (\<lambda>d a s w. (Inr (Received ar), w)),
     com_SubscribeAction = (\<lambda>f w. (None, w)), consume = (\<lambda>ch cmd w. (\<lparr>resp_Response = NilResponse, resp_Error = None\<rparr>, w)),
     callback = (\<lambda>ar w. (None, w)), errText = (\<lambda>e. ''raft error'')\<rparr>"

lemma example_trans_sel [simp]: "localAddr (example_trans a) = a" "\<not> shutdown (example_trans a)"
  by (simp_all add: example_trans_def make_transport_def Let_def)

theorem forwarded_apply_answered_witness:
  "\<exists>ar. applyByLeaderForwarding response_wire (answer_env ar) example_binding 0 [7] 0 () = (None, ())"
proof -
  let ?c = "ApplyCmd \<lparr>ap_Command = [7], ap_Timeout = 0\<rparr> :: bytes command"
  let ?ac = "\<lparr>act_Type = rpcLeaderForwardedType, act_Id = rpcApply, act_Source = ''a'', act_Params = plain_enc_cmd ?c, act_DataContentType = ''''\<rparr>"
  let ?h = "handleRpc response_wire (lfw_env leader_hraft leader_binding leader_env) NilResponse (example_trans ''l'') ?ac ([], [])"
  have w: "raft leader_binding" "\<not> shutdown (example_trans ''l'')" "trans example_binding = Some (example_trans ''a'')"
    "localAddr (example_trans ''a'') \<noteq> localAddr (example_trans ''l'')"
    by (simp_all add: leader_binding_def example_binding_def)
  have req: "enc_cmd response_wire ?c = Inr (plain_enc_cmd ?c)" by (simp add: response_wire_def)
  have ac: "?ac = \<lparr>act_Type = rpcLeaderForwardedType, act_Id = rpcApply, act_Source = localAddr (example_trans ''a''),
      act_Params = plain_enc_cmd ?c, act_DataContentType = ''''\<rparr>" by simp
  have appl: "r_Apply leader_hraft [7] 0 ([], []) = (\<lparr>f_Error = None, f_Index = 0, f_Response = None\<rparr>, ([[7]], []))"
    by (simp add: leader_hraft_def)
  have "?h = (None, snd ?h)"
    using handleRpc_lfw [OF rpc_wire_response req _ _ w(2), of "''a''" leader_hraft leader_binding leader_env NilResponse "''''" "([], [])"] w(1) appl
    by (simp add: processLeaderForwardingRPC_def leader_hraft_def sendLfwResponse_def ErrorRetryable_def sendRPCResponse_def
        response_wire_def leader_env_def)
  from forwarded_apply_answered [OF rpc_wire_response w req ac appl this, where 'v = unit and tmo = 0, of "([[7]], [])"]
  obtain ar where "\<forall>(E' :: (bytes, bytes response, unit) env) v v'. com_PublishAction E' (Some 0) ?ac ScopeState v = (Inr (Received ar), v') \<longrightarrow>
      (\<exists>err. applyByLeaderForwarding response_wire E' example_binding 0 [7] 0 v = (err, v') \<and> err = None)"
    by (auto simp: leader_hraft_def)
  from this [rule_format, of "answer_env ar" "()" "()"] show ?thesis
    by (intro exI [of _ ar]) (simp add: answer_env_def)
qed

text \<open>
  C7: only the leader answers. A node whose binding is not open, or whose Raft node rejects the
  operation because it is not the leader, sends no answer to a forwarded request of another node:
  handling it ends without error in the state the Raft node has left, whatever the callback of
  the action does.
\<close>

theorem only_leader_answers:
  fixes C :: "('h, 'x response) rpc_codec"
  assumes "rpc_wire C plain" "enc_cmd C cmd = Inr p" "op_of cmd \<in> {rpcAddVoter, rpcRemoveServer, rpcApply}"
    and "src \<noteq> localAddr t" "\<not> shutdown t"
    and "\<not> raft b \<and> w' = w \<or>
      (case cmd of
         AddVoter c \<Rightarrow> \<exists>f. r_AddVoter N (av_ServerId c) (av_ServerAddress c) 0 (av_Timeout c) w = (f, w') \<and> f_Error f = Some (Ext HraftErrNotLeader)
       | RemoveServer c \<Rightarrow> \<exists>f. r_RemoveServer N (rsv_ServerId c) 0 (rsv_Timeout c) w = (f, w') \<and> f_Error f = Some (Ext HraftErrNotLeader)
       | ApplyCmd c \<Rightarrow> \<exists>f. r_Apply N (ap_Command c) (ap_Timeout c) w = (f, w') \<and> f_Error f = Some (Ext HraftErrNotLeader)
       | _ \<Rightarrow> False) \<and> raft b"
  shows "handleRpc C (lfw_env N b E) nil t
      \<lparr>act_Type = rpcLeaderForwardedType, act_Id = op_of cmd, act_Source = src, act_Params = p, act_DataContentType = ct\<rparr> w = (None, w')"
proof -
  have "case processLeaderForwardingRPC N b cmd w of ((stop, resp :: 'x response RPCResponse), w1) \<Rightarrow>
      w1 = w' \<and> ErrorRetryable (resp_Error resp) = Some (Ext HraftErrNotLeader)"
    using assms(6) by (cases "raft b"; cases cmd) (auto simp: processLeaderForwardingRPC_def ErrorRetryable_def)
  then show ?thesis
    using handleRpc_lfw [OF assms(1-5), of N b E nil ct w] by (auto simp: not_leader_silent split: prod.splits)
qed

theorem only_leader_answers_witness:
  "handleRpc response_wire (lfw_env example_hraft example_binding lonely_env) NilResponse (example_trans ''b'')
      \<lparr>act_Type = rpcLeaderForwardedType, act_Id = rpcApply, act_Source = ''a'',
       act_Params = plain_enc_cmd (ApplyCmd example_apply), act_DataContentType = ''''\<rparr> (1, []) = (None, (1, []))"
proof -
  have "enc_cmd response_wire (ApplyCmd example_apply) = Inr (plain_enc_cmd (ApplyCmd example_apply))"
    by (simp add: response_wire_def)
  from only_leader_answers [OF rpc_wire_response this, of "''a''" "example_trans ''b''" example_binding "(1, [])" "(1, [])" example_hraft
      lonely_env NilResponse "''''"]
  show ?thesis by (simp add: example_hraft_def example_binding_def)
qed


definition example_os :: "unit os" where
  "example_os = \<lparr>filepath_Join = (\<lambda>a b. a @ ''/'' @ b), NewFileSnapshotStore = (\<lambda>d n. Inr ()), NewInmemSnapshotStore = ()\<rparr>"

definition bootstrap_config :: Config where
  "bootstrap_config = (let cfg = New ''a''
     in cfg\<lparr>cfg_Services := (cfg_Services cfg)\<lparr>State := (State (cfg_Services cfg))\<lparr>state_Bootstrap := True\<rparr>\<rparr>\<rparr>)"

definition example_Open ::
  "(unit, mem_db, unit) RaftBinding \<Rightarrow> nat \<times> bytes list \<Rightarrow> ((goerr option \<times> (unit, mem_db, unit) RaftBinding) \<times> nat \<times> bytes list) option"
where
  "example_Open b w = Raft_Binding.Open mem_pebble example_os ''u'' [] [] False response_wire lonely_env example_hraft b bootstrap_config w"


text \<open>
  After \<open>Close\<close> every operation reports that the binding is not open and changes nothing, the
  stores are closed, and a second \<open>Close\<close> does nothing.
\<close>

theorem closed_raft_rejects:
  assumes "Raft_Binding.Close P C E N b w = (b', w')"
  shows "\<not> raft b' \<and>
    ProposeInput M C E N b' wait inp v = Some (Some (Errorf ''ProposeInput %+v failed as binding is not yet open''), v) \<and>
    ObserveStateChange b' = (Inl (Errorf ''ObserveStateChange failed as binding is not yet open''), b') \<and>
    ObserveMembershipChange b' = (Inl (Errorf ''ObserveMemberChange failed as binding is not yet open''), b') \<and>
    fst (processLeaderForwardingRPC N b' cmd v) = (True, \<lparr>resp_Response = NilResponse, resp_Error = Some (Ext HraftErrNotLeader)\<rparr>) \<and>
    (raft b \<longrightarrow> (\<forall>s. store b' = Some s \<longrightarrow> db (logStore s) = None \<and> db (stableStore s) = None)) \<and>
    Raft_Binding.Close P C E N b' v = (b', v)"
proof -
  have "\<not> raft b'"
    using assms by (auto simp: Raft_Binding.Close_def split: if_splits prod.splits)
  moreover have "raft b \<longrightarrow> (\<forall>s. store b' = Some s \<longrightarrow> db (logStore s) = None \<and> db (stableStore s) = None)"
  proof
    assume "raft b"
    then have "store b' = map_option (\<lambda>s. fst (Raft_Store.Close P s False)) (store b)"
      using assms by (auto simp: Raft_Binding.Close_def split: if_splits prod.splits)
    moreover have "db (Pebble.Close P d) = None" for d
      by (simp add: Pebble.Close_def split: option.split prod.split)
    ultimately show "\<forall>s. store b' = Some s \<longrightarrow> db (logStore s) = None \<and> db (stableStore s) = None"
      by (auto simp: Raft_Store.Close_def Let_def)
  qed
  ultimately show ?thesis
    by (simp add: ProposeInput_def ObserveStateChange_def ObserveMembershipChange_def processLeaderForwardingRPC_def Raft_Binding.Close_def)
qed

theorem closed_raft_rejects_witness:
  "ObserveStateChange (fst (Raft_Binding.Close mem_pebble response_wire lonely_env example_hraft
      (zero_binding\<lparr>raft := True, trans := Some (example_trans ''a'')\<rparr> :: (unit, mem_db, unit) RaftBinding) (0, []))) =
    (Inl (Errorf ''ObserveStateChange failed as binding is not yet open''),
     fst (Raft_Binding.Close mem_pebble response_wire lonely_env example_hraft
      (zero_binding\<lparr>raft := True, trans := Some (example_trans ''a'')\<rparr>) (0, [])))"
  by (rule closed_raft_rejects [OF prod.collapse [symmetric], THEN conjunct2, THEN conjunct2, THEN conjunct1])

end
