(* ===== verification/Raft_System.thy ===== *)
theory Raft_System
  imports Raft_Binding_Props
begin

section \<open>From a proposal to the replicated state\<close>

text \<open>
  The Raft binding, the Raft library and the state machine together. The contract of the library
  (locale \<open>raft_library\<close>) is what it documents of \<open>Apply\<close>: a future that resolves without an error
  means that the command is committed and has been applied to the state machine of this node, in
  some position after what was applied when the call was made, and that \<open>Response\<close> is what the
  state machine returned.
\<close>

text \<open>The effect of a log on an abstract state.\<close>

definition log_effect :: "msgpack \<Rightarrow> bytes list \<Rightarrow> (string \<rightharpoonup> bytes) \<Rightarrow> (string \<rightharpoonup> bytes)" where
  "log_effect M es m = fold (\<lambda>e m. case dec_input M e of Inl _ \<Rightarrow> m | Inr inp \<Rightarrow> apply_input inp m) es m"

lemma log_effect_append: "log_effect M (es @ es') m = log_effect M es' (log_effect M es m)"
  by (simp add: log_effect_def)

lemma apply_log_effect: "map_of (state (apply_log M es f)) = log_effect M es (map_of (state f))"
  by (simp add: apply_log_state log_effect_def)

text \<open>An input is part of the log: applied between two other sequences of entries.\<close>

definition input_applied :: "msgpack \<Rightarrow> Input \<Rightarrow> RaftFsm \<Rightarrow> RaftFsm \<Rightarrow> bool" where
  "input_applied M inp f f' \<longleftrightarrow> (\<exists>pre post. map_of (state f') =
     log_effect M post (apply_input inp (log_effect M pre (map_of (state f)))))"

lemma input_applied_post:
  "input_applied M inp f f' \<Longrightarrow> map_of (state f'') = log_effect M es (map_of (state f')) \<Longrightarrow> input_applied M inp f f''"
  unfolding input_applied_def by (metis log_effect_append)

locale raft_library =
  fixes M :: msgpack and N :: "'w hraft" and fsm_of :: "'w \<Rightarrow> RaftFsm"
  assumes apply_committed: "r_Apply N cmd d w = (f, w') \<Longrightarrow> f_Error f = None \<Longrightarrow>
      \<exists>pre post. map_of (state (fsm_of w')) = log_effect M (pre @ [cmd] @ post) (map_of (state (fsm_of w)))"
    and apply_response: "r_Apply N cmd d w = (f, w') \<Longrightarrow> f_Error f = None \<Longrightarrow> \<exists>g. f_Response f = fst (Apply M g cmd)"
    and barrier_applies: "r_Barrier N d w = (err, w') \<Longrightarrow>
      \<exists>post. map_of (state (fsm_of w')) = log_effect M post (map_of (state (fsm_of w)))"
begin

lemma apply_input_committed:
  assumes "r_Apply N cmd d w = (f, w')" "f_Error f = None" "dec_input M cmd = Inr inp"
  shows "input_applied M inp (fsm_of w) (fsm_of w')"
    and "f_Response f = None \<longleftrightarrow> in_Op inp \<in> {InputOpUndefined, InputOpSet, InputOpDelete}"
proof -
  from apply_committed [OF assms(1,2)] obtain pre post
    where "map_of (state (fsm_of w')) = log_effect M (pre @ [cmd] @ post) (map_of (state (fsm_of w)))" by blast
  then show "input_applied M inp (fsm_of w) (fsm_of w')"
    using assms(3) by (auto simp: input_applied_def log_effect_def)
  from apply_response [OF assms(1,2)] show "f_Response f = None \<longleftrightarrow> in_Op inp \<in> {InputOpUndefined, InputOpSet, InputOpDelete}"
    using assms(3) by (auto simp: Apply_def split: if_splits)
qed

lemma success_response:
  assumes "processLeaderForwardingRPC N b (ApplyCmd \<lparr>ap_Command = cmd, ap_Timeout = t\<rparr>) w = ((stop, resp), w')"
    and "resp_Error resp = None" "dec_input M cmd = Inr inp"
  shows "(\<exists>i. resp_Response resp = ApplyResponse \<lparr>apr_Index = i, apr_Response = None\<rparr>) \<and> input_applied M inp (fsm_of w) (fsm_of w') \<or>
    (\<exists>e. resp_Response resp = ApplyResponse \<lparr>apr_Index = 0, apr_Response = Some e\<rparr>) \<and> in_Op inp \<notin> {InputOpUndefined, InputOpSet, InputOpDelete}"
proof -
  obtain f w1 where ap: "r_Apply N cmd t w = (f, w1)" by (cases "r_Apply N cmd t w")
  obtain fb w2 where ba: "r_Barrier N 0 w1 = (fb, w2)" by (cases "r_Barrier N 0 w1")
  from assms(1,2) ap ba have ok: "f_Error f = None"
    by (cases "f_Error f") (auto simp: processLeaderForwardingRPC_def split: if_splits)
  note applied = apply_input_committed [OF ap ok assms(3)]
  show ?thesis
  proof (cases "f_Response f")
    case None
    with assms(1,2) ap ba ok have "fb = None" "w' = w2"
      "resp_Response resp = ApplyResponse \<lparr>apr_Index = f_Index f, apr_Response = None\<rparr>"
      by (cases fb; auto simp: processLeaderForwardingRPC_def split: if_splits)+
    moreover obtain post where "map_of (state (fsm_of w2)) = log_effect M post (map_of (state (fsm_of w1)))"
      using barrier_applies [OF ba] by blast
    ultimately show ?thesis using input_applied_post [OF applied(1)] by blast
  next
    case (Some e)
    with assms(1,2) ap ok have "resp_Response resp = ApplyResponse \<lparr>apr_Index = 0, apr_Response = Some e\<rparr>"
      by (auto simp: processLeaderForwardingRPC_def split: if_splits)
    with applied(2) Some show ?thesis by auto
  qed
qed

end

subsection \<open>A node that commits at once\<close>

text \<open>
  The instance that shows that the contract can be fulfilled: the leader of a group of one, whose world
  is its state machine, running the state machine of this development.
\<close>

definition single_node :: "msgpack \<Rightarrow> RaftFsm hraft" where
  "single_node M = \<lparr>DefaultConfig = DefaultConfig example_hraft,
     NewRaft = (\<lambda>c w. (None, w)), BootstrapCluster = (\<lambda>s w. (None, w)), LeaderCh = (\<lambda>d w. (Some True, w)),
     r_Apply = (\<lambda>cmd d w. (\<lparr>f_Error = None, f_Index = 1, f_Response = fst (Apply M w cmd)\<rparr>, snd (Apply M w cmd))),
     r_AddVoter = (\<lambda>i a p d w. (\<lparr>f_Error = None, f_Index = 1, f_Response = None\<rparr>, w)),
     r_RemoveServer = (\<lambda>i p d w. (\<lparr>f_Error = None, f_Index = 1, f_Response = None\<rparr>, w)),
     r_Barrier = (\<lambda>d w. (None, w)), r_isLeader = (\<lambda>w. True), r_Shutdown = (\<lambda>w. (None, w)),
     ctx_Err = (\<lambda>w. None), sleep = (\<lambda>d w. w)\<rparr>"

interpretation single: raft_library M "single_node M" "\<lambda>w. w" for M
proof unfold_locales
  fix cmd :: bytes and d :: int64 and w w' :: RaftFsm and f
  assume "r_Apply (single_node M) cmd d w = (f, w')"
  then have "w' = snd (Apply M w cmd)" by (auto simp: single_node_def)
  then show "\<exists>pre post. map_of (state w') = log_effect M (pre @ [cmd] @ post) (map_of (state w))"
    by (intro exI [of _ "[]"]) (simp add: Apply_state log_effect_def)
next
  fix d :: int64 and w w' :: RaftFsm and err
  assume "r_Barrier (single_node M) d w = (err, w')"
  then show "\<exists>post. map_of (state w') = log_effect M post (map_of (state w))"
    by (intro exI [of _ "[]"]) (simp add: single_node_def log_effect_def)
qed (auto simp: single_node_def)

lemma raft_library_single: "raft_library M (single_node M) (\<lambda>w. w)"
  by (rule single.raft_library_axioms)

subsection \<open>Properties\<close>

text \<open>
  What an accepted proposal means. If \<open>ProposeInput\<close> returns nil, then, after attempts that asked
  for a retry, either the local node has applied the input to its state machine, in some position
  of the log, and its operation is a known one, or the local node was not the leader and the
  forwarded input has been acknowledged.
\<close>

theorem proposed_input_applied:
  assumes "raft_library M N fsm_of" "msgpack_codec M" "raft b" "closed_by_context E"
    and "ProposeInput M C E N b wait inp w = Some (None, w')"
  shows "\<exists>cmd w0. enc_input M inp = Inr cmd \<and> retry_rounds (propose_attempt C E N b cmd) wait w w0 \<and>
    (input_applied M inp (fsm_of w0) (fsm_of w') \<and> in_Op inp \<in> {InputOpUndefined, InputOpSet, InputOpDelete} \<or>
     (\<exists>f w1 a ar. r_Apply N cmd 0 w0 = (f, w1) \<and> f_Error f = Some (Ext HraftErrNotLeader) \<and>
        com_PublishAction E (Some (lfwTimeout b)) a ScopeState w1 = (Inr (Received ar), w') \<and>
        enc_cmd C (ApplyCmd \<lparr>ap_Command = cmd, ap_Timeout = 0\<rparr>) = Inr (act_Params a)))"
proof -
  from assms(3,5) obtain cmd where cmd: "enc_input M inp = Inr cmd"
    by (auto simp: ProposeInput_def split: sum.splits)
  then have dec: "dec_input M cmd = Inr inp" by (rule msgpack_codec.input_roundtrip [OF assms(2)])
  from ProposeInput_accepted [OF assms(3) cmd assms(4,5)] obtain w0 f w1
    where w0: "retry_rounds (propose_attempt C E N b cmd) wait w w0" "r_Apply N cmd 0 w0 = (f, w1)"
    and c: "f_Error f = None \<and> f_Response f = None \<and> w1 = w' \<or>
      f_Error f = Some (Ext HraftErrNotLeader) \<and> (\<exists>a ar. com_PublishAction E (Some (lfwTimeout b)) a ScopeState w1 = (Inr (Received ar), w') \<and>
        enc_cmd C (ApplyCmd \<lparr>ap_Command = cmd, ap_Timeout = 0\<rparr>) = Inr (act_Params a))"
    by blast
  from c show ?thesis
  proof
    assume "f_Error f = None \<and> f_Response f = None \<and> w1 = w'"
    then have "input_applied M inp (fsm_of w0) (fsm_of w')" "in_Op inp \<in> {InputOpUndefined, InputOpSet, InputOpDelete}"
      using raft_library.apply_input_committed [OF assms(1) w0(2) _ dec] by auto
    with cmd w0(1) show ?thesis by (intro exI [of _ cmd] exI [of _ w0] conjI disjI1)
  next
    assume "f_Error f = Some (Ext HraftErrNotLeader) \<and> (\<exists>a ar. com_PublishAction E (Some (lfwTimeout b)) a ScopeState w1 = (Inr (Received ar), w') \<and>
        enc_cmd C (ApplyCmd \<lparr>ap_Command = cmd, ap_Timeout = 0\<rparr>) = Inr (act_Params a))"
    with cmd w0 show ?thesis by (intro exI [of _ cmd] exI [of _ w0] conjI disjI2) auto
  qed
qed

text \<open>An attempt that succeeds ends the proposal.\<close>

lemma ProposeInput_once:
  assumes "raft b" "enc_input M inp = Inr cmd" "r_Apply N cmd 0 w = (f, w')" "f_Error f = None" "f_Response f = None"
  shows "ProposeInput M C E N b wait inp w = Some (None, w')"
proof -
  have "propose_attempt C E N b cmd (0 + 1) w = (None, w')" using assms(3-5) by (simp add: propose_attempt_def)
  then have "retry_loop lfw_backoff (propose_attempt C E N b cmd) wait 0 (Base lfw_backoff) w = Some (None, w')"
    by (rule retry_loop_stop) simp
  with assms(1,2) show ?thesis by (simp add: ProposeInput_loop)
qed

definition single_env :: "(bytes, bytes response, 'w) env" where
  "single_env = \<lparr>com_PublishAction = (\<lambda>d a s w. (Inr (ChannelClosed (Some CtxDeadlineExceeded)), w)),
     com_SubscribeAction = (\<lambda>f w. (None, w)), consume = (\<lambda>ch cmd w. (\<lparr>resp_Response = NilResponse, resp_Error = None\<rparr>, w)),
     callback = (\<lambda>ar w. (None, w)), errText = (\<lambda>e. ''raft error'')\<rparr>"

lemma single_env_closed: "closed_by_context single_env"
  by (simp add: closed_by_context_def single_env_def)

lemma leader_open: "raft leader_binding"
  by (simp add: leader_binding_def)

lemma example_applies: "fst (Apply plain_codec f (plain_enc_input example_input)) = None"
  by (simp add: Apply_def example_dec) (simp add: example_input_def)

lemma example_enc: "enc_input plain_codec example_input = Inr (plain_enc_input example_input)"
  by (simp add: plain_codec_def)

lemma single_propose:
  "ProposeInput plain_codec response_wire single_env (single_node plain_codec) leader_binding (\<lambda>d w. (None, w)) example_input NewRaftFsm =
    Some (None, snd (Apply plain_codec NewRaftFsm (plain_enc_input example_input)))"
  by (rule ProposeInput_once [OF leader_open example_enc, where f = "\<lparr>f_Error = None, f_Index = 1, f_Response = None\<rparr>"])
    (simp_all add: single_node_def example_applies)

theorem proposed_input_applied_witness:
  "\<exists>w0. input_applied plain_codec example_input w0 (snd (Apply plain_codec NewRaftFsm (plain_enc_input example_input)))"
proof -
  from proposed_input_applied [OF raft_library_single msgpack_codec_plain leader_open single_env_closed single_propose] show ?thesis
    by (auto simp: single_env_def)
qed

text \<open>
  The leader answers a forwarded input with success only after the input has been applied to its
  state machine, and with an error of the state machine exactly for an unknown operation.
\<close>

theorem leader_success_applied:
  assumes "raft_library M N fsm_of" "msgpack_codec M" "enc_input M inp = Inr cmd"
    and "processLeaderForwardingRPC N b (ApplyCmd \<lparr>ap_Command = cmd, ap_Timeout = t\<rparr>) w = ((stop, resp), w')"
    and "resp_Error resp = None"
  shows "(\<exists>i. resp_Response resp = ApplyResponse \<lparr>apr_Index = i, apr_Response = None\<rparr>) \<and> input_applied M inp (fsm_of w) (fsm_of w') \<or>
    (\<exists>e. resp_Response resp = ApplyResponse \<lparr>apr_Index = 0, apr_Response = Some e\<rparr>) \<and>
      in_Op inp \<notin> {InputOpUndefined, InputOpSet, InputOpDelete}"
  by (rule raft_library.success_response [OF assms(1,4,5)]) (rule msgpack_codec.input_roundtrip [OF assms(2,3)])

theorem leader_success_applied_witness:
  "\<exists>i. fst (processLeaderForwardingRPC (single_node plain_codec) leader_binding
        (ApplyCmd \<lparr>ap_Command = plain_enc_input example_input, ap_Timeout = 0\<rparr> :: bytes command) NewRaftFsm) =
      (False, \<lparr>resp_Response = ApplyResponse \<lparr>apr_Index = i, apr_Response = None\<rparr> :: bytes response, resp_Error = None\<rparr>) \<and>
    input_applied plain_codec example_input NewRaftFsm (snd (Apply plain_codec NewRaftFsm (plain_enc_input example_input)))"
proof -
  let ?w = "snd (Apply plain_codec NewRaftFsm (plain_enc_input example_input))"
  let ?resp = "\<lparr>resp_Response = ApplyResponse \<lparr>apr_Index = 1, apr_Response = None\<rparr> :: bytes response, resp_Error = None\<rparr>"
  have "fst (Apply plain_codec NewRaftFsm (plain_enc_input example_input)) = None"
    by (simp add: Apply_def example_dec) (simp add: example_input_def)
  then have p: "processLeaderForwardingRPC (single_node plain_codec) leader_binding
      (ApplyCmd \<lparr>ap_Command = plain_enc_input example_input, ap_Timeout = 0\<rparr> :: bytes command) NewRaftFsm = ((False, ?resp), ?w)"
    by (simp add: processLeaderForwardingRPC_def single_node_def leader_binding_def)
  have "enc_input plain_codec example_input = Inr (plain_enc_input example_input)" by (simp add: plain_codec_def)
  from leader_success_applied [OF raft_library_single msgpack_codec_plain this p] p show ?thesis by auto
qed

end
