(* ===== verification/Raft_Shutdown.thy ===== *)
theory Raft_Shutdown
  imports Prelude
begin

section \<open>Closing the Raft binding while requests are handled (raft.go, transport.go)\<close>

text \<open>
  The goroutines that meet when a binding is closed, at the granularity of their locks and channels:

  \<^item> the closer, \<open>RaftBinding.Close\<close>: it takes \<open>b.mu\<close>, deregisters the node, closes the transport
    (directly on the leader, through \<open>Shutdown\<close> elsewhere), which takes \<open>shutdownMu\<close> for writing, sets
    \<open>b.raft = nil\<close> and releases \<open>b.mu\<close>;
  \<^item> a handler per incoming forwarded request, \<open>RaftTransport.handleRpc\<close>: it takes \<open>shutdownMu\<close> for
    reading, returns at once if \<open>shutdown\<close> is set, sends the request on the unbuffered \<open>lfwChan\<close>,
    waits for the response, and releases the lock;
  \<^item> the worker, \<open>processLeaderForwardedRPCs\<close>: it receives a request, takes \<open>b.mu\<close>, responds, releases
    \<open>b.mu\<close>, and stops if \<open>b.raft\<close> is nil or the channel is closed.

  A \<open>sync.RWMutex\<close> with a waiting writer blocks new readers. The calls of the Raft library in
  between are taken to return.
\<close>

datatype closer = CStart | CLocked | CTransClose | CTransClosed | CDone

datatype handler = HStart | HRead | HSent | HResp | HDone

datatype worker = WIdle | WGot nat | WLocked nat | WStopped

datatype owner = Closer | Worker

record locks =
  mu :: "owner option" \<comment> \<open>who holds \<open>b.mu\<close>\<close>
  closer :: closer
  handlers :: "nat \<Rightarrow> handler" \<comment> \<open>one per incoming request\<close>
  worker :: worker
  sd :: bool \<comment> \<open>\<open>t.shutdown\<close>; the channels are closed\<close>
  raft_nil :: bool

definition reading :: "locks \<Rightarrow> nat \<Rightarrow> bool" where
  "reading s h \<longleftrightarrow> handlers s h \<in> {HRead, HSent, HResp}"

definition opened :: locks where
  "opened = \<lparr>mu = None, closer = CStart, handlers = (\<lambda>_. HStart), worker = WIdle, sd = False, raft_nil = False\<rparr>"

inductive lock_step :: "locks \<Rightarrow> locks \<Rightarrow> bool" where
  close_lock: "closer s = CStart \<Longrightarrow> mu s = None \<Longrightarrow> lock_step s (s\<lparr>closer := CLocked, mu := Some Closer\<rparr>)"
| close_deregistered: "closer s = CLocked \<Longrightarrow> lock_step s (s\<lparr>closer := CTransClose\<rparr>)"
| close_trans: "closer s = CTransClose \<Longrightarrow> \<forall>h. \<not> reading s h \<Longrightarrow> lock_step s (s\<lparr>closer := CTransClosed, sd := True\<rparr>)"
| close_unlock: "closer s = CTransClosed \<Longrightarrow> lock_step s (s\<lparr>closer := CDone, raft_nil := True, mu := None\<rparr>)"
| handle_rlock: "handlers s h = HStart \<Longrightarrow> closer s \<noteq> CTransClose \<Longrightarrow> \<not> sd s \<Longrightarrow>
    lock_step s (s\<lparr>handlers := (handlers s)(h := HRead)\<rparr>)"
| handle_shutdown: "handlers s h = HStart \<Longrightarrow> closer s \<noteq> CTransClose \<Longrightarrow> sd s \<Longrightarrow>
    lock_step s (s\<lparr>handlers := (handlers s)(h := HDone)\<rparr>)"
| handle_send: "handlers s h = HRead \<Longrightarrow> worker s = WIdle \<Longrightarrow>
    lock_step s (s\<lparr>handlers := (handlers s)(h := HSent), worker := WGot h\<rparr>)"
| handle_answer: "handlers s h = HResp \<Longrightarrow> lock_step s (s\<lparr>handlers := (handlers s)(h := HDone)\<rparr>)"
| work_lock: "worker s = WGot h \<Longrightarrow> mu s = None \<Longrightarrow> lock_step s (s\<lparr>worker := WLocked h, mu := Some Worker\<rparr>)"
| work_respond: "worker s = WLocked h \<Longrightarrow>
    lock_step s (s\<lparr>handlers := (handlers s)(h := HResp), worker := (if raft_nil s then WStopped else WIdle), mu := None\<rparr>)"
| work_channel_closed: "worker s = WIdle \<Longrightarrow> sd s \<Longrightarrow> lock_step s (s\<lparr>worker := WStopped\<rparr>)"

inductive_cases lock_stepE: "lock_step s s'"

text \<open>The states reachable from the open binding.\<close>

definition lock_reachable :: "locks \<Rightarrow> bool" where
  "lock_reachable s \<longleftrightarrow> lock_step\<^sup>*\<^sup>* opened s"

subsection \<open>Mutual exclusion\<close>

fun busy :: "worker \<Rightarrow> nat option" where
  "busy (WGot h) = Some h"
| "busy (WLocked h) = Some h"
| "busy _ = None"

fun holding :: "worker \<Rightarrow> bool" where
  "holding (WLocked _) = True"
| "holding _ = False"

definition mu_inv :: "locks \<Rightarrow> bool" where
  "mu_inv s \<longleftrightarrow> mu s = (if closer s \<in> {CLocked, CTransClose, CTransClosed} then Some Closer
     else if holding (worker s) then Some Worker else None) \<and>
     (closer s \<in> {CLocked, CTransClose, CTransClosed} \<longrightarrow> \<not> holding (worker s))"

definition sent_inv :: "locks \<Rightarrow> bool" where
  "sent_inv s \<longleftrightarrow> (\<forall>h. handlers s h = HSent \<longleftrightarrow> busy (worker s) = Some h)"

definition sd_inv :: "locks \<Rightarrow> bool" where
  "sd_inv s \<longleftrightarrow> (sd s \<longleftrightarrow> closer s \<in> {CTransClosed, CDone}) \<and> (raft_nil s \<longleftrightarrow> closer s = CDone)"

lemmas lock_inv_defs = mu_inv_def sent_inv_def sd_inv_def

lemma mu_inv_step: "lock_step s s' \<Longrightarrow> mu_inv s \<Longrightarrow> mu_inv s'"
  by (induction rule: lock_step.induct) (simp_all add: mu_inv_def split: if_splits)

lemma not_sent: "sent_inv s \<Longrightarrow> handlers s h \<noteq> HSent \<Longrightarrow> busy (worker s) \<noteq> Some h"
  by (simp add: sent_inv_def)

lemma sent_inv_step: "lock_step s s' \<Longrightarrow> sent_inv s \<Longrightarrow> sent_inv s'"
proof (induction rule: lock_step.induct)
  case (handle_answer s h)
  then have "busy (worker s) \<noteq> Some h" by (simp add: not_sent)
  with handle_answer show ?case by (simp add: sent_inv_def)
next
  case (handle_rlock s h)
  then have "busy (worker s) \<noteq> Some h" by (simp add: not_sent)
  with handle_rlock show ?case by (simp add: sent_inv_def)
next
  case (handle_shutdown s h)
  then have "busy (worker s) \<noteq> Some h" by (simp add: not_sent)
  with handle_shutdown show ?case by (simp add: sent_inv_def)
next
  case (handle_send s h)
  then show ?case by (auto simp: sent_inv_def)
next
  case (work_respond s h)
  then show ?case by (auto simp: sent_inv_def)
qed (simp_all add: sent_inv_def)

lemma sd_inv_step: "lock_step s s' \<Longrightarrow> sd_inv s \<Longrightarrow> sd_inv s'"
  by (induction rule: lock_step.induct) (simp_all add: sd_inv_def)

definition lock_inv :: "locks \<Rightarrow> bool" where
  "lock_inv s \<longleftrightarrow> mu_inv s \<and> sent_inv s \<and> sd_inv s"

lemma lock_inv_opened: "lock_inv opened"
  by (simp add: lock_inv_def lock_inv_defs opened_def)

lemma lock_inv_step: "lock_step s s' \<Longrightarrow> lock_inv s \<Longrightarrow> lock_inv s'"
  by (simp add: lock_inv_def mu_inv_step sent_inv_step sd_inv_step)

lemma lock_reachable_inv: "lock_reachable s \<Longrightarrow> lock_inv s"
  unfolding lock_reachable_def
  by (induction rule: rtranclp_induct) (auto intro: lock_inv_opened lock_inv_step)

subsection \<open>The cycle of waiting goroutines\<close>

text \<open>
  The closer holds \<open>b.mu\<close> and has not closed the transport; a handler that holds the read lock has to
  be served by the worker, and the worker needs \<open>b.mu\<close> for it.
\<close>

definition waiting_cycle :: "locks \<Rightarrow> bool" where
  "waiting_cycle s \<longleftrightarrow> lock_inv s \<and> closer s \<in> {CLocked, CTransClose} \<and> (\<exists>h. handlers s h \<in> {HRead, HSent})"

lemma waiting_cycle_step:
  assumes "lock_step s s'" "waiting_cycle s"
  shows "waiting_cycle s'"
proof -
  from assms have inv: "lock_inv s'" by (auto simp: waiting_cycle_def intro: lock_inv_step)
  have w: "mu s = Some Closer" "\<not> holding (worker s)" "closer s \<in> {CLocked, CTransClose}"
    using assms(2) by (auto simp: waiting_cycle_def lock_inv_def mu_inv_def)
  obtain h where h: "handlers s h = HRead \<or> handlers s h = HSent" using assms(2) by (auto simp: waiting_cycle_def)
  have "closer s' \<in> {CLocked, CTransClose} \<and> (handlers s' h = HRead \<or> handlers s' h = HSent)"
    using assms(1) w h by (cases rule: lock_step.cases) (auto simp: reading_def)
  with inv show ?thesis unfolding waiting_cycle_def by blast
qed

lemma waiting_cycle_forever: "lock_step\<^sup>*\<^sup>* s s' \<Longrightarrow> waiting_cycle s \<Longrightarrow> waiting_cycle s'"
  by (induction rule: rtranclp_induct) (auto dest: waiting_cycle_step)

subsection \<open>The way out\<close>

lemma finite_active: "lock_reachable s \<Longrightarrow> finite {h. handlers s h \<noteq> HStart}"
proof -
  have "lock_step s s' \<Longrightarrow> finite {h. handlers s h \<noteq> HStart} \<Longrightarrow> finite {h. handlers s' h \<noteq> HStart}" for s s'
  proof (induction rule: lock_step.induct)
  qed (auto elim: rev_finite_subset [OF finite.insertI])
  moreover have "finite {h. handlers opened h \<noteq> HStart}" by (simp add: opened_def)
  moreover assume "lock_reachable s"
  ultimately show ?thesis
    unfolding lock_reachable_def by - (erule rtranclp_induct, auto)
qed

lemma answer_all:
  assumes "finite H" "H = {h. handlers s h = HResp}"
  shows "\<exists>s'. lock_step\<^sup>*\<^sup>* s s' \<and> closer s' = closer s \<and> (\<forall>h. handlers s' h = (if handlers s h = HResp then HDone else handlers s h))"
  using assms
proof (induction H arbitrary: s rule: finite_induct)
  case empty
  then have "\<forall>h. handlers s h \<noteq> HResp" by blast
  then show ?case by (intro exI [of _ s]) simp
next
  case (insert h H)
  let ?s = "s\<lparr>handlers := (handlers s)(h := HDone)\<rparr>"
  have h: "handlers s h = HResp" and "H = {h. handlers ?s h = HResp}" using insert.hyps(2) insert.prems by auto
  from insert.IH [OF this(2)] obtain s' where s': "lock_step\<^sup>*\<^sup>* ?s s'" "closer s' = closer ?s"
    "\<forall>k. handlers s' k = (if handlers ?s k = HResp then HDone else handlers ?s k)" by blast
  have "lock_step s ?s" using h by (rule handle_answer)
  with s' h show ?case by (intro exI [of _ s']) (auto intro: converse_rtranclp_into_rtranclp)
qed

lemma close_finishes:
  assumes "closer s \<in> {CLocked, CTransClose}" "\<forall>h. \<not> reading s h"
  shows "\<exists>s'. lock_step\<^sup>*\<^sup>* s s' \<and> closer s' = CDone"
proof -
  have c: "\<exists>s'. lock_step\<^sup>*\<^sup>* s s' \<and> closer s' = CDone" if s: "closer s = CTransClose" "\<forall>h. \<not> reading s h" for s
  proof -
    let ?s1 = "s\<lparr>closer := CTransClosed, sd := True\<rparr>"
    have "lock_step s ?s1" using s by (rule close_trans)
    moreover have "lock_step ?s1 (?s1\<lparr>closer := CDone, raft_nil := True, mu := None\<rparr>)" by (rule close_unlock) simp
    ultimately show ?thesis
      by (intro exI [of _ "?s1\<lparr>closer := CDone, raft_nil := True, mu := None\<rparr>"]) (auto intro: rtranclp.rtrancl_into_rtrancl)
  qed
  show ?thesis
  proof (cases "closer s = CLocked")
    case True
    then have "lock_step s (s\<lparr>closer := CTransClose\<rparr>)" by (rule close_deregistered)
    with c [of "s\<lparr>closer := CTransClose\<rparr>"] assms(2) show ?thesis
      by (auto simp: reading_def intro: converse_rtranclp_into_rtranclp)
  qed (use assms c in auto)
qed

subsection \<open>Property\<close>



end
