(* ===== verification/Raft_Observer.thy ===== *)
theory Raft_Observer
  imports Raft_Binding_Props
begin

section \<open>The life of a channel that observes the state\<close>

text \<open>
  \<open>ObserveStateChange\<close> makes a channel, registers it with the state machine and starts two
  goroutines: the one of \<open>AddStateChangeObserver\<close>, which emits the current state on the channel,
  and one that waits for the end of the context, deregisters the channel and closes it, in this
  order. The steps below are the critical sections of these goroutines and of \<open>Apply\<close>, in any
  order. In Go a send on a closed channel panics: a step panics if something is sent on a channel
  that has been closed. After a panic the process is gone and there are no further steps.

  \<open>o_waiting\<close> are the goroutines that wait for the end of their context, with the id and the channel;
  \<open>o_removed\<close> are the channels that are deregistered and about to be closed.
\<close>

record ('d, 'f, 'snap) obs_sys =
  o_bind :: "('d, 'f, 'snap) RaftBinding"
  o_waiting :: "(uint64 \<times> nat) set"
  o_removed :: "nat set"
  o_closed :: "nat set"
  o_panic :: bool

datatype obs_event = Observe | ApplyEntry bytes | EmitOn nat | CtxDone uint64 nat | CloseChan nat

definition sending :: "RaftFsm \<Rightarrow> RaftFsm \<Rightarrow> ('d, 'f, 'snap) obs_sys \<Rightarrow> ('d, 'f, 'snap) obs_sys" where
  "sending f f' s =
     s\<lparr>o_bind := (o_bind s)\<lparr>fsm := Some f'\<rparr>, o_panic := (\<exists>ch \<in> o_closed s. sent f' ! ch \<noteq> sent f ! ch)\<rparr>"

inductive obs_step :: "msgpack \<Rightarrow> ('d, 'f, 'snap) obs_sys \<Rightarrow> obs_event \<Rightarrow> ('d, 'f, 'snap) obs_sys \<Rightarrow> bool"
  for M :: msgpack
where
  observe: "\<not> o_panic s \<Longrightarrow> Raft_Binding.ObserveStateChange (o_bind s) = (Inr (ch, i), b') \<Longrightarrow>
    obs_step M s Observe (s\<lparr>o_bind := b', o_waiting := insert (i, ch) (o_waiting s)\<rparr>)"
| apply_entry: "\<not> o_panic s \<Longrightarrow> fsm (o_bind s) = Some f \<Longrightarrow> obs_step M s (ApplyEntry e) (sending f (snd (Apply M f e)) s)"
| emit_state: "\<not> o_panic s \<Longrightarrow> fsm (o_bind s) = Some f \<Longrightarrow> ch \<in> set (emitting f) \<Longrightarrow>
    obs_step M s (EmitOn ch) (sending f (emitState ch f) s)"
| ctx_done: "\<not> o_panic s \<Longrightarrow> (i, ch) \<in> o_waiting s \<Longrightarrow>
    obs_step M s (CtxDone i ch)
      (s\<lparr>o_bind := state_ctx_done i (o_bind s), o_waiting := o_waiting s - {(i, ch)}, o_removed := insert ch (o_removed s)\<rparr>)"
| close_chan: "\<not> o_panic s \<Longrightarrow> ch \<in> o_removed s \<Longrightarrow>
    obs_step M s (CloseChan ch) (s\<lparr>o_removed := o_removed s - {ch}, o_closed := insert ch (o_closed s)\<rparr>)"

inductive_cases obs_stepE: "obs_step M s l s'"

text \<open>From a binding that \<open>Open\<close> has just opened: its state machine is new.\<close>

inductive obs_reachable :: "msgpack \<Rightarrow> ('d, 'f, 'snap) obs_sys \<Rightarrow> bool" for M :: msgpack where
  init: "raft b \<Longrightarrow> fsm b = Some NewRaftFsm \<Longrightarrow>
    obs_reachable M \<lparr>o_bind = b, o_waiting = {}, o_removed = {}, o_closed = {}, o_panic = False\<rparr>"
| step: "obs_reachable M s \<Longrightarrow> obs_step M s l s' \<Longrightarrow> obs_reachable M s'"

text \<open>The executions from a state, with what happens in them.\<close>

inductive obs_run :: "msgpack \<Rightarrow> ('d, 'f, 'snap) obs_sys \<Rightarrow> obs_event list \<Rightarrow> ('d, 'f, 'snap) obs_sys \<Rightarrow> bool"
  for M :: msgpack
where
  run_nil: "obs_run M s [] s"
| run_cons: "obs_step M s l s1 \<Longrightarrow> obs_run M s1 ls s' \<Longrightarrow> obs_run M s (l # ls) s'"

subsection \<open>The invariant\<close>

text \<open>
  Every registered channel has a goroutine that waits for its context with the same id, and the
  channels of waiting goroutines are neither deregistered nor closed. This needs no bound on the
  number of observers: an id that is reused after a wrap-around displaces the channel registered
  under it.
\<close>

definition obs_chans :: "(uint64 \<times> nat) set \<Rightarrow> nat set \<Rightarrow> nat set \<Rightarrow> RaftFsm \<Rightarrow> bool" where
  "obs_chans W R K f \<longleftrightarrow> set (observers f) \<subseteq> W \<and> inj_on snd W \<and> snd ` W \<inter> (R \<union> K) = {} \<and>
     (\<forall>ch \<in> snd ` W \<union> R \<union> K. ch < length (sent f))"

definition obs_inv :: "('d, 'f, 'snap) obs_sys \<Rightarrow> bool" where
  "obs_inv s \<longleftrightarrow> raft (o_bind s) \<and>
     (\<exists>f. fsm (o_bind s) = Some f \<and> fsm_inv f \<and> obs_chans (o_waiting s) (o_removed s) (o_closed s) f)"

lemma obs_chans_mono:
  "obs_chans W R K f \<Longrightarrow> observers f' = observers f \<Longrightarrow> length (sent f') = length (sent f) \<Longrightarrow> obs_chans W R K f'"
  by (simp add: obs_chans_def)

lemma set_update_subset: "set (AList.update k v m) \<subseteq> insert (k, v) (set m)"
  by (induction m) auto

lemma obs_chans_add:
  assumes "obs_chans W R K f"
  shows "obs_chans (insert (nextObserverId f + 1, length (sent f)) W) R K (AddStateChangeObserver f)"
proof -
  have fresh: "length (sent f) \<notin> snd ` W \<union> R \<union> K" using assms by (auto simp: obs_chans_def)
  have "set (observers (AddStateChangeObserver f)) \<subseteq> insert (nextObserverId f + 1, length (sent f)) W"
    using assms set_update_subset [of "nextObserverId f + 1" "length (sent f)" "observers f"]
    by (auto simp: obs_chans_def AddStateChangeObserver_def Let_def)
  moreover have "inj_on snd (insert (nextObserverId f + 1, length (sent f)) W)"
    using assms fresh by (auto simp: obs_chans_def)
  ultimately show ?thesis
    using assms fresh by (auto simp: obs_chans_def AddStateChangeObserver_def Let_def less_Suc_eq)
qed

lemma obs_chans_remove:
  assumes "obs_chans W R K f" "(i, ch) \<in> W"
  shows "obs_chans (W - {(i, ch)}) (insert ch R) K (RemoveStateChangeObserver i f)"
proof -
  have "inj_on snd W" using assms(1) by (simp add: obs_chans_def)
  then have "ch \<notin> snd ` (W - {(i, ch)})" using assms(2) inj_onD [of snd W _ "(i, ch)"] by fastforce
  moreover have "set (AList.delete i (observers f)) \<subseteq> W - {(i, ch)}"
    using assms by (auto simp: obs_chans_def AList.delete_eq)
  moreover have "ch < length (sent f)" using assms by (force simp: obs_chans_def)
  ultimately show ?thesis
    using assms by (auto simp: obs_chans_def RemoveStateChangeObserver_def inj_on_diff)
qed

lemma obs_chans_close: "obs_chans W R K f \<Longrightarrow> ch \<in> R \<Longrightarrow> obs_chans W (R - {ch}) (insert ch K) f"
  by (auto simp: obs_chans_def)

lemma Apply_observers [simp]: "observers (snd (Apply M f e)) = observers f"
  by (simp add: Apply_def split: sum.splits)

lemma Apply_length_sent [simp]: "length (sent (snd (Apply M f e))) = length (sent f)"
  by (simp add: Apply_def split: sum.splits)

lemma emitState_sent:
  "fsm_inv f \<Longrightarrow> ch \<in> set (emitting f) \<Longrightarrow> sent (emitState ch f) = (sent f)[ch := sent f ! ch @ map set_input (state f)]"
  using emit_sent [of ch "sent f" "state f"] by (simp add: emitState_def fsm_inv_def)

lemma ObserveStateChange_open:
  "raft b \<Longrightarrow> fsm b = Some f \<Longrightarrow> Raft_Binding.ObserveStateChange b =
    (Inr (length (sent f), nextObserverId f + 1), b\<lparr>fsm := Some (AddStateChangeObserver f)\<rparr>)"
  by (simp add: Raft_Binding.ObserveStateChange_def observer_id_def AddStateChangeObserver_def Let_def)

lemma obs_step_inv: "obs_step M s l s' \<Longrightarrow> obs_inv s \<Longrightarrow> obs_inv s'"
proof (induction rule: obs_step.induct)
  case (observe s ch i b')
  then obtain f where "raft (o_bind s)" "fsm (o_bind s) = Some f" "fsm_inv f"
    "obs_chans (o_waiting s) (o_removed s) (o_closed s) f" by (auto simp: obs_inv_def)
  with observe.hyps(2) show ?case
    by (auto simp: obs_inv_def ObserveStateChange_open intro: fsm_inv_Add obs_chans_add)
next
  case (apply_entry s f e)
  then show ?case by (auto simp: obs_inv_def sending_def intro: fsm_inv_Apply obs_chans_mono)
next
  case (emit_state s f ch)
  then have "fsm_inv f" by (simp add: obs_inv_def)
  with emit_state have "length (sent (emitState ch f)) = length (sent f)" by (simp add: emitState_sent)
  with emit_state show ?case
    by (auto simp: obs_inv_def sending_def intro: fsm_inv_emit elim!: obs_chans_mono) (simp add: emitState_def)
next
  case (ctx_done s i ch)
  then show ?case by (auto simp: obs_inv_def state_ctx_done_def intro: fsm_inv_Remove obs_chans_remove)
next
  case (close_chan s ch)
  then show ?case by (auto simp: obs_inv_def intro: obs_chans_close)
qed

lemma obs_reachable_inv: "obs_reachable M s \<Longrightarrow> obs_inv s"
proof (induction rule: obs_reachable.induct)
  case (init b)
  then show ?case by (simp add: obs_inv_def obs_chans_def fsm_inv_New) (simp add: NewRaftFsm_def)
qed (rule obs_step_inv)

subsection \<open>Which steps panic\<close>

lemma Apply_no_panic:
  assumes "fsm_inv f" "obs_chans W R K f" "ch \<in> K"
  shows "sent (snd (Apply M f e)) ! ch = sent f ! ch"
proof -
  have "ch \<notin> snd ` set (observers f)" using assms(2,3) by (auto simp: obs_chans_def)
  moreover have "distinct (map snd (observers f))" "\<forall>(i, ch) \<in> set (observers f). ch < length (sent f)"
    using assms(1) by (auto simp: fsm_inv_def obs_ok_def)
  ultimately show ?thesis
    using fold_send_nth [of "observers f" "sent f" _ ch] by (auto simp: Apply_def sendStateChange_def split: sum.splits)
qed

lemma emitState_panic:
  assumes "fsm_inv f" "ch \<in> set (emitting f)"
  shows "sent (emitState ch f) ! c \<noteq> sent f ! c \<longleftrightarrow> c = ch \<and> state f \<noteq> []"
proof -
  have "ch < length (sent f)" using assms by (simp add: fsm_inv_def)
  then show ?thesis by (cases "c = ch") (simp_all add: emitState_sent [OF assms])
qed

lemma obs_step_panic:
  assumes "obs_step M s l s'" "obs_inv s"
  shows "o_panic s' \<longleftrightarrow> (\<exists>ch. l = EmitOn ch \<and> ch \<in> o_closed s \<and> state (the (fsm (o_bind s))) \<noteq> [])"
  using assms
proof (induction rule: obs_step.induct)
  case (apply_entry s f e)
  then show ?case by (auto simp: obs_inv_def sending_def dest: Apply_no_panic [where M = M and e = e])
next
  case (emit_state s f ch)
  then show ?case by (auto simp: obs_inv_def sending_def emitState_panic)
qed simp_all

text \<open>The execution that ends in a panic: observe, the context ends, the channel is closed, the state is emitted.\<close>

lemma late_emit_panics:
  fixes s :: "('d, 'f, 'snap) obs_sys"
  assumes inv: "obs_inv s" and np: "\<not> o_panic s" and st: "state (the (fsm (o_bind s))) \<noteq> []"
  shows "\<exists>i ch s'. obs_run M s [Observe, CtxDone i ch, CloseChan ch, EmitOn ch] s' \<and> o_panic s'"
proof -
  obtain f where f: "raft (o_bind s)" "fsm (o_bind s) = Some f" "fsm_inv f" using inv by (auto simp: obs_inv_def)
  define i ch where "i = nextObserverId f + 1" and "ch = length (sent f)"
  define f2 where "f2 = RemoveStateChangeObserver i (AddStateChangeObserver f)"
  define s1 where "s1 = s\<lparr>o_bind := (o_bind s)\<lparr>fsm := Some (AddStateChangeObserver f)\<rparr>, o_waiting := insert (i, ch) (o_waiting s)\<rparr>"
  define s2 where "s2 = s1\<lparr>o_bind := state_ctx_done i (o_bind s1), o_waiting := o_waiting s1 - {(i, ch)}, o_removed := insert ch (o_removed s1)\<rparr>"
  define s3 where "s3 = s2\<lparr>o_removed := o_removed s2 - {ch}, o_closed := insert ch (o_closed s2)\<rparr>"
  have 1: "obs_step M s Observe s1"
    unfolding s1_def by (rule obs_step.observe [OF np]) (simp add: ObserveStateChange_open f i_def ch_def)
  have 2: "obs_step M s1 (CtxDone i ch) s2"
    unfolding s2_def by (rule obs_step.ctx_done) (simp_all add: s1_def np)
  have 3: "obs_step M s2 (CloseChan ch) s3"
    unfolding s3_def by (rule obs_step.close_chan) (simp_all add: s2_def s1_def np)
  have fsm3: "fsm (o_bind s3) = Some f2" "\<not> o_panic s3" by (simp_all add: s3_def s2_def s1_def f2_def state_ctx_done_def np)
  have "ch \<in> set (emitting f2)" by (simp add: f2_def ch_def RemoveStateChangeObserver_def AddStateChangeObserver_def Let_def)
  from obs_step.emit_state [OF fsm3(2,1) this] have 4: "obs_step M s3 (EmitOn ch) (sending f2 (emitState ch f2) s3)" .
  have "obs_inv s3" by (rule obs_step_inv [OF 3 obs_step_inv [OF 2 obs_step_inv [OF 1 inv]]])
  moreover have "ch \<in> o_closed s3" "state f2 \<noteq> []"
    using st f by (simp_all add: s3_def f2_def RemoveStateChangeObserver_def AddStateChangeObserver_def Let_def)
  ultimately have "o_panic (sending f2 (emitState ch f2) s3)" using obs_step_panic [OF 4] fsm3 by simp
  with 1 2 3 4 show ?thesis by (metis obs_run.intros)
qed

subsection \<open>Properties\<close>

text \<open>
  C36: sends on closed channels. Whatever observers are added, end and are closed, and whatever
  entries are applied in between, \<open>Apply\<close> never sends on a closed channel: the only step that
  panics is a goroutine of \<open>AddStateChangeObserver\<close> that emits a non-empty state after the context of its
  observer has ended and the channel has been closed. Such an execution exists from every state
  in which the replicated state is not empty, because nothing orders the two goroutines.
\<close>

theorem observer_panic_iff_late_emit:
  fixes s :: "('d, 'f, 'snap) obs_sys"
  assumes "obs_reachable M s" "\<not> o_panic s"
  shows "(\<forall>l s'. obs_step M s l s' \<longrightarrow>
      (o_panic s' \<longleftrightarrow> (\<exists>ch. l = EmitOn ch \<and> ch \<in> o_closed s \<and> state (the (fsm (o_bind s))) \<noteq> []))) \<and>
    (state (the (fsm (o_bind s))) \<noteq> [] \<longrightarrow>
      (\<exists>i ch s'. obs_run M s [Observe, CtxDone i ch, CloseChan ch, EmitOn ch] s' \<and> o_panic s'))"
  using obs_step_panic late_emit_panics assms(2) obs_reachable_inv [OF assms(1)] by blast

theorem observer_panic_iff_late_emit_witness:
  "\<exists>(s :: (unit, unit, unit) obs_sys) i ch s'. \<not> o_panic s \<and>
    obs_run plain_codec s [Observe, CtxDone i ch, CloseChan ch, EmitOn ch] s' \<and> o_panic s'"
proof -
  let ?start = "\<lparr>o_bind = example_binding, o_waiting = {}, o_removed = {}, o_closed = {}, o_panic = False\<rparr>"
  let ?s = "sending NewRaftFsm (snd (Apply plain_codec NewRaftFsm (plain_enc_input example_input))) ?start"
  have r0: "obs_reachable plain_codec ?start" by (rule obs_reachable.init) (simp_all add: example_binding_def)
  have "obs_step plain_codec ?start (ApplyEntry (plain_enc_input example_input)) ?s"
    by (rule obs_step.apply_entry) (simp_all add: example_binding_def)
  from obs_reachable.step [OF r0 this] have r: "obs_reachable plain_codec ?s" .
  have "\<not> o_panic ?s" "state (the (fsm (o_bind ?s))) \<noteq> []"
    by (simp_all add: sending_def Apply_def example_dec) (simp add: example_input_def op_defs NewRaftFsm_def)
  with observer_panic_iff_late_emit [OF r] show ?thesis by blast
qed

end
