(* ===== verification/Raft_Backpressure.thy ===== *)
theory Raft_Backpressure
  imports Raft_Observer
begin

section \<open>Observers that stop receiving\<close>

text \<open>
  The channels of observers are bounded: \<open>ObserveStateChange\<close> makes them with 256 places, and
  \<open>Apply\<close> and the goroutine of \<open>AddStateChangeObserver\<close> send on them while they hold the mutex \<open>f.mu\<close> of the
  state machine. Deregistering an observer needs the same mutex. Here a send is a step of its own,
  which waits while the channel is full; \<open>b_sends\<close> are the sends the holder of the mutex has still to do
  (\<open>None\<close>: the mutex is free), \<open>b_fill\<close> the number of inputs in a channel, \<open>b_reading\<close> the channels
  somebody receives from. \<open>b_fsm\<close> is the state machine as its critical section leaves it: the inputs sent are
  recorded there when the section begins. The consumer of a gRPC stream stops receiving in the moment it cancels
  the context (\<open>grpc.go\<close>, the two branches of its \<open>select\<close> that return).
\<close>

definition stateChangeCap :: nat where
  "stateChangeCap = 256"

text \<open>The channels an entry, and a new observer, make the state machine send on.\<close>

definition apply_sends :: "msgpack \<Rightarrow> RaftFsm \<Rightarrow> bytes \<Rightarrow> nat list" where
  "apply_sends M f e =
     (case dec_input M e of
        Inl _ \<Rightarrow> []
      | Inr inp \<Rightarrow> if in_Op inp = InputOpSet \<or> in_Op inp = InputOpDelete then map snd (observers f) else [])"

definition emit_sends :: "RaftFsm \<Rightarrow> nat \<Rightarrow> nat list" where
  "emit_sends f ch = map (\<lambda>_. ch) (state f)"

lemma apply_sends_sent:
  "dec_input M e = Inr inp \<Longrightarrow> sent (snd (Apply M f e)) = fold (\<lambda>ch. send ch (cloneInput inp)) (apply_sends M f e) (sent f)"
  by (auto simp: Apply_def apply_sends_def sendStateChange_def fold_map comp_def case_prod_unfold op_defs)

lemma emit_sends_sent: "length (emit_sends f ch) = length (state f)" "set (emit_sends f ch) \<subseteq> {ch}"
  by (auto simp: emit_sends_def)

record bsys =
  b_fsm :: RaftFsm
  b_sends :: "nat list option"
  b_fill :: "nat \<Rightarrow> nat"
  b_reading :: "nat set"

inductive bstep :: "msgpack \<Rightarrow> bsys \<Rightarrow> bsys \<Rightarrow> bool" for M :: msgpack where
  observe: "b_sends s = None \<Longrightarrow>
    bstep M s (s\<lparr>b_fsm := AddStateChangeObserver (b_fsm s), b_reading := insert (length (sent (b_fsm s))) (b_reading s)\<rparr>)"
| apply_entry: "b_sends s = None \<Longrightarrow>
    bstep M s (s\<lparr>b_fsm := snd (Apply M (b_fsm s) e), b_sends := Some (apply_sends M (b_fsm s) e)\<rparr>)"
| emit: "b_sends s = None \<Longrightarrow> ch \<in> set (emitting (b_fsm s)) \<Longrightarrow>
    bstep M s (s\<lparr>b_fsm := emitState ch (b_fsm s), b_sends := Some (emit_sends (b_fsm s) ch)\<rparr>)"
| send_one: "b_sends s = Some (ch # chs) \<Longrightarrow> b_fill s ch < stateChangeCap \<Longrightarrow>
    bstep M s (s\<lparr>b_sends := Some chs, b_fill := (b_fill s)(ch := Suc (b_fill s ch))\<rparr>)"
| unlock: "b_sends s = Some [] \<Longrightarrow> bstep M s (s\<lparr>b_sends := None\<rparr>)"
| receive: "ch \<in> b_reading s \<Longrightarrow> 0 < b_fill s ch \<Longrightarrow> bstep M s (s\<lparr>b_fill := (b_fill s)(ch := b_fill s ch - 1)\<rparr>)"
| stop: "ch \<in> b_reading s \<Longrightarrow> bstep M s (s\<lparr>b_reading := b_reading s - {ch}\<rparr>)"
| remove: "b_sends s = None \<Longrightarrow> (i, ch) \<in> set (observers (b_fsm s)) \<Longrightarrow> ch \<notin> b_reading s \<Longrightarrow>
    bstep M s (s\<lparr>b_fsm := RemoveStateChangeObserver i (b_fsm s)\<rparr>)"

subsection \<open>A send that waits for ever\<close>

definition stuck_on :: "nat \<Rightarrow> bsys \<Rightarrow> bool" where
  "stuck_on ch s \<longleftrightarrow> ch \<notin> b_reading s \<and>
     (\<exists>chs. b_sends s = Some chs \<and> ch \<in> set chs \<and> stateChangeCap < b_fill s ch + count_list chs ch)"

lemma stuck_step: "bstep M s s' \<Longrightarrow> stuck_on ch s \<Longrightarrow> stuck_on ch s' \<and> b_fsm s' = b_fsm s"
proof (induction rule: bstep.induct)
  case (send_one s c chs)
  moreover have "ch \<in> set chs" if "stateChangeCap < Suc (b_fill s ch) + count_list chs ch" "b_fill s ch < stateChangeCap"
    using that count_notin [of ch chs] by (cases "ch \<in> set chs") simp_all
  ultimately show ?case by (auto simp: stuck_on_def)
qed (auto simp: stuck_on_def)

lemma stuck_forever:
  assumes "(bstep M)\<^sup>*\<^sup>* s s'" "stuck_on ch s"
  shows "stuck_on ch s' \<and> b_fsm s' = b_fsm s"
  using assms by (induction rule: rtranclp_induct) (auto dest: stuck_step)

lemma drain:
  assumes "ch \<in> b_reading s"
  shows "\<exists>n. (bstep M)\<^sup>*\<^sup>* s (s\<lparr>b_fill := (b_fill s)(ch := n)\<rparr>) \<and> n < stateChangeCap"
  using assms
proof (induction "b_fill s ch" arbitrary: s)
  case 0
  show ?case
  proof (intro exI conjI)
    show "(bstep M)\<^sup>*\<^sup>* s (s\<lparr>b_fill := (b_fill s)(ch := b_fill s ch)\<rparr>)" by (simp only: fun_upd_triv) simp
    show "b_fill s ch < stateChangeCap" using 0 by (simp add: stateChangeCap_def)
  qed
next
  case (Suc k)
  let ?s = "s\<lparr>b_fill := (b_fill s)(ch := b_fill s ch - 1)\<rparr>"
  have "bstep M s ?s" using Suc by (intro receive) simp_all
  moreover obtain n where "(bstep M)\<^sup>*\<^sup>* ?s (?s\<lparr>b_fill := (b_fill ?s)(ch := n)\<rparr>)" "n < stateChangeCap"
    using Suc.hyps(1) [of ?s] Suc.hyps(2) [symmetric] Suc.prems by auto
  ultimately show ?case by (intro exI [of _ n]) (simp add: converse_rtranclp_into_rtranclp)
qed

text \<open>The sends of the holder can be completed if every channel is received from or has room for them.\<close>

definition room :: "nat list \<Rightarrow> bsys \<Rightarrow> bool" where
  "room chs s \<longleftrightarrow> (\<forall>ch \<in> set chs. ch \<in> b_reading s \<or> b_fill s ch + count_list chs ch \<le> stateChangeCap)"

lemma room_completes:
  assumes "b_sends s = Some chs" "room chs s"
  shows "\<exists>s'. (bstep M)\<^sup>*\<^sup>* s s' \<and> b_sends s' = None"
  using assms
proof (induction chs arbitrary: s)
  case Nil
  then show ?case by (intro exI [of _ "s\<lparr>b_sends := None\<rparr>"]) (auto intro: unlock)
next
  case (Cons ch chs)
  have "\<exists>n. (bstep M)\<^sup>*\<^sup>* s (s\<lparr>b_fill := (b_fill s)(ch := n)\<rparr>) \<and> n < stateChangeCap \<and> (ch \<notin> b_reading s \<longrightarrow> n = b_fill s ch)"
  proof (cases "ch \<in> b_reading s")
    case True
    with drain show ?thesis by blast
  next
    case False
    with Cons.prems(2) have "b_fill s ch < stateChangeCap" by (auto simp: room_def)
    moreover have "s\<lparr>b_fill := (b_fill s)(ch := b_fill s ch)\<rparr> = s" by simp
    ultimately show ?thesis by (intro exI [of _ "b_fill s ch"]) simp
  qed
  then obtain n where n: "(bstep M)\<^sup>*\<^sup>* s (s\<lparr>b_fill := (b_fill s)(ch := n)\<rparr>)" "n < stateChangeCap" "ch \<notin> b_reading s \<longrightarrow> n = b_fill s ch"
    by blast
  let ?s1 = "s\<lparr>b_fill := (b_fill s)(ch := n)\<rparr>"
  let ?s2 = "?s1\<lparr>b_sends := Some chs, b_fill := (b_fill ?s1)(ch := Suc (b_fill ?s1 ch))\<rparr>"
  have "bstep M ?s1 ?s2" using Cons.prems(1) n(2) by (intro send_one) simp_all
  moreover have "room chs ?s2" using Cons.prems(2) n(3) by (auto simp: room_def)
  then obtain s' where "(bstep M)\<^sup>*\<^sup>* ?s2 s'" "b_sends s' = None" using Cons.IH [of ?s2] by auto
  ultimately show ?case using n(1) by (meson rtranclp.rtrancl_into_rtrancl rtranclp_trans)
qed

subsection \<open>Filling a channel\<close>

text \<open>One observer of a new state machine, which has been sent the (empty) state.\<close>

definition observed :: "RaftFsm \<Rightarrow> nat \<Rightarrow> bsys" where
  "observed f n = \<lparr>b_fsm = f, b_sends = None, b_fill = (\<lambda>_. 0)(0 := n), b_reading = {0}\<rparr>"

lemma fill_one:
  assumes "dec_input M e = Inr inp" "in_Op inp = InputOpSet" "map snd (observers f) = [0]" "n < stateChangeCap"
  shows "(bstep M)\<^sup>*\<^sup>* (observed f n) (observed (snd (Apply M f e)) (Suc n))"
proof -
  let ?s1 = "(observed f n)\<lparr>b_fsm := snd (Apply M f e), b_sends := Some (apply_sends M f e)\<rparr>"
  let ?s2 = "?s1\<lparr>b_sends := Some [], b_fill := (b_fill ?s1)(0 := Suc (b_fill ?s1 0))\<rparr>"
  have 1: "bstep M (observed f n) ?s1" using apply_entry [of "observed f n" M e] by (simp add: observed_def)
  have 2: "bstep M ?s1 ?s2" using assms by (intro send_one) (simp_all add: apply_sends_def observed_def)
  have 3: "bstep M ?s2 (?s2\<lparr>b_sends := None\<rparr>)" by (rule unlock) simp
  have "?s2\<lparr>b_sends := None\<rparr> = observed (snd (Apply M f e)) (Suc n)" by (simp add: observed_def)
  with converse_rtranclp_into_rtranclp [OF 1 converse_rtranclp_into_rtranclp [OF 2 r_into_rtranclp [of "bstep M", OF 3]]]
  show ?thesis by (simp only:)
qed

lemma fill_up:
  assumes "dec_input M e = Inr inp" "in_Op inp = InputOpSet" "map snd (observers f) = [0]" "n \<le> stateChangeCap"
  shows "\<exists>f'. (bstep M)\<^sup>*\<^sup>* (observed f 0) (observed f' n) \<and> observers f' = observers f"
  using assms(4)
proof (induction n)
  case 0
  then show ?case by (intro exI [of _ f]) simp
next
  case (Suc n)
  then obtain f' where f': "(bstep M)\<^sup>*\<^sup>* (observed f 0) (observed f' n)" "observers f' = observers f" by auto
  with fill_one [OF assms(1,2), of f' n] assms(3) Suc.prems show ?case
    by (intro exI [of _ "snd (Apply M f' e)"]) auto
qed

lemma slow_observer_blocks:
  assumes "dec_input M e = Inr inp" "in_Op inp = InputOpSet" "map snd (observers f) = [0]"
  shows "\<exists>s. (bstep M)\<^sup>*\<^sup>* (observed f 0) s \<and> stuck_on 0 s"
proof -
  obtain f' where f': "(bstep M)\<^sup>*\<^sup>* (observed f 0) (observed f' stateChangeCap)" "observers f' = observers f"
    using fill_up [OF assms, of stateChangeCap] by auto
  let ?s1 = "(observed f' stateChangeCap)\<lparr>b_reading := b_reading (observed f' stateChangeCap) - {0}\<rparr>"
  let ?s2 = "?s1\<lparr>b_fsm := snd (Apply M f' e), b_sends := Some (apply_sends M f' e)\<rparr>"
  have "bstep M (observed f' stateChangeCap) ?s1" by (rule stop) (simp add: observed_def)
  moreover have "bstep M ?s1 ?s2" using apply_entry [of ?s1 M e] by (simp add: observed_def)
  moreover have "stuck_on 0 ?s2" using assms f'(2) by (simp add: stuck_on_def observed_def apply_sends_def)
  ultimately show ?thesis using f'(1) by (metis rtranclp.rtrancl_into_rtrancl)
qed

subsection \<open>Properties\<close>

text \<open>
  C34: the mutex of the state machine under slow observers. While it is held for sending, it is released in
  some execution if and only if every channel still to be sent on is received from, or has room for all
  inputs still to be sent on it. Otherwise it is never released: no entry is applied and no observer
  can be deregistered any more, whatever happens to its context. This state is reached from
  one observer that stops receiving when its channel is full, as the handler of a gRPC
  stream does when its client cancels the stream.
\<close>

theorem fsm_mutex_released_iff:
  assumes "b_sends s = Some chs" "dec_input M e = Inr inp" "in_Op inp = InputOpSet" "map snd (observers f) = [0]"
  shows "((\<exists>s'. (bstep M)\<^sup>*\<^sup>* s s' \<and> b_sends s' = None) \<longleftrightarrow>
      (\<forall>ch \<in> set chs. ch \<in> b_reading s \<or> b_fill s ch + count_list chs ch \<le> stateChangeCap)) \<and>
    ((\<nexists>s'. (bstep M)\<^sup>*\<^sup>* s s' \<and> b_sends s' = None) \<longrightarrow> (\<forall>s'. (bstep M)\<^sup>*\<^sup>* s s' \<longrightarrow> b_fsm s' = b_fsm s)) \<and>
    (\<exists>s1. (bstep M)\<^sup>*\<^sup>* (observed f 0) s1 \<and> (\<nexists>s'. (bstep M)\<^sup>*\<^sup>* s1 s' \<and> b_sends s' = None))"
proof -
  have stuck: "stuck_on ch s" if "ch \<in> set chs" "ch \<notin> b_reading s" "\<not> b_fill s ch + count_list chs ch \<le> stateChangeCap" for ch
    using that assms(1) by (simp add: stuck_on_def)
  have held: "b_sends s' \<noteq> None" if "(bstep M)\<^sup>*\<^sup>* s1 s'" "stuck_on ch s1" for ch s1 s'
    using stuck_forever [OF that] by (auto simp: stuck_on_def)
  have iff: "(\<exists>s'. (bstep M)\<^sup>*\<^sup>* s s' \<and> b_sends s' = None) \<longleftrightarrow> room chs s"
    using room_completes [OF assms(1)] stuck held unfolding room_def by metis
  have same: "b_fsm s' = b_fsm s" if "\<not> room chs s" "(bstep M)\<^sup>*\<^sup>* s s'" for s'
    using that stuck stuck_forever unfolding room_def by metis
  show ?thesis
  proof (intro conjI)
    show "(\<exists>s'. (bstep M)\<^sup>*\<^sup>* s s' \<and> b_sends s' = None) \<longleftrightarrow>
        (\<forall>ch \<in> set chs. ch \<in> b_reading s \<or> b_fill s ch + count_list chs ch \<le> stateChangeCap)"
      using iff unfolding room_def .
    show "(\<nexists>s'. (bstep M)\<^sup>*\<^sup>* s s' \<and> b_sends s' = None) \<longrightarrow> (\<forall>s'. (bstep M)\<^sup>*\<^sup>* s s' \<longrightarrow> b_fsm s' = b_fsm s)"
      unfolding iff using same by blast
    show "\<exists>s1. (bstep M)\<^sup>*\<^sup>* (observed f 0) s1 \<and> (\<nexists>s'. (bstep M)\<^sup>*\<^sup>* s1 s' \<and> b_sends s' = None)"
      using slow_observer_blocks [OF assms(2-4)] held by metis
  qed
qed

theorem fsm_mutex_released_iff_witness:
  "\<exists>s. (bstep plain_codec)\<^sup>*\<^sup>* (observed example_observed 0) s \<and> (\<nexists>s'. (bstep plain_codec)\<^sup>*\<^sup>* s s' \<and> b_sends s' = None)"
proof -
  have "b_sends ((observed example_observed 0)\<lparr>b_sends := Some []\<rparr>) = Some []" by simp
  moreover have "in_Op example_input = InputOpSet" "map snd (observers example_observed) = [0]"
    by (simp_all add: example_input_def example_observed_eq)
  ultimately show ?thesis by (rule fsm_mutex_released_iff [OF _ example_dec, THEN conjunct2, THEN conjunct2])
qed

end
