(* ===== verification/Grpc.thy ===== *)
theory Grpc
  imports Com_Api Services Store_Api Fsm
begin

section \<open>The gRPC server (apis/grpc/grpc.go, apis/grpc/grpcweb.go)\<close>

text \<open>
  Every handler of the gRPC API on the services behind it: the communication and the state service
  are records of their operations on a world \<open>'w\<close>, the storage service is the Pebble binding. A
  message of the generated stubs has the fields of the API struct it is converted to and is
  modelled by the same record; a getter of an absent message returns the zero value.

  A server stream is served by a loop that selects between the channel of the service and the end
  of the client's call: its input is the sequence of what was selected, its output the messages
  given to \<open>stream.Send\<close>, whose errors are ignored. On a sequence without an end the loop is
  still running, and the result is \<open>None\<close>.
\<close>

datatype code = Unavailable | InvalidArgument

datatype grpcerr = Status code string "goerr option" | Plain goerr

record 'w com_service =
  cs_PublishEvent :: "Event \<Rightarrow> 'w \<Rightarrow> goerr option \<times> 'w"
  cs_SubscribeEvent :: "SubscriptionFilter \<Rightarrow> 'w \<Rightarrow> goerr option \<times> 'w"
  cs_PublishAction :: "Action \<Rightarrow> 'w \<Rightarrow> goerr option \<times> 'w"
  cs_SubscribeAction :: "SubscriptionFilter \<Rightarrow> 'w \<Rightarrow> goerr option \<times> 'w"
  cs_PublishQuery :: "Query \<Rightarrow> 'w \<Rightarrow> goerr option \<times> 'w"
  cs_SubscribeQuery :: "SubscriptionFilter \<Rightarrow> 'w \<Rightarrow> goerr option \<times> 'w"
  cs_ActionCallback :: "Callback \<Rightarrow> ActionResult \<Rightarrow> 'w \<Rightarrow> goerr option \<times> 'w"
  cs_QueryCallback :: "Callback \<Rightarrow> QueryResult \<Rightarrow> 'w \<Rightarrow> goerr option \<times> 'w"

record 'w state_service =
  ss_ProposeInput :: "Input \<Rightarrow> 'w \<Rightarrow> (goerr option \<times> 'w) option"
  ss_ObserveStateChange :: "'w \<Rightarrow> goerr option \<times> 'w"
  ss_ObserveMembershipChange :: "'w \<Rightarrow> goerr option \<times> 'w"

record ('d, 'f) grpcServer =
  comApi :: bool
  storeApi :: "('d, 'f) PebbleBinding option"
  stateApi :: bool
  srv :: bool
  httpSrv :: bool
  actionCallbacks :: "(string, Callback) gomap"
  queryCallbacks :: "(string, Callback) gomap"

definition New :: "bool \<Rightarrow> ('d, 'f) PebbleBinding option \<Rightarrow> bool \<Rightarrow> ('d, 'f) grpcServer" where
  "New com store' state' = \<lparr>comApi = com, storeApi = store', stateApi = state', srv = False, httpSrv = False,
     actionCallbacks = [], queryCallbacks = []\<rparr>"

subsection \<open>Errors\<close>

definition codeByError :: "goerr \<Rightarrow> code" where
  "codeByError err = (if IsRetryable (Some err) then Unavailable else InvalidArgument)"

definition status_error :: "string \<Rightarrow> goerr \<Rightarrow> grpcerr" where
  "status_error msg err = Status (codeByError err) msg (Some err)"

definition serviceDisabledError :: "string \<Rightarrow> grpcerr" where
  "serviceDisabledError name = status_error ''failed: %v'' (RetryableErrorf (''service '' @ name @ '' is disabled''))"

subsection \<open>Opening and closing\<close>

record net =
  NewServerTLSFromFile :: "string \<Rightarrow> string \<Rightarrow> goerr option"
  os_Remove :: "string \<Rightarrow> goerr option" \<comment> \<open>nil if the file does not exist\<close>
  net_Listen :: "string \<Rightarrow> string \<Rightarrow> goerr option"
  LoadX509KeyPair :: "string \<Rightarrow> string \<Rightarrow> goerr option"

definition makeHttpOriginFunc :: "string list \<Rightarrow> string \<Rightarrow> bool" where
  "makeHttpOriginFunc origins origin = (if length origins = 0 then True else origin \<in> set origins)"

definition openWebServer :: "net \<Rightarrow> ('d, 'f) grpcServer \<Rightarrow> Config \<Rightarrow> goerr option \<times> ('d, 'f) grpcServer" where
  "openWebServer T s cfg =
     (if web_Disabled (GrpcWeb (Apis cfg)) then (None, s)
      else if apis_Cert (Apis cfg) \<noteq> '''' \<and> apis_Key (Apis cfg) \<noteq> '''' \<and>
              LoadX509KeyPair T (apis_Cert (Apis cfg)) (apis_Key (Apis cfg)) \<noteq> None
      then (Some (Errorf ''invalid or missing PEM file in DDA configuration under 'apis.cert/.key' : %w''), s)
      else (None, s\<lparr>httpSrv := True\<rparr>))"

definition closeWebServer :: "('d, 'f) grpcServer \<Rightarrow> ('d, 'f) grpcServer" where
  "closeWebServer s = s\<lparr>httpSrv := False\<rparr>"

definition listen_address :: "string \<Rightarrow> string \<times> string" where
  "listen_address address = (if take 5 address = ''unix:'' then (''unix'', drop 5 address) else (''tcp'', address))"

definition Open :: "net \<Rightarrow> ('d, 'f) grpcServer \<Rightarrow> Config \<Rightarrow> goerr option \<times> ('d, 'f) grpcServer" where
  "Open T s cfg =
     (if \<not> srv s then
        (case (if apis_Cert (Apis cfg) \<noteq> '''' \<and> apis_Key (Apis cfg) \<noteq> ''''
               then NewServerTLSFromFile T (apis_Cert (Apis cfg)) (apis_Key (Apis cfg)) else None) of
           Some err \<Rightarrow> (Some err, s)
         | None \<Rightarrow>
             (let s = s\<lparr>srv := True\<rparr>
              in case listen_address (api_Address (Config.Grpc (Apis cfg))) of
                   (protocol, address) \<Rightarrow>
                     (case (if protocol = ''unix'' then os_Remove T address else None) of
                        Some err \<Rightarrow> (Some err, s)
                      | None \<Rightarrow>
                          (case net_Listen T protocol address of
                             Some err \<Rightarrow> (Some err, s)
                           | None \<Rightarrow> openWebServer T s cfg))))
      else (None, s))"

definition Close :: "('d, 'f) grpcServer \<Rightarrow> ('d, 'f) grpcServer" where
  "Close s = (if srv s then closeWebServer (s\<lparr>srv := False\<rparr>)\<lparr>actionCallbacks := [], queryCallbacks := []\<rparr> else s)"

subsection \<open>Serving a stream\<close>

datatype 'a select = Item 'a | Closed | ClientDone goerr

fun serve_stream :: "('a \<Rightarrow> 's \<Rightarrow> 'm \<times> 's) \<Rightarrow> 'a select list \<Rightarrow> 's \<Rightarrow> goerr option option \<times> 's \<times> 'm list" where
  "serve_stream f [] s = (None, s, [])"
| "serve_stream f (Item a # rest) s =
     (case f a s of (m, s1) \<Rightarrow> (case serve_stream f rest s1 of (r, s2, ms) \<Rightarrow> (r, s2, m # ms)))"
| "serve_stream f (Closed # rest) s = (Some None, s, [])"
| "serve_stream f (ClientDone e # rest) s = (Some (Some e), s, [])"

text \<open>
  The common shape of the streaming handlers: the check that the service is enabled, the call of the
  service, the header (\<open>hdr\<close> is the error of \<open>SendHeader\<close>), the loop.
\<close>

definition stream_call ::
  "bool \<Rightarrow> string \<Rightarrow> string \<Rightarrow> ('w \<Rightarrow> goerr option \<times> 'w) \<Rightarrow> goerr option \<Rightarrow> ('a \<Rightarrow> 's \<Rightarrow> 'm \<times> 's) \<Rightarrow> 'a select list \<Rightarrow> 's \<Rightarrow> 'w \<Rightarrow>
     grpcerr option option \<times> 's \<times> 'm list \<times> 'w"
where
  "stream_call enabled name msg call hdr f sel s w =
     (if \<not> enabled then (Some (Some (serviceDisabledError name)), s, [], w)
      else case call w of
          (Some err, w1) \<Rightarrow> (Some (Some (status_error msg err)), s, [], w1)
        | (None, w1) \<Rightarrow>
            (case hdr of
               Some err \<Rightarrow> (Some (Some (Plain err)), s, [], w1)
             | None \<Rightarrow> (case serve_stream f sel s of (r, s1, ms) \<Rightarrow> (map_option (map_option Plain) r, s1, ms, w1))))"

subsection \<open>Communication\<close>

definition event_msg :: "Event \<Rightarrow> Event" where
  "event_msg e = \<lparr>evt_Type = evt_Type e, evt_Id = evt_Id e, evt_Source = evt_Source e, evt_Time = evt_Time e,
     evt_Data = evt_Data e, evt_DataContentType = evt_DataContentType e\<rparr>"

definition PublishEvent :: "'w com_service \<Rightarrow> ('d, 'f) grpcServer \<Rightarrow> Event \<Rightarrow> 'w \<Rightarrow> grpcerr option \<times> 'w" where
  "PublishEvent K s event w =
     (if \<not> comApi s then (Some (serviceDisabledError ''com''), w)
      else case cs_PublishEvent K (event_msg event) w of
          (Some err, w1) \<Rightarrow> (Some (status_error ''failed publishing Event: %v'' err), w1)
        | (None, w1) \<Rightarrow> (None, w1))"

text \<open>The filter of a client has no scope: the default scope is used.\<close>

definition client_filter :: "SubscriptionFilter \<Rightarrow> SubscriptionFilter" where
  "client_filter fil = \<lparr>sf_Scope = ScopeDef, sf_Type = sf_Type fil, sf_Share = sf_Share fil\<rparr>"

definition SubscribeEvent ::
  "'w com_service \<Rightarrow> ('d, 'f) grpcServer \<Rightarrow> SubscriptionFilter \<Rightarrow> goerr option \<Rightarrow> Event select list \<Rightarrow> 'w \<Rightarrow>
     grpcerr option option \<times> ('d, 'f) grpcServer \<times> Event list \<times> 'w"
where
  "SubscribeEvent K s fil hdr sel w =
     stream_call (comApi s) ''com'' ''failed subscribing Event: %v'' (cs_SubscribeEvent K (client_filter fil)) hdr
       (\<lambda>e s. (event_msg e, s)) sel s w"

definition action_msg :: "Action \<Rightarrow> Action" where
  "action_msg a = \<lparr>act_Type = act_Type a, act_Id = act_Id a, act_Source = act_Source a, act_Params = act_Params a,
     act_DataContentType = act_DataContentType a\<rparr>"

definition action_result_msg :: "ActionResult \<Rightarrow> ActionResult" where
  "action_result_msg r = \<lparr>acr_Context = acr_Context r, acr_Data = acr_Data r, acr_DataContentType = acr_DataContentType r,
     acr_SequenceNumber = acr_SequenceNumber r\<rparr>"

definition PublishAction ::
  "'w com_service \<Rightarrow> ('d, 'f) grpcServer \<Rightarrow> Action \<Rightarrow> goerr option \<Rightarrow> ActionResult select list \<Rightarrow> 'w \<Rightarrow>
     grpcerr option option \<times> ('d, 'f) grpcServer \<times> ActionResult list \<times> 'w"
where
  "PublishAction K s action hdr sel w =
     stream_call (comApi s) ''com'' ''failed publishing Action: %v'' (cs_PublishAction K (action_msg action)) hdr
       (\<lambda>r s. (action_result_msg r, s)) sel s w"

record ActionCorrelated =
  ac_Action :: Action
  ac_CorrelationId :: string

text \<open>The items of the channel come with the fresh identifier \<open>uuid.NewString\<close> gives for them.\<close>

definition register_action ::
  "string \<times> ActionWithCallback \<Rightarrow> ('d, 'f) grpcServer \<Rightarrow> ActionCorrelated \<times> ('d, 'f) grpcServer"
where
  "register_action item s =
     (case item of (cid, act) \<Rightarrow>
        (\<lparr>ac_Action = action_msg (awc_Action act), ac_CorrelationId = cid\<rparr>,
         s\<lparr>actionCallbacks := AList.update cid (awc_Callback act) (actionCallbacks s)\<rparr>))"

definition SubscribeAction ::
  "'w com_service \<Rightarrow> ('d, 'f) grpcServer \<Rightarrow> SubscriptionFilter \<Rightarrow> goerr option \<Rightarrow> (string \<times> ActionWithCallback) select list \<Rightarrow> 'w \<Rightarrow>
     grpcerr option option \<times> ('d, 'f) grpcServer \<times> ActionCorrelated list \<times> 'w"
where
  "SubscribeAction K s fil hdr sel w =
     stream_call (comApi s) ''com'' ''failed subscribing Action: %v'' (cs_SubscribeAction K (client_filter fil)) hdr
       register_action sel s w"

definition PublishActionResult ::
  "'w com_service \<Rightarrow> ('d, 'f) grpcServer \<Rightarrow> string \<Rightarrow> ActionResult \<Rightarrow> 'w \<Rightarrow> grpcerr option \<times> ('d, 'f) grpcServer \<times> 'w"
where
  "PublishActionResult K s cid res w =
     (if \<not> comApi s then (Some (serviceDisabledError ''com''), s, w)
      else case map_of (actionCallbacks s) cid of
          None \<Rightarrow> (Some (Status InvalidArgument ''failed publishing ActionResult: unknown correlation id'' None), s, w)
        | Some cb \<Rightarrow>
            (let s1 = (if acr_SequenceNumber res \<le> 0 then s\<lparr>actionCallbacks := AList.delete cid (actionCallbacks s)\<rparr> else s)
             in case cs_ActionCallback K cb (action_result_msg res) w of
                  (Some err, w1) \<Rightarrow> (Some (status_error ''failed publishing ActionResult: %v'' err), s1, w1)
                | (None, w1) \<Rightarrow> (None, s1, w1)))"

definition query_msg :: "Query \<Rightarrow> Query" where
  "query_msg q = \<lparr>qry_Type = qry_Type q, qry_Id = qry_Id q, qry_Source = qry_Source q, qry_Data = qry_Data q,
     qry_DataContentType = qry_DataContentType q\<rparr>"

definition query_result_msg :: "QueryResult \<Rightarrow> QueryResult" where
  "query_result_msg r = \<lparr>qrr_Context = qrr_Context r, qrr_Data = qrr_Data r, qrr_DataContentType = qrr_DataContentType r,
     qrr_SequenceNumber = qrr_SequenceNumber r\<rparr>"

definition PublishQuery ::
  "'w com_service \<Rightarrow> ('d, 'f) grpcServer \<Rightarrow> Query \<Rightarrow> goerr option \<Rightarrow> QueryResult select list \<Rightarrow> 'w \<Rightarrow>
     grpcerr option option \<times> ('d, 'f) grpcServer \<times> QueryResult list \<times> 'w"
where
  "PublishQuery K s query hdr sel w =
     stream_call (comApi s) ''com'' ''failed publishing Query: %v'' (cs_PublishQuery K (query_msg query)) hdr
       (\<lambda>r s. (query_result_msg r, s)) sel s w"

record QueryCorrelated =
  qc_Query :: Query
  qc_CorrelationId :: string

definition register_query ::
  "string \<times> QueryWithCallback \<Rightarrow> ('d, 'f) grpcServer \<Rightarrow> QueryCorrelated \<times> ('d, 'f) grpcServer"
where
  "register_query item s =
     (case item of (cid, qry) \<Rightarrow>
        (\<lparr>qc_Query = query_msg (qwc_Query qry), qc_CorrelationId = cid\<rparr>,
         s\<lparr>queryCallbacks := AList.update cid (qwc_Callback qry) (queryCallbacks s)\<rparr>))"

definition SubscribeQuery ::
  "'w com_service \<Rightarrow> ('d, 'f) grpcServer \<Rightarrow> SubscriptionFilter \<Rightarrow> goerr option \<Rightarrow> (string \<times> QueryWithCallback) select list \<Rightarrow> 'w \<Rightarrow>
     grpcerr option option \<times> ('d, 'f) grpcServer \<times> QueryCorrelated list \<times> 'w"
where
  "SubscribeQuery K s fil hdr sel w =
     stream_call (comApi s) ''com'' ''failed subscribing Query: %v'' (cs_SubscribeQuery K (client_filter fil)) hdr
       register_query sel s w"

definition PublishQueryResult ::
  "'w com_service \<Rightarrow> ('d, 'f) grpcServer \<Rightarrow> string \<Rightarrow> QueryResult \<Rightarrow> 'w \<Rightarrow> grpcerr option \<times> ('d, 'f) grpcServer \<times> 'w"
where
  "PublishQueryResult K s cid res w =
     (if \<not> comApi s then (Some (serviceDisabledError ''com''), s, w)
      else case map_of (queryCallbacks s) cid of
          None \<Rightarrow> (Some (Status InvalidArgument ''failed publishing QueryResult: unknown correlation id'' None), s, w)
        | Some cb \<Rightarrow>
            (let s1 = (if qrr_SequenceNumber res \<le> 0 then s\<lparr>queryCallbacks := AList.delete cid (queryCallbacks s)\<rparr> else s)
             in case cs_QueryCallback K cb (query_result_msg res) w of
                  (Some err, w1) \<Rightarrow> (Some (status_error ''failed publishing QueryResult: %v'' err), s1, w1)
                | (None, w1) \<Rightarrow> (None, s1, w1)))"

subsection \<open>Storage\<close>

text \<open>
  A \<open>Value\<close> message has an optional value. \<open>GetValue\<close> of a \<open>KeyValue\<close> message is nil if the field
  is absent.
\<close>

definition Get :: "('d, 'f) pebble \<Rightarrow> ('d, 'f) grpcServer \<Rightarrow> string \<Rightarrow> grpcerr + bytes option" where
  "Get P s key =
     (case storeApi s of
        None \<Rightarrow> Inl (serviceDisabledError ''store'')
      | Some st \<Rightarrow>
          (case Pebble.Get P st key of
             Inl err \<Rightarrow> Inl (status_error ''failed: %v'' err)
           | Inr None \<Rightarrow> Inr None
           | Inr (Some val) \<Rightarrow> Inr (Some val)))"

definition store_call ::
  "('d, 'f) grpcServer \<Rightarrow> (('d, 'f) PebbleBinding \<Rightarrow> goerr option \<times> ('d, 'f) PebbleBinding) \<Rightarrow>
     grpcerr option \<times> ('d, 'f) grpcServer"
where
  "store_call s op =
     (case storeApi s of
        None \<Rightarrow> (Some (serviceDisabledError ''store''), s)
      | Some st \<Rightarrow>
          (case op st of
             (Some err, st1) \<Rightarrow> (Some (status_error ''failed: %v'' err), s\<lparr>storeApi := Some st1\<rparr>)
           | (None, st1) \<Rightarrow> (None, s\<lparr>storeApi := Some st1\<rparr>)))"

definition Set :: "('d, 'f) pebble \<Rightarrow> ('d, 'f) grpcServer \<Rightarrow> string \<Rightarrow> bytes option \<Rightarrow> grpcerr option \<times> ('d, 'f) grpcServer" where
  "Set P s key val = store_call s (\<lambda>st. Pebble.Set P st key val)"

definition Delete :: "('d, 'f) pebble \<Rightarrow> ('d, 'f) grpcServer \<Rightarrow> string \<Rightarrow> grpcerr option \<times> ('d, 'f) grpcServer" where
  "Delete P s key = store_call s (\<lambda>st. Pebble.Delete P st key)"

definition DeleteAll :: "('d, 'f) pebble \<Rightarrow> ('d, 'f) grpcServer \<Rightarrow> grpcerr option \<times> ('d, 'f) grpcServer" where
  "DeleteAll P s = store_call s (\<lambda>st. Pebble.DeleteAll P st)"

definition DeletePrefix :: "('d, 'f) pebble \<Rightarrow> ('d, 'f) grpcServer \<Rightarrow> string \<Rightarrow> grpcerr option \<times> ('d, 'f) grpcServer" where
  "DeletePrefix P s key = store_call s (\<lambda>st. Pebble.DeletePrefix P st key)"

definition DeleteRange :: "('d, 'f) pebble \<Rightarrow> ('d, 'f) grpcServer \<Rightarrow> string \<Rightarrow> string \<Rightarrow> grpcerr option \<times> ('d, 'f) grpcServer" where
  "DeleteRange P s start end' = store_call s (\<lambda>st. Pebble.DeleteRange P st start end')"

text \<open>
  The callback of a scan, on the messages sent: \<open>cancelled\<close> and \<open>sendErr\<close> say whether the call of the
  client has ended, and whether sending fails, when so many messages have been sent.
\<close>

definition scan_send ::
  "(nat \<Rightarrow> bool) \<Rightarrow> (nat \<Rightarrow> bool) \<Rightarrow> (string \<times> bytes) list ScanKeyValue"
where
  "scan_send cancelled sendErr key val ms =
     (if cancelled (length ms) then (False, ms)
      else if sendErr (length ms) then (False, ms)
      else (True, ms @ [(key, val)]))"

definition ScanPrefix ::
  "('d, 'f) pebble \<Rightarrow> ('d, 'f) grpcServer \<Rightarrow> string \<Rightarrow> (nat \<Rightarrow> bool) \<Rightarrow> (nat \<Rightarrow> bool) \<Rightarrow> grpcerr option \<times> (string \<times> bytes) list"
where
  "ScanPrefix P s key cancelled sendErr =
     (case storeApi s of
        None \<Rightarrow> (Some (serviceDisabledError ''store''), [])
      | Some st \<Rightarrow>
          (case Pebble.ScanPrefix P st key (scan_send cancelled sendErr) [] of
             (Some err, ms) \<Rightarrow> (Some (status_error ''failed: %v'' err), ms)
           | (None, ms) \<Rightarrow> (None, ms)))"

definition ScanRange ::
  "('d, 'f) pebble \<Rightarrow> ('d, 'f) grpcServer \<Rightarrow> string \<Rightarrow> string \<Rightarrow> (nat \<Rightarrow> bool) \<Rightarrow> (nat \<Rightarrow> bool) \<Rightarrow>
     grpcerr option \<times> (string \<times> bytes) list"
where
  "ScanRange P s start end' cancelled sendErr =
     (case storeApi s of
        None \<Rightarrow> (Some (serviceDisabledError ''store''), [])
      | Some st \<Rightarrow>
          (case Pebble.ScanRange P st start end' (scan_send cancelled sendErr) [] of
             (Some err, ms) \<Rightarrow> (Some (status_error ''failed: %v'' err), ms)
           | (None, ms) \<Rightarrow> (None, ms)))"

subsection \<open>State synchronization\<close>

definition input_msg :: "Input \<Rightarrow> Input" where
  "input_msg i = \<lparr>in_Op = in_Op i, in_Key = in_Key i, in_Value = in_Value i\<rparr>"

text \<open>\<open>None\<close> when the call of the state service never returns.\<close>

definition ProposeInput ::
  "'w state_service \<Rightarrow> ('d, 'f) grpcServer \<Rightarrow> Input \<Rightarrow> 'w \<Rightarrow> (grpcerr option \<times> 'w) option"
where
  "ProposeInput Q s inp w =
     (if \<not> stateApi s then Some (Some (serviceDisabledError ''state''), w)
      else map_option (\<lambda>(err, w1). (map_option (status_error ''failed: %v'') err, w1)) (ss_ProposeInput Q (input_msg inp) w))"

definition ObserveStateChange ::
  "'w state_service \<Rightarrow> ('d, 'f) grpcServer \<Rightarrow> Input select list \<Rightarrow> 'w \<Rightarrow>
     grpcerr option option \<times> ('d, 'f) grpcServer \<times> Input list \<times> 'w"
where
  "ObserveStateChange Q s sel w =
     stream_call (stateApi s) ''state'' ''failed observing state changes: %v'' (ss_ObserveStateChange Q) None
       (\<lambda>i s. (input_msg i, s)) sel s w"

definition ObserveMembershipChange ::
  "'w state_service \<Rightarrow> ('d, 'f) grpcServer \<Rightarrow> MembershipChange select list \<Rightarrow> 'w \<Rightarrow>
     grpcerr option option \<times> ('d, 'f) grpcServer \<times> MembershipChange list \<times> 'w"
where
  "ObserveMembershipChange Q s sel w =
     stream_call (stateApi s) ''state'' ''failed observing membership changes: %v'' (ss_ObserveMembershipChange Q) None
       (\<lambda>m s. (\<lparr>mc_Id = mc_Id m, mc_Joined = mc_Joined m\<rparr>, s)) sel s w"

end
