(* ===== verification/Grpc_Props.thy ===== *)
theory Grpc_Props
  imports Grpc
begin

section \<open>What the gRPC server promises\<close>

text \<open>
  Correlated requests, once for actions and queries (locale \<open>correlated_requests\<close>): the result a client
  sends for a request reaches the callback of this request, until a single or final result has
  been sent. The status codes of errors, disabled services, and storage through gRPC.
\<close>

subsection \<open>Messages are copies\<close>

lemma msg_copies [simp]:
  "event_msg e = e" "action_msg a = a" "action_result_msg ar = ar" "query_msg q = q" "query_result_msg qr = qr" "input_msg i = i"
  by (simp_all add: event_msg_def action_msg_def action_result_msg_def query_msg_def query_result_msg_def input_msg_def)

lemma serve_items:
  "serve_stream f (map Item xs) s =
    (None, fold (\<lambda>a s. snd (f a s)) xs s, map (\<lambda>i. fst (f (xs ! i) (fold (\<lambda>a s. snd (f a s)) (take i xs) s))) [0..<length xs])"
proof (induction xs arbitrary: s)
  case (Cons x xs)
  obtain m s1 where fx: "f x s = (m, s1)" by (cases "f x s")
  have "[0..<length (x # xs)] = 0 # map Suc [0..<length xs]" by (simp add: map_Suc_upt upt_conv_Cons del: upt_Suc)
  with Cons [of s1] fx show ?case by (simp del: upt_Suc)
qed simp

subsection \<open>Correlated requests\<close>

locale correlated_requests =
  fixes callbacks :: "'s \<Rightarrow> (string, 'cb) gomap"
    and register :: "string \<times> 'req \<Rightarrow> 's \<Rightarrow> 'm \<times> 's"
    and cb_of :: "'req \<Rightarrow> 'cb"
    and msg_of :: "string \<times> 'req \<Rightarrow> 'm"
    and respond :: "'s \<Rightarrow> string \<Rightarrow> 'res \<Rightarrow> 'w \<Rightarrow> grpcerr option \<times> 's \<times> 'w"
    and seqno :: "'res \<Rightarrow> int"
    and call :: "'cb \<Rightarrow> 'res \<Rightarrow> 'w \<Rightarrow> goerr option \<times> 'w"
    and enabled :: "'s \<Rightarrow> bool"
    and err_msg :: string
  assumes register_msg: "fst (register item s) = msg_of item"
    and register_enabled: "enabled (snd (register item s)) = enabled s"
    and register_callbacks: "map_of (callbacks (snd (register (cid, r) s))) = (map_of (callbacks s))(cid \<mapsto> cb_of r)"
    and respond_known: "enabled s \<Longrightarrow> map_of (callbacks s) cid = Some cb \<Longrightarrow> call cb res w = (err, w1) \<Longrightarrow>
      \<exists>s'. respond s cid res w = (map_option (status_error err_msg) err, s', w1) \<and>
        map_of (callbacks s') = (if seqno res \<le> 0 then (map_of (callbacks s))(cid := None) else map_of (callbacks s))"
    and respond_unknown: "enabled s \<Longrightarrow> map_of (callbacks s) cid = None \<Longrightarrow>
      \<exists>m. respond s cid res w = (Some (Status InvalidArgument m None), s, w)"
begin

definition after :: "(string \<times> 'req) list \<Rightarrow> 's \<Rightarrow> 's" where
  "after items s = fold (\<lambda>a s. snd (register a s)) items s"

lemma after_enabled: "enabled (after items s) = enabled s"
  by (induction items arbitrary: s) (simp_all add: after_def register_enabled)

lemma after_other: "cid \<notin> fst ` set items \<Longrightarrow> map_of (callbacks (after items s)) cid = map_of (callbacks s) cid"
proof (induction items arbitrary: s)
  case (Cons x items)
  then show ?case by (cases x) (simp add: after_def register_callbacks)
qed (simp add: after_def)

lemma after_registered:
  "distinct (map fst items) \<Longrightarrow> (cid, r) \<in> set items \<Longrightarrow> map_of (callbacks (after items s)) cid = Some (cb_of r)"
proof (induction items arbitrary: s)
  case (Cons x items)
  show ?case
  proof (cases "x = (cid, r)")
    case True
    with Cons.prems have "cid \<notin> fst ` set items" by simp
    from after_other [OF this, of "snd (register x s)"] True show ?thesis by (simp add: after_def register_callbacks)
  next
    case False
    with Cons show ?thesis by (simp add: after_def)
  qed
qed simp

lemma serve_registered: "serve_stream register (map Item items) s = (None, after items s, map msg_of items)"
proof -
  have "map (\<lambda>i. msg_of (items ! i)) [0..<length items] = map msg_of items"
    by (rule nth_equalityI) simp_all
  then show ?thesis by (simp add: serve_items after_def register_msg)
qed

lemma result_reaches_callback:
  assumes "enabled s" "distinct (map fst items)" "(cid, r) \<in> set items" "call (cb_of r) res w = (err, w1)"
  shows "\<exists>s'. respond (after items s) cid res w = (map_option (status_error err_msg) err, s', w1) \<and>
    map_of (callbacks s') = (if seqno res \<le> 0 then (map_of (callbacks (after items s)))(cid := None) else map_of (callbacks (after items s)))"
  by (rule respond_known) (use assms after_registered after_enabled in simp_all)

lemma unknown_rejected:
  assumes "enabled s" "cid \<notin> fst ` set items" "map_of (callbacks s) cid = None"
  shows "\<exists>m. respond (after items s) cid res w = (Some (Status InvalidArgument m None), after items s, w)"
  by (rule respond_unknown) (use assms after_other after_enabled in simp_all)

end

interpretation actions: correlated_requests actionCallbacks register_action awc_Callback
  "\<lambda>(cid, act). \<lparr>ac_Action = awc_Action act, ac_CorrelationId = cid\<rparr>" "PublishActionResult K" acr_SequenceNumber "cs_ActionCallback K"
  comApi "''failed publishing ActionResult: %v''" for K
proof unfold_locales
  fix s :: "('a, 'b) grpcServer" and cid cb res w w1 err
  assume "comApi s" "map_of (actionCallbacks s) cid = Some cb" "cs_ActionCallback K cb res w = (err, w1)"
  then show "\<exists>s'. PublishActionResult K s cid res w = (map_option (status_error ''failed publishing ActionResult: %v'') err, s', w1) \<and>
      map_of (actionCallbacks s') =
        (if acr_SequenceNumber res \<le> 0 then (map_of (actionCallbacks s))(cid := None) else map_of (actionCallbacks s))"
    by (cases err) (simp_all add: PublishActionResult_def Let_def)
qed (auto simp: register_action_def PublishActionResult_def split: prod.splits)

interpretation queries: correlated_requests queryCallbacks register_query qwc_Callback
  "\<lambda>(cid, qry). \<lparr>qc_Query = qwc_Query qry, qc_CorrelationId = cid\<rparr>" "PublishQueryResult K" qrr_SequenceNumber "cs_QueryCallback K"
  comApi "''failed publishing QueryResult: %v''" for K
proof unfold_locales
  fix s :: "('a, 'b) grpcServer" and cid cb res w w1 err
  assume "comApi s" "map_of (queryCallbacks s) cid = Some cb" "cs_QueryCallback K cb res w = (err, w1)"
  then show "\<exists>s'. PublishQueryResult K s cid res w = (map_option (status_error ''failed publishing QueryResult: %v'') err, s', w1) \<and>
      map_of (queryCallbacks s') =
        (if qrr_SequenceNumber res \<le> 0 then (map_of (queryCallbacks s))(cid := None) else map_of (queryCallbacks s))"
    by (cases err) (simp_all add: PublishQueryResult_def Let_def)
qed (auto simp: register_query_def PublishQueryResult_def split: prod.splits)

subsection \<open>Properties\<close>

text \<open>
  Correlated actions. A subscribed client is sent every incoming action once, in order, with
  its own correlation id. A result the client sends with this id is given unchanged to the
  callback of this action, and the error of the callback is reported; a single or final result
  (sequence number not positive) ends the correlation, others keep it, and other actions are
  not touched. A result with an unknown id is rejected as an invalid argument.
\<close>

theorem grpc_action_correlated:
  assumes "comApi s" "cs_SubscribeAction K (client_filter fil) w = (None, w1)" "distinct (map fst items)"
    and "(cid, act) \<in> set items" "cs_ActionCallback K (awc_Callback act) res v = (err, v1)"
  shows "\<exists>s'. SubscribeAction K s fil None (map Item items) w =
      (None, s', map (\<lambda>(cid, act). \<lparr>ac_Action = awc_Action act, ac_CorrelationId = cid\<rparr>) items, w1) \<and>
    (\<exists>s''. PublishActionResult K s' cid res v = (map_option (status_error ''failed publishing ActionResult: %v'') err, s'', v1) \<and>
      map_of (actionCallbacks s'') =
        (if acr_SequenceNumber res \<le> 0 then (map_of (actionCallbacks s'))(cid := None) else map_of (actionCallbacks s'))) \<and>
    (\<forall>c. c \<notin> fst ` set items \<and> map_of (actionCallbacks s) c = None \<longrightarrow>
      (\<exists>m. PublishActionResult K s' c res v = (Some (Status InvalidArgument m None), s', v)))"
proof (rule exI [of _ "actions.after items s"], intro conjI allI impI)
  show "SubscribeAction K s fil None (map Item items) w =
      (None, actions.after items s, map (\<lambda>(cid, act). \<lparr>ac_Action = awc_Action act, ac_CorrelationId = cid\<rparr>) items, w1)"
    using assms(1,2) by (simp add: SubscribeAction_def stream_call_def actions.serve_registered)
  show "\<exists>s''. PublishActionResult K (actions.after items s) cid res v = (map_option (status_error ''failed publishing ActionResult: %v'') err, s'', v1) \<and>
      map_of (actionCallbacks s'') =
        (if acr_SequenceNumber res \<le> 0 then (map_of (actionCallbacks (actions.after items s)))(cid := None)
         else map_of (actionCallbacks (actions.after items s)))"
    by (rule actions.result_reaches_callback) fact+
  show "\<exists>m. PublishActionResult K (actions.after items s) c res v = (Some (Status InvalidArgument m None), actions.after items s, v)"
    if "c \<notin> fst ` set items \<and> map_of (actionCallbacks s) c = None" for c
    by (rule actions.unknown_rejected) (use assms(1) that in simp_all)
qed

text \<open>A communication service whose callbacks record the results.\<close>

definition example_com :: "(Callback \<times> ActionResult) list com_service" where
  "example_com = \<lparr>cs_PublishEvent = (\<lambda>e w. (None, w)), cs_SubscribeEvent = (\<lambda>f w. (None, w)), cs_PublishAction = (\<lambda>a w. (None, w)),
     cs_SubscribeAction = (\<lambda>f w. (None, w)), cs_PublishQuery = (\<lambda>q w. (None, w)), cs_SubscribeQuery = (\<lambda>f w. (None, w)),
     cs_ActionCallback = (\<lambda>cb r w. (None, w @ [(cb, r)])), cs_QueryCallback = (\<lambda>cb r w. (None, w))\<rparr>"

definition example_server :: "(unit, mem_db) grpcServer" where
  "example_server = New True (Some example_store) True"

definition example_request :: "string \<Rightarrow> ActionWithCallback" where
  "example_request topic = \<lparr>awc_Action = \<lparr>act_Type = ''t'', act_Id = ''1'', act_Source = ''c'', act_Params = [], act_DataContentType = ''''\<rparr>,
     awc_Callback = \<lparr>cb_ResponseTopic = topic, cb_CorrelationId = None\<rparr>\<rparr>"

definition example_result :: ActionResult where
  "example_result = \<lparr>acr_Context = '''', acr_Data = [1], acr_DataContentType = '''', acr_SequenceNumber = 0\<rparr>"

theorem grpc_action_correlated_witness:
  "\<exists>(s' :: (unit, mem_db) grpcServer) s''. PublishActionResult example_com s' ''u2'' example_result [] =
      (None, s'', [(awc_Callback (example_request ''r2''), example_result)])"
proof -
  let ?items = "[(''u1'', example_request ''r1''), (''u2'', example_request ''r2'')]"
  have 1: "comApi example_server" by (simp add: example_server_def New_def)
  have 2: "cs_SubscribeAction example_com (client_filter undefined) [] = (None, [])" by (simp add: example_com_def)
  have 3: "distinct (map fst ?items)" "(''u2'', example_request ''r2'') \<in> set ?items" by simp_all
  have 4: "cs_ActionCallback example_com (awc_Callback (example_request ''r2'')) example_result [] =
      (None, [(awc_Callback (example_request ''r2''), example_result)])"
    by (simp add: example_com_def)
  from grpc_action_correlated [OF 1 2 3 4] show ?thesis
    by (elim exE conjE) (intro exI, simp)
qed

definition code_of :: "grpcerr \<Rightarrow> code option" where
  "code_of e = (case e of Status c _ _ \<Rightarrow> Some c | Plain _ \<Rightarrow> None)"

lemma code_of_status [simp]: "code_of (status_error m e) = Some (if IsRetryable (Some e) then Unavailable else InvalidArgument)"
  by (simp add: code_of_def status_error_def codeByError_def)

lemma code_of_disabled [simp]: "code_of (serviceDisabledError n) = Some Unavailable"
  by (simp add: serviceDisabledError_def)

lemma ProposeInput_codes:
  "map_option (\<lambda>r. map_option code_of (fst r)) (Grpc.ProposeInput Q s inp w) =
    (if stateApi s then map_option (\<lambda>r. map_option (\<lambda>e. Some (if IsRetryable (Some e) then Unavailable else InvalidArgument)) (fst r))
       (ss_ProposeInput Q inp w) else Some (Some (Some Unavailable)))"
  by (simp add: Grpc.ProposeInput_def option.map_comp comp_def case_prod_beta)



text \<open>
  Storage through gRPC. On a storage engine that fulfils its contract, a value set is the one
  that is got afterwards for its key, present even if it is empty, and other keys keep theirs; a
  \<open>Set\<close> without a value is an invalid argument and changes nothing.
\<close>

theorem grpc_set_get:
  assumes "pebble_db P contents" "storeApi s = Some st" "Grpc.Set P s key val = (err, s')"
  shows "(val = None \<longrightarrow> map_option code_of err = Some (Some InvalidArgument) \<and> s' = s) \<and>
    (err = None \<longrightarrow> (\<exists>v. val = Some v \<and> (\<forall>key' r. Grpc.Get P s' key' = Inr r \<longrightarrow>
      r = (if key' = key then Some v else pebble_db.content contents st (bytes_of_string key')))))"
proof (intro conjI impI)
  assume "val = None"
  with assms(2,3) show "map_option code_of err = Some (Some InvalidArgument)" "s' = s"
    by (auto simp: Grpc.Set_def store_call_def Pebble.Set_def SetB_def)
next
  assume "err = None"
  with assms(2,3) obtain st' where st': "SetB P st (bytes_of_string key) val = (None, st')" "s' = s\<lparr>storeApi := Some st'\<rparr>"
    by (auto simp: Grpc.Set_def store_call_def Pebble.Set_def split: prod.splits option.splits)
  then obtain v where v: "val = Some v" by (cases val) (simp_all add: SetB_def)
  have "r = (if key' = key then Some v else pebble_db.content contents st (bytes_of_string key'))"
    if "Grpc.Get P s' key' = Inr r" for key' r
  proof -
    have "GetB P st' (bytes_of_string key') = Inr r"
      using that st'(2) by (auto simp: Grpc.Get_def Pebble.Get_def split: sum.splits option.splits)
    with pebble_db.api_get_after_set [OF assms(1), of st "bytes_of_string key" v st' "bytes_of_string key'" r] st'(1) v
    show ?thesis by simp
  qed
  with v show "\<exists>v. val = Some v \<and> (\<forall>key' r. Grpc.Get P s' key' = Inr r \<longrightarrow>
      r = (if key' = key then Some v else pebble_db.content contents st (bytes_of_string key')))"
    by blast
qed

theorem grpc_set_get_witness:
  "\<exists>s'. Grpc.Set mem_pebble example_server ''k'' (Some []) = (None, s') \<and> Grpc.Get mem_pebble s' ''k'' = Inr (Some [])"
proof -
  let ?s = "snd (Grpc.Set mem_pebble example_server ''k'' (Some []))"
  have s: "Grpc.Set mem_pebble example_server ''k'' (Some []) = (None, ?s)"
    by (simp add: Grpc.Set_def store_call_def example_server_def New_def Pebble.Set_def SetB_def db_op_def mem_pebble_def example_store_def)
  obtain r where r: "Grpc.Get mem_pebble ?s ''k'' = Inr r"
    by (auto simp: Grpc.Set_def store_call_def example_server_def New_def Pebble.Set_def SetB_def db_op_def mem_pebble_def example_store_def
        Grpc.Get_def Pebble.Get_def GetB_def split: option.splits)
  have "storeApi example_server = Some example_store" by (simp add: example_server_def New_def)
  from grpc_set_get [OF pebble_db_mem this s, THEN conjunct2, rule_format, OF refl] r have "r = Some []"
    by (elim exE conjE allE impE) (assumption, simp)
  with r s show ?thesis by (intro exI [of _ ?s]) simp
qed

end
