(* ===== verification/Raft_Net.thy ===== *)
theory Raft_Net
  imports Raft_System Mqtt5_Props
begin

section \<open>Remote Raft operations over the communication service\<close>

text \<open>
  The Raft transport on top of the pub-sub service it is given, \<open>t.com\<close>. What it needs of the action
  pattern of the interface \<open>Api\<close> (\<open>services/com/api/api.go\<close>) is the locale \<open>action_service\<close>: a published
  action reaches the subscribers of its type and scope with a callback, and a result given to the
  callback reaches the publisher, and nobody else. The locale is proved for the MQTT 5 binding, so
  that the properties at the end speak of the two bindings together: from a Raft operation on one
  node to the consumer on another, and back.

  A node is a pair: the state of its communication binding, and the rest of its world, which
  holds its Raft node. \<open>com_env\<close> is the environment of one operation of the transport: the id of the
  publication and the context it is called with, how the \<open>select\<close> on the result channel ends,
  the callback of the action that is handled, the consumers, and the texts of foreign errors.
\<close>

record ('h, 'r, 'ch, 'w) call =
  call_uuid :: string
  call_ctx :: nat
  call_select :: "'ch \<Rightarrow> rpc_outcome"
  call_callback :: Callback
  call_consume :: "consumer \<Rightarrow> 'h command \<Rightarrow> 'w \<Rightarrow> 'r RPCResponse \<times> 'w"
  call_errText :: "exterr \<Rightarrow> string"

definition com_env ::
  "('s \<Rightarrow> string \<Rightarrow> nat \<Rightarrow> Action \<Rightarrow> Scope option \<Rightarrow> (goerr + 'ch) \<times> 's) \<Rightarrow>
   ('s \<Rightarrow> nat \<Rightarrow> SubscriptionFilter \<Rightarrow> (goerr + 'ch) \<times> 's) \<Rightarrow>
   ('s \<Rightarrow> ActionResult \<Rightarrow> string \<Rightarrow> bytes option \<Rightarrow> goerr option \<times> 's) \<Rightarrow>
   ('h, 'r, 'ch, 's \<times> 'n) call \<Rightarrow> ('h, 'r, 's \<times> 'n) env"
where
  "com_env pub sub respond k =
     \<lparr>com_PublishAction = (\<lambda>deadline a scope (s, n).
        case pub s (call_uuid k) (call_ctx k) a (Some scope) of
          (Inl err, s') \<Rightarrow> (Inl err, (s', n))
        | (Inr ch, s') \<Rightarrow> (Inr (call_select k ch), (s', n))),
      com_SubscribeAction = (\<lambda>flt (s, n).
        case sub s (call_ctx k) flt of (Inl err, s') \<Rightarrow> (Some err, (s', n)) | (Inr ch, s') \<Rightarrow> (None, (s', n))),
      consume = call_consume k,
      callback = (\<lambda>ar (s, n).
        case respond s ar (cb_ResponseTopic (call_callback k)) (cb_CorrelationId (call_callback k)) of (err, s') \<Rightarrow> (err, (s', n))),
      errText = call_errText k\<rparr>"

lemma com_env_sel [simp]:
  "consume (com_env pub sub respond k) = call_consume k" "errText (com_env pub sub respond k) = call_errText k"
  "callback (com_env pub sub respond k) ar (s, n) =
    (case respond s ar (cb_ResponseTopic (call_callback k)) (cb_CorrelationId (call_callback k)) of (err, s') \<Rightarrow> (err, (s', n)))"
  by (simp_all add: com_env_def)

text \<open>The action a remote operation is published as.\<close>

definition rpc_action :: "RaftTransport \<Rightarrow> string \<Rightarrow> string \<Rightarrow> bytes \<Rightarrow> Action" where
  "rpc_action t pubType rpcOp b =
     \<lparr>act_Type = pubType, act_Id = rpcOp, act_Source = localAddr t, act_Params = b, act_DataContentType = ''''\<rparr>"

lemma rpc_action_sel [simp]:
  "act_Type (rpc_action t pt op b) = pt" "act_Id (rpc_action t pt op b) = op"
  "act_Source (rpc_action t pt op b) = localAddr t" "act_Params (rpc_action t pt op b) = b"
  by (simp_all add: rpc_action_def)

lemma valid_scope_state [simp]: "valid_scope ScopeState"
  by (simp add: valid_scope_def)

lemma rpc_filter_scope: "flt \<in> set (rpcFilters t) \<Longrightarrow> sf_Scope flt = ScopeState"
  by (auto simp: rpcFilters_def)

subsection \<open>The contract of the action pattern\<close>

locale action_service =
  fixes pub :: "'s \<Rightarrow> string \<Rightarrow> nat \<Rightarrow> Action \<Rightarrow> Scope option \<Rightarrow> (goerr + 'ch) \<times> 's"
    and sub :: "'s \<Rightarrow> nat \<Rightarrow> SubscriptionFilter \<Rightarrow> (goerr + 'ch) \<times> 's"
    and respond :: "'s \<Rightarrow> ActionResult \<Rightarrow> string \<Rightarrow> bytes option \<Rightarrow> goerr option \<times> 's"
    and wf :: "'s \<Rightarrow> bool" and peers :: "'s \<Rightarrow> 's \<Rightarrow> bool" and unused :: "'s \<Rightarrow> string \<Rightarrow> bool"
    and sends :: "'p \<Rightarrow> 's \<Rightarrow> bool" and cbk :: "'s \<Rightarrow> string \<Rightarrow> Scope option \<Rightarrow> Action \<Rightarrow> Callback"
    and receives :: "'s \<Rightarrow> 'p \<Rightarrow> ActionWithCallback \<Rightarrow> 'ch set \<Rightarrow> bool"
    and receives_result :: "'s \<Rightarrow> 'p \<Rightarrow> ActionResult \<Rightarrow> 'ch list \<Rightarrow> bool"
  assumes delivered: "wf s \<Longrightarrow> wf s2 \<Longrightarrow> peers s s2 \<Longrightarrow> valid_scope (scope_arg scope) \<Longrightarrow> valid_scope (sf_Scope flt) \<Longrightarrow>
      pub s uuid ctx a scope = (Inr ch, s') \<Longrightarrow> sub s2 ctx2 flt = (Inr ch2, s2') \<Longrightarrow>
      \<exists>p chs. sends p s' \<and> receives s2' p \<lparr>awc_Action = a, awc_Callback = cbk s uuid scope a\<rparr> chs \<and>
        (ch2 \<in> chs \<longleftrightarrow> sf_Type flt = act_Type a \<and> norm_scope (sf_Scope flt) = norm_scope (scope_arg scope))"
    and answered: "wf s \<Longrightarrow> valid_scope (scope_arg scope) \<Longrightarrow> unused s uuid \<Longrightarrow> pub s uuid ctx a scope = (Inr ch, s') \<Longrightarrow>
      int64_range (acr_SequenceNumber res) \<Longrightarrow>
      respond s3 res (cb_ResponseTopic (cbk s uuid scope a)) (cb_CorrelationId (cbk s uuid scope a)) = (None, s3') \<Longrightarrow>
      \<exists>p. sends p s3' \<and> receives_result s' p res [ch]"
begin

text \<open>A request reaches exactly the node it is meant for.\<close>

lemma request_delivered:
  assumes "wf s" "wf s2" "peers s s2"
    and "pub s uuid ctx (rpc_action t pt op b) (Some ScopeState) = (Inr ch, s')"
    and "sub s2 ctx2 flt = (Inr ch2, s2')" "flt \<in> set (rpcFilters t2)"
  shows "\<exists>p chs. sends p s' \<and>
    receives s2' p \<lparr>awc_Action = rpc_action t pt op b, awc_Callback = cbk s uuid (Some ScopeState) (rpc_action t pt op b)\<rparr> chs \<and>
    (ch2 \<in> chs \<longleftrightarrow> sf_Type flt = pt)"
  using delivered [OF assms(1-3) _ _ assms(4,5)] rpc_filter_scope [OF assms(6)] by (simp add: scope_arg_def)

text \<open>A response reaches the requester, which returns it.\<close>

lemma response_delivered:
  fixes C :: "('h, 'r) rpc_codec" and k :: "('h, 'r, 'ch, 's \<times> 'n) call"
  assumes "rpc_wire C plain" "wf s" "unused s uuid" "enc_cmd C cmd = Inr b"
    and pub: "pub s uuid ctx (rpc_action t pt op b) (Some ScopeState) = (Inr ch, s')"
    and cb: "call_callback k = cbk s uuid (Some ScopeState) (rpc_action t pt op b)"
    and res: "sendRPCResponse C (com_env pub sub respond k) t2 resp (s3, n3) = (None, (s4, n4))"
    and plain: "resp_Error resp = None \<Longrightarrow> plain (resp_Response resp)"
  shows "\<exists>ar p. sends p s4 \<and> n4 = n3 \<and> receives_result s' p ar [ch] \<and>
    (\<forall>(k' :: ('h, 'r, 'ch, 's \<times> 'v) call) dl v. call_uuid k' = uuid \<longrightarrow> call_ctx k' = ctx \<longrightarrow> call_select k' ch = Received ar \<longrightarrow>
      sendRPC C (com_env pub sub respond k') dl t pt op cmd (s, v) = (rpc_result (call_errText k) resp, (s', v)))"
proof -
  from rpc_wire.response_arrives [where 'v = "'s \<times> 'v", OF assms(1) res plain] obtain ar where
    ar: "callback (com_env pub sub respond k) ar (s3, n3) = (None, (s4, n4))" "acr_SequenceNumber ar = 0" and
    got: "\<And>(E' :: ('h, 'r, 's \<times> 'v) env) dl w w'.
      com_PublishAction E' dl (rpc_action t pt op b) ScopeState w = (Inr (Received ar), w') \<Longrightarrow>
      sendRPC C E' dl t pt op cmd w = (rpc_result (call_errText k) resp, w')"
    using assms(4) by (auto simp: rpc_action_def)
  from ar(1) cb have "respond s3 ar (cb_ResponseTopic (cbk s uuid (Some ScopeState) (rpc_action t pt op b)))
      (cb_CorrelationId (cbk s uuid (Some ScopeState) (rpc_action t pt op b))) = (None, s4)" and n: "n4 = n3"
    by (auto simp: com_env_def split: prod.splits)
  from answered [OF assms(2) _ assms(3) pub _ this(1)] ar(2) obtain p where p: "sends p s4" "receives_result s' p ar [ch]"
    by (auto simp: scope_arg_def int64_range_def)
  have "com_PublishAction (com_env pub sub respond k') dl (rpc_action t pt op b) ScopeState (s, v) = (Inr (Received ar), (s', v))"
    if "call_uuid k' = uuid" "call_ctx k' = ctx" "call_select k' ch = Received ar" for k' :: "('h, 'r, 'ch, 's \<times> 'v) call" and dl v
    using that pub by (simp add: com_env_def)
  with got p n show ?thesis by (intro exI [of _ ar] exI [of _ p]) simp
qed

end

subsection \<open>The MQTT 5 binding as an action service\<close>

text \<open>
  Two bindings are peers if they have the same cluster. A packet is sent if the client has accepted
  it last; it is received by the channels that \<open>handle\<close> dispatches it to.
\<close>

definition mqtt_wf :: "('c, 'w) Mqtt5Binding \<Rightarrow> bool" where
  "mqtt_wf b \<longleftrightarrow> compliesWithNamingConvention (cluster b) \<and> router_inv (actionRouter b)"

definition mqtt_unused :: "('c, 'w) Mqtt5Binding \<Rightarrow> string \<Rightarrow> bool" where
  "mqtt_unused b uuid \<longleftrightarrow> (\<forall>(t, rc) \<in> routed (actionResultRouter b). correlationId rc \<noteq> uuid)"

definition mqtt_sends :: "('c, 'w) paho \<Rightarrow> Publish \<Rightarrow> ('c, 'w) Mqtt5Binding \<Rightarrow> bool" where
  "mqtt_sends P p b \<longleftrightarrow> (\<exists>c t w. conn_Publish P c t p w = (None, net (lnk b)))"

definition mqtt_receives ::
  "('c, 'w) paho \<Rightarrow> ('c, 'w) Mqtt5Binding \<Rightarrow> Publish \<Rightarrow> ActionWithCallback \<Rightarrow> (string, ('c, 'w) link) RouteChannel set \<Rightarrow> bool"
where
  "mqtt_receives P b p awc chs \<longleftrightarrow> (\<exists>rf. handle P p = DispatchAction rf awc \<and> chs = set (dispatch_targets '''' (actionRouter b) rf))"

definition mqtt_receives_result ::
  "('c, 'w) paho \<Rightarrow> ('c, 'w) Mqtt5Binding \<Rightarrow> Publish \<Rightarrow> ActionResult \<Rightarrow> (string, ('c, 'w) link) RouteChannel list \<Rightarrow> bool"
where
  "mqtt_receives_result P b p ar chs \<longleftrightarrow>
     (\<exists>rf. handle P p = DispatchActionResult rf ar \<and> chs = dispatch_targets '''' (actionResultRouter b) rf)"

abbreviation mqtt_callback :: "('c, 'w) Mqtt5Binding \<Rightarrow> string \<Rightarrow> Scope option \<Rightarrow> Action \<Rightarrow> Callback" where
  "mqtt_callback b uuid scope a \<equiv> callback_of b uuid scope levelActionResult (act_Type a)"

sublocale user_properties \<subseteq> svc: action_service "PublishAction P" "SubscribeAction P" "publishActionResult P"
  mqtt_wf "\<lambda>b b2. cluster b2 = cluster b" mqtt_unused "mqtt_sends P" mqtt_callback "mqtt_receives P" "mqtt_receives_result P"
proof unfold_locales
  fix s s2 s' s2' :: "('c, 'w) Mqtt5Binding" and scope flt uuid ctx a ch ctx2 ch2
  assume wf: "mqtt_wf s" "mqtt_wf s2" and "cluster s2 = cluster s" "valid_scope (scope_arg scope)" "valid_scope (sf_Scope flt)"
    "PublishAction P s uuid ctx a scope = (Inr ch, s')" "SubscribeAction P s2 ctx2 flt = (Inr ch2, s2')"
  moreover from wf have "CHR ''/'' \<notin> set (cluster s)" "router_inv (actionRouter s2)"
    by (simp_all add: mqtt_wf_def complies_no_slash)
  ultimately show "\<exists>p chs. mqtt_sends P p s' \<and> mqtt_receives P s2' p \<lparr>awc_Action = a, awc_Callback = mqtt_callback s uuid scope a\<rparr> chs \<and>
      (ch2 \<in> chs \<longleftrightarrow> sf_Type flt = act_Type a \<and> norm_scope (sf_Scope flt) = norm_scope (scope_arg scope))"
    using action_delivered [OF user_properties_axioms] unfolding mqtt_sends_def mqtt_receives_def by metis
next
  fix s s' s3 s3' :: "('c, 'w) Mqtt5Binding" and scope uuid ctx a ch res
  assume wf: "mqtt_wf s" and u: "mqtt_unused s uuid" and "valid_scope (scope_arg scope)"
    "PublishAction P s uuid ctx a scope = (Inr ch, s')" "int64_range (acr_SequenceNumber res)"
    "publishActionResult P s3 res (cb_ResponseTopic (mqtt_callback s uuid scope a)) (cb_CorrelationId (mqtt_callback s uuid scope a)) = (None, s3')"
  moreover from wf have "CHR ''/'' \<notin> set (cluster s)" by (simp add: mqtt_wf_def complies_no_slash)
  moreover from u have "\<And>t rc. (t, rc) \<in> routed (actionResultRouter s) \<Longrightarrow> correlationId rc \<noteq> uuid"
    by (auto simp: mqtt_unused_def)
  ultimately show "\<exists>p. mqtt_sends P p s3' \<and> mqtt_receives_result P s' p res [ch]"
    using action_answered [OF user_properties_axioms _ _ _ _ _ refl] unfolding mqtt_sends_def mqtt_receives_result_def by metis
qed

context user_properties begin

lemmas mqtt_request_delivered = svc.request_delivered
lemmas mqtt_response_delivered = svc.response_delivered

end

abbreviation mqtt_env ::
  "('c, 'w) paho \<Rightarrow> ('h, 'r, (string, ('c, 'w) link) RouteChannel, ('c, 'w) Mqtt5Binding \<times> 'n) call \<Rightarrow>
     ('h, 'r, ('c, 'w) Mqtt5Binding \<times> 'n) env"
where
  "mqtt_env P \<equiv> com_env (PublishAction P) (SubscribeAction P) (publishActionResult P)"

subsection \<open>Node-targeted operations\<close>

text \<open>Who answers a node-targeted command.\<close>

fun consumer_of :: "RaftTransport \<Rightarrow> 'h command \<Rightarrow> consumer" where
  "consumer_of t (AppendEntriesCmd req _) = (if is_heartbeat req \<and> heartbeatFn t then HeartbeatFn else ConsumeCh)"
| "consumer_of t _ = ConsumeCh"

lemma handleRpc_targeted:
  assumes "rpc_wire C plain" "enc_cmd C cmd = Inr b" "op_of cmd \<in> {rpcAppendEntries, rpcRequestVote, rpcInstallSnapshot, rpcTimeoutNow}"
    and "\<not> shutdown t2"
  shows "handleRpc C E nil t2 (rpc_action t (publicationType rpcTargetedType [target]) (op_of cmd) b) w =
    (case consume E (consumer_of t2 cmd) cmd w of (resp, w1) \<Rightarrow> sendRPCResponse C E t2 resp w1)"
proof -
  have "dec_cmd C (op_of cmd) b = Inr cmd" by (rule rpc_wire.cmd_roundtrip) fact+
  with assms(3,4) show ?thesis
    by (cases cmd) (auto simp: handleRpc_def publicationType_def rpc_op_defs rpc_type_defs Let_def)
qed

subsection \<open>Properties\<close>

text \<open>
  C12: a node-targeted Raft operation over MQTT. The packet a transport publishes for it is received by the
  subscription of another transport of the cluster exactly if that transport has the target
  address (and never by its subscription of forwarded requests); handling the action received
  asks the consumer with the command that was sent, and when the answer is published, the packet
  is received by exactly the channel the requester waits on, and the operation returns there what
  the consumer has answered.
\<close>

theorem targeted_rpc_over_mqtt:
  fixes C :: "('h, 'r) rpc_codec" and P :: "('c, 'w) paho" and m m' m2 m2' :: "('c, 'w) Mqtt5Binding"
    and k :: "('h, 'r, (string, ('c, 'w) link) RouteChannel, ('c, 'w) Mqtt5Binding \<times> 'n) call"
  assumes P: "user_properties P" and wire: "rpc_wire C plain"
    and nodes: "mqtt_wf m" "mqtt_wf m2" "cluster m2 = cluster m" "mqtt_unused m uuid"
    and cmd: "enc_cmd C cmd = Inr b" "op_of cmd \<in> {rpcAppendEntries, rpcRequestVote, rpcInstallSnapshot, rpcTimeoutNow}"
    and a: "a = rpc_action t (publicationType rpcTargetedType [target]) (op_of cmd) b" "cb = mqtt_callback m uuid (Some ScopeState) a"
    and pub: "PublishAction P m uuid ctx a (Some ScopeState) = (Inr ch, m')"
    and sub: "SubscribeAction P m2 ctx2 flt = (Inr ch2, m2')" "flt \<in> set (rpcFilters t2)"
    and k: "call_callback k = cb" "\<not> shutdown t2" "call_consume k (consumer_of t2 cmd) cmd w = (resp, w3)"
      "resp_Error resp = None \<Longrightarrow> plain (resp_Response resp)" "handleRpc C (mqtt_env P k) nil t2 a w = (None, (m4, n4))"
  shows "(\<exists>p chs. mqtt_sends P p m' \<and> mqtt_receives P m2' p \<lparr>awc_Action = a, awc_Callback = cb\<rparr> chs \<and>
      (ch2 \<in> chs \<longleftrightarrow> localAddr t2 = target \<and> sf_Type flt \<noteq> rpcLeaderForwardedType)) \<and>
    (\<exists>ar p. mqtt_sends P p m4 \<and> n4 = snd w3 \<and> mqtt_receives_result P m' p ar [ch] \<and>
      (\<forall>(k' :: ('h, 'r, (string, ('c, 'w) link) RouteChannel, ('c, 'w) Mqtt5Binding \<times> 'v) call) dl v.
        call_uuid k' = uuid \<longrightarrow> call_ctx k' = ctx \<longrightarrow> call_select k' ch = Received ar \<longrightarrow>
        sendRPC C (mqtt_env P k') dl t (publicationType rpcTargetedType [target]) (op_of cmd) cmd (m, v) =
          (rpc_result (call_errText k) resp, (m', v))))"
proof
  have "sf_Type flt = publicationType rpcTargetedType [target] \<longleftrightarrow> localAddr t2 = target \<and> sf_Type flt \<noteq> rpcLeaderForwardedType"
    using sub(2) by (auto simp: publicationType_def rpcFilters_def subscriptionType_def rpc_type_defs)
  with user_properties.mqtt_request_delivered [OF P nodes(1-3) pub [unfolded a(1)] sub]
  show "\<exists>p chs. mqtt_sends P p m' \<and> mqtt_receives P m2' p \<lparr>awc_Action = a, awc_Callback = cb\<rparr> chs \<and>
      (ch2 \<in> chs \<longleftrightarrow> localAddr t2 = target \<and> sf_Type flt \<noteq> rpcLeaderForwardedType)"
    unfolding a by simp
next
  have "sendRPCResponse C (mqtt_env P k) t2 resp (fst w3, snd w3) = (None, (m4, n4))"
    using k(3,5) handleRpc_targeted [OF wire cmd k(2), of "mqtt_env P k" nil t target w] a(1) by simp
  from user_properties.mqtt_response_delivered [OF P wire nodes(1,4) cmd(1) pub [unfolded a(1)] k(1) [unfolded a] this k(4)]
  show "\<exists>ar p. mqtt_sends P p m4 \<and> n4 = snd w3 \<and> mqtt_receives_result P m' p ar [ch] \<and>
      (\<forall>(k' :: ('h, 'r, (string, ('c, 'w) link) RouteChannel, ('c, 'w) Mqtt5Binding \<times> 'v) call) dl v.
        call_uuid k' = uuid \<longrightarrow> call_ctx k' = ctx \<longrightarrow> call_select k' ch = Received ar \<longrightarrow>
        sendRPC C (mqtt_env P k') dl t (publicationType rpcTargetedType [target]) (op_of cmd) cmd (m, v) =
          (rpc_result (call_errText k) resp, (m', v)))" .
qed

text \<open>Two nodes \<open>a\<close> and \<open>b\<close> of the cluster, with clients held in memory.\<close>

lemma complies_rpc [simp]: "compliesWithNamingConvention ''rpcb''" "compliesWithNamingConvention ''lfw''" "compliesWithNamingConvention ''dda''"
  by (simp_all add: compliesWithNamingConvention_def naming_char_def)

lemma mem_wf [simp]: "mqtt_wf (mem_binding i)" "mqtt_unused (mem_binding i) uuid" "cluster (mem_binding i) = ''dda''"
  by (simp_all add: mqtt_wf_def mqtt_unused_def mem_binding_def) (simp add: routed_def NewRouter_def)

lemma mem_pub:
  assumes "compliesWithNamingConvention (act_Type a)" "act_Id a \<noteq> ''''" "act_Source a \<noteq> ''''"
  shows "\<exists>ch m'. PublishAction mem_paho (mem_binding i) uuid ctx a scope = (Inr ch, m')"
  using assms by (simp add: PublishAction_def example_eval)

lemma mem_sub:
  assumes "compliesWithNamingConvention (sf_Type flt)" "sf_Share flt = '''' \<or> compliesWithNamingConvention (sf_Share flt)"
  shows "\<exists>ch m'. SubscribeAction mem_paho (mem_binding i) ctx flt = (Inr ch, m')"
  using assms by (auto simp: SubscribeAction_def example_eval)

lemma mem_respond: "\<exists>m'. publishActionResult mem_paho (mem_binding i) res rt cid = (None, m')"
  by (simp add: publishActionResult_def example_eval)

definition example_call ::
  "Callback \<Rightarrow> ((string, (unit, mem_client) link) RouteChannel \<Rightarrow> rpc_outcome) \<Rightarrow>
     (bytes, bytes, (string, (unit, mem_client) link) RouteChannel, (unit, mem_client) Mqtt5Binding \<times> unit) call"
where
  "example_call cb oc = \<lparr>call_uuid = ''u'', call_ctx = 0, call_select = oc, call_callback = cb,
     call_consume = (\<lambda>ch cmd w. (\<lparr>resp_Response = [1], resp_Error = None\<rparr>, w)), call_errText = (\<lambda>e. ''raft error'')\<rparr>"

lemma mem_answers:
  assumes "\<And>r. \<exists>b. enc_resp C r = Inr b"
  shows "\<exists>m4. sendRPCResponse C (mqtt_env mem_paho k) t resp (mem_binding i, n) = (None, (m4, n))"
proof -
  define res where "res = (case resp_Error resp of
      Some err \<Rightarrow> \<lparr>Response = None, rr_Error = Error (call_errText k) err, rr_Retryable = IsRetryable (Some err)\<rparr>
    | None \<Rightarrow> \<lparr>Response = Some (resp_Response resp), rr_Error = '''', rr_Retryable = False\<rparr>)"
  obtain b where "enc_resp C res = Inr b" using assms by blast
  moreover obtain m4 where "publishActionResult mem_paho (mem_binding i)
      \<lparr>acr_Context = localAddr t, acr_Data = b, acr_DataContentType = '''', acr_SequenceNumber = 0\<rparr>
      (cb_ResponseTopic (call_callback k)) (cb_CorrelationId (call_callback k)) = (None, m4)"
    using mem_respond by blast
  ultimately show ?thesis by (cases "resp_Error resp") (simp_all add: sendRPCResponse_def res_def)
qed

lemma example_request:
  assumes "compliesWithNamingConvention pt" "op \<noteq> ''''" "i \<noteq> ''''"
  shows "\<exists>ch m'. PublishAction mem_paho (mem_binding j) uuid ctx (rpc_action (example_trans i) pt op b) scope = (Inr ch, m')"
  using assms by (intro mem_pub) (simp_all add: example_trans_def make_transport_def Let_def)

theorem targeted_rpc_over_mqtt_witness:
  "\<exists>k m' p awc chs ch2 m2'. mqtt_receives mem_paho m2' p awc chs \<and> ch2 \<in> chs \<and>
    sendRPC plain_rpc (mqtt_env mem_paho k) None (example_trans ''a'') ''rpcb'' rpcRequestVote (RequestVoteCmd [7])
      (mem_binding ''a'', ()) = ((None, Some [1]), (m', ()))"
proof -
  let ?cmd = "RequestVoteCmd [7] :: bytes command" and ?resp = "\<lparr>resp_Response = [1], resp_Error = None\<rparr> :: bytes RPCResponse"
  let ?flt = "hd (rpcFilters (example_trans ''b''))"
  define a where "a = rpc_action (example_trans ''a'') (publicationType rpcTargetedType [''b'']) (op_of ?cmd) (plain_enc_cmd ?cmd)"
  define cb where "cb = mqtt_callback (mem_binding ''a'') ''u'' (Some ScopeState) a"
  let ?k = "example_call cb (\<lambda>_. ShutdownFirst)"
  have pt: "publicationType rpcTargetedType [''b''] = ''rpcb''" by (simp add: publicationType_def rpc_type_defs)
  obtain ch m' where pub: "PublishAction mem_paho (mem_binding ''a'') ''u'' 0 a (Some ScopeState) = (Inr ch, m')"
    using example_request [of "''rpcb''" "op_of ?cmd" "''a''" "''a''" "''u''" 0 "plain_enc_cmd ?cmd" "Some ScopeState"]
    unfolding a_def pt by (auto simp: rpc_op_defs)
  have flt: "?flt \<in> set (rpcFilters (example_trans ''b''))" "sf_Type ?flt = ''rpcb''" "sf_Share ?flt = ''''"
    by (simp_all add: rpcFilters_def subscriptionType_def rpc_type_defs)
  then obtain ch2 m2' where sub: "SubscribeAction mem_paho (mem_binding ''b'') 0 ?flt = (Inr ch2, m2')"
    using mem_sub [of ?flt "''b''" 0] by auto
  have cmd: "enc_cmd plain_rpc ?cmd = Inr (plain_enc_cmd ?cmd)" "op_of ?cmd \<in> {rpcAppendEntries, rpcRequestVote, rpcInstallSnapshot, rpcTimeoutNow}"
    by (simp_all add: plain_rpc_def)
  have c: "call_callback ?k = cb" "call_consume ?k (consumer_of (example_trans ''b'') ?cmd) ?cmd (mem_binding ''b'', ()) = (?resp, (mem_binding ''b'', ()))"
    by (simp_all add: example_call_def)
  obtain m4 where h: "handleRpc plain_rpc (mqtt_env mem_paho ?k) [] (example_trans ''b'') a (mem_binding ''b'', ()) = (None, (m4, ()))"
    using mem_answers [of plain_rpc ?k "example_trans ''b''" ?resp "''b''" "()"] c(2)
      handleRpc_targeted [OF rpc_wire_plain cmd, of "example_trans ''b''" "mqtt_env mem_paho ?k" "[]" "example_trans ''a''" "''b''" "(mem_binding ''b'', ())"]
    by (auto simp: a_def plain_rpc_def)
  have "\<not> shutdown (example_trans ''b'')" "cluster (mem_binding ''b'') = cluster (mem_binding ''a'')" by simp_all
  note rt = targeted_rpc_over_mqtt [where 'v = unit, OF user_properties_mem rpc_wire_plain mem_wf(1,1) this(2) mem_wf(2) cmd a_def cb_def
      pub sub flt(1) c(1) this(1) c(2) TrueI h]
  from conjunct1 [OF rt] obtain p chs where "mqtt_receives mem_paho m2' p \<lparr>awc_Action = a, awc_Callback = cb\<rparr> chs" "ch2 \<in> chs"
    by (auto simp: flt rpc_type_defs)
  moreover obtain ar where "\<And>k. call_uuid k = ''u'' \<Longrightarrow> call_ctx k = 0 \<Longrightarrow> call_select k ch = Received ar \<Longrightarrow>
      sendRPC plain_rpc (mqtt_env mem_paho k) None (example_trans ''a'') ''rpcb'' rpcRequestVote ?cmd (mem_binding ''a'', ()) =
        (rpc_result (call_errText ?k) ?resp, (m', ()))"
    using conjunct2 [OF rt] by (auto simp: pt)
  from this [of "example_call cb (\<lambda>_. Received ar)"] have
    "\<exists>k. sendRPC plain_rpc (mqtt_env mem_paho k) None (example_trans ''a'') ''rpcb'' rpcRequestVote ?cmd (mem_binding ''a'', ()) =
      ((None, Some [1]), (m', ()))"
    by (auto simp: example_call_def rpc_result_def)
  ultimately show ?thesis by blast
qed

subsection \<open>Forwarded operations\<close>

lemma sendRPCResponse_lfw_env: "sendRPCResponse C (lfw_env N b E) t resp w = sendRPCResponse C E t resp w"
  unfolding sendRPCResponse_def lfw_env_sel ..


text \<open>A Raft node that leaves the communication binding alone, on the world of both.\<close>

definition beside :: "'n hraft \<Rightarrow> ('s \<times> 'n) hraft" where
  "beside N =
     \<lparr>DefaultConfig = DefaultConfig N, NewRaft = (\<lambda>c (s, n). case NewRaft N c n of (r, n') \<Rightarrow> (r, (s, n'))),
      BootstrapCluster = (\<lambda>x (s, n). case BootstrapCluster N x n of (r, n') \<Rightarrow> (r, (s, n'))),
      LeaderCh = (\<lambda>d (s, n). case LeaderCh N d n of (r, n') \<Rightarrow> (r, (s, n'))),
      r_Apply = (\<lambda>c d (s, n). case r_Apply N c d n of (r, n') \<Rightarrow> (r, (s, n'))),
      r_AddVoter = (\<lambda>i a p d (s, n). case r_AddVoter N i a p d n of (r, n') \<Rightarrow> (r, (s, n'))),
      r_RemoveServer = (\<lambda>i p d (s, n). case r_RemoveServer N i p d n of (r, n') \<Rightarrow> (r, (s, n'))),
      r_Barrier = (\<lambda>d (s, n). case r_Barrier N d n of (r, n') \<Rightarrow> (r, (s, n'))),
      r_isLeader = (\<lambda>(s, n). r_isLeader N n), r_Shutdown = (\<lambda>(s, n). case r_Shutdown N n of (r, n') \<Rightarrow> (r, (s, n'))),
      ctx_Err = (\<lambda>(s, n). ctx_Err N n), sleep = (\<lambda>d (s, n). (s, sleep N d n))\<rparr>"

lemma beside_sel [simp]:
  "r_Apply (beside N) c d (s, n) = (case r_Apply N c d n of (r, n') \<Rightarrow> (r, (s, n')))"
  "r_Barrier (beside N) d (s, n) = (case r_Barrier N d n of (r, n') \<Rightarrow> (r, (s, n')))"
  by (simp_all add: beside_def)

lemma raft_library_beside:
  assumes "raft_library M N fsm_of"
  shows "raft_library M (beside N) (\<lambda>w. fsm_of (snd w))"
proof
  fix cmd :: bytes and d :: int64 and w w' :: "'b \<times> 'a" and f
  assume "r_Apply (beside N) cmd d w = (f, w')" "f_Error f = None"
  then have ap: "r_Apply N cmd d (snd w) = (f, snd w')" "f_Error f = None" by (cases w; auto split: prod.splits)+
  show "\<exists>pre post. map_of (state (fsm_of (snd w'))) = log_effect M (pre @ [cmd] @ post) (map_of (state (fsm_of (snd w))))"
    by (rule raft_library.apply_committed [OF assms ap])
  show "\<exists>g. f_Response f = fst (Apply M g cmd)" by (rule raft_library.apply_response [OF assms ap])
next
  fix d :: int64 and w w' :: "'b \<times> 'a" and err
  assume "r_Barrier (beside N) d w = (err, w')"
  then have "r_Barrier N d (snd w) = (err, snd w')" by (cases w) (auto split: prod.splits)
  then show "\<exists>post. map_of (state (fsm_of (snd w'))) = log_effect M post (map_of (state (fsm_of (snd w))))"
    by (rule raft_library.barrier_applies [OF assms])
qed

definition example_forward ::
  "Callback \<Rightarrow> ((string, (unit, mem_client) link) RouteChannel \<Rightarrow> rpc_outcome) \<Rightarrow>
     (bytes, bytes response, (string, (unit, mem_client) link) RouteChannel, (unit, mem_client) Mqtt5Binding \<times> RaftFsm) call"
where
  "example_forward cb oc = \<lparr>call_uuid = ''u'', call_ctx = 0, call_select = oc, call_callback = cb,
     call_consume = (\<lambda>ch cmd w. (\<lparr>resp_Response = NilResponse, resp_Error = None\<rparr>, w)), call_errText = (\<lambda>e. ''raft error'')\<rparr>"

text \<open>The leader \<open>b\<close> answers the forwarded example input.\<close>

lemma example_leader_answers:
  defines "cmd \<equiv> plain_enc_input example_input" and "f \<equiv> snd (Apply plain_codec NewRaftFsm (plain_enc_input example_input))"
  shows "processLeaderForwardingRPC (beside (single_node plain_codec)) leader_binding
      (ApplyCmd \<lparr>ap_Command = cmd, ap_Timeout = 0\<rparr> :: bytes command) (s, NewRaftFsm) =
    ((False, \<lparr>resp_Response = ApplyResponse \<lparr>apr_Index = 1, apr_Response = None\<rparr> :: bytes response, resp_Error = None\<rparr>), (s, f))"
proof -
  have "fst (Apply plain_codec NewRaftFsm (plain_enc_input example_input)) = None"
    by (simp add: Apply_def example_dec) (simp add: example_input_def)
  then show ?thesis
    by (simp add: processLeaderForwardingRPC_def single_node_def leader_binding_def cmd_def f_def)
qed


subsection \<open>Identities that are not names\<close>

lemma complies_rpc_type: "compliesWithNamingConvention (rpcTargetedType @ ident) \<longleftrightarrow> list_all naming_char ident"
  by (simp add: compliesWithNamingConvention_def rpcTargetedType_def naming_char_def)

text \<open>
  C37: the identity of a node is part of the type of the actions it subscribes to. A configuration whose
  identity has a character outside the naming convention passes verification like any other, and the
  transport is created; but its subscription of node-targeted operations fails, and so does, on every node,
  each operation targeted at it, without a packet being sent.
\<close>

theorem invalid_identity_unreachable:
  assumes "\<not> list_all naming_char ident" "enc_cmd C cmd = Inr b"
  shows "Verify (cfg\<lparr>cfg_Identity := \<lparr>id_Name = nm, id_Id = ident\<rparr>\<rparr>) = Verify cfg \<and>
    (let t = fst (NewRaftTransport (mqtt_env P k) tc ident (m, n)) in localAddr t = ident \<and>
      (\<forall>m ctx. \<exists>err. SubscribeAction P m ctx (rpcFilters t ! 0) = (Inl err, m))) \<and>
    (\<exists>err. sendRPC C (mqtt_env P k) dl t (publicationType rpcTargetedType [ident]) (op_of cmd) cmd (m, n) = ((Some err, None), (m, n)))"
proof -
  have bad: "\<not> compliesWithNamingConvention (rpcTargetedType @ ident)" using assms(1) by (simp add: complies_rpc_type)
  have t: "localAddr (fst (NewRaftTransport (mqtt_env P k) tc ident (m, n))) = ident"
    by (simp add: NewRaftTransport_def make_transport_def Let_def)
  have sub: "\<exists>err. SubscribeAction P m ctx (rpcFilters t2 ! 0) = (Inl err, m)" if "localAddr t2 = ident" for t2 m ctx
    using bad that by (simp add: SubscribeAction_def validatePatternFilter_def ValidateName_def rpcFilters_def subscriptionType_def)
  have "\<exists>err. com_PublishAction (mqtt_env P k) dl (rpc_action t (rpcTargetedType @ ident) (op_of cmd) b) ScopeState (m, n) = (Inl err, (m, n))"
    using bad by (simp add: com_env_def PublishAction_def validatePatternTypeIdSource_def ValidateName_def)
  then have "\<exists>err. sendRPC C (mqtt_env P k) dl t (publicationType rpcTargetedType [ident]) (op_of cmd) cmd (m, n) = ((Some err, None), (m, n))"
    using assms(2) by (auto simp: sendRPC_def publicationType_def rpc_action_def)
  with t sub show ?thesis by (simp add: Verify_def Let_def)
qed

theorem invalid_identity_unreachable_witness:
  "Verify ((Config.New ''id'')\<lparr>cfg_Identity := \<lparr>id_Name = ''DDA'', id_Id = ''node 1''\<rparr>\<rparr>) = None \<and>
    (\<exists>err. sendRPC plain_rpc (mqtt_env mem_paho (example_call \<lparr>cb_ResponseTopic = [], cb_CorrelationId = None\<rparr> (\<lambda>_. ShutdownFirst))) None (example_trans ''a'') (publicationType rpcTargetedType [''node 1''])
      rpcRequestVote (RequestVoteCmd [7]) (mem_binding ''a'', ()) = ((Some err, None), (mem_binding ''a'', ())))"
proof -
  have "\<not> list_all naming_char ''node 1''" "enc_cmd plain_rpc (RequestVoteCmd [7]) = Inr (plain_enc_cmd (RequestVoteCmd [7]))"
    by (simp_all add: naming_char_def plain_rpc_def)
  from invalid_identity_unreachable [OF this, where cfg = "Config.New ''id''" and nm = "''DDA''" and P = mem_paho and m = "mem_binding ''a''"
      and n = "()" and dl = None and t = "example_trans ''a''" and k = "example_call \<lparr>cb_ResponseTopic = [], cb_CorrelationId = None\<rparr> (\<lambda>_. ShutdownFirst)"]
  show ?thesis using Verify_New [of "''id''"] by simp
qed

end
