(* ===== verification/Raft_Group.thy ===== *)
theory Raft_Group
  imports Raft_System
begin

section \<open>A group of replicas\<close>

text \<open>
  The state machines of all members of a group. Raft is represented by what it promises its users:
  there is one log of committed entries, and every member applies its entries in order, from the
  first one or from a snapshot. The steps are what the library does with the state machine of a member
  (\<open>Apply\<close>, \<open>Snapshot\<close>, \<open>Persist\<close>, \<open>Restore\<close> on a snapshot of any member), what its observers do, a
  member that joins with a new state machine, and a member that is started again, whose state
  machine is empty (\<open>NewRaftFsm\<close> in \<open>RaftBinding.Open\<close>). Between \<open>Snapshot\<close> and \<open>Persist\<close> other steps
  may happen.

  \<open>untold\<close>: a snapshot has been restored while observers were registered, which are not told about it.
\<close>

record replica =
  applied :: nat
  r_fsm :: RaftFsm
  untold :: bool

record group =
  committed :: "bytes list"
  replicas :: "replica list"
  taken :: "(nat \<times> fsmSnapshot) list"
  snapshots :: "(nat \<times> bytes) list"

definition new_replica :: replica where
  "new_replica = \<lparr>applied = 0, r_fsm = NewRaftFsm, untold = False\<rparr>"

definition new_group :: group where
  "new_group = \<lparr>committed = [], replicas = [], taken = [], snapshots = []\<rparr>"

definition put :: "nat \<Rightarrow> replica \<Rightarrow> group \<Rightarrow> group" where
  "put i r g = g\<lparr>replicas := (replicas g)[i := r]\<rparr>"

definition member :: "nat \<Rightarrow> replica \<Rightarrow> group \<Rightarrow> bool" where
  "member i r g \<longleftrightarrow> i < length (replicas g) \<and> replicas g ! i = r"

inductive group_step :: "msgpack \<Rightarrow> group \<Rightarrow> group \<Rightarrow> bool" for M :: msgpack where
  commit: "group_step M g (g\<lparr>committed := committed g @ [e]\<rparr>)"
| join: "group_step M g (g\<lparr>replicas := replicas g @ [new_replica]\<rparr>)"
| restart: "member i r g \<Longrightarrow> group_step M g (put i new_replica g)"
| apply_next: "member i r g \<Longrightarrow> applied r < length (committed g) \<Longrightarrow>
    group_step M g (put i (r\<lparr>applied := Suc (applied r), r_fsm := snd (Apply M (r_fsm r) (committed g ! applied r))\<rparr>) g)"
| observe: "member i r g \<Longrightarrow> group_step M g (put i (r\<lparr>r_fsm := AddStateChangeObserver (r_fsm r)\<rparr>) g)"
| emit: "member i r g \<Longrightarrow> ch \<in> set (emitting (r_fsm r)) \<Longrightarrow> group_step M g (put i (r\<lparr>r_fsm := emitState ch (r_fsm r)\<rparr>) g)"
| unobserve: "member i r g \<Longrightarrow> group_step M g (put i (r\<lparr>r_fsm := RemoveStateChangeObserver c (r_fsm r)\<rparr>) g)"
| snapshot: "member i r g \<Longrightarrow> group_step M g (g\<lparr>taken := (applied r, Snapshot (r_fsm r)) # taken g\<rparr>)"
| persist: "(n, snap) \<in> set (taken g) \<Longrightarrow> Persist M buffer_sink snap [] = (None, b) \<Longrightarrow>
    group_step M g (g\<lparr>snapshots := (n, b) # snapshots g\<rparr>)"
| install: "member i r g \<Longrightarrow> (n, b) \<in> set (snapshots g) \<Longrightarrow> Restore M (r_fsm r) b = (None, f) \<Longrightarrow>
    group_step M g (put i \<lparr>applied = n, r_fsm = f, untold = (untold r \<or> observers (r_fsm r) \<noteq> [])\<rparr> g)"

inductive group_reachable :: "msgpack \<Rightarrow> group \<Rightarrow> bool" for M :: msgpack where
  init: "group_reachable M new_group"
| step: "group_reachable M g \<Longrightarrow> group_step M g g' \<Longrightarrow> group_reachable M g'"

subsection \<open>The invariant\<close>

text \<open>The state of the abstract machine, one map, after the first entries of the log.\<close>

definition state_at :: "msgpack \<Rightarrow> bytes list \<Rightarrow> nat \<Rightarrow> (string \<rightharpoonup> bytes)" where
  "state_at M log n = log_effect M (take n log) Map.empty"

text \<open>A concrete map holds the state of the abstract machine at a position of the log.\<close>

definition holds :: "msgpack \<Rightarrow> bytes list \<Rightarrow> nat \<Rightarrow> State \<Rightarrow> bool" where
  "holds M log n st \<longleftrightarrow> n \<le> length log \<and> gm_ok st \<and> map_of st = state_at M log n"

definition replica_ok :: "msgpack \<Rightarrow> bytes list \<Rightarrow> replica \<Rightarrow> bool" where
  "replica_ok M log r \<longleftrightarrow> holds M log (applied r) (state (r_fsm r)) \<and> (\<not> untold r \<longrightarrow> fsm_inv (r_fsm r))"

definition group_inv :: "msgpack \<Rightarrow> group \<Rightarrow> bool" where
  "group_inv M g \<longleftrightarrow> (\<forall>r \<in> set (replicas g). replica_ok M (committed g) r) \<and>
     (\<forall>(n, snap) \<in> set (taken g). holds M (committed g) n (snap_State snap)) \<and>
     (\<forall>(n, b) \<in> set (snapshots g). \<exists>snap. dec_snapshot M b = Inr snap \<and> holds M (committed g) n (snap_State snap))"

lemma state_at_append: "n \<le> length log \<Longrightarrow> state_at M (log @ es) n = state_at M log n"
  by (simp add: state_at_def)

lemma state_at_Suc:
  "n < length log \<Longrightarrow> state_at M log (Suc n) =
    (case dec_input M (log ! n) of Inl _ \<Rightarrow> state_at M log n | Inr inp \<Rightarrow> apply_input inp (state_at M log n))"
  by (simp add: state_at_def take_Suc_conv_app_nth log_effect_def split: sum.splits)

lemma state_at_le: "n \<le> m \<Longrightarrow> state_at M log m = log_effect M (drop n (take m log)) (state_at M log n)"
  by (simp add: state_at_def log_effect_append [symmetric]) (metis append_take_drop_id min.absorb1 take_take)

lemma holds_append: "holds M log n st \<Longrightarrow> holds M (log @ es) n st"
  by (auto simp: holds_def state_at_append)

lemma holds_0 [simp]: "holds M log 0 []"
  by (simp add: holds_def state_at_def log_effect_def)

lemma replica_ok_append: "replica_ok M log r \<Longrightarrow> replica_ok M (log @ es) r"
  by (auto simp: replica_ok_def intro: holds_append)

lemma replica_ok_new: "replica_ok M log new_replica"
  by (simp add: replica_ok_def new_replica_def fsm_inv_New) (simp add: NewRaftFsm_def)

lemma holds_Apply:
  "holds M log n (state f) \<Longrightarrow> n < length log \<Longrightarrow> holds M log (Suc n) (state (snd (Apply M f (log ! n))))"
  by (auto simp: holds_def Apply_gm_ok Apply_state state_at_Suc split: sum.splits)

lemma group_inv_put:
  assumes "group_inv M g" "replica_ok M (committed g) r"
  shows "group_inv M (put i r g)"
  using assms set_update_subset_insert [of "replicas g" i r] by (fastforce simp: group_inv_def put_def)

lemma member_ok: "group_inv M g \<Longrightarrow> member i r g \<Longrightarrow> replica_ok M (committed g) r"
  by (auto simp: group_inv_def member_def)

text \<open>Observers do not change the state.\<close>

lemma replica_ok_observer:
  assumes "replica_ok M log r" "state f = state (r_fsm r)" "fsm_inv (r_fsm r) \<Longrightarrow> fsm_inv f"
  shows "replica_ok M log (r\<lparr>r_fsm := f\<rparr>)"
  using assms by (simp add: replica_ok_def)

lemma fsm_inv_unobserved:
  "fsm_inv f \<Longrightarrow> observers f = [] \<Longrightarrow> gm_ok st \<Longrightarrow> fsm_inv (f\<lparr>state := st\<rparr>)"
  by (simp add: fsm_inv_def)

lemma replica_ok_restored:
  assumes "replica_ok M log r" "dec_snapshot M b = Inr snap" "holds M log n (snap_State snap)" "Restore M (r_fsm r) b = (None, f)"
  shows "replica_ok M log \<lparr>applied = n, r_fsm = f, untold = (untold r \<or> observers (r_fsm r) \<noteq> [])\<rparr>"
proof -
  have "f = (r_fsm r)\<lparr>state := snap_State snap\<rparr>" using assms(2,4) by (simp add: Restore_def)
  moreover have "gm_ok (snap_State snap)" using assms(3) by (simp add: holds_def)
  ultimately show ?thesis using assms(1,3) by (auto simp: replica_ok_def intro: fsm_inv_unobserved)
qed

lemma holds_Snapshot: "holds M log n (state f) \<Longrightarrow> holds M log n (snap_State (Snapshot f))"
  by (simp add: holds_def Snapshot_def gm_ok_cloneState)

lemma Persist_buffer: "Persist M buffer_sink snap [] = (None, b) \<Longrightarrow> enc_snapshot M snap = Inr b"
  by (auto simp: Persist_def persist_body_def buffer_sink_def split: sum.splits)

lemma holds_persisted:
  assumes "msgpack_codec M" "holds M log n (snap_State snap)" "Persist M buffer_sink snap [] = (None, b)"
  shows "\<exists>snap'. dec_snapshot M b = Inr snap' \<and> holds M log n (snap_State snap')"
  using msgpack_codec.snapshot_roundtrip [OF assms(1) Persist_buffer [OF assms(3)]] assms(2) by (auto simp: holds_def)

lemma group_step_inv:
  assumes "group_step M g g'" "msgpack_codec M" "group_inv M g"
  shows "group_inv M g'"
  using assms(1)
proof cases
  case (commit e)
  with assms(3) show ?thesis by (fastforce simp: group_inv_def intro: replica_ok_append holds_append)
next
  case join
  with assms(3) show ?thesis by (auto simp: group_inv_def replica_ok_new)
next
  case (restart i r)
  with assms(3) show ?thesis by (simp add: group_inv_put replica_ok_new)
next
  case (apply_next i r)
  with member_ok [OF assms(3)] have "replica_ok M (committed g) r" by blast
  with apply_next assms(3) show ?thesis by (auto simp: replica_ok_def holds_Apply fsm_inv_Apply intro!: group_inv_put)
next
  case (observe i r)
  then show ?thesis using assms(3) member_ok [OF assms(3) observe(2)]
    by (auto simp: AddStateChangeObserver_def Let_def fsm_inv_Add [unfolded AddStateChangeObserver_def Let_def]
        intro!: group_inv_put replica_ok_observer)
next
  case (emit i r ch)
  with assms(3) member_ok [OF assms(3) emit(2)] show ?thesis
    by (auto intro!: group_inv_put replica_ok_observer fsm_inv_emit) (simp add: emitState_def)
next
  case (unobserve i r c)
  with assms(3) member_ok [OF assms(3) unobserve(2)] show ?thesis
    by (auto intro!: group_inv_put replica_ok_observer fsm_inv_Remove) (simp add: RemoveStateChangeObserver_def)
next
  case (snapshot i r)
  with assms(3) member_ok [OF assms(3) snapshot(2)] show ?thesis by (auto simp: group_inv_def replica_ok_def holds_Snapshot)
next
  case (persist n snap b)
  with assms(3) have "holds M (committed g) n (snap_State snap)" by (auto simp: group_inv_def)
  with holds_persisted [OF assms(2) this persist(3)] assms(3) persist(1) show ?thesis by (simp add: group_inv_def)
next
  case (install i r n b f)
  with assms(3) obtain snap where "dec_snapshot M b = Inr snap" "holds M (committed g) n (snap_State snap)"
    by (fastforce simp: group_inv_def)
  from replica_ok_restored [OF member_ok [OF assms(3) install(2)] this install(4)] assms(3) install(1) show ?thesis
    by (simp add: group_inv_put)
qed

lemma group_reachable_inv:
  assumes "msgpack_codec M" "group_reachable M g"
  shows "group_inv M g"
  using assms(2)
proof (induction rule: group_reachable.induct)
  case init
  show ?case by (simp add: group_inv_def new_group_def)
qed (rule group_step_inv [OF _ assms(1)])


lemma reachable_replica:
  assumes "msgpack_codec M" "group_reachable M g" "r \<in> set (replicas g)"
  shows "applied r \<le> length (committed g)" "map_of (state (r_fsm r)) = state_at M (committed g) (applied r)"
    and "\<not> untold r \<Longrightarrow> fsm_inv (r_fsm r)"
  using group_reachable_inv [OF assms(1,2)] assms(3) by (auto simp: group_inv_def replica_ok_def holds_def)

text \<open>An entry of the log stays part of the state of every member that has applied it.\<close>

lemma logged_input:
  assumes "group_inv M g" "r \<in> set (replicas g)" "n < applied r" "dec_input M (committed g ! n) = Inr inp"
  shows "map_of (state (r_fsm r)) = log_effect M (drop (Suc n) (take (applied r) (committed g)))
    (apply_input inp (log_effect M (take n (committed g)) Map.empty))"
proof -
  have r: "applied r \<le> length (committed g)" "map_of (state (r_fsm r)) = state_at M (committed g) (applied r)"
    using assms(1,2) by (auto simp: group_inv_def replica_ok_def holds_def)
  show ?thesis
    using assms(3,4) r(1) state_at_le [of "Suc n" "applied r" M "committed g"] state_at_Suc [of n "committed g" M]
    unfolding r(2) by (simp add: state_at_def)
qed

subsection \<open>Properties\<close>


text \<open>Two members: the first has applied an entry, and a snapshot of it has been restored by the second.\<close>

definition example_group :: group where
  "example_group = \<lparr>committed = [plain_enc_input example_input],
     replicas = [\<lparr>applied = 1, r_fsm = snd (Apply plain_codec NewRaftFsm (plain_enc_input example_input)), untold = False\<rparr>,
       \<lparr>applied = 1, r_fsm = NewRaftFsm\<lparr>state := [(''k'', [1])]\<rparr>, untold = False\<rparr>],
     taken = [(1, \<lparr>snap_State = [(''k'', [1])]\<rparr>)],
     snapshots = [(1, enc_nat 1 @ enc_pairs [(''k'', [1])])]\<rparr>"

lemma example_apply_state: "state (snd (Apply plain_codec NewRaftFsm (plain_enc_input example_input))) = [(''k'', [1])]"
  by (simp add: Apply_def example_dec) (simp add: NewRaftFsm_def example_input_def op_defs)

lemma example_group_reachable: "group_reachable plain_codec example_group"
proof -
  let ?e = "plain_enc_input example_input" and ?f = "snd (Apply plain_codec NewRaftFsm (plain_enc_input example_input))"
  let ?r = "\<lparr>applied = 1, r_fsm = ?f, untold = False\<rparr>"
  let ?g1 = "\<lparr>committed = [?e], replicas = [new_replica, new_replica], taken = [], snapshots = []\<rparr>"
  let ?g2 = "?g1\<lparr>replicas := [?r, new_replica]\<rparr>"
  let ?snap = "\<lparr>snap_State = [(''k'', [1])]\<rparr> :: fsmSnapshot"
  let ?b = "enc_nat 1 @ enc_pairs [(''k'', [1])]"
  have "group_reachable plain_codec \<lparr>committed = [], replicas = [new_replica], taken = [], snapshots = []\<rparr>"
    using group_reachable.step [OF group_reachable.init join] by (simp add: new_group_def)
  from group_reachable.step [OF group_reachable.step [OF this join] commit [of _ _ ?e]]
  have 1: "group_reachable plain_codec ?g1" by simp
  have "member 0 new_replica ?g1" "applied new_replica < length (committed ?g1)"
    by (simp_all add: member_def new_replica_def)
  from group_reachable.step [OF 1 apply_next [OF this]] have 2: "group_reachable plain_codec ?g2"
    by (simp add: put_def new_replica_def)
  have "Snapshot ?f = ?snap" by (simp add: Snapshot_def example_apply_state cloneState_def)
  with group_reachable.step [OF 2 snapshot [of 0 ?r]] have 3: "group_reachable plain_codec (?g2\<lparr>taken := [(1, ?snap)]\<rparr>)"
    by (simp add: member_def)
  have "Persist plain_codec buffer_sink ?snap [] = (None, ?b)"
    by (simp add: Persist_def persist_body_def buffer_sink_def plain_codec_def)
  from group_reachable.step [OF 3 persist [where n = 1, OF _ this]]
  have 4: "group_reachable plain_codec (?g2\<lparr>taken := [(1, ?snap)], snapshots := [(1, ?b)]\<rparr>)" by simp
  have "enc_snapshot plain_codec ?snap = Inr ?b" by (simp add: plain_codec_def)
  then have "dec_snapshot plain_codec ?b = Inr ?snap" by (rule plain_snapshot_roundtrip)
  then have "Restore plain_codec (r_fsm new_replica) ?b = (None, NewRaftFsm\<lparr>state := [(''k'', [1])]\<rparr>)"
    by (simp add: Restore_def new_replica_def)
  from group_reachable.step [OF 4 install [where i = 1 and n = 1, OF _ _ this]] show ?thesis
    by (simp add: member_def put_def example_group_def new_replica_def NewRaftFsm_def)
qed



subsection \<open>The Raft library in a group\<close>

text \<open>
  The contract of the library seen from a member \<open>i\<close> of a group: what it does are steps of the group;
  \<open>Apply\<close> without an error means that the command has become an entry of the log, and that this member
  has applied it; \<open>Barrier\<close> takes back nothing. This gives the contract \<open>raft_library\<close>.
\<close>

lemma committed_step: "group_step M g g' \<Longrightarrow> \<exists>es. committed g' = committed g @ es"
  by (induction rule: group_step.induct) (simp_all add: put_def)

lemma committed_steps: "(group_step M)\<^sup>*\<^sup>* g g' \<Longrightarrow> \<exists>es. committed g' = committed g @ es"
  by (induction rule: rtranclp_induct) (auto dest!: committed_step)

lemma group_steps_inv: "(group_step M)\<^sup>*\<^sup>* g g' \<Longrightarrow> msgpack_codec M \<Longrightarrow> group_inv M g \<Longrightarrow> group_inv M g'"
  by (induction rule: rtranclp_induct) (auto intro: group_step_inv)

lemma nth_split:
  assumes "a \<le> n" "n < b" "b \<le> length xs"
  shows "drop a (take b xs) = drop a (take n xs) @ [xs ! n] @ drop (Suc n) (take b xs)"
proof -
  have "take b xs = take n (take b xs) @ take b xs ! n # drop (Suc n) (take b xs)"
    by (rule id_take_nth_drop) (use assms in simp)
  moreover have "take n (take b xs) = take n xs" "take b xs ! n = xs ! n" "a - length (take n xs) = 0"
    using assms by (simp_all add: min.absorb1)
  ultimately have "drop a (take b xs) = drop a (take n xs @ xs ! n # drop (Suc n) (take b xs))" by simp
  with \<open>a - length (take n xs) = 0\<close> show ?thesis by (simp only: drop_append) simp
qed

locale raft_group =
  fixes M :: msgpack and N :: "'w hraft" and group_of :: "'w \<Rightarrow> group" and i :: nat
  assumes codec: "msgpack_codec M"
    and in_group: "group_inv M (group_of w) \<and> i < length (replicas (group_of w))"
    and apply_steps: "r_Apply N cmd d w = (f, w') \<Longrightarrow> f_Error f = None \<Longrightarrow> (group_step M)\<^sup>*\<^sup>* (group_of w) (group_of w')"
    and apply_logged: "r_Apply N cmd d w = (f, w') \<Longrightarrow> f_Error f = None \<Longrightarrow>
      \<exists>n. length (committed (group_of w)) \<le> n \<and> n < applied (replicas (group_of w') ! i) \<and> committed (group_of w') ! n = cmd"
    and apply_answer: "r_Apply N cmd d w = (f, w') \<Longrightarrow> f_Error f = None \<Longrightarrow> \<exists>g. f_Response f = fst (Apply M g cmd)"
    and barrier_steps: "r_Barrier N d w = (err, w') \<Longrightarrow> (group_step M)\<^sup>*\<^sup>* (group_of w) (group_of w')"
    and barrier_keeps: "r_Barrier N d w = (err, w') \<Longrightarrow> applied (replicas (group_of w) ! i) \<le> applied (replicas (group_of w') ! i)"
begin

lemma own_state:
  "applied (replicas (group_of w) ! i) \<le> length (committed (group_of w))"
  "map_of (state (r_fsm (replicas (group_of w) ! i))) = state_at M (committed (group_of w)) (applied (replicas (group_of w) ! i))"
  using in_group [of w] by (auto simp: group_inv_def replica_ok_def holds_def)

lemma own_progress:
  assumes "(group_step M)\<^sup>*\<^sup>* (group_of w) (group_of w')" "applied (replicas (group_of w) ! i) \<le> applied (replicas (group_of w') ! i)"
  shows "map_of (state (r_fsm (replicas (group_of w') ! i))) =
    log_effect M (drop (applied (replicas (group_of w) ! i)) (take (applied (replicas (group_of w') ! i)) (committed (group_of w'))))
      (map_of (state (r_fsm (replicas (group_of w) ! i))))"
proof -
  obtain es where "committed (group_of w') = committed (group_of w) @ es" using committed_steps [OF assms(1)] by blast
  then have "state_at M (committed (group_of w')) (applied (replicas (group_of w) ! i)) = map_of (state (r_fsm (replicas (group_of w) ! i)))"
    using own_state [of w] by (simp add: state_at_append)
  with own_state(2) [of w'] state_at_le [OF assms(2), of M "committed (group_of w')"] show ?thesis by simp
qed

end

sublocale raft_group \<subseteq> lib: raft_library M N "\<lambda>w. r_fsm (replicas (group_of w) ! i)"
proof unfold_locales
  fix cmd d w f w'
  assume ap: "r_Apply N cmd d w = (f, w')" "f_Error f = None"
  from apply_logged [OF ap] obtain n where
    n: "length (committed (group_of w)) \<le> n" "n < applied (replicas (group_of w') ! i)" "committed (group_of w') ! n = cmd"
    by blast
  have le: "applied (replicas (group_of w) ! i) \<le> n" using own_state(1) [of w] n(1) by simp
  with n(2) have "applied (replicas (group_of w) ! i) \<le> applied (replicas (group_of w') ! i)" by simp
  from own_progress [OF apply_steps [OF ap] this] nth_split [OF le n(2) own_state(1)] n(3)
  show "\<exists>pre post. map_of (state (r_fsm (replicas (group_of w') ! i))) = log_effect M (pre @ [cmd] @ post) (map_of (state (r_fsm (replicas (group_of w) ! i))))"
    by metis
  show "\<exists>g. f_Response f = fst (Apply M g cmd)" by (rule apply_answer [OF ap])
next
  fix d w err w'
  assume "r_Barrier N d w = (err, w')"
  from own_progress [OF barrier_steps [OF this] barrier_keeps [OF this]]
  show "\<exists>post. map_of (state (r_fsm (replicas (group_of w') ! i))) = log_effect M post (map_of (state (r_fsm (replicas (group_of w) ! i))))"
    by blast
qed


context raft_group begin

lemma applied_everywhere:
  assumes "r_Apply N cmd d w = (f, w')" "f_Error f = None" "dec_input M cmd = Inr inp"
  shows "\<exists>n. length (committed (group_of w)) \<le> n \<and> n < applied (replicas (group_of w') ! i) \<and> committed (group_of w') ! n = cmd \<and>
    (\<forall>g r. (group_step M)\<^sup>*\<^sup>* (group_of w') g \<and> r \<in> set (replicas g) \<and> n < applied r \<longrightarrow>
      map_of (state (r_fsm r)) = log_effect M (drop (Suc n) (take (applied r) (committed g)))
        (apply_input inp (log_effect M (take n (committed g)) Map.empty)))"
proof -
  from apply_logged [OF assms(1,2)] obtain n where
    n: "length (committed (group_of w)) \<le> n" "n < applied (replicas (group_of w') ! i)" "committed (group_of w') ! n = cmd"
    by blast
  have "map_of (state (r_fsm r)) = log_effect M (drop (Suc n) (take (applied r) (committed g)))
      (apply_input inp (log_effect M (take n (committed g)) Map.empty))"
    if st: "(group_step M)\<^sup>*\<^sup>* (group_of w') g \<and> r \<in> set (replicas g) \<and> n < applied r" for g r
  proof (rule logged_input)
    show "group_inv M g" using group_steps_inv [OF _ codec] in_group st by blast
    from st obtain es where "committed g = committed (group_of w') @ es" using committed_steps by blast
    with n own_state(1) [of w'] assms(3) show "dec_input M (committed g ! n) = Inr inp" by (simp add: nth_append)
  qed (use st in simp_all)
  with n show ?thesis by blast
qed

lemmas accepted_known = lib.apply_input_committed(2)

end

text \<open>
  C10: an accepted proposal in a group. If \<open>ProposeInput\<close> returns nil on a member, then, after attempts that asked for
  a retry, either its operation is a known one and the input has become an entry of the log, which
  this member has applied, and in every later state of the group, whatever members join, restart or
  restore, the input is part of the state of each member that has applied this entry, in the
  same position; or the member was not the leader and the forwarded input has been acknowledged.
\<close>

theorem accepted_input_replicated:
  assumes "raft_group M N group_of i" "raft b" "closed_by_context E"
    and "ProposeInput M C E N b wait inp w = Some (None, w')"
  shows "\<exists>cmd w0. enc_input M inp = Inr cmd \<and> retry_rounds (propose_attempt C E N b cmd) wait w w0 \<and>
    ((\<exists>n. in_Op inp \<in> {InputOpUndefined, InputOpSet, InputOpDelete} \<and> length (committed (group_of w0)) \<le> n \<and>
        n < applied (replicas (group_of w') ! i) \<and> committed (group_of w') ! n = cmd \<and>
        (\<forall>g r. (group_step M)\<^sup>*\<^sup>* (group_of w') g \<and> r \<in> set (replicas g) \<and> n < applied r \<longrightarrow>
          map_of (state (r_fsm r)) = log_effect M (drop (Suc n) (take (applied r) (committed g)))
            (apply_input inp (log_effect M (take n (committed g)) Map.empty)))) \<or>
     (\<exists>f w1 a ar. r_Apply N cmd 0 w0 = (f, w1) \<and> f_Error f = Some (Ext HraftErrNotLeader) \<and>
        com_PublishAction E (Some (lfwTimeout b)) a ScopeState w1 = (Inr (Received ar), w') \<and>
        enc_cmd C (ApplyCmd \<lparr>ap_Command = cmd, ap_Timeout = 0\<rparr>) = Inr (act_Params a)))"
proof -
  from assms(2,4) obtain cmd where cmd: "enc_input M inp = Inr cmd"
    by (auto simp: ProposeInput_def split: sum.splits)
  then have dec: "dec_input M cmd = Inr inp" by (rule msgpack_codec.input_roundtrip [OF raft_group.codec [OF assms(1)]])
  from ProposeInput_accepted [OF assms(2) cmd assms(3,4)] obtain w0 f w1
    where w0: "retry_rounds (propose_attempt C E N b cmd) wait w w0" "r_Apply N cmd 0 w0 = (f, w1)"
    and c: "f_Error f = None \<and> f_Response f = None \<and> w1 = w' \<or>
      f_Error f = Some (Ext HraftErrNotLeader) \<and> (\<exists>a ar. com_PublishAction E (Some (lfwTimeout b)) a ScopeState w1 = (Inr (Received ar), w') \<and>
        enc_cmd C (ApplyCmd \<lparr>ap_Command = cmd, ap_Timeout = 0\<rparr>) = Inr (act_Params a))"
    by blast
  from c show ?thesis
  proof
    assume ok: "f_Error f = None \<and> f_Response f = None \<and> w1 = w'"
    then have "in_Op inp \<in> {InputOpUndefined, InputOpSet, InputOpDelete}"
      using raft_group.accepted_known [OF assms(1) w0(2) _ dec] by simp
    moreover note raft_group.applied_everywhere [OF assms(1) w0(2) _ dec]
    ultimately show ?thesis using cmd w0(1) ok by (intro exI [of _ cmd] exI [of _ w0] conjI disjI1) auto
  next
    assume "f_Error f = Some (Ext HraftErrNotLeader) \<and> (\<exists>a ar. com_PublishAction E (Some (lfwTimeout b)) a ScopeState w1 = (Inr (Received ar), w') \<and>
        enc_cmd C (ApplyCmd \<lparr>ap_Command = cmd, ap_Timeout = 0\<rparr>) = Inr (act_Params a))"
    with cmd w0 show ?thesis by (intro exI [of _ cmd] exI [of _ w0] conjI disjI2) auto
  qed
qed


subsection \<open>A leader that commits at once\<close>

text \<open>
  The instance that shows that the contract can be fulfilled: the first member of a group is its leader and
  commits every command; the other members follow by the steps of the group.
\<close>

definition catch_up :: "msgpack \<Rightarrow> nat \<Rightarrow> group \<Rightarrow> group" where
  "catch_up M i g =
     (let r = replicas g ! i
      in put i (r\<lparr>applied := length (committed g), r_fsm := apply_log M (drop (applied r) (committed g)) (r_fsm r)\<rparr>) g)"

lemma catch_up_next:
  assumes "i < length (replicas g)" "replicas g ! i = r" "applied r < length (committed g)"
  shows "catch_up M i (put i (r\<lparr>applied := Suc (applied r), r_fsm := snd (Apply M (r_fsm r) (committed g ! applied r))\<rparr>) g) = catch_up M i g"
  using assms by (simp add: catch_up_def put_def apply_log_def flip: Cons_nth_drop_Suc)

lemma catch_up_done:
  assumes "replicas g ! i = r" "applied r = length (committed g)"
  shows "catch_up M i g = g"
proof -
  have "r\<lparr>applied := length (committed g), r_fsm := apply_log M (drop (applied r) (committed g)) (r_fsm r)\<rparr> = r"
    using assms(2) by (simp add: apply_log_def)
  moreover have "(replicas g)[i := r] = replicas g" using assms(1) by (metis list_update_id)
  ultimately show ?thesis using assms(1) by (simp add: catch_up_def put_def)
qed

lemma catch_up_steps:
  assumes "i < length (replicas g)" "applied (replicas g ! i) \<le> length (committed g)"
  shows "(group_step M)\<^sup>*\<^sup>* g (catch_up M i g)"
  using assms
proof (induction "length (committed g) - applied (replicas g ! i)" arbitrary: g)
  case 0
  then show ?case by (simp add: catch_up_done)
next
  case (Suc k)
  let ?r = "replicas g ! i"
  let ?g = "put i (?r\<lparr>applied := Suc (applied ?r), r_fsm := snd (Apply M (r_fsm ?r) (committed g ! applied ?r))\<rparr>) g"
  have lt: "applied ?r < length (committed g)" using Suc.hyps(2) by simp
  have "group_step M g ?g" using Suc.prems(1) lt by (intro apply_next) (simp_all add: member_def)
  moreover have "(group_step M)\<^sup>*\<^sup>* ?g (catch_up M i ?g)"
    by (rule Suc.hyps(1)) (use Suc.hyps(2) Suc.prems lt in \<open>simp_all add: put_def\<close>)
  ultimately show ?case using catch_up_next [OF Suc.prems(1) refl lt, of M] by (simp add: converse_rtranclp_into_rtranclp)
qed

typedef led = "{g. group_inv plain_codec g \<and> replicas g \<noteq> []}" morphisms group_of led_of
  using group_reachable_inv [OF msgpack_codec_plain example_group_reachable] by (auto simp: example_group_def intro!: exI [of _ example_group])

definition leader_node :: "led hraft" where
  "leader_node = \<lparr>DefaultConfig = DefaultConfig example_hraft,
     NewRaft = (\<lambda>c w. (None, w)), BootstrapCluster = (\<lambda>s w. (None, w)), LeaderCh = (\<lambda>d w. (Some True, w)),
     r_Apply = (\<lambda>cmd d w. let g = group_of w in
       (\<lparr>f_Error = None, f_Index = of_nat (Suc (length (committed g))),
         f_Response = fst (Apply plain_codec (r_fsm (replicas (catch_up plain_codec 0 g) ! 0)) cmd)\<rparr>,
        led_of (catch_up plain_codec 0 (g\<lparr>committed := committed g @ [cmd]\<rparr>)))),
     r_AddVoter = (\<lambda>i a p d w. (\<lparr>f_Error = None, f_Index = 1, f_Response = None\<rparr>, w)),
     r_RemoveServer = (\<lambda>i p d w. (\<lparr>f_Error = None, f_Index = 1, f_Response = None\<rparr>, w)),
     r_Barrier = (\<lambda>d w. (None, w)), r_isLeader = (\<lambda>w. True), r_Shutdown = (\<lambda>w. (None, w)),
     ctx_Err = (\<lambda>w. None), sleep = (\<lambda>d w. w)\<rparr>"

lemma led_member: "group_inv plain_codec (group_of w) \<and> 0 < length (replicas (group_of w))"
  using group_of [of w] by auto

lemma led_applied: "applied (replicas (group_of w) ! 0) \<le> length (committed (group_of w))"
  using led_member [of w] by (auto simp: group_inv_def replica_ok_def holds_def)

lemma led_commits:
  fixes cmd w
  defines "g \<equiv> (group_of w)\<lparr>committed := committed (group_of w) @ [cmd]\<rparr>"
  shows "(group_step plain_codec)\<^sup>*\<^sup>* (group_of w) (catch_up plain_codec 0 g)"
    and "group_of (led_of (catch_up plain_codec 0 g)) = catch_up plain_codec 0 g"
proof -
  have "(group_step plain_codec)\<^sup>*\<^sup>* g (catch_up plain_codec 0 g)"
    by (rule catch_up_steps) (use led_member [of w] led_applied [of w] in \<open>simp_all add: g_def\<close>)
  with commit [of plain_codec "group_of w" cmd] show steps: "(group_step plain_codec)\<^sup>*\<^sup>* (group_of w) (catch_up plain_codec 0 g)"
    unfolding g_def by (rule converse_rtranclp_into_rtranclp)
  have "group_inv plain_codec (catch_up plain_codec 0 g)"
    using group_steps_inv [OF steps msgpack_codec_plain] led_member [of w] by blast
  moreover have "replicas (catch_up plain_codec 0 g) \<noteq> []"
    using led_member [of w] by (auto simp: catch_up_def put_def g_def Let_def)
  ultimately show "group_of (led_of (catch_up plain_codec 0 g)) = catch_up plain_codec 0 g" by (simp add: led_of_inverse)
qed

interpretation leader: raft_group plain_codec leader_node group_of 0
proof unfold_locales
  fix cmd d w f w'
  assume "r_Apply leader_node cmd d w = (f, w')"
  then have w': "group_of w' = catch_up plain_codec 0 ((group_of w)\<lparr>committed := committed (group_of w) @ [cmd]\<rparr>)"
    and f: "\<exists>g. f_Response f = fst (Apply plain_codec g cmd)"
    using led_commits(2) [of w cmd] by (auto simp: leader_node_def Let_def)
  show "(group_step plain_codec)\<^sup>*\<^sup>* (group_of w) (group_of w')" unfolding w' by (rule led_commits(1))
  show "\<exists>g. f_Response f = fst (Apply plain_codec g cmd)" by (rule f)
  show "\<exists>n. length (committed (group_of w)) \<le> n \<and> n < applied (replicas (group_of w') ! 0) \<and> committed (group_of w') ! n = cmd"
    using led_member [of w] by (intro exI [of _ "length (committed (group_of w))"]) (simp add: w' catch_up_def put_def Let_def)
qed (use msgpack_codec.input_roundtrip [OF msgpack_codec_plain] msgpack_codec.snapshot_roundtrip [OF msgpack_codec_plain] led_member
    in \<open>auto simp: leader_node_def\<close>)

lemma raft_group_leader: "raft_group plain_codec leader_node group_of 0"
  by (rule leader.raft_group_axioms)

theorem accepted_input_replicated_witness:
  "\<exists>w' n. ProposeInput plain_codec response_wire single_env leader_node leader_binding (\<lambda>d w. (None, w)) example_input (led_of example_group) =
      Some (None, w') \<and> committed (group_of w') ! n = plain_enc_input example_input \<and>
    (\<forall>g r. (group_step plain_codec)\<^sup>*\<^sup>* (group_of w') g \<and> r \<in> set (replicas g) \<and> n < applied r \<longrightarrow>
      map_of (state (r_fsm r)) = log_effect plain_codec (drop (Suc n) (take (applied r) (committed g)))
        (apply_input example_input (log_effect plain_codec (take n (committed g)) Map.empty)))"
proof -
  let ?w = "led_of example_group"
  obtain f w' where ap: "r_Apply leader_node (plain_enc_input example_input) 0 ?w = (f, w')" "f_Error f = None" "f_Response f = None"
    by (simp add: leader_node_def Let_def example_applies)
  note p = ProposeInput_once [OF leader_open example_enc ap, of response_wire single_env "\<lambda>d w. (None, w)"]
  from accepted_input_replicated [OF raft_group_leader leader_open single_env_closed p] p show ?thesis
    by (auto simp: single_env_def example_enc)
qed

end
