(* ===== verification/Grpc_System.thy ===== *)
theory Grpc_System
  imports Grpc_Props Raft_Net Raft_Group
begin

section \<open>Clients of two agents\<close>

text \<open>
  The gRPC server with the MQTT 5 binding behind it, as \<open>dda.go\<close> puts them together: \<open>mqtt_com\<close> is the
  communication service of the server, on the state of the binding. A call that returns a channel
  is given the id of the publication and the context of the stream; what arrives on the channel is
  the input of the stream. The property follows an action from a client of one agent to a client of
  another and its result back.
\<close>

definition mqtt_com :: "('c, 'w) paho \<Rightarrow> string \<Rightarrow> nat \<Rightarrow> ('c, 'w) Mqtt5Binding com_service" where
  "mqtt_com P uuid ctx =
     \<lparr>cs_PublishEvent = (\<lambda>e b. Mqtt5.PublishEvent P b e None),
      cs_SubscribeEvent = (\<lambda>flt b. case Mqtt5.SubscribeEvent P b ctx flt of (r, b') \<Rightarrow> (case r of Inl err \<Rightarrow> Some err | Inr _ \<Rightarrow> None, b')),
      cs_PublishAction = (\<lambda>a b. case Mqtt5.PublishAction P b uuid ctx a None of (r, b') \<Rightarrow> (case r of Inl err \<Rightarrow> Some err | Inr _ \<Rightarrow> None, b')),
      cs_SubscribeAction = (\<lambda>flt b. case Mqtt5.SubscribeAction P b ctx flt of (r, b') \<Rightarrow> (case r of Inl err \<Rightarrow> Some err | Inr _ \<Rightarrow> None, b')),
      cs_PublishQuery = (\<lambda>q b. case Mqtt5.PublishQuery P b uuid ctx q None of (r, b') \<Rightarrow> (case r of Inl err \<Rightarrow> Some err | Inr _ \<Rightarrow> None, b')),
      cs_SubscribeQuery = (\<lambda>flt b. case Mqtt5.SubscribeQuery P b ctx flt of (r, b') \<Rightarrow> (case r of Inl err \<Rightarrow> Some err | Inr _ \<Rightarrow> None, b')),
      cs_ActionCallback = (\<lambda>cb res b. publishActionResult P b res (cb_ResponseTopic cb) (cb_CorrelationId cb)),
      cs_QueryCallback = (\<lambda>cb res b. publishQueryResult P b res (cb_ResponseTopic cb) (cb_CorrelationId cb))\<rparr>"

lemma mqtt_com_sel [simp]:
  "cs_PublishEvent (mqtt_com P uuid ctx) e b = Mqtt5.PublishEvent P b e None"
  "cs_ActionCallback (mqtt_com P uuid ctx) cb ar b = publishActionResult P b ar (cb_ResponseTopic cb) (cb_CorrelationId cb)"
  "cs_QueryCallback (mqtt_com P uuid ctx) cb qr b = publishQueryResult P b qr (cb_ResponseTopic cb) (cb_CorrelationId cb)"
  by (simp_all add: mqtt_com_def)

lemma mqtt_com_ok:
  "cs_SubscribeEvent (mqtt_com P uuid ctx) flt b = (None, b') \<longleftrightarrow> (\<exists>ch. Mqtt5.SubscribeEvent P b ctx flt = (Inr ch, b'))"
  "cs_PublishAction (mqtt_com P uuid ctx) a b = (None, b') \<longleftrightarrow> (\<exists>ch. Mqtt5.PublishAction P b uuid ctx a None = (Inr ch, b'))"
  "cs_SubscribeAction (mqtt_com P uuid ctx) flt b = (None, b') \<longleftrightarrow> (\<exists>ch. Mqtt5.SubscribeAction P b ctx flt = (Inr ch, b'))"
  by (auto simp: mqtt_com_def split: prod.splits sum.splits)

lemma stream_opened:
  assumes "stream_call enabled name msg call hdr f [] s w = (None, s', ms, w')"
  shows "enabled \<and> hdr = None \<and> call w = (None, w')"
  using assms by (auto simp: stream_call_def split: if_splits prod.splits option.splits)

lemma client_scope [simp]: "valid_scope ScopeDef" "sf_Scope (client_filter fil) = ScopeDef" "sf_Type (client_filter fil) = sf_Type fil"
  by (simp_all add: valid_scope_def client_filter_def)

lemma scope_arg_None [simp]: "scope_arg None = ScopeDef"
  by (simp add: scope_arg_def)


context user_properties begin

lemmas mqtt_action_delivered = svc.delivered
lemmas mqtt_action_answered = svc.answered

end

lemma client_result_sent:
  assumes "comApi s" "Grpc.PublishActionResult (mqtt_com P uuid ctx) (snd (register_action (cid, awc) s)) cid res m = (None, s2, m')"
  shows "publishActionResult P m res (cb_ResponseTopic (awc_Callback awc)) (cb_CorrelationId (awc_Callback awc)) = (None, m')"
  using assms by (simp add: Grpc.PublishActionResult_def register_action_def update_conv' Let_def split: prod.splits option.splits)

subsection \<open>Properties\<close>

text \<open>
  C13: an action between clients of two agents. When the stream of a client that publishes an action and the stream of
  a client that subscribes to actions are open on two agents of a cluster, one packet carries the action, and
  the binding of the second agent gives it to the channel of the subscription exactly if the filter has the type
  of the action. The subscribed client is then sent this action with a correlation id; when it
  publishes a result with this id without an error, one packet carries the result, the binding of the
  first agent gives it to the channel of this publication and no other, and the first client is
  sent exactly this result.
\<close>

theorem action_between_clients:
  assumes P: "user_properties P" and nodes: "mqtt_wf m" "mqtt_wf m2" "cluster m2 = cluster m" "mqtt_unused m uuid"
    and pub: "Grpc.PublishAction (mqtt_com P uuid ctx) sa act None [] m = (None, sa, [], m')"
    and sub: "Grpc.SubscribeAction (mqtt_com P uuid2 ctx2) sb fil None [] m2 = (None, sb, [], m2')"
  shows "\<exists>ch ch2 p awc chs. Mqtt5.PublishAction P m uuid ctx act None = (Inr ch, m') \<and>
    Mqtt5.SubscribeAction P m2 ctx2 (client_filter fil) = (Inr ch2, m2') \<and>
    mqtt_sends P p m' \<and> mqtt_receives P m2' p awc chs \<and> (ch2 \<in> chs \<longleftrightarrow> sf_Type fil = act_Type act) \<and>
    (\<forall>cid. \<exists>sb'. Grpc.SubscribeAction (mqtt_com P uuid2 ctx2) sb fil None [Item (cid, awc)] m2 =
        (None, sb', [\<lparr>ac_Action = act, ac_CorrelationId = cid\<rparr>], m2') \<and>
      (\<forall>res m3 sb2 m4. int64_range (acr_SequenceNumber res) \<and>
         Grpc.PublishActionResult (mqtt_com P uuid2 ctx2) sb' cid res m3 = (None, sb2, m4) \<longrightarrow>
         (\<exists>p2. mqtt_sends P p2 m4 \<and> mqtt_receives_result P m' p2 res [ch] \<and>
           Grpc.PublishAction (mqtt_com P uuid ctx) sa act None [Item res] m = (None, sa, [res], m'))))"
proof -
  note po = stream_opened [OF pub [unfolded Grpc.PublishAction_def]]
  note so = stream_opened [OF sub [unfolded Grpc.SubscribeAction_def]]
  from po obtain ch where ch: "Mqtt5.PublishAction P m uuid ctx act None = (Inr ch, m')" by (auto simp: mqtt_com_ok)
  from so obtain ch2 where ch2: "Mqtt5.SubscribeAction P m2 ctx2 (client_filter fil) = (Inr ch2, m2')" by (auto simp: mqtt_com_ok)
  let ?awc = "\<lparr>awc_Action = act, awc_Callback = mqtt_callback m uuid None act\<rparr>"
  from user_properties.mqtt_action_delivered [OF P nodes(1-3) _ _ ch ch2] obtain p chs where
    p: "mqtt_sends P p m'" "mqtt_receives P m2' p ?awc chs" "ch2 \<in> chs \<longleftrightarrow> sf_Type fil = act_Type act"
    by auto
  have sent: "Grpc.SubscribeAction (mqtt_com P uuid2 ctx2) sb fil None [Item (cid, ?awc)] m2 =
      (None, snd (register_action (cid, ?awc) sb), [\<lparr>ac_Action = act, ac_CorrelationId = cid\<rparr>], m2')" for cid
    using so by (simp add: Grpc.SubscribeAction_def stream_call_def register_action_def)
  have answer: "\<exists>p2. mqtt_sends P p2 m4 \<and> mqtt_receives_result P m' p2 res [ch] \<and>
      Grpc.PublishAction (mqtt_com P uuid ctx) sa act None [Item res] m = (None, sa, [res], m')"
    if "int64_range (acr_SequenceNumber res)"
      "Grpc.PublishActionResult (mqtt_com P uuid2 ctx2) (snd (register_action (cid, ?awc) sb)) cid res m3 = (None, sb2, m4)" for cid res m3 sb2 m4
  proof -
    have "comApi sb" using so by simp
    from client_result_sent [OF this that(2)] user_properties.mqtt_action_answered [OF P nodes(1) _ nodes(4) ch that(1)]
    have "\<exists>p2. mqtt_sends P p2 m4 \<and> mqtt_receives_result P m' p2 res [ch]" by auto
    moreover have "Grpc.PublishAction (mqtt_com P uuid ctx) sa act None [Item res] m = (None, sa, [res], m')"
      using po by (simp add: Grpc.PublishAction_def stream_call_def)
    ultimately show ?thesis by blast
  qed
  from ch ch2 p show ?thesis
    by (intro exI conjI allI) (assumption | rule sent | use answer in blast)+
qed


definition agent :: "(unit, mem_db) grpcServer" where
  "agent = New True None False"

lemma agent_streams:
  "\<exists>m'. Grpc.PublishAction (mqtt_com mem_paho uuid ctx) agent example_action None [] (mem_binding i) = (None, agent, [], m')"
  "\<exists>m'. Grpc.SubscribeAction (mqtt_com mem_paho uuid ctx) agent example_filter None [] (mem_binding i) = (None, agent, [], m')"
proof -
  have com: "comApi agent" by (simp add: agent_def New_def)
  have "\<exists>ch m'. Mqtt5.PublishAction mem_paho (mem_binding i) uuid ctx example_action None = (Inr ch, m')"
    by (rule mem_pub) (simp_all add: example_action_def)
  then obtain m1 where "cs_PublishAction (mqtt_com mem_paho uuid ctx) example_action (mem_binding i) = (None, m1)"
    by (auto simp: mqtt_com_ok)
  with com show "\<exists>m'. Grpc.PublishAction (mqtt_com mem_paho uuid ctx) agent example_action None [] (mem_binding i) = (None, agent, [], m')"
    by (simp add: Grpc.PublishAction_def stream_call_def)
  have "\<exists>ch m'. Mqtt5.SubscribeAction mem_paho (mem_binding i) ctx (client_filter example_filter) = (Inr ch, m')"
    by (rule mem_sub) (simp_all add: example_filter_def client_filter_def)
  then obtain m2 where "cs_SubscribeAction (mqtt_com mem_paho uuid ctx) (client_filter example_filter) (mem_binding i) = (None, m2)"
    by (auto simp: mqtt_com_ok)
  with com show "\<exists>m'. Grpc.SubscribeAction (mqtt_com mem_paho uuid ctx) agent example_filter None [] (mem_binding i) = (None, agent, [], m')"
    by (simp add: Grpc.SubscribeAction_def stream_call_def)
qed

theorem action_between_clients_witness:
  "\<exists>awc sb' sb2 m2' m4 p2 ch m'.
    Grpc.SubscribeAction (mqtt_com mem_paho ''v'' 0) agent example_filter None [Item (''c1'', awc)] (mem_binding ''b'') =
      (None, sb', [\<lparr>ac_Action = example_action, ac_CorrelationId = ''c1''\<rparr>], m2') \<and>
    Grpc.PublishActionResult (mqtt_com mem_paho ''v'' 0) sb' ''c1'' example_action_result (mem_binding ''b'') = (None, sb2, m4) \<and>
    mqtt_sends mem_paho p2 m4 \<and> mqtt_receives_result mem_paho m' p2 example_action_result [ch] \<and>
    Grpc.PublishAction (mqtt_com mem_paho ''u'' 0) agent example_action None [Item example_action_result] (mem_binding ''a'') =
      (None, agent, [example_action_result], m')"
proof -
  obtain m' m2' where pub: "Grpc.PublishAction (mqtt_com mem_paho ''u'' 0) agent example_action None [] (mem_binding ''a'') = (None, agent, [], m')"
    and sub: "Grpc.SubscribeAction (mqtt_com mem_paho ''v'' 0) agent example_filter None [] (mem_binding ''b'') = (None, agent, [], m2')"
    using agent_streams by metis
  have cl: "cluster (mem_binding ''b'') = cluster (mem_binding ''a'')" by simp
  have range: "int64_range (acr_SequenceNumber example_action_result)"
    by (simp add: example_action_result_def int64_range_def)
  note between = action_between_clients [OF user_properties_mem mem_wf(1,1) cl mem_wf(2) pub sub]
  from between obtain ch awc sb' where
    item: "Grpc.SubscribeAction (mqtt_com mem_paho ''v'' 0) agent example_filter None [Item (''c1'', awc)] (mem_binding ''b'') =
      (None, sb', [\<lparr>ac_Action = example_action, ac_CorrelationId = ''c1''\<rparr>], m2')" and
    answer: "\<And>sb2 m4. Grpc.PublishActionResult (mqtt_com mem_paho ''v'' 0) sb' ''c1'' example_action_result (mem_binding ''b'') = (None, sb2, m4) \<Longrightarrow>
      \<exists>p2. mqtt_sends mem_paho p2 m4 \<and> mqtt_receives_result mem_paho m' p2 example_action_result [ch] \<and>
        Grpc.PublishAction (mqtt_com mem_paho ''u'' 0) agent example_action None [Item example_action_result] (mem_binding ''a'') =
          (None, agent, [example_action_result], m')"
    using range by (elim exE conjE allE [of _ "''c1''"]) (blast intro: that)
  obtain m4 where m4: "publishActionResult mem_paho (mem_binding ''b'') example_action_result
      (cb_ResponseTopic (awc_Callback awc)) (cb_CorrelationId (awc_Callback awc)) = (None, m4)"
    using mem_respond by blast
  have "comApi agent" by (simp add: agent_def New_def)
  with item sub have "sb' = agent\<lparr>actionCallbacks := [(''c1'', awc_Callback awc)]\<rparr>"
    by (auto simp: Grpc.SubscribeAction_def stream_call_def register_action_def agent_def New_def split: prod.splits option.splits)
  with m4 have "\<exists>sb2. Grpc.PublishActionResult (mqtt_com mem_paho ''v'' 0) sb' ''c1'' example_action_result (mem_binding ''b'') = (None, sb2, m4)"
    by (simp add: Grpc.PublishActionResult_def agent_def New_def Let_def)
  with item answer show ?thesis by metis
qed


section \<open>Clients of the replicated state\<close>

text \<open>
  The gRPC server with the Raft binding behind it: \<open>raft_state\<close> is the state service of the server. The world is the
  binding, whose state machine the Raft library works on, and the rest of the node.
\<close>

definition raft_state ::
  "msgpack \<Rightarrow> ('h, 'x response) rpc_codec \<Rightarrow> ('h, 'x response, ('d, 'f, 'snap) RaftBinding \<times> 'n) env \<Rightarrow>
     (('d, 'f, 'snap) RaftBinding \<times> 'n) hraft \<Rightarrow> (('d, 'f, 'snap) RaftBinding \<times> 'n) retry_wait \<Rightarrow>
     (('d, 'f, 'snap) RaftBinding \<times> 'n) state_service"
where
  "raft_state M C E N wait =
     \<lparr>ss_ProposeInput = (\<lambda>inp w. Raft_Binding.ProposeInput M C E N (fst w) wait inp w),
      ss_ObserveStateChange = (\<lambda>(b, n). case Raft_Binding.ObserveStateChange b of
        (r, b') \<Rightarrow> (case r of Inl err \<Rightarrow> Some err | Inr _ \<Rightarrow> None, (b', n))),
      ss_ObserveMembershipChange = (\<lambda>(b, n). case Raft_Binding.ObserveMembershipChange b of
        (r, b') \<Rightarrow> (case r of Inl err \<Rightarrow> Some err | Inr _ \<Rightarrow> None, (b', n)))\<rparr>"

definition own_fsm :: "('d, 'f, 'snap) RaftBinding \<times> 'n \<Rightarrow> RaftFsm" where
  "own_fsm w = the (fsm (fst w))"

lemma raft_state_sel [simp]:
  "ss_ProposeInput (raft_state M C E N wait) inp w = Raft_Binding.ProposeInput M C E N (fst w) wait inp w"
  by (simp add: raft_state_def)

lemma grpc_proposal_ok:
  "Grpc.ProposeInput (raft_state M C E N wait) s inp w = Some (None, w') \<longleftrightarrow>
    stateApi s \<and> Raft_Binding.ProposeInput M C E N (fst w) wait inp w = Some (None, w')"
  by (cases w') (auto simp: Grpc.ProposeInput_def)

lemma serve_inputs: "serve_stream Pair (map Item is) s = (None, s, is)"
  by (induction "is") simp_all

lemma state_stream:
  assumes "Grpc.ObserveStateChange (raft_state M C E N wait) s [] (b, n) = (None, s, [], w1)"
  shows "\<exists>ch i b1. Raft_Binding.ObserveStateChange b = (Inr (ch, i), b1) \<and> w1 = (b1, n) \<and>
    (\<forall>is. Grpc.ObserveStateChange (raft_state M C E N wait) s (map Item is) (b, n) = (None, s, is, w1))"
proof -
  from stream_opened [OF assms [unfolded Grpc.ObserveStateChange_def]]
  have "stateApi s" and call: "ss_ObserveStateChange (raft_state M C E N wait) (b, n) = (None, w1)" by simp_all
  from call obtain ch i b1 where "Raft_Binding.ObserveStateChange b = (Inr (ch, i), b1)" "w1 = (b1, n)"
    by (auto simp: raft_state_def split: prod.splits sum.splits)
  with \<open>stateApi s\<close> call show ?thesis by (simp add: Grpc.ObserveStateChange_def stream_call_def serve_inputs)
qed

text \<open>A proposal of an operation the state machine does not know, on the leader.\<close>

lemma unknown_apply:
  assumes "raft_library M N fsm_of" "r_Apply N cmd d w = (f, w')" "f_Error f = None" "dec_input M cmd = Inr inp"
    and "in_Op inp \<notin> {InputOpUndefined, InputOpSet, InputOpDelete}"
  shows "f_Response f = Some (Errorf ''unknown input operation in Raft log entry: %v'')"
  using raft_library.apply_response [OF assms(1-3)] assms(4,5) by (auto simp: Apply_def)

subsection \<open>Properties\<close>


text \<open>The leader of a group of one, whose world is the binding with its state machine.\<close>

definition own_node :: "msgpack \<Rightarrow> (('d, 'f, 'snap) RaftBinding \<times> 'n) hraft" where
  "own_node M = \<lparr>DefaultConfig = DefaultConfig example_hraft,
     NewRaft = (\<lambda>c w. (None, w)), BootstrapCluster = (\<lambda>s w. (None, w)), LeaderCh = (\<lambda>d w. (Some True, w)),
     r_Apply = (\<lambda>cmd d w. case r_Apply (single_node M) cmd d (own_fsm w) of (r, f) \<Rightarrow> (r, ((fst w)\<lparr>fsm := Some f\<rparr>, snd w))),
     r_AddVoter = (\<lambda>i a p d w. (\<lparr>f_Error = None, f_Index = 1, f_Response = None\<rparr>, w)),
     r_RemoveServer = (\<lambda>i p d w. (\<lparr>f_Error = None, f_Index = 1, f_Response = None\<rparr>, w)),
     r_Barrier = (\<lambda>d w. (None, w)), r_isLeader = (\<lambda>w. True), r_Shutdown = (\<lambda>w. (None, w)),
     ctx_Err = (\<lambda>w. None), sleep = (\<lambda>d w. w)\<rparr>"

lemma raft_library_own: "raft_library M (own_node M) own_fsm"
proof
  fix cmd d and w w' :: "('a, 'b, 'c) RaftBinding \<times> 'd" and f
  assume "r_Apply (own_node M) cmd d w = (f, w')" and ok: "f_Error f = None"
  then have ap: "r_Apply (single_node M) cmd d (own_fsm w) = (f, own_fsm w')"
    by (auto simp: own_node_def own_fsm_def split: prod.splits)
  show "\<exists>pre post. map_of (state (own_fsm w')) = log_effect M (pre @ [cmd] @ post) (map_of (state (own_fsm w)))"
    by (rule raft_library.apply_committed [OF raft_library_single ap ok])
  show "\<exists>g. f_Response f = fst (Apply M g cmd)" by (rule raft_library.apply_response [OF raft_library_single ap ok])
next
  fix d and w w' :: "('a, 'b, 'c) RaftBinding \<times> 'd" and err
  assume "r_Barrier (own_node M) d w = (err, w')"
  then show "\<exists>post. map_of (state (own_fsm w')) = log_effect M post (map_of (state (own_fsm w)))"
    by (intro exI [of _ "[]"]) (simp add: own_node_def log_effect_def)
qed

text \<open>An agent on which a stream is open, whose observer has been told the (empty) state.\<close>

definition node_before :: "(unit, unit, unit) RaftBinding \<times> unit" where
  "node_before = (leader_binding\<lparr>fsm := Some NewRaftFsm\<rparr>, ())"

definition node_observed :: "(unit, unit, unit) RaftBinding \<times> unit" where
  "node_observed = (leader_binding\<lparr>fsm := Some example_observed\<rparr>, ())"

definition state_agent :: "(unit, mem_db) grpcServer" where
  "state_agent = Grpc.New False None True"

abbreviation example_state :: "((unit, unit, unit) RaftBinding \<times> unit) state_service" where
  "example_state \<equiv> raft_state plain_codec response_wire single_env (own_node plain_codec) (\<lambda>d w. (None, w))"


text \<open>
  C15: an operation of a client that the state machine does not know. The server passes it on; a node
  that is the leader commits it, the error of the state machine ends the proposal after this
  attempt, and the client is told that its argument was invalid.
\<close>

theorem unknown_operation_rejected:
  assumes "raft_library M N fsm_of" "msgpack_codec M" "stateApi s" "raft (fst w)" "enc_input M inp = Inr cmd"
    and "in_Op inp \<notin> {InputOpUndefined, InputOpSet, InputOpDelete}" "r_Apply N cmd 0 w = (f, w')" "f_Error f = None"
  shows "\<exists>e. Grpc.ProposeInput (raft_state M C E N wait) s inp w = Some (Some e, w') \<and> code_of e = Some InvalidArgument"
proof -
  let ?e = "Errorf ''unknown input operation in Raft log entry: %v''"
  have "dec_input M cmd = Inr inp" by (rule msgpack_codec.input_roundtrip [OF assms(2,5)])
  from unknown_apply [OF assms(1,7,8) this assms(6)] have "f_Response f = Some ?e" .
  with assms(7,8) have "propose_attempt C E N (fst w) cmd (0 + 1) w = (Some ?e, w')" by (simp add: propose_attempt_def)
  then have "retry_loop lfw_backoff (propose_attempt C E N (fst w) cmd) wait 0 (Base lfw_backoff) w = Some (Some ?e, w')"
    by (rule retry_loop_stop) simp
  then have "Raft_Binding.ProposeInput M C E N (fst w) wait inp w = Some (Some ?e, w')" using assms(4,5) by (simp add: ProposeInput_loop)
  then show ?thesis using assms(3) by (simp add: Grpc.ProposeInput_def)
qed


theorem unknown_operation_rejected_witness:
  "\<exists>e w'. Grpc.ProposeInput example_state state_agent (example_input\<lparr>in_Op := 7\<rparr>) node_observed = Some (Some e, w') \<and>
    code_of e = Some InvalidArgument"
proof -
  let ?inp = "example_input\<lparr>in_Op := 7\<rparr>"
  have "stateApi state_agent" "raft (fst node_observed)" "enc_input plain_codec ?inp = Inr (plain_enc_input ?inp)"
    "in_Op ?inp \<notin> {InputOpUndefined, InputOpSet, InputOpDelete}"
    by (simp_all add: state_agent_def Grpc.New_def node_observed_def leader_binding_def plain_codec_def op_defs)
  moreover obtain f w' where "r_Apply (own_node plain_codec) (plain_enc_input ?inp) 0 node_observed = (f, w')" "f_Error f = None"
    by (simp add: own_node_def single_node_def)
  ultimately show ?thesis using unknown_operation_rejected [OF raft_library_own msgpack_codec_plain] by blast
qed

end
