(* ===== verification/Dda.thy ===== *)
theory Dda
  imports Config Services
begin

section \<open>The agent (dda/dda.go) and the factories of its services\<close>

text \<open>
  \<open>New\<close> creates the services the configuration enables, with the factories \<open>com.New\<close>, \<open>store.New\<close> and
  \<open>state.New\<close>; \<open>Open\<close> and \<open>Close\<close> start and stop them in order. The services and the gRPC server are
  seen from outside: a call of one of them is a step on a world \<open>'w\<close> (record \<open>parts\<close>).
\<close>

datatype binding = Mqtt5Binding | PebbleBinding | RaftBinding | GrpcServer

definition com_New :: "string \<Rightarrow> goerr + binding" where
  "com_New protocol =
     (if protocol = ''mqtt5'' then Inr Mqtt5Binding else Inl (Errorf ''communication protocol %s: not supported''))"

definition store_New :: "string \<Rightarrow> goerr + binding" where
  "store_New engine =
     (if engine = ''pebble'' then Inr PebbleBinding else Inl (Errorf ''storage engine %s: not supported''))"

definition state_New :: "string \<Rightarrow> goerr + binding" where
  "state_New protocol =
     (if protocol = ''raft'' then Inr RaftBinding else Inl (Errorf ''consensus protocol %s: not supported''))"

record Dda =
  dda_cfg :: Config
  dda_comApi :: "binding option"
  dda_storeApi :: "binding option"
  dda_stateApi :: "binding option"
  dda_grpcServer :: "binding option"

text \<open>A service that is created unless it is disabled.\<close>

definition create :: "bool \<Rightarrow> goerr + binding \<Rightarrow> goerr + binding option" where
  "create disabled r = (if disabled then Inr None else case r of Inl err \<Rightarrow> Inl err | Inr b \<Rightarrow> Inr (Some b))"

definition New :: "Config \<Rightarrow> goerr + Dda" where
  "New cfg =
     (case Verify cfg of
        Some err \<Rightarrow> Inl err
      | None \<Rightarrow>
          (case create (com_Disabled (Com (cfg_Services cfg))) (com_New (com_Protocol (Com (cfg_Services cfg)))) of
             Inl err \<Rightarrow> Inl err
           | Inr c \<Rightarrow>
               (case create (store_Disabled (Store (cfg_Services cfg))) (store_New (store_Engine (Store (cfg_Services cfg)))) of
                  Inl err \<Rightarrow> Inl err
                | Inr st \<Rightarrow>
                    if \<not> state_Disabled (State (cfg_Services cfg)) \<and> com_Disabled (Com (cfg_Services cfg))
                    then Inl (Errorf ''Dda cannot be created: state service requires com service to be enabled'')
                    else (case create (state_Disabled (State (cfg_Services cfg))) (state_New (state_Protocol (State (cfg_Services cfg)))) of
                            Inl err \<Rightarrow> Inl err
                          | Inr sy \<Rightarrow>
                              Inr \<lparr>dda_cfg = cfg, dda_comApi = c, dda_storeApi = st, dda_stateApi = sy,
                                   dda_grpcServer = (if api_Disabled (Grpc (Apis cfg)) then None else Some GrpcServer)\<rparr>))))"

definition Identity :: "Dda \<Rightarrow> Identity" where
  "Identity d = cfg_Identity (dda_cfg d)"

subsection \<open>Opening and closing\<close>

record 'w parts =
  part_Open :: "binding \<Rightarrow> Config \<Rightarrow> int64 \<Rightarrow> 'w \<Rightarrow> goerr option \<times> 'w"
  part_Close :: "binding \<Rightarrow> 'w \<Rightarrow> 'w"

definition open_part :: "'w parts \<Rightarrow> Config \<Rightarrow> int64 \<Rightarrow> binding option \<Rightarrow> 'w \<Rightarrow> goerr option \<times> 'w" where
  "open_part R cfg tmo part w = (case part of None \<Rightarrow> (None, w) | Some b \<Rightarrow> part_Open R b cfg tmo w)"

definition Open :: "'w parts \<Rightarrow> Dda \<Rightarrow> int64 \<Rightarrow> 'w \<Rightarrow> goerr option \<times> 'w" where
  "Open R d tmo w =
     (case open_part R (dda_cfg d) tmo (dda_comApi d) w of
        (Some err, w1) \<Rightarrow> (Some err, w1)
      | (None, w1) \<Rightarrow>
          (case open_part R (dda_cfg d) tmo (dda_storeApi d) w1 of
             (Some err, w2) \<Rightarrow> (Some err, w2)
           | (None, w2) \<Rightarrow>
               (case open_part R (dda_cfg d) tmo (dda_stateApi d) w2 of
                  (Some err, w3) \<Rightarrow> (Some err, w3)
                | (None, w3) \<Rightarrow>
                    (case open_part R (dda_cfg d) tmo (dda_grpcServer d) w3 of
                       (Some err, w4) \<Rightarrow> (Some err, w4)
                     | (None, w4) \<Rightarrow> (None, w4)))))"

definition close_part :: "'w parts \<Rightarrow> binding option \<Rightarrow> 'w \<Rightarrow> 'w" where
  "close_part R part w = (case part of None \<Rightarrow> w | Some b \<Rightarrow> part_Close R b w)"

definition Close :: "'w parts \<Rightarrow> Dda \<Rightarrow> 'w \<Rightarrow> 'w" where
  "Close R d w =
     close_part R (dda_comApi d) (close_part R (dda_storeApi d) (close_part R (dda_stateApi d) (close_part R (dda_grpcServer d) w)))"

subsection \<open>The parts of an agent\<close>

definition parts_of :: "Dda \<Rightarrow> binding list" where
  "parts_of d = List.map_filter (\<lambda>x. x) [dda_comApi d, dda_storeApi d, dda_stateApi d, dda_grpcServer d]"

definition closing_order :: "Dda \<Rightarrow> binding list" where
  "closing_order d = List.map_filter (\<lambda>x. x) [dda_grpcServer d, dda_stateApi d, dda_storeApi d, dda_comApi d]"

lemma closing_order_rev: "closing_order d = rev (parts_of d)"
  by (auto simp: closing_order_def parts_of_def map_filter_simps split: option.splits)

text \<open>Opening one part after the other until one fails, with the parts opened without error.\<close>

fun open_all :: "'w parts \<Rightarrow> Config \<Rightarrow> int64 \<Rightarrow> binding list \<Rightarrow> 'w \<Rightarrow> goerr option \<times> binding list \<times> 'w" where
  "open_all R cfg tmo [] w = (None, [], w)"
| "open_all R cfg tmo (b # bs) w =
     (case part_Open R b cfg tmo w of
        (Some err, w1) \<Rightarrow> (Some err, [], w1)
      | (None, w1) \<Rightarrow> (case open_all R cfg tmo bs w1 of (err, os, w2) \<Rightarrow> (err, b # os, w2)))"

lemma open_all_prefix: "open_all R cfg tmo bs w = (err, os, w') \<Longrightarrow> (\<exists>rest. bs = os @ rest \<and> (err = None \<longleftrightarrow> rest = []))"
proof (induction bs arbitrary: w os)
  case (Cons b bs)
  then show ?case by (fastforce split: prod.splits option.splits)
qed simp

lemma open_all_parts:
  "Open R d tmo w = (case open_all R (dda_cfg d) tmo (parts_of d) w of (err, os, w') \<Rightarrow> (err, w'))"
  by (auto simp: Open_def open_part_def parts_of_def map_filter_simps split: prod.splits option.splits)

lemma close_parts: "Close R d w = fold (part_Close R) (closing_order d) w"
  by (auto simp: Close_def close_part_def closing_order_def map_filter_simps split: option.splits)

subsection \<open>Properties\<close>

text \<open>
  An agent is created exactly from a configuration of the right version with a valid cluster
  name, whose enabled services have known protocols, and which enables the communication service
  if it enables the state service; it has exactly the enabled parts.
\<close>

theorem New_iff:
  "((\<exists>d. New cfg = Inr d) \<longleftrightarrow>
      Version cfg = configSchemaVersion \<and> compliesWithNamingConvention (Cluster cfg) \<and>
      (com_Disabled (Com (cfg_Services cfg)) \<or> com_Protocol (Com (cfg_Services cfg)) = ''mqtt5'') \<and>
      (store_Disabled (Store (cfg_Services cfg)) \<or> store_Engine (Store (cfg_Services cfg)) = ''pebble'') \<and>
      (state_Disabled (State (cfg_Services cfg)) \<or>
        \<not> com_Disabled (Com (cfg_Services cfg)) \<and> state_Protocol (State (cfg_Services cfg)) = ''raft'')) \<and>
    (\<forall>d. New cfg = Inr d \<longrightarrow> dda_cfg d = cfg \<and>
      parts_of d = (if com_Disabled (Com (cfg_Services cfg)) then [] else [Mqtt5Binding]) @
        (if store_Disabled (Store (cfg_Services cfg)) then [] else [PebbleBinding]) @
        (if state_Disabled (State (cfg_Services cfg)) then [] else [RaftBinding]) @
        (if api_Disabled (Grpc (Apis cfg)) then [] else [GrpcServer]))"
  using Verify_None [of cfg]
  by (cases "Verify cfg")
    (auto simp: New_def create_def com_New_def store_New_def state_New_def parts_of_def map_filter_simps)

theorem New_iff_witness:
  "\<exists>d. New (Config.New ''id'') = Inr d \<and> parts_of d = [Mqtt5Binding, GrpcServer]"
proof -
  have "\<exists>d. New (Config.New ''id'') = Inr d"
    using Verify_New [of "''id''"] unfolding New_iff [THEN conjunct1] Verify_None by (simp add: Config.New_def)
  then obtain d where d: "New (Config.New ''id'') = Inr d" ..
  from New_iff [THEN conjunct2, rule_format, OF d] d show ?thesis by (simp add: Config.New_def)
qed

text \<open>
  The order of starting and stopping. \<open>Open\<close> starts the parts one after the other, communication
  first, then storage, state synchronization and the gRPC server, and stops at the first one that
  fails: what it leaves open is a prefix of the parts, all of them exactly if it returns nil.
  \<open>Close\<close> stops all parts in the reverse order, whether \<open>Open\<close> failed or not, so that the state
  service can still use the communication service.
\<close>

theorem Open_Close_order:
  "\<exists>err os rest w'. open_all R (dda_cfg d) tmo (parts_of d) w = (err, os, w') \<and> Open R d tmo w = (err, w') \<and>
    parts_of d = os @ rest \<and> (err = None \<longleftrightarrow> rest = []) \<and> Close R d v = fold (part_Close R) (rev (parts_of d)) v"
proof -
  obtain err os w' where o: "open_all R (dda_cfg d) tmo (parts_of d) w = (err, os, w')" by (metis prod.collapse)
  with open_all_prefix [OF o] show ?thesis
    by (auto simp: open_all_parts close_parts closing_order_rev)
qed

end
