(* ===== verification/Plog.thy ===== *)
theory Plog
  imports Gostd
begin

section \<open>Diagnostic output (plog/plog.go)\<close>

text \<open>
  The switch for diagnostic output, and the prefix of a message: the package of the function that
  calls, taken from its qualified name \<open>runtime.FuncForPC(pc).Name()\<close>, the argument \<open>caller\<close>. The
  output is the list of messages written to the standard logger.
\<close>

record plog =
  disabled :: bool
  written :: "(string \<times> string) list" \<comment> \<open>prefix and text\<close>

definition Disable :: "plog \<Rightarrow> plog" where
  "Disable p = p\<lparr>disabled := True\<rparr>"

definition Enable :: "plog \<Rightarrow> plog" where
  "Enable p = p\<lparr>disabled := False\<rparr>"

definition Enabled :: "plog \<Rightarrow> bool" where
  "Enabled p \<longleftrightarrow> \<not> disabled p"

text \<open>\<open>pkgPart[strings.LastIndex(pkgPart, "/")+1:]\<close>\<close>

definition after_last_slash :: "string \<Rightarrow> string" where
  "after_last_slash s = rev (takeWhile (\<lambda>c. c \<noteq> CHR ''/'') (rev s))"

text \<open>\<open>None\<close> is a panic: an index out of range.\<close>

definition getPackagePrefix :: "string \<Rightarrow> string option" where
  "getPackagePrefix caller =
     (let parts = strings_Split caller (CHR ''.''); pl = length parts
      in if pl < 2 \<or> parts ! (pl - 2) = [] then None
         else if hd (parts ! (pl - 2)) = CHR ''(''
         then if pl < 3 then None else Some (after_last_slash (parts ! (pl - 3)) @ '' '')
         else Some (after_last_slash (parts ! (pl - 2)) @ '' ''))"

definition Print :: "string \<Rightarrow> string \<Rightarrow> plog \<Rightarrow> plog option" where
  "Print caller msg p =
     (if disabled p then Some p
      else map_option (\<lambda>pre. p\<lparr>written := written p @ [(pre, msg)]\<rparr>) (getPackagePrefix caller))"

text \<open>\<open>Fatal\<close> writes its message even if output is disabled; the process then exits with status 1.\<close>

definition Fatal :: "string \<Rightarrow> string \<Rightarrow> plog \<Rightarrow> plog option" where
  "Fatal caller msg p = map_option (\<lambda>pre. p\<lparr>written := written p @ [(pre, msg)]\<rparr>) (getPackagePrefix caller)"

subsection \<open>The prefix\<close>

lemma takeWhile_no: "c \<notin> set t \<Longrightarrow> takeWhile (\<lambda>x. x \<noteq> c) (t @ c # s) = t"
  by (induction t) auto

lemma after_last_slash_append: "CHR ''/'' \<notin> set t \<Longrightarrow> after_last_slash (s @ CHR ''/'' # t) = t"
  using takeWhile_no [of "CHR ''/''" "rev t" "rev s"] by (simp add: after_last_slash_def)

lemma Split_last2:
  "c \<notin> set q \<Longrightarrow> c \<notin> set r \<Longrightarrow> \<exists>ps. strings_Split (p @ c # q @ c # r) c = ps @ [q, r]"
proof (induction p)
  case Nil
  then show ?case by (simp add: strings_Split_append strings_Split_no_sep)
next
  case (Cons x p)
  then obtain ps where ps: "strings_Split (p @ c # q @ c # r) c = ps @ [q, r]" by blast
  show ?case
  proof (cases "x = c")
    case True
    with ps show ?thesis by (intro exI [of _ "[] # ps"]) simp
  next
    case False
    show ?thesis
    proof (cases ps)
      case Nil
      have "strings_Split (p @ c # q @ c # r) c \<noteq> [q, r]"
      proof
        assume "strings_Split (p @ c # q @ c # r) c = [q, r]"
        then have "length (strings_Split (p @ c # q @ c # r) c) = 2" by simp
        moreover have "length (strings_Split (p @ c # q @ c # r) c) = length (strings_Split p c) + 2"
          using Cons.prems by (induction p) (auto simp: strings_Split_append strings_Split_no_sep split: list.splits)
        moreover have "strings_Split p c \<noteq> []" by simp
        ultimately show False by simp
      qed
      with ps Nil show ?thesis by simp
    next
      case (Cons y ys)
      with False ps show ?thesis by (intro exI [of _ "(x # y) # ys"]) simp
    qed
  qed
qed

text \<open>
  The prefix of a plain function is the last element of the path of its package; for a function literal,
  whose name ends with \<open>func1\<close> after the name of the function around it, it is that name and not the
  package.
\<close>

lemma prefix_of_function:
  assumes "CHR ''.'' \<notin> set dir" "CHR ''.'' \<notin> set pkg" "CHR ''.'' \<notin> set name" "CHR ''/'' \<notin> set pkg"
    and "dir \<noteq> []" "hd dir \<noteq> CHR ''(''"
  shows "getPackagePrefix (host @ ''.'' @ dir @ ''/'' @ pkg @ ''.'' @ name) = Some (pkg @ '' '')"
proof -
  from Split_last2 [of "CHR ''.''" "dir @ ''/'' @ pkg" name host] assms obtain ps
    where "strings_Split (host @ CHR ''.'' # (dir @ ''/'' @ pkg) @ CHR ''.'' # name) (CHR ''.'') = ps @ [dir @ ''/'' @ pkg, name]"
    by auto
  then show ?thesis
    using assms by (simp add: getPackagePrefix_def Let_def nth_append after_last_slash_append)
qed

lemma prefix_of_function_literal:
  "getPackagePrefix ''github.com/coatyio/dda/services/com/mqtt5.(*Mqtt5Binding).Open'' = Some ''mqtt5 ''"
  "getPackagePrefix ''github.com/coatyio/dda/services/com/mqtt5.(*Mqtt5Binding).Open.func1'' = Some ''Open ''"
  by (simp_all add: getPackagePrefix_def after_last_slash_def Let_def)

lemma Print_disabled: "Print caller msg (Disable p) = Some (Disable p)"
  by (simp add: Print_def Disable_def)

end
