(* ===== verification/Cmd.thy ===== *)
theory Cmd
  imports Dda Plog
begin

section \<open>The program (cmd/dda/dda.go)\<close>

text \<open>
  \<open>main\<close> after the flags have been parsed. It ends with an exit status, or runs the agent until a signal
  arrives. The goroutine that creates and opens the agent and the goroutine that waits for a
  signal run concurrently: \<open>signalFirst\<close> is the world at the time of the signal if it arrives before the
  agent has been opened, in which case the program ends without closing anything. The file system,
  the YAML decoder and the parts of the agent are arguments.
\<close>

record flags =
  arg0 :: string
  NArg :: nat
  flag_c :: string
  flag_h :: bool
  flag_n :: bool
  env_DDA_CONFIGFILE :: string

datatype ending = Exit nat | Returned

definition main ::
  "(string \<Rightarrow> goerr + bytes) \<Rightarrow> (bytes \<Rightarrow> Config \<Rightarrow> goerr + Config) \<Rightarrow> string \<Rightarrow> 'w parts \<Rightarrow> 'w option \<Rightarrow> flags \<Rightarrow> 'w \<Rightarrow> ending \<times> 'w"
where
  "main readFile unmarshal uuid R signalFirst fl w =
     (if arg0 fl = ''version'' then (Exit 0, w)
      else if NArg fl > 0 then (Exit 2, w)
      else if flag_h fl then (Exit 0, w)
      else
        (case ReadConfig readFile unmarshal uuid (lookupConfigFile (env_DDA_CONFIGFILE fl) (flag_c fl)) of
           Inl err \<Rightarrow> (Exit 1, w)
         | Inr cfg \<Rightarrow>
             (case signalFirst of
                Some v \<Rightarrow> (Returned, v)
              | None \<Rightarrow>
                  (case Dda.New cfg of
                     Inl err \<Rightarrow> (Exit 1, w)
                   | Inr agt \<Rightarrow>
                       (case Dda.Open R agt 0 w of
                          (Some err, w1) \<Rightarrow> (Exit 1, w1)
                        | (None, w1) \<Rightarrow> (Returned, Dda.Close R agt w1))))))"

lemma lookup_order:
  "lookupConfigFile env c = (if c \<noteq> '''' then c else if env \<noteq> '''' then env else ''dda.yaml'')"
  by (simp add: lookupConfigFile_def)

text \<open>
  An agent that was opened is closed again, in the reverse order of its parts, unless the signal came
  before it was opened.
\<close>

lemma main_closes:
  assumes "arg0 fl \<noteq> ''version''" "NArg fl = 0" "\<not> flag_h fl"
    and "ReadConfig readFile unmarshal uuid (lookupConfigFile (env_DDA_CONFIGFILE fl) (flag_c fl)) = Inr cfg"
    and "Dda.New cfg = Inr agt" "Dda.Open R agt 0 w = (None, w1)"
  shows "main readFile unmarshal uuid R None fl w = (Returned, fold (part_Close R) (rev (parts_of agt)) w1)"
  using assms by (simp add: main_def close_parts closing_order_rev)

end
