(* ===== verification/Spec2Isabelle.thy ===== *)
theory Spec2Isabelle
  imports Services Config Router_Props Mqtt5_Session Mqtt5_Lock Raft_Store_Props Raft_System Raft_Shutdown Raft_Backpressure
    Grpc_System Cmd
begin

text \<open>
  Data Distribution Agent (DDA): a verification library for the Go sources under \<open>src/\<close>.

  \<^bold>\<open>The program.\<close> DDA is an agent that offers an application three services: pub-sub communication with
  the patterns event, action and query (\<open>services/com\<close>, over MQTT 5), a local key-value store
  (\<open>services/store\<close>, over Pebble) and a key-value state replicated by Raft consensus
  (\<open>services/state\<close>, over the Raft library of HashiCorp), in-process and over gRPC (\<open>apis/grpc\<close>).
  \<open>dda/dda.go\<close> creates, opens and closes the services from a configuration (\<open>config\<close>); \<open>cmd/dda\<close> is the
  program. The state service keeps its log in two Pebble stores and sends its remote operations as
  actions of the communication service.

  \<^bold>\<open>Theories and sources.\<close>

  \<^item> \<open>Prelude\<close>, \<open>Gostd\<close>: errors, channels, maps, bytes, and the functions of Go's standard library in use.
  \<^item> \<open>Services\<close>: \<open>services/services.go\<close>, retryable errors and the retry loop.
  \<^item> \<open>Config\<close>: \<open>config/config.go\<close>. \<open>Plog\<close>: \<open>plog/plog.go\<close>. \<open>Dda\<close>: \<open>dda/dda.go\<close> and the factories
    \<open>services/com/com.go\<close>, \<open>services/store/store.go\<close>, \<open>services/state/state.go\<close>. \<open>Cmd\<close>: \<open>cmd/dda/dda.go\<close>.
  \<^item> \<open>Com_Api\<close>: \<open>services/com/api/api.go\<close>. \<open>Router\<close>, \<open>Router_Props\<close>: \<open>services/com/api/router.go\<close>, with the
    interleavings of subscribing, dispatching and cancelling as a step relation.
  \<^item> \<open>Mqtt5\<close>, \<open>Mqtt5_Props\<close>, \<open>Mqtt5_Session\<close>: \<open>services/com/mqtt5/mqtt5.go\<close>; paths of messages from one
    binding to another, and sessions with reconnections. \<open>Mqtt5_Lock\<close>: the read-write mutex of the binding.
  \<^item> \<open>Pebble\<close>: \<open>services/store/pebble/pebble.go\<close>. \<open>Store_Api\<close>: \<open>services/store/api/api.go\<close> as the contract
    \<open>kv_store\<close>, interpreted by the binding on any engine with the contract \<open>pebble_db\<close>.
  \<^item> \<open>Fsm\<close>, \<open>Fsm_Props\<close>: \<open>services/state/raft/fsm.go\<close> and \<open>services/state/api/api.go\<close>; \<open>Codec\<close>:
    \<open>services/state/raft/codec.go\<close>.
  \<^item> \<open>Raft_Store\<close>, \<open>Raft_Store_Props\<close>: \<open>services/state/raft/store.go\<close>.
  \<^item> \<open>Transport\<close>, \<open>Transport_Props\<close>: \<open>services/state/raft/transport.go\<close>.
  \<^item> \<open>Raft_Binding\<close>, \<open>Raft_Binding_Props\<close>: \<open>services/state/raft/raft.go\<close>; \<open>Raft_System\<close>: the binding together with
    the Raft library and the state machine; \<open>Raft_Shutdown\<close>: the locks and channels of the goroutines
    that meet when the binding is closed; \<open>Raft_Observer\<close>: the goroutines around the channel of an observer;
    \<open>Raft_Backpressure\<close>: observers that stop receiving from their bounded channels.
  \<^item> \<open>Raft_Group\<close>: the state machines of all members of a group over one committed log, and the binding of a
    member.
  \<^item> \<open>Raft_Net\<close>: the Raft transport on the MQTT 5 binding, through the contract of the action pattern.
  \<^item> \<open>Grpc\<close>, \<open>Grpc_Props\<close>: \<open>apis/grpc/grpc.go\<close> and \<open>apis/grpc/grpcweb.go\<close>; \<open>Grpc_System\<close>: the server on the MQTT 5
    binding, between clients of two agents, and on the Raft binding.

  \<^bold>\<open>How code is modelled.\<close> A struct is a record, a method a function from the state to its result and the
  new state; an error is a value of \<open>goerr\<close>. Code that is not in the repository is a record of
  functions: the MQTT client (\<open>paho\<close>), the storage engine (\<open>pebble\<close>), the MessagePack codec (\<open>msgpack\<close>,
  \<open>rpc_codec\<close>), the Raft node (\<open>hraft\<close>), the file system and the network. What the code relies on is a
  locale for each: \<open>user_properties\<close>, \<open>pebble_db\<close>, \<open>msgpack_codec\<close> (given by
  \<open>go_msgpack\<close>), \<open>rpc_wire\<close>, \<open>raft_library\<close> (given by \<open>raft_group\<close>, the view of a member of a group); each has an
  instance given in full. Locales also carry the contracts between components: \<open>topic_binding\<close> (the
  router on a binding, extended by \<open>mqtt_client\<close>), \<open>kv_store\<close>, \<open>correlated_requests\<close>, \<open>action_service\<close> (what the
  Raft transport and gRPC clients need of actions, a sublocale for the MQTT 5 binding). Critical sections of
  a mutex are atomic; where goroutines interleave between them there is a step relation (\<open>rstep\<close>,
  \<open>session_step\<close>, \<open>fsm_step\<close>, \<open>lock_step\<close>, \<open>obs_step\<close>, \<open>bstep\<close>, \<open>mu_step\<close>, \<open>group_step\<close>) and statements hold in all reachable states.

  \<^bold>\<open>Integers, loops and fuel.\<close> Durations, indices and byte arithmetic are words of their width and wrap.
  Loops are structural recursion or have a measure; the retry loop may run forever and is a partial
  function with the value \<open>None\<close> for that, with theorems on when it returns. There is no fuel. A
  server stream is a function of the finite sequence of what its \<open>select\<close> has chosen so far.

  \<^bold>\<open>What is shown.\<close>

  \<^item> Communication: the router never sends on or closes a closed channel, delivers to exactly the channels
    registered, and removes what is cancelled; events, actions, queries and results arrive unchanged at
    exactly the subscribers of their type and scope, results only at the publisher of their request;
    routed topics stay subscribed; what happens to shared subscriptions on reconnection; strict client
    ids; when a subscription waits forever for the mutex, and what uses a connection that is closed.
  \<^item> Storage: reads after writes, exact prefix and range deletion, scans in order, the bound of a prefix.
  \<^item> State: applying an entry refines the update of a map; observers can replay the state; a snapshot
    replaces its log; the members of a group agree on the state and never lose a committed input; logs and indices are stored and found; observed members are the members; responses
    and errors survive the transport; a proposal that returns nil was applied or acknowledged, and
    it returns once there is a leader; only the leader answers, after applying; when closing blocks;
    which steps send on the closed channel of an observer; when a slow observer blocks the state machine.
  \<^item> Components together: Raft operations between two nodes over MQTT, targeted and forwarded, from the call to
    its result; nodes whose identity makes them unreachable; actions between gRPC clients of two agents;
    proposals and state streams of gRPC clients; an accepted proposal is in the state of every member.
  \<^item> gRPC: correlation of requests and results, status codes, storage through the API.
  \<^item> Agent: when it is created, and the order of opening and closing. Retry: bounds and delays.

  \<^bold>\<open>Not modelled.\<close> The generated gRPC stubs; \<open>patterns/com/sidechannel\<close>, which holds no code; text formatting
  of errors and log messages, and calls of the logger; usage and version texts; TLS and HTTP
  serving; memory sharing of byte slices; lock acquisition outside \<open>Raft_Shutdown\<close>,
  \<open>Raft_Backpressure\<close> and \<open>Mqtt5_Lock\<close>; the Raft consensus
  itself, which is the library's.
\<close>

end
